(* ===== verification/Prelude.thy ===== *)
theory Prelude
  imports Main "HOL-Library.Word" "HOL-Library.Signed_Division"
begin

text \<open>
  What the component theories share: Rust's integer arithmetic at its width
  (the checked, saturating and plain operators the sources call), the big-endian
  byte codec of \<open>to_be_bytes\<close>, the outcome type of a contract call, the
  \<open>step_invariant\<close> interface by which invariants are lifted to reachable
  states, and the lemma collections the component proofs use.
\<close>

named_theorems arith_defs \<open>definitions of the checked and saturating operators\<close>
named_theorems storage_defs \<open>definitions of the storage getters and setters\<close>
named_theorems event_defs \<open>definitions of the event publishers\<close>

section \<open>Machine integers\<close>

text \<open>
  An \<open>i128\<close> is an \<open>int\<close> and an unsigned integer a \<open>nat\<close>; every
  operator below decides overflow at the width of the source's type.
\<close>

type_synonym i128 = int
type_synonym i64 = int
type_synonym u32 = nat
type_synonym u64 = nat
type_synonym bytes = "8 word list"

definition i128_max :: i128 where
  "i128_max = 2 ^ 127 - 1"

definition i128_min :: i128 where
  "i128_min = - (2 ^ 127)"

definition u32_max :: u32 where
  "u32_max = 2 ^ 32 - 1"

definition u64_max :: u64 where
  "u64_max = 2 ^ 64 - 1"

definition in_i128 :: "int \<Rightarrow> bool" where
  "in_i128 x \<longleftrightarrow> i128_min \<le> x \<and> x \<le> i128_max"

definition checked_i128 :: "int \<Rightarrow> i128 option" where
  "checked_i128 x = (if in_i128 x then Some x else None)"

definition checked_add :: "i128 \<Rightarrow> i128 \<Rightarrow> i128 option" where
  "checked_add a b = checked_i128 (a + b)"

definition checked_sub :: "i128 \<Rightarrow> i128 \<Rightarrow> i128 option" where
  "checked_sub a b = checked_i128 (a - b)"

definition checked_mul :: "i128 \<Rightarrow> i128 \<Rightarrow> i128 option" where
  "checked_mul a b = checked_i128 (a * b)"

text \<open>Rust's integer division truncates towards zero; it fails on a zero divisor.\<close>

definition checked_div :: "i128 \<Rightarrow> i128 \<Rightarrow> i128 option" where
  "checked_div a b = (if b = 0 then None else checked_i128 (a sdiv b))"

definition unwrap_or :: "'a option \<Rightarrow> 'a \<Rightarrow> 'a" where
  "unwrap_or x d = (case x of None \<Rightarrow> d | Some v \<Rightarrow> v)"

definition saturating_sub_i128 :: "i128 \<Rightarrow> i128 \<Rightarrow> i128" where
  "saturating_sub_i128 a b =
     (if a - b < i128_min then i128_min else if i128_max < a - b then i128_max else a - b)"

definition checked_add_u32 :: "u32 \<Rightarrow> u32 \<Rightarrow> u32 option" where
  "checked_add_u32 a b = (if a + b \<le> u32_max then Some (a + b) else None)"

definition checked_add_u64 :: "u64 \<Rightarrow> u64 \<Rightarrow> u64 option" where
  "checked_add_u64 a b = (if a + b \<le> u64_max then Some (a + b) else None)"

definition saturating_add_u32 :: "u32 \<Rightarrow> u32 \<Rightarrow> u32" where
  "saturating_add_u32 a b = min (a + b) u32_max"

definition saturating_add_u64 :: "u64 \<Rightarrow> u64 \<Rightarrow> u64" where
  "saturating_add_u64 a b = min (a + b) u64_max"

definition saturating_mul_u64 :: "u64 \<Rightarrow> u64 \<Rightarrow> u64" where
  "saturating_mul_u64 a b = min (a * b) u64_max"

text \<open>Unsigned saturating subtraction is subtraction on \<open>nat\<close>.\<close>

definition saturating_sub_u :: "nat \<Rightarrow> nat \<Rightarrow> nat" where
  "saturating_sub_u a b = a - b"

text \<open>
  The plain operator \<open>+\<close> on \<open>u32\<close> and \<open>u64\<close>: the build profile decides
  between a panic (\<open>overflow-checks = true\<close>, here \<open>None\<close>) and wrap-around.
\<close>

definition plain_add_u32 :: "bool \<Rightarrow> u32 \<Rightarrow> u32 \<Rightarrow> u32 option" where
  "plain_add_u32 checks a b =
     (if a + b \<le> u32_max then Some (a + b)
      else if checks then None else Some ((a + b) mod 2 ^ 32))"

definition plain_add_u64 :: "bool \<Rightarrow> u64 \<Rightarrow> u64 \<Rightarrow> u64 option" where
  "plain_add_u64 checks a b =
     (if a + b \<le> u64_max then Some (a + b)
      else if checks then None else Some ((a + b) mod 2 ^ 64))"

text \<open>
  Signed 64-bit integers. A plain operator gives its result in range, and on overflow
  panics (\<open>None\<close>) or wraps around, as the profile has it.
\<close>

definition i64_max :: i64 where
  "i64_max = 2 ^ 63 - 1"

definition in_i64 :: "int \<Rightarrow> bool" where
  "in_i64 x \<longleftrightarrow> - (2 ^ 63) \<le> x \<and> x \<le> i64_max"

definition wrap_i64 :: "int \<Rightarrow> i64" where
  "wrap_i64 x = (x + 2 ^ 63) mod 2 ^ 64 - 2 ^ 63"

definition plain_i64 :: "bool \<Rightarrow> int \<Rightarrow> i64 option" where
  "plain_i64 checks x = (if in_i64 x then Some x else if checks then None else Some (wrap_i64 x))"

definition checked_i64 :: "int \<Rightarrow> i64 option" where
  "checked_i64 x = (if in_i64 x then Some x else None)"

definition saturating_i64 :: "int \<Rightarrow> i64" where
  "saturating_i64 x = (if x < - (2 ^ 63) then - (2 ^ 63) else if i64_max < x then i64_max else x)"

lemmas [arith_defs] =
  checked_i128_def checked_add_def checked_sub_def checked_mul_def checked_div_def
  in_i128_def i128_max_def i128_min_def u32_max_def u64_max_def unwrap_or_def
  saturating_sub_i128_def checked_add_u32_def checked_add_u64_def
  saturating_add_u32_def saturating_add_u64_def saturating_mul_u64_def
  saturating_sub_u_def plain_add_u32_def plain_add_u64_def

lemma unwrap_or_simps [simp]:
  "unwrap_or None d = d"
  "unwrap_or (Some v) d = v"
  by (simp_all add: unwrap_or_def)

lemma checked_i128_Some [simp]: "checked_i128 x = Some y \<longleftrightarrow> in_i128 x \<and> y = x"
  by (auto simp: checked_i128_def)

lemma checked_op_Some [simp]:
  "checked_add a b = Some c \<longleftrightarrow> in_i128 (a + b) \<and> c = a + b"
  "checked_sub a b = Some c \<longleftrightarrow> in_i128 (a - b) \<and> c = a - b"
  "checked_mul a b = Some c \<longleftrightarrow> in_i128 (a * b) \<and> c = a * b"
  by (simp_all add: checked_add_def checked_sub_def checked_mul_def)

lemma checked_div_Some [simp]:
  "checked_div a b = Some c \<longleftrightarrow> b \<noteq> 0 \<and> in_i128 (a sdiv b) \<and> c = a sdiv b"
  by (auto simp: checked_div_def)

lemma sdiv_nonneg: "0 \<le> a \<Longrightarrow> 0 \<le> b \<Longrightarrow> a sdiv b = a div (b :: int)"
  by (cases "a = 0"; cases "b = 0") (auto simp: signed_divide_int_def)

lemma in_i128_mono: "0 \<le> x \<Longrightarrow> x \<le> y \<Longrightarrow> in_i128 y \<Longrightarrow> in_i128 x"
  by (simp add: in_i128_def i128_min_def)

lemma in_i128_div: "0 \<le> x \<Longrightarrow> 0 < b \<Longrightarrow> in_i128 x \<Longrightarrow> in_i128 (x div b)"
proof (rule in_i128_mono [of _ x])
  assume "0 \<le> x" "0 < b"
  then show "0 \<le> x div b" "x div b \<le> x"
    using zdiv_mono2 [of x 1 b] by (auto simp: pos_imp_zdiv_nonneg_iff)
qed

section \<open>Outcomes of a contract call\<close>

text \<open>
  A contract function either returns a value, returns an error of the contract's
  error enum, or panics. Both returns carry the state at that point; the host keeps
  it only for \<open>Ok\<close> (see \<open>transact\<close> of the router theory).
\<close>

datatype ('a, 'e, 's) outcome = Ok 'a 's | Err 'e 's | Panic

text \<open>A pure fallible function: a value, an error of its enum, or a panic.\<close>

type_synonym ('a, 'e) pure = "('a, 'e, unit) outcome"

text \<open>The operator \<open>?\<close>: continue with the value, or return the error.\<close>

definition andThen ::
  "('a, 'e, 's) outcome \<Rightarrow> ('a \<Rightarrow> 's \<Rightarrow> ('b, 'e, 's) outcome) \<Rightarrow> ('b, 'e, 's) outcome"
where
  "andThen m f = (case m of Ok x s \<Rightarrow> f x s | Err e s \<Rightarrow> Err e s | Panic \<Rightarrow> Panic)"

text \<open>\<open>unwrap\<close>: a panic on \<open>None\<close>; \<open>ok_or(e)?\<close>: an error on \<open>None\<close>.\<close>

definition unwrap :: "'v option \<Rightarrow> ('v \<Rightarrow> ('a, 'e, 's) outcome) \<Rightarrow> ('a, 'e, 's) outcome" where
  "unwrap x f = (case x of None \<Rightarrow> Panic | Some v \<Rightarrow> f v)"

definition ok_or ::
  "'v option \<Rightarrow> 'e \<Rightarrow> 's \<Rightarrow> ('v \<Rightarrow> ('a, 'e, 's) outcome) \<Rightarrow> ('a, 'e, 's) outcome" where
  "ok_or x e s f = (case x of None \<Rightarrow> Err e s | Some v \<Rightarrow> f v)"

lemma andThen_simps [simp]:
  "andThen (Ok x s) f = f x s"
  "andThen (Err e s) f = Err e s"
  "andThen Panic f = Panic"
  by (simp_all add: andThen_def)

lemma andThen_Ok [simp]:
  "andThen m f = Ok y t \<longleftrightarrow> (\<exists>x s. m = Ok x s \<and> f x s = Ok y t)"
  by (cases m) auto

lemma unwrap_simps [simp]:
  "unwrap None f = Panic"
  "unwrap (Some v) f = f v"
  by (simp_all add: unwrap_def)

lemma unwrap_Ok [simp]: "unwrap x f = Ok y t \<longleftrightarrow> (\<exists>v. x = Some v \<and> f v = Ok y t)"
  by (cases x) auto

lemma ok_or_simps [simp]:
  "ok_or None e s f = Err e s"
  "ok_or (Some v) e s f = f v"
  by (simp_all add: ok_or_def)

lemma ok_or_Ok [simp]: "ok_or x e s f = Ok y t \<longleftrightarrow> (\<exists>v. x = Some v \<and> f v = Ok y t)"
  by (cases x) auto

section \<open>Invariants of step relations\<close>

inductive reachable_by :: "('s \<Rightarrow> bool) \<Rightarrow> ('s \<Rightarrow> 's \<Rightarrow> bool) \<Rightarrow> 's \<Rightarrow> bool"
  for init :: "'s \<Rightarrow> bool" and step :: "'s \<Rightarrow> 's \<Rightarrow> bool" where
  start: "init s \<Longrightarrow> reachable_by init step s"
| step: "reachable_by init step s \<Longrightarrow> step s t \<Longrightarrow> reachable_by init step t"

locale step_invariant =
  fixes init :: "'s \<Rightarrow> bool"
    and step :: "'s \<Rightarrow> 's \<Rightarrow> bool"
    and inv :: "'s \<Rightarrow> bool"
  assumes inv_init: "init s \<Longrightarrow> inv s"
    and inv_step: "inv s \<Longrightarrow> step s t \<Longrightarrow> inv t"
begin

lemma inv_reachable: "reachable_by init step s \<Longrightarrow> inv s"
  by (induction rule: reachable_by.induct) (auto intro: inv_init inv_step)

end

section \<open>Big-endian bytes\<close>

text \<open>\<open>to_be_bytes\<close> of an \<open>n\<close>-byte integer, two's complement for signed types.\<close>

fun be_bytes :: "nat \<Rightarrow> int \<Rightarrow> bytes" where
  "be_bytes 0 x = []"
| "be_bytes (Suc n) x = be_bytes n (x div 256) @ [word_of_int x]"

definition from_be :: "bytes \<Rightarrow> int" where
  "from_be bs = foldl (\<lambda>acc b. acc * 256 + uint b) 0 bs"

lemma length_be_bytes [simp]: "length (be_bytes n x) = n"
  by (induction n arbitrary: x) auto

lemma from_be_snoc: "from_be (bs @ [b]) = from_be bs * 256 + uint b"
  by (simp add: from_be_def)

lemma from_be_be_bytes: "from_be (be_bytes n x) = x mod 256 ^ n"
proof (induction n arbitrary: x)
  case 0
  show ?case by (simp add: from_be_def)
next
  case (Suc n)
  have "x mod (256 * 256 ^ n) = 256 * (x div 256 mod 256 ^ n) + x mod 256"
    by (rule zmod_zmult2_eq) simp
  then show ?case
    by (simp add: from_be_snoc Suc.IH uint_word_of_int mult.commute)
qed

text \<open>
  A codec: decoding returns what was encoded, for every value of the type's range.
  Encoding is then injective on that range.
\<close>

locale codec =
  fixes enc :: "'a \<Rightarrow> 'b"
    and dec :: "'b \<Rightarrow> 'a option"
    and valid :: "'a \<Rightarrow> bool"
  assumes dec_enc: "valid x \<Longrightarrow> dec (enc x) = Some x"
begin

lemma enc_inject: "valid x \<Longrightarrow> valid y \<Longrightarrow> enc x = enc y \<longleftrightarrow> x = y"
  by (metis dec_enc option.inject)

lemma enc_inj_on: "inj_on enc {x. valid x}"
  by (auto intro: inj_onI simp: enc_inject)

end

definition i128_to_be_bytes :: "i128 \<Rightarrow> bytes" where
  "i128_to_be_bytes x = be_bytes 16 x"

definition i128_from_be_bytes :: "bytes \<Rightarrow> i128 option" where
  "i128_from_be_bytes bs =
     (if length bs = 16
      then Some (let u = from_be bs in if u < 2 ^ 127 then u else u - 2 ^ 128)
      else None)"

definition u64_to_be_bytes :: "u64 \<Rightarrow> bytes" where
  "u64_to_be_bytes x = be_bytes 8 (int x)"

definition u64_from_be_bytes :: "bytes \<Rightarrow> u64 option" where
  "u64_from_be_bytes bs = (if length bs = 8 then Some (nat (from_be bs)) else None)"

lemma i128_dec_enc: "in_i128 x \<Longrightarrow> i128_from_be_bytes (i128_to_be_bytes x) = Some x"
proof -
  assume x: "in_i128 x"
  have "x mod 2 ^ 128 = (if 0 \<le> x then x else x + 2 ^ 128)"
    using x int_mod_pos_eq [of x "2 ^ 128" "-1" "x + 2 ^ 128"]
    by (auto simp: in_i128_def i128_max_def i128_min_def)
  then show ?thesis
    using x by (auto simp: i128_from_be_bytes_def i128_to_be_bytes_def from_be_be_bytes Let_def
        in_i128_def i128_max_def i128_min_def)
qed

interpretation i128_codec: codec i128_to_be_bytes i128_from_be_bytes in_i128
  by unfold_locales (rule i128_dec_enc)

interpretation u64_codec: codec u64_to_be_bytes u64_from_be_bytes "\<lambda>x. x \<le> u64_max"
  by unfold_locales
    (simp add: u64_from_be_bytes_def u64_to_be_bytes_def from_be_be_bytes u64_max_def)

section \<open>Evaluation\<close>

text \<open>
  Calls are evaluated from the front: the continuation of a \<open>?\<close>, an \<open>unwrap\<close> or a
  \<open>let\<close> is looked at only once its value is known.
\<close>

lemma andThen_weak: "m = m' \<Longrightarrow> andThen m f = andThen m' f"
  by simp

lemma unwrap_weak: "m = m' \<Longrightarrow> unwrap m f = unwrap m' f"
  by simp

lemma ok_or_weak: "m = m' \<Longrightarrow> ok_or m e s f = ok_or m' e s f"
  by simp

lemmas eval_congs = andThen_weak unwrap_weak ok_or_weak outcome.case_cong_weak let_weak_cong

end
