(* ===== verification/Contract_Types.thy ===== *)
theory Contract_Types
  imports Prelude
begin

text \<open>
  The data of the router contract: \<open>crates/contracts/src/types.rs\<close> (structs as
  records, enums as datatypes), the error enum of \<open>errors.rs\<close> with its wire codes,
  the storage keys of \<open>storage.rs\<close> and \<open>tokens.rs\<close>, and the events of
  \<open>events.rs\<close> with the topics each is published under.
\<close>

section \<open>Identifiers\<close>

text \<open>
  \<open>Address\<close> and \<open>Symbol\<close> of the Soroban SDK are opaque identifiers compared by
  equality; \<open>BytesN<32>\<close> is a byte list.
\<close>

type_synonym address = string
type_synonym symbol = string
type_synonym bytes32 = bytes

section \<open>Routes, swaps and quotes\<close>

datatype asset =
    Native
  | Issued address symbol
  | Soroban address

datatype pool_type = Sdex | AmmConstProd | AmmStable

record route_hop =
  source :: asset
  destination :: asset
  pool :: address
  hop_pool_type :: pool_type

record route =
  hops :: "route_hop list"
  estimated_output :: i128
  min_output :: i128
  route_expires_at :: u64

record swap_params =
  params_route :: route
  amount_in :: i128
  min_amount_out :: i128
  recipient :: address
  deadline :: u64
  not_before :: u64
  max_price_impact_bps :: u32
  max_execution_spread_bps :: u32

record quote_result =
  expected_output :: i128
  price_impact_bps :: u32
  quote_fee_amount :: i128
  quote_route :: route
  valid_until :: u64

record swap_result =
  result_amount_in :: i128
  result_amount_out :: i128
  result_route :: route
  executed_at :: u64

record ttl_status =
  instance_ttl_remaining :: u64
  pools_min_ttl :: u64
  needs_extension :: bool
  last_extended_ledger :: u32

record resource_estimate =
  estimated_cpu :: u64
  storage_reads :: u32
  storage_writes :: u32
  estimate_events :: u32
  will_succeed :: bool

section \<open>Fee distribution\<close>

record fee_recipient =
  recipient_address :: address
  share_bps :: u32
  label :: symbol

record fee_config =
  recipients :: "fee_recipient list"
  min_distribution :: i128
  auto_distribute :: bool

record distribution_record =
  timestamp :: u64
  total_distributed :: i128

section \<open>Token allowlist\<close>

datatype token_category = CatNative | Stablecoin | Wrapped | Ecosystem | Community

record token_info =
  token_asset :: asset
  token_name :: symbol
  token_code :: symbol
  decimals :: u32
  issuer_verified :: bool
  category :: token_category
  added_at :: u64
  added_by :: address

section \<open>Governance and upgrades\<close>

record governance_config =
  signers :: "address list"
  threshold :: u32
  proposal_ttl :: u64

datatype proposal_action =
    SetFeeRate u32
  | SetFeeTo address
  | SetFeeConfig fee_config
  | RegisterPool address pool_type
  | DeregisterPool address
  | Pause
  | Unpause
  | Upgrade bytes32
  | AddSigner address
  | RemoveSigner address
  | ChangeThreshold u32

record proposal =
  proposal_id :: u64
  action :: proposal_action
  proposer :: address
  approvals :: "address list"
  created_at :: u64
  expires_at :: u64
  executed :: bool

record contract_version =
  major :: u32
  minor :: u32
  patch :: u32
  wasm_hash :: bytes32
  upgraded_at :: u64

record pending_upgrade =
  new_wasm_hash :: bytes32
  proposed_at :: u64
  execute_after :: u64
  upgrade_proposer :: address

section \<open>MEV protection\<close>

record commitment_data =
  commitment_sender :: address
  deposit_amount :: i128
  commitment_hash :: bytes32
  commitment_created_at :: u64
  commitment_expires_at :: u64

record mev_config =
  mev_max_price_impact_bps :: u32
  mev_max_execution_spread_bps :: u32
  rate_limit_window_ledgers :: u32
  rate_limit_max_swaps :: u32
  commitment_required_above :: i128

section \<open>Errors\<close>

datatype contract_error =
    NotInitialized | AlreadyInitialized | Unauthorized | Paused
  | InvalidRoute | RouteExpired | EmptyRoute | TooManyHops
  | InsufficientInput | InsufficientOutput | SlippageExceeded | DeadlineExceeded
  | ExecutionTooEarly | PriceImpactTooHigh | SpreadTooHigh
  | PoolNotSupported | PoolCallFailed | ReserveManipulationDetected
  | AmmQuoteCallFailed | AmmSwapCallFailed | AmmReservesCallFailed
  | InvalidAmount | Overflow | InvalidRecipient
  | UseGovernance | NotMultiSig | ProposalNotFound | ProposalExpired
  | ProposalAlreadyExecuted | AlreadyApproved | ThresholdNotMet | SignerLimitReached
  | UpgradeLocked | UpgradePending | NoUpgradePending | SameWasmHash
  | MigrationAlreadyDone
  | TokenNotAllowed | TokenAlreadyAdded | TokenInUse | BatchTooLarge
  | CommitmentRequired | CommitmentNotFound | CommitmentExpired | InvalidReveal
  | RateLimitExceeded
  | InvalidFeeConfig

text \<open>The discriminants of \<open>#[repr(u32)]\<close>: what \<open>err as u32\<close> evaluates to.\<close>

fun error_code :: "contract_error \<Rightarrow> u32" where
  "error_code NotInitialized = 1"
| "error_code AlreadyInitialized = 2"
| "error_code Unauthorized = 3"
| "error_code Paused = 4"
| "error_code InvalidRoute = 10"
| "error_code RouteExpired = 11"
| "error_code EmptyRoute = 12"
| "error_code TooManyHops = 13"
| "error_code InsufficientInput = 20"
| "error_code InsufficientOutput = 21"
| "error_code SlippageExceeded = 22"
| "error_code DeadlineExceeded = 23"
| "error_code ExecutionTooEarly = 24"
| "error_code PriceImpactTooHigh = 25"
| "error_code SpreadTooHigh = 26"
| "error_code PoolNotSupported = 30"
| "error_code PoolCallFailed = 31"
| "error_code ReserveManipulationDetected = 32"
| "error_code AmmQuoteCallFailed = 33"
| "error_code AmmSwapCallFailed = 34"
| "error_code AmmReservesCallFailed = 35"
| "error_code InvalidAmount = 40"
| "error_code Overflow = 41"
| "error_code InvalidRecipient = 42"
| "error_code UseGovernance = 50"
| "error_code NotMultiSig = 51"
| "error_code ProposalNotFound = 52"
| "error_code ProposalExpired = 53"
| "error_code ProposalAlreadyExecuted = 54"
| "error_code AlreadyApproved = 55"
| "error_code ThresholdNotMet = 56"
| "error_code SignerLimitReached = 57"
| "error_code UpgradeLocked = 60"
| "error_code UpgradePending = 61"
| "error_code NoUpgradePending = 62"
| "error_code SameWasmHash = 63"
| "error_code MigrationAlreadyDone = 70"
| "error_code TokenNotAllowed = 80"
| "error_code TokenAlreadyAdded = 81"
| "error_code TokenInUse = 82"
| "error_code BatchTooLarge = 83"
| "error_code CommitmentRequired = 90"
| "error_code CommitmentNotFound = 91"
| "error_code CommitmentExpired = 92"
| "error_code InvalidReveal = 93"
| "error_code RateLimitExceeded = 94"
| "error_code InvalidFeeConfig = 100"

section \<open>Storage keys\<close>

text \<open>
  Constructors carry the prefix \<open>K\<close>, since the enum shares names with the structs
  stored under them.
\<close>

datatype storage_key =
    KAdmin | KFeeRate | KFeeTo | KPaused
  | KSupportedPool address
  | KPoolCount
  | KSwapNonce address
  | KTotalSwapVolume
  | KPoolList | KLastTtlExtension | KIsMultiSig | KGovernance | KGuardian
  | KProposalCounter | KContractVersionKey | KPendingUpgradeKey | KTokenCount
  | KMevConfig
  | KPendingUpgrade
  | KCommitment bytes32
  | KAccountSwapCount address
  | KAccountSwapWindowStart address
  | KWhitelisted address
  | KLatestKnownPrice address address
  | KFeeConfig
  | KFeeBalance asset
  | KTotalFeesCollected asset
  | KTotalFeesBurned asset
  | KDistributionHistory asset
  | KProposalEntry u64
  | KVersionHistory u64
  | KMigrationDone u32 u32 u32
  | KAllowedToken asset

datatype idx_key =
    CatEntry token_category u32
  | CatLen token_category

text \<open>Both enums key the same persistent storage.\<close>

datatype entry_key = SKey storage_key | IKey idx_key

section \<open>Events\<close>

datatype event =
    EvInitialized address u32
  | EvAdminChanged address address
  | EvPoolRegistered address
  | EvPaused
  | EvUnpaused
  | EvSwapExecuted address i128 i128 i128 route u32
  | EvRouteValidated u32 u64 u32
  | EvQuoteGenerated i128 i128 i128 u32 u32 u64 u32
  | EvExecutionRequested address i128 u32 u64 u32
  | EvExecutionFailed address u32 u32
  | EvGovernanceMigrated address u32 u32
  | EvProposalCreated u64 address proposal_action
  | EvProposalApproved u64 address u32
  | EvProposalExecuted u64
  | EvProposalCancelled u64 address
  | EvGuardianSet address
  | EvGuardianPaused address
  | EvUpgradeProposed address bytes32 bytes32 u64
  | EvUpgradeCompleted bytes32 bytes32 u64
  | EvUpgradeCancelled address
  | EvMigrationCompleted u32 u32 u32
  | EvTokenAdded asset address
  | EvTokenRemoved asset address
  | EvTokenUpdated asset address
  | EvHighImpactSwap address u32 i128
  | EvRateLimitHit address u32 u32
  | EvCommitmentCreated address bytes32 i128
  | EvCommitmentRevealed address bytes32
  | EvTtlExtended u32 u32
  | EvTtlWarning u64 u32
  | EvFeeCollected asset i128 u32
  | EvFeesDistributed asset i128 u32
  | EvFeesBurned asset i128 u32

datatype topic = TSymbol symbol | TAddress address

text \<open>The second topic of each publisher; every first topic is \<open>''StellarRoute''\<close>.\<close>

fun event_symbol :: "event \<Rightarrow> symbol" where
  "event_symbol (EvInitialized _ _) = ''init''"
| "event_symbol (EvAdminChanged _ _) = ''adm_chg''"
| "event_symbol (EvPoolRegistered _) = ''reg_pol''"
| "event_symbol EvPaused = ''paused''"
| "event_symbol EvUnpaused = ''unpaused''"
| "event_symbol (EvSwapExecuted _ _ _ _ _ _) = ''swap''"
| "event_symbol (EvRouteValidated _ _ _) = ''rt_val''"
| "event_symbol (EvQuoteGenerated _ _ _ _ _ _ _) = ''quote''"
| "event_symbol (EvExecutionRequested _ _ _ _ _) = ''exe_req''"
| "event_symbol (EvExecutionFailed _ _ _) = ''exe_fail''"
| "event_symbol (EvGovernanceMigrated _ _ _) = ''gov_mgr''"
| "event_symbol (EvProposalCreated _ _ _) = ''prop_new''"
| "event_symbol (EvProposalApproved _ _ _) = ''prop_apr''"
| "event_symbol (EvProposalExecuted _) = ''prop_exe''"
| "event_symbol (EvProposalCancelled _ _) = ''prop_can''"
| "event_symbol (EvGuardianSet _) = ''grd_set''"
| "event_symbol (EvGuardianPaused _) = ''grd_pse''"
| "event_symbol (EvUpgradeProposed _ _ _ _) = ''upg_prp''"
| "event_symbol (EvUpgradeCompleted _ _ _) = ''upg_done''"
| "event_symbol (EvUpgradeCancelled _) = ''upg_can''"
| "event_symbol (EvMigrationCompleted _ _ _) = ''mig_done''"
| "event_symbol (EvTokenAdded _ _) = ''tok_add''"
| "event_symbol (EvTokenRemoved _ _) = ''tok_rm''"
| "event_symbol (EvTokenUpdated _ _) = ''tok_upd''"
| "event_symbol (EvHighImpactSwap _ _ _) = ''hi_imp''"
| "event_symbol (EvRateLimitHit _ _ _) = ''rl_hit''"
| "event_symbol (EvCommitmentCreated _ _ _) = ''cmt_new''"
| "event_symbol (EvCommitmentRevealed _ _) = ''cmt_rvl''"
| "event_symbol (EvTtlExtended _ _) = ''ttl_ext''"
| "event_symbol (EvTtlWarning _ _) = ''ttl_wrn''"
| "event_symbol (EvFeeCollected _ _ _) = ''fee_col''"
| "event_symbol (EvFeesDistributed _ _ _) = ''fee_dist''"
| "event_symbol (EvFeesBurned _ _ _) = ''fee_brn''"

text \<open>The publishers that add the acting address as a third topic.\<close>

fun event_sender :: "event \<Rightarrow> address option" where
  "event_sender (EvSwapExecuted a _ _ _ _ _) = Some a"
| "event_sender (EvExecutionRequested a _ _ _ _) = Some a"
| "event_sender (EvExecutionFailed a _ _) = Some a"
| "event_sender (EvHighImpactSwap a _ _) = Some a"
| "event_sender (EvRateLimitHit a _ _) = Some a"
| "event_sender (EvCommitmentCreated a _ _) = Some a"
| "event_sender (EvCommitmentRevealed a _) = Some a"
| "event_sender _ = None"

definition event_topics :: "event \<Rightarrow> topic list" where
  "event_topics ev =
     [TSymbol ''StellarRoute'', TSymbol (event_symbol ev)] @
     (case event_sender ev of None \<Rightarrow> [] | Some a \<Rightarrow> [TAddress a])"

end
