(* ===== verification/Contract_Storage.thy ===== *)
theory Contract_Storage
  imports Contract_Types
begin

text \<open>
  The storage layer of the router contract, \<open>crates/contracts/src/storage.rs\<close>, and
  the event publishers of \<open>events.rs\<close>. Soroban's three storages (instance,
  persistent, temporary) are records with one field per storage key; a getter or
  setter of the source is a definition of the same name. The host (ledger, signature
  checks, hashing, time to live, other contracts) is a parameter \<open>h\<close>.
\<close>

section \<open>The host\<close>

text \<open>
  What the contract calls outside its own sources. \<open>'w\<close> is the state of every
  other contract (tokens and pools); Soroban forbids re-entry, so a call to another
  contract cannot touch the router's own storage.
  \<^item> \<open>ledger_sequence\<close>, \<open>current_contract_address\<close>: \<open>e.ledger().sequence()\<close> and
    \<open>e.current_contract_address()\<close>;
  \<^item> \<open>authorized a\<close>: whether \<open>a.require_auth()\<close> returns (it traps otherwise);
  \<^item> \<open>overflow_checks\<close>: the build profile's treatment of plain \<open>+\<close>;
  \<^item> \<open>token_transfer\<close>, \<open>token_burn\<close>: the SEP-41 token client, \<open>None\<close> for a trap;
  \<^item> \<open>pool_quote\<close>, \<open>pool_swap\<close>, \<open>pool_reserves\<close>: \<open>try_invoke_contract\<close> on a
    pool, \<open>None\<close> for any failure, whose effects the host undoes;
  \<^item> \<open>update_wasm\<close>: \<open>update_current_contract_wasm\<close>, \<open>None\<close> for a trap;
  \<^item> \<open>ttl_on_write\<close>: the live-until ledger of an entry after a write, from the
    entry's present one (\<open>None\<close> for a new entry) and the current ledger;
  \<^item> \<open>ttl_extend\<close>: \<open>extend_ttl\<close>, from the present live-until ledger, the current
    ledger, the threshold and the extension.
\<close>

record 'w host =
  current_contract_address :: address
  ledger_sequence :: u32
  authorized :: "address \<Rightarrow> bool"
  overflow_checks :: bool
  sha256 :: "bytes \<Rightarrow> bytes32"
  token_transfer :: "'w \<Rightarrow> address \<Rightarrow> address \<Rightarrow> address \<Rightarrow> i128 \<Rightarrow> 'w option"
  token_burn :: "'w \<Rightarrow> address \<Rightarrow> address \<Rightarrow> i128 \<Rightarrow> 'w option"
  pool_quote :: "'w \<Rightarrow> address \<Rightarrow> asset \<Rightarrow> asset \<Rightarrow> i128 \<Rightarrow> (i128 \<times> 'w) option"
  pool_swap :: "'w \<Rightarrow> address \<Rightarrow> asset \<Rightarrow> asset \<Rightarrow> i128 \<Rightarrow> i128 \<Rightarrow> (i128 \<times> 'w) option"
  pool_reserves :: "'w \<Rightarrow> address \<Rightarrow> ((i128 \<times> i128) \<times> 'w) option"
  update_wasm :: "'w \<Rightarrow> bytes32 \<Rightarrow> 'w option"
  ttl_on_write :: "u32 option \<Rightarrow> u32 \<Rightarrow> u32"
  ttl_extend :: "u32 \<Rightarrow> u32 \<Rightarrow> u32 \<Rightarrow> u32 \<Rightarrow> u32"

section \<open>The contract's state\<close>

record instance_storage =
  i_admin :: "address option"
  i_fee_rate :: "u32 option"
  i_fee_to :: "address option"
  i_paused :: "bool option"
  i_pool_count :: "u32 option"
  i_pool_list :: "address list option"
  i_last_ttl_extension :: "u32 option"
  i_is_multisig :: "bool option"
  i_governance :: "governance_config option"
  i_guardian :: "address option"
  i_proposal_counter :: "u64 option"
  i_contract_version :: "contract_version option"
  i_pending_upgrade :: "pending_upgrade option"
  i_token_count :: "u32 option"
  i_mev_config :: "mev_config option"
  i_latest_known_price :: "address \<times> address \<rightharpoonup> i128"
  i_fee_config :: "fee_config option"

record persistent_storage =
  p_supported_pool :: "address \<rightharpoonup> bool"
  p_swap_nonce :: "address \<rightharpoonup> i128"
  p_total_swap_volume :: "i128 option"
  p_whitelisted :: "address \<rightharpoonup> bool"
  p_fee_balance :: "asset \<rightharpoonup> i128"
  p_total_fees_collected :: "asset \<rightharpoonup> i128"
  p_total_fees_burned :: "asset \<rightharpoonup> i128"
  p_distribution_history :: "asset \<rightharpoonup> distribution_record list"
  p_proposal :: "u64 \<rightharpoonup> proposal"
  p_version_history :: "u64 \<rightharpoonup> contract_version"
  p_migration_done :: "u32 \<times> u32 \<times> u32 \<rightharpoonup> bool"
  p_allowed_token :: "asset \<rightharpoonup> token_info"
  p_cat_entry :: "token_category \<times> u32 \<rightharpoonup> asset"
  p_cat_len :: "token_category \<rightharpoonup> u32"

record temporary_storage =
  t_commitment :: "bytes32 \<rightharpoonup> commitment_data"
  t_account_swap_count :: "address \<rightharpoonup> u32"
  t_account_swap_window_start :: "address \<rightharpoonup> u32"

record 'w env =
  inst :: instance_storage
  pers :: persistent_storage
  temp :: temporary_storage
  instance_live_until :: u32
  live_until :: "entry_key \<rightharpoonup> u32"
  events :: "event list"
  world :: 'w

type_synonym ('a, 'w) call = "('a, contract_error, 'w env) outcome"

definition empty_instance :: instance_storage where
  "empty_instance = \<lparr>i_admin = None, i_fee_rate = None, i_fee_to = None, i_paused = None,
     i_pool_count = None, i_pool_list = None, i_last_ttl_extension = None,
     i_is_multisig = None, i_governance = None, i_guardian = None,
     i_proposal_counter = None, i_contract_version = None, i_pending_upgrade = None,
     i_token_count = None, i_mev_config = None, i_latest_known_price = Map.empty,
     i_fee_config = None\<rparr>"

definition empty_persistent :: persistent_storage where
  "empty_persistent = \<lparr>p_supported_pool = Map.empty, p_swap_nonce = Map.empty,
     p_total_swap_volume = None, p_whitelisted = Map.empty, p_fee_balance = Map.empty,
     p_total_fees_collected = Map.empty, p_total_fees_burned = Map.empty,
     p_distribution_history = Map.empty, p_proposal = Map.empty,
     p_version_history = Map.empty, p_migration_done = Map.empty,
     p_allowed_token = Map.empty, p_cat_entry = Map.empty, p_cat_len = Map.empty\<rparr>"

definition empty_temporary :: temporary_storage where
  "empty_temporary = \<lparr>t_commitment = Map.empty, t_account_swap_count = Map.empty,
     t_account_swap_window_start = Map.empty\<rparr>"

text \<open>A freshly deployed contract: no entry in any storage, no event.\<close>

definition deployed :: "u32 \<Rightarrow> 'w \<Rightarrow> 'w env" where
  "deployed lu w = \<lparr>inst = empty_instance, pers = empty_persistent, temp = empty_temporary,
     instance_live_until = lu, live_until = Map.empty, events = [], world = w\<rparr>"

section \<open>Updates of the three storages\<close>

definition set_inst :: "(instance_storage \<Rightarrow> instance_storage) \<Rightarrow> 'w env \<Rightarrow> 'w env" where
  "set_inst f s = s\<lparr>inst := f (inst s)\<rparr>"

text \<open>A write to a persistent or temporary entry sets the value and its live-until ledger.\<close>

definition touch :: "'w host \<Rightarrow> entry_key \<Rightarrow> 'w env \<Rightarrow> 'w env" where
  "touch h k s = s\<lparr>live_until := (live_until s)(k \<mapsto> ttl_on_write h (live_until s k) (ledger_sequence h))\<rparr>"

definition forget :: "entry_key \<Rightarrow> 'w env \<Rightarrow> 'w env" where
  "forget k s = s\<lparr>live_until := (live_until s)(k := None)\<rparr>"

definition set_pers ::
  "'w host \<Rightarrow> entry_key \<Rightarrow> (persistent_storage \<Rightarrow> persistent_storage) \<Rightarrow> 'w env \<Rightarrow> 'w env" where
  "set_pers h k f s = touch h k (s\<lparr>pers := f (pers s)\<rparr>)"

definition remove_pers ::
  "entry_key \<Rightarrow> (persistent_storage \<Rightarrow> persistent_storage) \<Rightarrow> 'w env \<Rightarrow> 'w env" where
  "remove_pers k f s = forget k (s\<lparr>pers := f (pers s)\<rparr>)"

definition set_temp ::
  "'w host \<Rightarrow> entry_key \<Rightarrow> (temporary_storage \<Rightarrow> temporary_storage) \<Rightarrow> 'w env \<Rightarrow> 'w env" where
  "set_temp h k f s = touch h k (s\<lparr>temp := f (temp s)\<rparr>)"

definition remove_temp ::
  "entry_key \<Rightarrow> (temporary_storage \<Rightarrow> temporary_storage) \<Rightarrow> 'w env \<Rightarrow> 'w env" where
  "remove_temp k f s = forget k (s\<lparr>temp := f (temp s)\<rparr>)"

definition extend_ttl :: "'w host \<Rightarrow> entry_key \<Rightarrow> u32 \<Rightarrow> u32 \<Rightarrow> 'w env \<Rightarrow> 'w env" where
  "extend_ttl h k thr ext s =
     (case live_until s k of
        None \<Rightarrow> s
      | Some lu \<Rightarrow> s\<lparr>live_until := (live_until s)(k \<mapsto> ttl_extend h lu (ledger_sequence h) thr ext)\<rparr>)"

text \<open>A temporary entry is readable up to its live-until ledger.\<close>

definition live :: "'w host \<Rightarrow> entry_key \<Rightarrow> 'w env \<Rightarrow> bool" where
  "live h k s = (case live_until s k of None \<Rightarrow> False | Some lu \<Rightarrow> ledger_sequence h \<le> lu)"

definition publish :: "event \<Rightarrow> 'w env \<Rightarrow> 'w env" where
  "publish ev s = s\<lparr>events := events s @ [ev]\<rparr>"

lemmas update_defs = set_inst_def touch_def forget_def set_pers_def remove_pers_def
  set_temp_def remove_temp_def

text \<open>The updates act on one part of the state each.\<close>

lemma set_inst_simps [simp]:
  "inst (set_inst f s) = f (inst s)"
  "pers (set_inst f s) = pers s"
  "temp (set_inst f s) = temp s"
  "live_until (set_inst f s) = live_until s"
  "instance_live_until (set_inst f s) = instance_live_until s"
  "events (set_inst f s) = events s"
  "world (set_inst f s) = world s"
  by (simp_all add: set_inst_def)

lemma set_pers_simps [simp]:
  "inst (set_pers h k f s) = inst s"
  "pers (set_pers h k f s) = f (pers s)"
  "temp (set_pers h k f s) = temp s"
  "live_until (set_pers h k f s) =
     (live_until s)(k \<mapsto> ttl_on_write h (live_until s k) (ledger_sequence h))"
  "instance_live_until (set_pers h k f s) = instance_live_until s"
  "events (set_pers h k f s) = events s"
  "world (set_pers h k f s) = world s"
  by (simp_all add: set_pers_def touch_def)

lemma remove_pers_simps [simp]:
  "inst (remove_pers k f s) = inst s"
  "pers (remove_pers k f s) = f (pers s)"
  "temp (remove_pers k f s) = temp s"
  "live_until (remove_pers k f s) = (live_until s)(k := None)"
  "instance_live_until (remove_pers k f s) = instance_live_until s"
  "events (remove_pers k f s) = events s"
  "world (remove_pers k f s) = world s"
  by (simp_all add: remove_pers_def forget_def)

lemma set_temp_simps [simp]:
  "inst (set_temp h k g s) = inst s"
  "pers (set_temp h k g s) = pers s"
  "temp (set_temp h k g s) = g (temp s)"
  "live_until (set_temp h k g s) =
     (live_until s)(k \<mapsto> ttl_on_write h (live_until s k) (ledger_sequence h))"
  "instance_live_until (set_temp h k g s) = instance_live_until s"
  "events (set_temp h k g s) = events s"
  "world (set_temp h k g s) = world s"
  by (simp_all add: set_temp_def touch_def)

lemma remove_temp_simps [simp]:
  "inst (remove_temp k g s) = inst s"
  "pers (remove_temp k g s) = pers s"
  "temp (remove_temp k g s) = g (temp s)"
  "live_until (remove_temp k g s) = (live_until s)(k := None)"
  "instance_live_until (remove_temp k g s) = instance_live_until s"
  "events (remove_temp k g s) = events s"
  "world (remove_temp k g s) = world s"
  by (simp_all add: remove_temp_def forget_def)

lemma extend_ttl_simps [simp]:
  "inst (extend_ttl h k thr ext s) = inst s"
  "pers (extend_ttl h k thr ext s) = pers s"
  "temp (extend_ttl h k thr ext s) = temp s"
  "instance_live_until (extend_ttl h k thr ext s) = instance_live_until s"
  "events (extend_ttl h k thr ext s) = events s"
  "world (extend_ttl h k thr ext s) = world s"
  by (simp_all add: extend_ttl_def split: option.splits)

lemma live_until_extend_ttl:
  "live_until (extend_ttl h k thr ext s) j =
     (if j = k then map_option (\<lambda>lu. ttl_extend h lu (ledger_sequence h) thr ext) (live_until s k)
      else live_until s j)"
  by (simp add: extend_ttl_def split: option.splits)

lemma publish_simps [simp]:
  "inst (publish ev s) = inst s"
  "pers (publish ev s) = pers s"
  "temp (publish ev s) = temp s"
  "live_until (publish ev s) = live_until s"
  "instance_live_until (publish ev s) = instance_live_until s"
  "events (publish ev s) = events s @ [ev]"
  "world (publish ev s) = world s"
  by (simp_all add: publish_def)

section \<open>Time-to-live constants and helpers\<close>

definition DAY_IN_LEDGERS :: u32 where
  "DAY_IN_LEDGERS = 17280"

definition INSTANCE_TTL_EXTEND_TO :: u32 where
  "INSTANCE_TTL_EXTEND_TO = 30 * DAY_IN_LEDGERS"

definition INSTANCE_TTL_THRESHOLD :: u32 where
  "INSTANCE_TTL_THRESHOLD = 7 * DAY_IN_LEDGERS"

definition POOL_TTL_EXTEND_TO :: u32 where
  "POOL_TTL_EXTEND_TO = 90 * DAY_IN_LEDGERS"

definition POOL_TTL_THRESHOLD :: u32 where
  "POOL_TTL_THRESHOLD = 22 * DAY_IN_LEDGERS"

definition VOLUME_TTL_EXTEND_TO :: u32 where
  "VOLUME_TTL_EXTEND_TO = 30 * DAY_IN_LEDGERS"

definition VOLUME_TTL_THRESHOLD :: u32 where
  "VOLUME_TTL_THRESHOLD = 7 * DAY_IN_LEDGERS"

definition NONCE_TTL_EXTEND_TO :: u32 where
  "NONCE_TTL_EXTEND_TO = 30 * DAY_IN_LEDGERS"

definition NONCE_TTL_THRESHOLD :: u32 where
  "NONCE_TTL_THRESHOLD = 7 * DAY_IN_LEDGERS"

lemmas ttl_constants = DAY_IN_LEDGERS_def INSTANCE_TTL_EXTEND_TO_def
  INSTANCE_TTL_THRESHOLD_def POOL_TTL_EXTEND_TO_def POOL_TTL_THRESHOLD_def
  VOLUME_TTL_EXTEND_TO_def VOLUME_TTL_THRESHOLD_def NONCE_TTL_EXTEND_TO_def
  NONCE_TTL_THRESHOLD_def

text \<open>\<open>has(key)\<close> of persistent storage; the keys of the other storages are not in it.\<close>

fun has_persistent :: "storage_key \<Rightarrow> persistent_storage \<Rightarrow> bool" where
  "has_persistent (KSupportedPool a) p = (p_supported_pool p a \<noteq> None)"
| "has_persistent (KSwapNonce a) p = (p_swap_nonce p a \<noteq> None)"
| "has_persistent KTotalSwapVolume p = (p_total_swap_volume p \<noteq> None)"
| "has_persistent (KWhitelisted a) p = (p_whitelisted p a \<noteq> None)"
| "has_persistent (KFeeBalance x) p = (p_fee_balance p x \<noteq> None)"
| "has_persistent (KTotalFeesCollected x) p = (p_total_fees_collected p x \<noteq> None)"
| "has_persistent (KTotalFeesBurned x) p = (p_total_fees_burned p x \<noteq> None)"
| "has_persistent (KDistributionHistory x) p = (p_distribution_history p x \<noteq> None)"
| "has_persistent (KProposalEntry n) p = (p_proposal p n \<noteq> None)"
| "has_persistent (KVersionHistory n) p = (p_version_history p n \<noteq> None)"
| "has_persistent (KMigrationDone a b c) p = (p_migration_done p (a, b, c) \<noteq> None)"
| "has_persistent (KAllowedToken x) p = (p_allowed_token p x \<noteq> None)"
| "has_persistent _ p = False"

definition extend_instance_ttl :: "'w host \<Rightarrow> 'w env \<Rightarrow> 'w env" where
  "extend_instance_ttl h s =
     s\<lparr>instance_live_until := ttl_extend h (instance_live_until s) (ledger_sequence h)
        INSTANCE_TTL_THRESHOLD INSTANCE_TTL_EXTEND_TO\<rparr>"

definition extend_persistent_ttl ::
  "'w host \<Rightarrow> storage_key \<Rightarrow> u32 \<Rightarrow> u32 \<Rightarrow> 'w env \<Rightarrow> 'w env" where
  "extend_persistent_ttl h k thr ext s =
     (if has_persistent k (pers s) then extend_ttl h (SKey k) thr ext s else s)"

definition extend_pool_ttl :: "'w host \<Rightarrow> address \<Rightarrow> 'w env \<Rightarrow> 'w env" where
  "extend_pool_ttl h p =
     extend_persistent_ttl h (KSupportedPool p) POOL_TTL_THRESHOLD POOL_TTL_EXTEND_TO"

definition extend_nonce_ttl :: "'w host \<Rightarrow> address \<Rightarrow> 'w env \<Rightarrow> 'w env" where
  "extend_nonce_ttl h a =
     extend_persistent_ttl h (KSwapNonce a) NONCE_TTL_THRESHOLD NONCE_TTL_EXTEND_TO"

definition extend_volume_ttl :: "'w host \<Rightarrow> 'w env \<Rightarrow> 'w env" where
  "extend_volume_ttl h =
     extend_persistent_ttl h KTotalSwapVolume VOLUME_TTL_THRESHOLD VOLUME_TTL_EXTEND_TO"

lemma extend_instance_ttl_simps [simp]:
  "inst (extend_instance_ttl h s) = inst s"
  "pers (extend_instance_ttl h s) = pers s"
  "temp (extend_instance_ttl h s) = temp s"
  "live_until (extend_instance_ttl h s) = live_until s"
  "events (extend_instance_ttl h s) = events s"
  "world (extend_instance_ttl h s) = world s"
  by (simp_all add: extend_instance_ttl_def)

lemma extend_persistent_ttl_simps [simp]:
  "inst (extend_persistent_ttl h k thr ext s) = inst s"
  "pers (extend_persistent_ttl h k thr ext s) = pers s"
  "temp (extend_persistent_ttl h k thr ext s) = temp s"
  "events (extend_persistent_ttl h k thr ext s) = events s"
  "world (extend_persistent_ttl h k thr ext s) = world s"
  by (simp_all add: extend_persistent_ttl_def)

lemma extend_key_ttl_simps [simp]:
  "inst (extend_pool_ttl h a s) = inst s" "inst (extend_nonce_ttl h a s) = inst s"
  "inst (extend_volume_ttl h s) = inst s"
  "pers (extend_pool_ttl h a s) = pers s" "pers (extend_nonce_ttl h a s) = pers s"
  "pers (extend_volume_ttl h s) = pers s"
  "temp (extend_pool_ttl h a s) = temp s" "temp (extend_nonce_ttl h a s) = temp s"
  "temp (extend_volume_ttl h s) = temp s"
  "events (extend_pool_ttl h a s) = events s" "events (extend_nonce_ttl h a s) = events s"
  "events (extend_volume_ttl h s) = events s"
  "world (extend_pool_ttl h a s) = world s" "world (extend_nonce_ttl h a s) = world s"
  "world (extend_volume_ttl h s) = world s"
  by (simp_all add: extend_pool_ttl_def extend_nonce_ttl_def extend_volume_ttl_def)

section \<open>Core helpers\<close>

definition get_admin :: "'w env \<Rightarrow> address option" where
  "get_admin s = i_admin (inst s)"

definition set_admin_key :: "address \<Rightarrow> 'w env \<Rightarrow> 'w env" where
  "set_admin_key a = set_inst (\<lambda>i. i\<lparr>i_admin := Some a\<rparr>)"

definition get_fee_rate :: "'w env \<Rightarrow> u32" where
  "get_fee_rate s = unwrap_or (i_fee_rate (inst s)) 0"

definition set_fee_rate :: "u32 \<Rightarrow> 'w env \<Rightarrow> 'w env" where
  "set_fee_rate r = set_inst (\<lambda>i. i\<lparr>i_fee_rate := Some r\<rparr>)"

definition get_fee_to_optional :: "'w env \<Rightarrow> address option" where
  "get_fee_to_optional s = i_fee_to (inst s)"

definition set_fee_to :: "address \<Rightarrow> 'w env \<Rightarrow> 'w env" where
  "set_fee_to a = set_inst (\<lambda>i. i\<lparr>i_fee_to := Some a\<rparr>)"

definition get_pool_count :: "'w env \<Rightarrow> u32" where
  "get_pool_count s = unwrap_or (i_pool_count (inst s)) 0"

definition set_pool_count :: "u32 \<Rightarrow> 'w env \<Rightarrow> 'w env" where
  "set_pool_count n = set_inst (\<lambda>i. i\<lparr>i_pool_count := Some n\<rparr>)"

definition get_paused :: "'w env \<Rightarrow> bool" where
  "get_paused s = unwrap_or (i_paused (inst s)) False"

definition set_paused :: "bool \<Rightarrow> 'w env \<Rightarrow> 'w env" where
  "set_paused b = set_inst (\<lambda>i. i\<lparr>i_paused := Some b\<rparr>)"

definition is_initialized :: "'w env \<Rightarrow> bool" where
  "is_initialized s \<longleftrightarrow> i_admin (inst s) \<noteq> None"

definition is_supported_pool :: "'w env \<Rightarrow> address \<Rightarrow> bool" where
  "is_supported_pool s p \<longleftrightarrow> p_supported_pool (pers s) p \<noteq> None"

definition set_supported_pool :: "'w host \<Rightarrow> address \<Rightarrow> 'w env \<Rightarrow> 'w env" where
  "set_supported_pool h p = set_pers h (SKey (KSupportedPool p))
     (\<lambda>q. q\<lparr>p_supported_pool := (p_supported_pool q)(p \<mapsto> True)\<rparr>)"

definition remove_supported_pool :: "address \<Rightarrow> 'w env \<Rightarrow> 'w env" where
  "remove_supported_pool p = remove_pers (SKey (KSupportedPool p))
     (\<lambda>q. q\<lparr>p_supported_pool := (p_supported_pool q)(p := None)\<rparr>)"

fun batch_check_pools :: "'w env \<Rightarrow> address list \<Rightarrow> bool" where
  "batch_check_pools s [] = True"
| "batch_check_pools s (p # ps) =
     (if \<not> is_supported_pool s p then False else batch_check_pools s ps)"

definition get_pool_list :: "'w env \<Rightarrow> address list" where
  "get_pool_list s = unwrap_or (i_pool_list (inst s)) []"

definition add_to_pool_list :: "address \<Rightarrow> 'w env \<Rightarrow> 'w env" where
  "add_to_pool_list p s = set_inst (\<lambda>i. i\<lparr>i_pool_list := Some (get_pool_list s @ [p])\<rparr>) s"

lemma batch_check_pools_iff: "batch_check_pools s ps \<longleftrightarrow> (\<forall>p \<in> set ps. is_supported_pool s p)"
  by (induction ps) auto

section \<open>Nonces and volume\<close>

definition get_nonce :: "'w env \<Rightarrow> address \<Rightarrow> i128" where
  "get_nonce s a = unwrap_or (p_swap_nonce (pers s) a) 0"

definition increment_nonce :: "'w host \<Rightarrow> address \<Rightarrow> 'w env \<Rightarrow> (unit, 'w) call" where
  "increment_nonce h a s =
     unwrap (checked_add (get_nonce s a) 1) (\<lambda>next.
       Ok () (extend_nonce_ttl h a (set_pers h (SKey (KSwapNonce a))
         (\<lambda>q. q\<lparr>p_swap_nonce := (p_swap_nonce q)(a \<mapsto> next)\<rparr>) s)))"

definition get_total_swap_volume :: "'w env \<Rightarrow> i128" where
  "get_total_swap_volume s = unwrap_or (p_total_swap_volume (pers s)) 0"

definition add_swap_volume :: "'w host \<Rightarrow> i128 \<Rightarrow> 'w env \<Rightarrow> 'w env" where
  "add_swap_volume h amount s =
     extend_volume_ttl h (set_pers h (SKey KTotalSwapVolume)
       (\<lambda>q. q\<lparr>p_total_swap_volume :=
              Some (unwrap_or (checked_add (get_total_swap_volume s) amount) i128_max)\<rparr>) s)"

definition get_last_ttl_extension :: "'w env \<Rightarrow> u32" where
  "get_last_ttl_extension s = unwrap_or (i_last_ttl_extension (inst s)) 0"

definition set_last_ttl_extension :: "u32 \<Rightarrow> 'w env \<Rightarrow> 'w env" where
  "set_last_ttl_extension n = set_inst (\<lambda>i. i\<lparr>i_last_ttl_extension := Some n\<rparr>)"

text \<open>Only Soroban tokens are moved; for other assets the call does nothing.\<close>

definition transfer_asset ::
  "'w host \<Rightarrow> asset \<Rightarrow> address \<Rightarrow> address \<Rightarrow> i128 \<Rightarrow> 'w env \<Rightarrow> (unit, 'w) call" where
  "transfer_asset h x from to amount s =
     (case x of
        Soroban token \<Rightarrow>
          unwrap (token_transfer h (world s) token from to amount) (\<lambda>w. Ok () (s\<lparr>world := w\<rparr>))
      | _ \<Rightarrow> Ok () s)"

section \<open>Governance helpers\<close>

definition is_multisig :: "'w env \<Rightarrow> bool" where
  "is_multisig s = unwrap_or (i_is_multisig (inst s)) False"

definition set_multisig :: "'w env \<Rightarrow> 'w env" where
  "set_multisig = set_inst (\<lambda>i. i\<lparr>i_is_multisig := Some True\<rparr>)"

definition get_governance :: "'w env \<Rightarrow> governance_config option" where
  "get_governance s = i_governance (inst s)"

definition set_governance :: "governance_config \<Rightarrow> 'w env \<Rightarrow> 'w env" where
  "set_governance c = set_inst (\<lambda>i. i\<lparr>i_governance := Some c\<rparr>)"

definition get_guardian :: "'w env \<Rightarrow> address option" where
  "get_guardian s = i_guardian (inst s)"

definition set_guardian :: "address \<Rightarrow> 'w env \<Rightarrow> 'w env" where
  "set_guardian g = set_inst (\<lambda>i. i\<lparr>i_guardian := Some g\<rparr>)"

definition next_proposal_id :: "'w env \<Rightarrow> (u64, 'w) call" where
  "next_proposal_id s =
     unwrap (checked_add_u64 (unwrap_or (i_proposal_counter (inst s)) 0) 1) (\<lambda>next.
       Ok next (set_inst (\<lambda>i. i\<lparr>i_proposal_counter := Some next\<rparr>) s))"

definition get_proposal_entry :: "'w env \<Rightarrow> u64 \<Rightarrow> proposal option" where
  "get_proposal_entry s n = p_proposal (pers s) n"

definition save_proposal :: "'w host \<Rightarrow> proposal \<Rightarrow> 'w env \<Rightarrow> 'w env" where
  "save_proposal h p s =
     extend_ttl h (SKey (KProposalEntry (proposal_id p))) 17280 (17280 * 30)
       (set_pers h (SKey (KProposalEntry (proposal_id p)))
         (\<lambda>q. q\<lparr>p_proposal := (p_proposal q)(proposal_id p \<mapsto> p)\<rparr>) s)"

section \<open>Upgrade helpers\<close>

definition get_contract_version :: "'w env \<Rightarrow> contract_version option" where
  "get_contract_version s = i_contract_version (inst s)"

definition set_contract_version :: "'w host \<Rightarrow> contract_version \<Rightarrow> 'w env \<Rightarrow> 'w env" where
  "set_contract_version h v s =
     extend_ttl h (SKey (KVersionHistory (upgraded_at v))) 17280 (17280 * 365)
       (set_pers h (SKey (KVersionHistory (upgraded_at v)))
         (\<lambda>q. q\<lparr>p_version_history := (p_version_history q)(upgraded_at v \<mapsto> v)\<rparr>)
         (set_inst (\<lambda>i. i\<lparr>i_contract_version := Some v\<rparr>) s))"

definition get_pending_upgrade :: "'w env \<Rightarrow> pending_upgrade option" where
  "get_pending_upgrade s = i_pending_upgrade (inst s)"

definition set_pending_upgrade :: "pending_upgrade \<Rightarrow> 'w env \<Rightarrow> 'w env" where
  "set_pending_upgrade p = set_inst (\<lambda>i. i\<lparr>i_pending_upgrade := Some p\<rparr>)"

definition clear_pending_upgrade :: "'w env \<Rightarrow> 'w env" where
  "clear_pending_upgrade = set_inst (\<lambda>i. i\<lparr>i_pending_upgrade := None\<rparr>)"

definition is_migration_done :: "'w env \<Rightarrow> u32 \<Rightarrow> u32 \<Rightarrow> u32 \<Rightarrow> bool" where
  "is_migration_done s a b c \<longleftrightarrow> p_migration_done (pers s) (a, b, c) \<noteq> None"

definition set_migration_done :: "'w host \<Rightarrow> u32 \<Rightarrow> u32 \<Rightarrow> u32 \<Rightarrow> 'w env \<Rightarrow> 'w env" where
  "set_migration_done h a b c s =
     extend_ttl h (SKey (KMigrationDone a b c)) 17280 (17280 * 365)
       (set_pers h (SKey (KMigrationDone a b c))
         (\<lambda>q. q\<lparr>p_migration_done := (p_migration_done q)((a, b, c) \<mapsto> True)\<rparr>) s)"

section \<open>Token allowlist helpers\<close>

definition get_token_info :: "'w env \<Rightarrow> asset \<Rightarrow> token_info option" where
  "get_token_info s x = p_allowed_token (pers s) x"

definition is_token_allowed :: "'w env \<Rightarrow> asset \<Rightarrow> bool" where
  "is_token_allowed s x \<longleftrightarrow> p_allowed_token (pers s) x \<noteq> None"

definition save_token_info :: "'w host \<Rightarrow> token_info \<Rightarrow> 'w env \<Rightarrow> 'w env" where
  "save_token_info h info s =
     extend_ttl h (SKey (KAllowedToken (token_asset info))) 17280 (17280 * 365)
       (set_pers h (SKey (KAllowedToken (token_asset info)))
         (\<lambda>q. q\<lparr>p_allowed_token := (p_allowed_token q)(token_asset info \<mapsto> info)\<rparr>) s)"

definition remove_token_entry :: "asset \<Rightarrow> 'w env \<Rightarrow> 'w env" where
  "remove_token_entry x = remove_pers (SKey (KAllowedToken x))
     (\<lambda>q. q\<lparr>p_allowed_token := (p_allowed_token q)(x := None)\<rparr>)"

definition get_token_count :: "'w env \<Rightarrow> u32" where
  "get_token_count s = unwrap_or (i_token_count (inst s)) 0"

definition set_token_count :: "u32 \<Rightarrow> 'w env \<Rightarrow> 'w env" where
  "set_token_count n = set_inst (\<lambda>i. i\<lparr>i_token_count := Some n\<rparr>)"

section \<open>MEV configuration, commitments, rate limits\<close>

definition get_mev_config :: "'w env \<Rightarrow> mev_config option" where
  "get_mev_config s = i_mev_config (inst s)"

definition set_mev_config :: "mev_config \<Rightarrow> 'w env \<Rightarrow> 'w env" where
  "set_mev_config c = set_inst (\<lambda>i. i\<lparr>i_mev_config := Some c\<rparr>)"

definition get_commitment :: "'w host \<Rightarrow> 'w env \<Rightarrow> bytes32 \<Rightarrow> commitment_data option" where
  "get_commitment h s hash =
     (if live h (SKey (KCommitment hash)) s then t_commitment (temp s) hash else None)"

definition set_commitment ::
  "'w host \<Rightarrow> bytes32 \<Rightarrow> commitment_data \<Rightarrow> u32 \<Rightarrow> 'w env \<Rightarrow> 'w env" where
  "set_commitment h hash data ttl s =
     extend_ttl h (SKey (KCommitment hash)) ttl ttl
       (set_temp h (SKey (KCommitment hash))
         (\<lambda>q. q\<lparr>t_commitment := (t_commitment q)(hash \<mapsto> data)\<rparr>) s)"

definition remove_commitment :: "bytes32 \<Rightarrow> 'w env \<Rightarrow> 'w env" where
  "remove_commitment hash = remove_temp (SKey (KCommitment hash))
     (\<lambda>q. q\<lparr>t_commitment := (t_commitment q)(hash := None)\<rparr>)"

definition get_account_swap_count :: "'w host \<Rightarrow> 'w env \<Rightarrow> address \<Rightarrow> u32" where
  "get_account_swap_count h s a =
     unwrap_or (if live h (SKey (KAccountSwapCount a)) s
                then t_account_swap_count (temp s) a else None) 0"

definition set_account_swap_count :: "'w host \<Rightarrow> address \<Rightarrow> u32 \<Rightarrow> u32 \<Rightarrow> 'w env \<Rightarrow> 'w env" where
  "set_account_swap_count h a n ttl s =
     extend_ttl h (SKey (KAccountSwapCount a)) ttl ttl
       (set_temp h (SKey (KAccountSwapCount a))
         (\<lambda>q. q\<lparr>t_account_swap_count := (t_account_swap_count q)(a \<mapsto> n)\<rparr>) s)"

definition get_account_swap_window_start :: "'w host \<Rightarrow> 'w env \<Rightarrow> address \<Rightarrow> u32" where
  "get_account_swap_window_start h s a =
     unwrap_or (if live h (SKey (KAccountSwapWindowStart a)) s
                then t_account_swap_window_start (temp s) a else None) 0"

definition set_account_swap_window_start ::
  "'w host \<Rightarrow> address \<Rightarrow> u32 \<Rightarrow> u32 \<Rightarrow> 'w env \<Rightarrow> 'w env" where
  "set_account_swap_window_start h a n ttl s =
     extend_ttl h (SKey (KAccountSwapWindowStart a)) ttl ttl
       (set_temp h (SKey (KAccountSwapWindowStart a))
         (\<lambda>q. q\<lparr>t_account_swap_window_start := (t_account_swap_window_start q)(a \<mapsto> n)\<rparr>) s)"

definition is_whitelisted :: "'w env \<Rightarrow> address \<Rightarrow> bool" where
  "is_whitelisted s a = unwrap_or (p_whitelisted (pers s) a) False"

definition set_whitelisted :: "'w host \<Rightarrow> address \<Rightarrow> bool \<Rightarrow> 'w env \<Rightarrow> 'w env" where
  "set_whitelisted h a b s =
     (let s1 = set_pers h (SKey (KWhitelisted a))
                 (\<lambda>q. q\<lparr>p_whitelisted := (p_whitelisted q)(a \<mapsto> b)\<rparr>) s
      in if b then extend_ttl h (SKey (KWhitelisted a)) DAY_IN_LEDGERS (DAY_IN_LEDGERS * 30) s1
         else s1)"

definition get_latest_known_price :: "'w env \<Rightarrow> address \<Rightarrow> address \<Rightarrow> i128 option" where
  "get_latest_known_price s a b = i_latest_known_price (inst s) (a, b)"

definition set_latest_known_price :: "address \<Rightarrow> address \<Rightarrow> i128 \<Rightarrow> 'w env \<Rightarrow> 'w env" where
  "set_latest_known_price a b price = set_inst
     (\<lambda>i. i\<lparr>i_latest_known_price := (i_latest_known_price i)((a, b) \<mapsto> price)\<rparr>)"

section \<open>Fee distribution helpers\<close>

definition get_fee_config :: "'w env \<Rightarrow> fee_config option" where
  "get_fee_config s = i_fee_config (inst s)"

definition set_fee_config :: "fee_config \<Rightarrow> 'w env \<Rightarrow> 'w env" where
  "set_fee_config c = set_inst (\<lambda>i. i\<lparr>i_fee_config := Some c\<rparr>)"

definition get_fee_balance :: "'w env \<Rightarrow> asset \<Rightarrow> i128" where
  "get_fee_balance s x = unwrap_or (p_fee_balance (pers s) x) 0"

definition set_fee_balance :: "'w host \<Rightarrow> asset \<Rightarrow> i128 \<Rightarrow> 'w env \<Rightarrow> 'w env" where
  "set_fee_balance h x amount s =
     extend_ttl h (SKey (KFeeBalance x)) 17280 (17280 * 30)
       (set_pers h (SKey (KFeeBalance x))
         (\<lambda>q. q\<lparr>p_fee_balance := (p_fee_balance q)(x \<mapsto> amount)\<rparr>) s)"

definition get_total_fees_collected :: "'w env \<Rightarrow> asset \<Rightarrow> i128" where
  "get_total_fees_collected s x = unwrap_or (p_total_fees_collected (pers s) x) 0"

definition add_fee_balance :: "'w host \<Rightarrow> asset \<Rightarrow> i128 \<Rightarrow> 'w env \<Rightarrow> 'w env" where
  "add_fee_balance h x amount s =
     (let s1 = set_fee_balance h x
                 (unwrap_or (checked_add (get_fee_balance s x) amount) i128_max) s;
          current_total = unwrap_or (p_total_fees_collected (pers s1) x) 0;
          new_total = unwrap_or (checked_add current_total amount) i128_max
      in extend_ttl h (SKey (KTotalFeesCollected x)) 17280 (17280 * 365)
           (set_pers h (SKey (KTotalFeesCollected x))
             (\<lambda>q. q\<lparr>p_total_fees_collected := (p_total_fees_collected q)(x \<mapsto> new_total)\<rparr>) s1))"

definition get_total_burned :: "'w env \<Rightarrow> asset \<Rightarrow> i128" where
  "get_total_burned s x = unwrap_or (p_total_fees_burned (pers s) x) 0"

definition add_total_burned :: "'w host \<Rightarrow> asset \<Rightarrow> i128 \<Rightarrow> 'w env \<Rightarrow> 'w env" where
  "add_total_burned h x amount s =
     (let current_total = unwrap_or (p_total_fees_burned (pers s) x) 0;
          new_total = unwrap_or (checked_add current_total amount) i128_max
      in extend_ttl h (SKey (KTotalFeesBurned x)) 17280 (17280 * 365)
           (set_pers h (SKey (KTotalFeesBurned x))
             (\<lambda>q. q\<lparr>p_total_fees_burned := (p_total_fees_burned q)(x \<mapsto> new_total)\<rparr>) s))"

definition get_distribution_history :: "'w env \<Rightarrow> asset \<Rightarrow> distribution_record list" where
  "get_distribution_history s x = unwrap_or (p_distribution_history (pers s) x) []"

text \<open>Newest record first; the oldest is dropped once there are more than ten.\<close>

definition push_distribution_history ::
  "'w host \<Rightarrow> asset \<Rightarrow> distribution_record \<Rightarrow> 'w env \<Rightarrow> 'w env" where
  "push_distribution_history h x r s =
     (let history = r # unwrap_or (p_distribution_history (pers s) x) [];
          kept = (if 10 < length history then butlast history else history)
      in extend_ttl h (SKey (KDistributionHistory x)) 17280 (17280 * 30)
           (set_pers h (SKey (KDistributionHistory x))
             (\<lambda>q. q\<lparr>p_distribution_history := (p_distribution_history q)(x \<mapsto> kept)\<rparr>) s))"

lemmas getter_defs [storage_defs] =
  get_admin_def get_fee_rate_def get_fee_to_optional_def get_pool_count_def get_paused_def
  is_initialized_def is_supported_pool_def get_pool_list_def get_nonce_def
  get_total_swap_volume_def get_last_ttl_extension_def is_multisig_def get_governance_def
  get_guardian_def get_proposal_entry_def get_contract_version_def get_pending_upgrade_def
  is_migration_done_def get_token_info_def is_token_allowed_def get_token_count_def
  get_mev_config_def is_whitelisted_def get_latest_known_price_def get_fee_config_def
  get_fee_balance_def get_total_fees_collected_def get_total_burned_def
  get_distribution_history_def

lemmas setter_defs [storage_defs] =
  set_admin_key_def set_fee_rate_def set_fee_to_def set_pool_count_def set_paused_def
  set_supported_pool_def remove_supported_pool_def add_to_pool_list_def
  add_swap_volume_def set_last_ttl_extension_def set_multisig_def
  set_governance_def set_guardian_def save_proposal_def set_contract_version_def
  set_pending_upgrade_def clear_pending_upgrade_def set_migration_done_def
  save_token_info_def remove_token_entry_def set_token_count_def set_mev_config_def
  set_commitment_def remove_commitment_def set_account_swap_count_def
  set_account_swap_window_start_def set_whitelisted_def set_latest_known_price_def
  set_fee_config_def set_fee_balance_def add_fee_balance_def add_total_burned_def
  push_distribution_history_def

section \<open>Storage cells\<close>

text \<open>
  The contract every getter and setter pair keeps: reading after writing returns what
  was written, and the last write wins. The clients' lemmas are stated once, over the
  interface, and hold for every pair interpreted below.
\<close>

locale storage_cell =
  fixes get :: "'s \<Rightarrow> 'v"
    and put :: "'v \<Rightarrow> 's \<Rightarrow> 's"
  assumes get_put: "get (put v s) = v"
begin

lemma get_put_put: "get (put v (put u s)) = v"
  by (rule get_put)

lemma put_fold: "vs \<noteq> [] \<Longrightarrow> get (fold put vs s) = last vs"
  by (induction vs rule: rev_induct) (auto simp: get_put)

end

interpretation fee_rate_cell: storage_cell get_fee_rate set_fee_rate
  by unfold_locales (simp add: storage_defs)

interpretation pool_count_cell: storage_cell get_pool_count set_pool_count
  by unfold_locales (simp add: storage_defs)

interpretation paused_cell: storage_cell get_paused set_paused
  by unfold_locales (simp add: storage_defs)

interpretation token_count_cell: storage_cell get_token_count set_token_count
  by unfold_locales (simp add: storage_defs)

interpretation last_ttl_cell: storage_cell get_last_ttl_extension set_last_ttl_extension
  by unfold_locales (simp add: storage_defs)

interpretation fee_balance_cell: storage_cell "\<lambda>s. get_fee_balance s x" "set_fee_balance h x"
  by unfold_locales (simp add: storage_defs)

interpretation whitelist_cell: storage_cell "\<lambda>s. is_whitelisted s a" "set_whitelisted h a"
  by unfold_locales (simp add: storage_defs Let_def)

lemma length_distribution_history:
  "length (get_distribution_history s x) \<le> 10 \<Longrightarrow>
   length (get_distribution_history (push_distribution_history h x r s) x) \<le> 10"
  by (simp add: storage_defs Let_def)

end
