(* ===== verification/Contract_Events.thy ===== *)
theory Contract_Events
  imports Contract_Storage
begin

text \<open>
  The event publishers of \<open>crates/contracts/src/events.rs\<close>, one definition per
  function. A publisher whose data includes \<open>e.ledger().sequence()\<close> takes the host.
\<close>

definition initialized ::
  "address \<Rightarrow> u32 \<Rightarrow> 'w env \<Rightarrow> 'w env" where
  "initialized admin fee_rate = publish (EvInitialized admin fee_rate)"

definition admin_changed ::
  "address \<Rightarrow> address \<Rightarrow> 'w env \<Rightarrow> 'w env" where
  "admin_changed old_admin new_admin = publish (EvAdminChanged old_admin new_admin)"

definition pool_registered ::
  "address \<Rightarrow> 'w env \<Rightarrow> 'w env" where
  "pool_registered p = publish (EvPoolRegistered p)"

definition paused_event ::
  "'w env \<Rightarrow> 'w env" where
  "paused_event = publish EvPaused"

definition unpaused_event ::
  "'w env \<Rightarrow> 'w env" where
  "unpaused_event = publish EvUnpaused"

definition swap_executed ::
  "'w host \<Rightarrow> address \<Rightarrow> i128 \<Rightarrow> i128 \<Rightarrow> i128 \<Rightarrow> route \<Rightarrow> 'w env \<Rightarrow> 'w env" where
  "swap_executed h a amt_in amt_out fee r = publish (EvSwapExecuted a amt_in amt_out fee r (ledger_sequence h))"

definition route_validated ::
  "'w host \<Rightarrow> u32 \<Rightarrow> u64 \<Rightarrow> 'w env \<Rightarrow> 'w env" where
  "route_validated h hop_count exp = publish (EvRouteValidated hop_count exp (ledger_sequence h))"

definition quote_generated ::
  "'w host \<Rightarrow> i128 \<Rightarrow> i128 \<Rightarrow> i128 \<Rightarrow> u32 \<Rightarrow> u32 \<Rightarrow> u64 \<Rightarrow> 'w env \<Rightarrow> 'w env" where
  "quote_generated h amt expected fee impact hop_count until = publish (EvQuoteGenerated amt expected fee impact hop_count until (ledger_sequence h))"

definition execution_requested ::
  "'w host \<Rightarrow> address \<Rightarrow> i128 \<Rightarrow> u32 \<Rightarrow> u64 \<Rightarrow> 'w env \<Rightarrow> 'w env" where
  "execution_requested h a amt hop_count dl = publish (EvExecutionRequested a amt hop_count dl (ledger_sequence h))"

definition execution_failed ::
  "'w host \<Rightarrow> address \<Rightarrow> u32 \<Rightarrow> 'w env \<Rightarrow> 'w env" where
  "execution_failed h a code = publish (EvExecutionFailed a code (ledger_sequence h))"

definition governance_migrated ::
  "address \<Rightarrow> u32 \<Rightarrow> u32 \<Rightarrow> 'w env \<Rightarrow> 'w env" where
  "governance_migrated old_admin n thr = publish (EvGovernanceMigrated old_admin n thr)"

definition proposal_created ::
  "u64 \<Rightarrow> address \<Rightarrow> proposal_action \<Rightarrow> 'w env \<Rightarrow> 'w env" where
  "proposal_created n a act = publish (EvProposalCreated n a act)"

definition proposal_approved ::
  "u64 \<Rightarrow> address \<Rightarrow> u32 \<Rightarrow> 'w env \<Rightarrow> 'w env" where
  "proposal_approved n a count = publish (EvProposalApproved n a count)"

definition proposal_executed ::
  "u64 \<Rightarrow> 'w env \<Rightarrow> 'w env" where
  "proposal_executed n = publish (EvProposalExecuted n)"

definition proposal_cancelled ::
  "u64 \<Rightarrow> address \<Rightarrow> 'w env \<Rightarrow> 'w env" where
  "proposal_cancelled n a = publish (EvProposalCancelled n a)"

definition guardian_set ::
  "address \<Rightarrow> 'w env \<Rightarrow> 'w env" where
  "guardian_set g = publish (EvGuardianSet g)"

definition guardian_paused ::
  "address \<Rightarrow> 'w env \<Rightarrow> 'w env" where
  "guardian_paused g = publish (EvGuardianPaused g)"

definition upgrade_proposed ::
  "address \<Rightarrow> bytes32 \<Rightarrow> bytes32 \<Rightarrow> u64 \<Rightarrow> 'w env \<Rightarrow> 'w env" where
  "upgrade_proposed a old_hash new_hash after = publish (EvUpgradeProposed a old_hash new_hash after)"

definition upgrade_completed ::
  "bytes32 \<Rightarrow> bytes32 \<Rightarrow> u64 \<Rightarrow> 'w env \<Rightarrow> 'w env" where
  "upgrade_completed old_hash new_hash ledger = publish (EvUpgradeCompleted old_hash new_hash ledger)"

definition upgrade_cancelled ::
  "address \<Rightarrow> 'w env \<Rightarrow> 'w env" where
  "upgrade_cancelled a = publish (EvUpgradeCancelled a)"

definition migration_completed ::
  "u32 \<Rightarrow> u32 \<Rightarrow> u32 \<Rightarrow> 'w env \<Rightarrow> 'w env" where
  "migration_completed a b c = publish (EvMigrationCompleted a b c)"

definition token_added ::
  "asset \<Rightarrow> address \<Rightarrow> 'w env \<Rightarrow> 'w env" where
  "token_added x a = publish (EvTokenAdded x a)"

definition token_removed ::
  "asset \<Rightarrow> address \<Rightarrow> 'w env \<Rightarrow> 'w env" where
  "token_removed x a = publish (EvTokenRemoved x a)"

definition token_updated ::
  "asset \<Rightarrow> address \<Rightarrow> 'w env \<Rightarrow> 'w env" where
  "token_updated x a = publish (EvTokenUpdated x a)"

definition high_impact_swap ::
  "address \<Rightarrow> u32 \<Rightarrow> i128 \<Rightarrow> 'w env \<Rightarrow> 'w env" where
  "high_impact_swap a impact amt = publish (EvHighImpactSwap a impact amt)"

definition rate_limit_hit ::
  "address \<Rightarrow> u32 \<Rightarrow> u32 \<Rightarrow> 'w env \<Rightarrow> 'w env" where
  "rate_limit_hit a count window = publish (EvRateLimitHit a count window)"

definition commitment_created ::
  "address \<Rightarrow> bytes32 \<Rightarrow> i128 \<Rightarrow> 'w env \<Rightarrow> 'w env" where
  "commitment_created a hash amt = publish (EvCommitmentCreated a hash amt)"

definition commitment_revealed ::
  "address \<Rightarrow> bytes32 \<Rightarrow> 'w env \<Rightarrow> 'w env" where
  "commitment_revealed a hash = publish (EvCommitmentRevealed a hash)"

definition ttl_extended ::
  "u32 \<Rightarrow> u32 \<Rightarrow> 'w env \<Rightarrow> 'w env" where
  "ttl_extended n ledger = publish (EvTtlExtended n ledger)"

definition ttl_warning ::
  "u64 \<Rightarrow> u32 \<Rightarrow> 'w env \<Rightarrow> 'w env" where
  "ttl_warning remaining thr = publish (EvTtlWarning remaining thr)"

definition fee_collected ::
  "'w host \<Rightarrow> asset \<Rightarrow> i128 \<Rightarrow> 'w env \<Rightarrow> 'w env" where
  "fee_collected h x amt = publish (EvFeeCollected x amt (ledger_sequence h))"

definition fees_distributed ::
  "'w host \<Rightarrow> asset \<Rightarrow> i128 \<Rightarrow> 'w env \<Rightarrow> 'w env" where
  "fees_distributed h x amt = publish (EvFeesDistributed x amt (ledger_sequence h))"

definition fees_burned ::
  "'w host \<Rightarrow> asset \<Rightarrow> i128 \<Rightarrow> 'w env \<Rightarrow> 'w env" where
  "fees_burned h x amt = publish (EvFeesBurned x amt (ledger_sequence h))"

lemmas publishers [event_defs] =
  initialized_def admin_changed_def pool_registered_def paused_event_def
  unpaused_event_def swap_executed_def route_validated_def quote_generated_def
  execution_requested_def execution_failed_def governance_migrated_def proposal_created_def
  proposal_approved_def proposal_executed_def proposal_cancelled_def guardian_set_def
  guardian_paused_def upgrade_proposed_def upgrade_completed_def upgrade_cancelled_def
  migration_completed_def token_added_def token_removed_def token_updated_def
  high_impact_swap_def rate_limit_hit_def commitment_created_def commitment_revealed_def
  ttl_extended_def ttl_warning_def fee_collected_def fees_distributed_def
  fees_burned_def

text \<open>
  The second topic identifies the publisher: two events with equal topics come from
  the same function of \<open>events.rs\<close>, so an indexer can decode the data by the topics.
\<close>

fun event_kind :: "event \<Rightarrow> nat" where
  "event_kind (EvInitialized _ _) = 0"
| "event_kind (EvAdminChanged _ _) = 1"
| "event_kind (EvPoolRegistered _) = 2"
| "event_kind EvPaused = 3"
| "event_kind EvUnpaused = 4"
| "event_kind (EvSwapExecuted _ _ _ _ _ _) = 5"
| "event_kind (EvRouteValidated _ _ _) = 6"
| "event_kind (EvQuoteGenerated _ _ _ _ _ _ _) = 7"
| "event_kind (EvExecutionRequested _ _ _ _ _) = 8"
| "event_kind (EvExecutionFailed _ _ _) = 9"
| "event_kind (EvGovernanceMigrated _ _ _) = 10"
| "event_kind (EvProposalCreated _ _ _) = 11"
| "event_kind (EvProposalApproved _ _ _) = 12"
| "event_kind (EvProposalExecuted _) = 13"
| "event_kind (EvProposalCancelled _ _) = 14"
| "event_kind (EvGuardianSet _) = 15"
| "event_kind (EvGuardianPaused _) = 16"
| "event_kind (EvUpgradeProposed _ _ _ _) = 17"
| "event_kind (EvUpgradeCompleted _ _ _) = 18"
| "event_kind (EvUpgradeCancelled _) = 19"
| "event_kind (EvMigrationCompleted _ _ _) = 20"
| "event_kind (EvTokenAdded _ _) = 21"
| "event_kind (EvTokenRemoved _ _) = 22"
| "event_kind (EvTokenUpdated _ _) = 23"
| "event_kind (EvHighImpactSwap _ _ _) = 24"
| "event_kind (EvRateLimitHit _ _ _) = 25"
| "event_kind (EvCommitmentCreated _ _ _) = 26"
| "event_kind (EvCommitmentRevealed _ _) = 27"
| "event_kind (EvTtlExtended _ _) = 28"
| "event_kind (EvTtlWarning _ _) = 29"
| "event_kind (EvFeeCollected _ _ _) = 30"
| "event_kind (EvFeesDistributed _ _ _) = 31"
| "event_kind (EvFeesBurned _ _ _) = 32"

lemma event_symbol_kind: "event_symbol e = event_symbol e' \<Longrightarrow> event_kind e = event_kind e'"
  by (cases e; cases e'; simp)

end
