(* ===== verification/Contract_Tokens.thy ===== *)
theory Contract_Tokens
  imports Contract_Events
begin

text \<open>
  The token allowlist, \<open>crates/contracts/src/tokens.rs\<close>: which assets a route may
  use, the counter of listed tokens and the append-only category index. The invariant
  \<open>tokens_inv\<close> ties the counter to the listed set and the index to both.
\<close>

section \<open>Authorization\<close>

definition require_auth :: "'w host \<Rightarrow> address \<Rightarrow> 'w env \<Rightarrow> (unit, 'w) call" where
  "require_auth h a s = (if authorized h a then Ok () s else Panic)"

lemma require_auth_Ok [simp]: "require_auth h a s = Ok u t \<longleftrightarrow> authorized h a \<and> t = s"
  by (auto simp: require_auth_def)

lemma require_auth_simps:
  "authorized h a \<Longrightarrow> require_auth h a s = Ok () s"
  "\<not> authorized h a \<Longrightarrow> require_auth h a s = Panic"
  by (simp_all add: require_auth_def)

definition require_admin_auth :: "'w host \<Rightarrow> address \<Rightarrow> 'w env \<Rightarrow> (unit, 'w) call" where
  "require_admin_auth h caller s =
     andThen (require_auth h caller s) (\<lambda>_ s.
       if is_multisig s then Err UseGovernance s
       else unwrap (get_admin s) (\<lambda>admin.
         if admin \<noteq> caller then Err Unauthorized s else Ok () s))"

lemma require_admin_auth_Ok [simp]:
  "require_admin_auth h caller s = Ok u t \<longleftrightarrow>
     authorized h caller \<and> \<not> is_multisig s \<and> get_admin s = Some caller \<and> t = s"
  by (auto simp: require_admin_auth_def)

section \<open>The category index\<close>

definition MAX_BATCH :: u32 where
  "MAX_BATCH = 10"

definition MAX_DECIMALS :: u32 where
  "MAX_DECIMALS = 19"

definition validate_token_info :: "token_info \<Rightarrow> 'w env \<Rightarrow> (unit, 'w) call" where
  "validate_token_info info s =
     (if decimals info > MAX_DECIMALS then Err InvalidAmount s else Ok () s)"

definition cat_len :: "'w env \<Rightarrow> token_category \<Rightarrow> u32" where
  "cat_len s c = unwrap_or (p_cat_len (pers s) c) 0"

definition set_cat_len :: "'w host \<Rightarrow> token_category \<Rightarrow> u32 \<Rightarrow> 'w env \<Rightarrow> 'w env" where
  "set_cat_len h c n s =
     extend_ttl h (IKey (CatLen c)) 17280 (17280 * 365)
       (set_pers h (IKey (CatLen c)) (\<lambda>q. q\<lparr>p_cat_len := (p_cat_len q)(c \<mapsto> n)\<rparr>) s)"

definition push_cat_entry ::
  "'w host \<Rightarrow> token_category \<Rightarrow> asset \<Rightarrow> 'w env \<Rightarrow> (unit, 'w) call" where
  "push_cat_entry h c x s =
     (let idx = cat_len s c;
          s1 = extend_ttl h (IKey (CatEntry c idx)) 17280 (17280 * 365)
                 (set_pers h (IKey (CatEntry c idx))
                   (\<lambda>q. q\<lparr>p_cat_entry := (p_cat_entry q)((c, idx) \<mapsto> x)\<rparr>) s)
      in unwrap (checked_add_u32 idx 1) (\<lambda>n. Ok () (set_cat_len h c n s1)))"

section \<open>Management\<close>

definition add_token_internal ::
  "'w host \<Rightarrow> address \<Rightarrow> token_info \<Rightarrow> 'w env \<Rightarrow> (unit, 'w) call" where
  "add_token_internal h caller info s =
     andThen (validate_token_info info s) (\<lambda>_ s.
       if is_token_allowed s (token_asset info) then Err TokenAlreadyAdded s
       else andThen (push_cat_entry h (category info) (token_asset info) (save_token_info h info s))
         (\<lambda>_ s. unwrap (checked_add_u32 (get_token_count s) 1) (\<lambda>n.
            Ok () (extend_instance_ttl h
                    (token_added (token_asset info) caller (set_token_count n s))))))"

definition add_token :: "'w host \<Rightarrow> address \<Rightarrow> token_info \<Rightarrow> 'w env \<Rightarrow> (unit, 'w) call" where
  "add_token h caller info s =
     andThen (require_admin_auth h caller s) (\<lambda>_. add_token_internal h caller info)"

text \<open>
  The pool check of \<open>remove_token_internal\<close> looks the token's own address up among the
  registered pools; for an asset that is not a Soroban token it returns before the check.
\<close>

definition drop_token :: "'w host \<Rightarrow> address \<Rightarrow> asset \<Rightarrow> 'w env \<Rightarrow> (unit, 'w) call" where
  "drop_token h caller x s =
     (let s1 = remove_token_entry x s;
          count = get_token_count s1;
          s2 = (if count > 0 then set_token_count (saturating_sub_u count 1) s1 else s1)
      in Ok () (extend_instance_ttl h (token_removed x caller s2)))"

definition remove_token_internal ::
  "'w host \<Rightarrow> address \<Rightarrow> asset \<Rightarrow> 'w env \<Rightarrow> (unit, 'w) call" where
  "remove_token_internal h caller x s =
     (if \<not> is_token_allowed s x then Err TokenNotAllowed s
      else case x of
        Soroban addr \<Rightarrow>
          (if is_supported_pool s addr then Err TokenInUse s else drop_token h caller x s)
      | _ \<Rightarrow> drop_token h caller x s)"

definition remove_token :: "'w host \<Rightarrow> address \<Rightarrow> asset \<Rightarrow> 'w env \<Rightarrow> (unit, 'w) call" where
  "remove_token h caller x s =
     andThen (require_admin_auth h caller s) (\<lambda>_. remove_token_internal h caller x)"

definition update_token_internal ::
  "'w host \<Rightarrow> address \<Rightarrow> asset \<Rightarrow> token_info \<Rightarrow> 'w env \<Rightarrow> (unit, 'w) call" where
  "update_token_internal h caller x updated s =
     (if \<not> is_token_allowed s x then Err TokenNotAllowed s
      else if token_asset updated \<noteq> x then Err InvalidAmount s
      else andThen (validate_token_info updated s) (\<lambda>_ s.
        Ok () (extend_instance_ttl h (token_updated x caller (save_token_info h updated s)))))"

definition update_token ::
  "'w host \<Rightarrow> address \<Rightarrow> asset \<Rightarrow> token_info \<Rightarrow> 'w env \<Rightarrow> (unit, 'w) call" where
  "update_token h caller x updated s =
     andThen (require_admin_auth h caller s) (\<lambda>_. update_token_internal h caller x updated)"

fun add_all_tokens :: "'w host \<Rightarrow> address \<Rightarrow> token_info list \<Rightarrow> 'w env \<Rightarrow> (unit, 'w) call" where
  "add_all_tokens h caller [] s = Ok () s"
| "add_all_tokens h caller (info # rest) s =
     andThen (add_token_internal h caller info s) (\<lambda>_. add_all_tokens h caller rest)"

definition add_tokens_batch ::
  "'w host \<Rightarrow> address \<Rightarrow> token_info list \<Rightarrow> 'w env \<Rightarrow> (unit, 'w) call" where
  "add_tokens_batch h caller tokens s =
     andThen (require_admin_auth h caller s) (\<lambda>_ s.
       if length tokens > MAX_BATCH then Err BatchTooLarge s
       else add_all_tokens h caller tokens s)"

section \<open>Reads\<close>

definition get_tokens_by_category :: "'w env \<Rightarrow> token_category \<Rightarrow> asset list" where
  "get_tokens_by_category s c =
     concat (map (\<lambda>i. case p_cat_entry (pers s) (c, i) of
                        None \<Rightarrow> []
                      | Some x \<Rightarrow> if is_token_allowed s x then [x] else [])
                 [0 ..< cat_len s c])"

fun check_hop_assets :: "'w env \<Rightarrow> route_hop list \<Rightarrow> (unit, 'w) call" where
  "check_hop_assets s [] = Ok () s"
| "check_hop_assets s (hop # rest) =
     (if \<not> is_token_allowed s (source hop) then Err TokenNotAllowed s
      else if \<not> is_token_allowed s (destination hop) then Err TokenNotAllowed s
      else check_hop_assets s rest)"

definition validate_route_assets :: "route \<Rightarrow> 'w env \<Rightarrow> (unit, 'w) call" where
  "validate_route_assets r s =
     (if get_token_count s = 0 then Ok () s else check_hop_assets s (hops r))"

lemmas token_op_defs = add_token_internal_def drop_token_def remove_token_internal_def
  update_token_internal_def push_cat_entry_def set_cat_len_def cat_len_def
  validate_token_info_def

lemma check_hop_assets_Ok [simp]:
  "check_hop_assets s hs = Ok u t \<longleftrightarrow>
     t = s \<and> (\<forall>hop \<in> set hs. is_token_allowed s (source hop) \<and> is_token_allowed s (destination hop))"
  by (induction hs) auto

lemma validate_route_assets_Ok:
  "validate_route_assets r s = Ok u t \<longleftrightarrow>
     t = s \<and> (get_token_count s = 0 \<or>
       (\<forall>hop \<in> set (hops r). is_token_allowed s (source hop) \<and> is_token_allowed s (destination hop)))"
  by (auto simp: validate_route_assets_def)

section \<open>The allowlist invariant\<close>

definition index_inv :: "persistent_storage \<Rightarrow> bool" where
  "index_inv p \<longleftrightarrow>
     (\<forall>c i. i < unwrap_or (p_cat_len p c) 0 \<longleftrightarrow> p_cat_entry p (c, i) \<noteq> None) \<and>
     (\<forall>x. p_allowed_token p x \<noteq> None \<longrightarrow> (\<exists>c i. p_cat_entry p (c, i) = Some x))"

definition tokens_inv :: "'w env \<Rightarrow> bool" where
  "tokens_inv s \<longleftrightarrow>
     finite (dom (p_allowed_token (pers s))) \<and>
     get_token_count s = card (dom (p_allowed_token (pers s))) \<and>
     (\<forall>x info. p_allowed_token (pers s) x = Some info \<longrightarrow>
        token_asset info = x \<and> decimals info \<le> MAX_DECIMALS) \<and>
     index_inv (pers s)"

text \<open>The invariant reads four fields, so an operation that keeps them keeps it.\<close>

lemma tokens_inv_frame:
  assumes "tokens_inv s"
    and "p_allowed_token (pers t) = p_allowed_token (pers s)"
    and "p_cat_entry (pers t) = p_cat_entry (pers s)"
    and "p_cat_len (pers t) = p_cat_len (pers s)"
    and "i_token_count (inst t) = i_token_count (inst s)"
  shows "tokens_inv t"
  using assms by (simp add: tokens_inv_def index_inv_def get_token_count_def)

lemma index_inv_push:
  fixes p :: persistent_storage and x :: asset and info :: token_info and c :: token_category
  assumes "index_inv p"
  shows "index_inv (p\<lparr>p_allowed_token := (p_allowed_token p)(x \<mapsto> info),
           p_cat_entry := (p_cat_entry p)((c, unwrap_or (p_cat_len p c) 0) \<mapsto> x),
           p_cat_len := (p_cat_len p)(c \<mapsto> unwrap_or (p_cat_len p c) 0 + 1)\<rparr>)"
proof -
  have "\<exists>c' i. ((p_cat_entry p)((c, unwrap_or (p_cat_len p c) 0) \<mapsto> x)) (c', i) = Some y"
    if allowed: "p_allowed_token p y \<noteq> None" for y
  proof -
    obtain c' i where ci: "p_cat_entry p (c', i) = Some y"
      using assms allowed unfolding index_inv_def by blast
    moreover have "(c', i) \<noteq> (c, unwrap_or (p_cat_len p c) 0)"
      using assms ci by (auto simp: index_inv_def)
    ultimately show ?thesis by (metis fun_upd_other)
  qed
  then show ?thesis
    using assms by (auto simp: index_inv_def less_Suc_eq)
qed

text \<open>What a successful operation has checked, and what it leaves in storage.\<close>

lemma add_token_internal_Ok:
  assumes "add_token_internal h a info s = Ok u t"
  shows "decimals info \<le> MAX_DECIMALS" "p_allowed_token (pers s) (token_asset info) = None"
    and "pers t = (pers s)\<lparr>p_allowed_token := (p_allowed_token (pers s))(token_asset info \<mapsto> info),
           p_cat_entry := (p_cat_entry (pers s))
             ((category info, cat_len s (category info)) \<mapsto> token_asset info),
           p_cat_len := (p_cat_len (pers s))(category info \<mapsto> cat_len s (category info) + 1)\<rparr>"
    and "inst t = (inst s)\<lparr>i_token_count := Some (get_token_count s + 1)\<rparr>"
    and "temp t = temp s" "world t = world s"
  using assms
  by (auto simp: token_op_defs storage_defs event_defs Let_def checked_add_u32_def split: if_splits)

lemma drop_token_Ok:
  assumes "drop_token h a x s = Ok u t"
  shows "pers t = (pers s)\<lparr>p_allowed_token := (p_allowed_token (pers s))(x := None)\<rparr>"
    and "inst t = (if get_token_count s > 0
           then (inst s)\<lparr>i_token_count := Some (get_token_count s - 1)\<rparr> else inst s)"
    and "temp t = temp s" "world t = world s"
  using assms
  by (auto simp: drop_token_def storage_defs event_defs Let_def saturating_sub_u_def)

lemma remove_token_internal_Ok:
  assumes "remove_token_internal h a x s = Ok u t"
  shows "is_token_allowed s x" "drop_token h a x s = Ok u t"
  using assms by (auto simp: remove_token_internal_def split: if_splits asset.splits)

lemma update_token_internal_Ok:
  assumes "update_token_internal h a x updated s = Ok u t"
  shows "is_token_allowed s x" "token_asset updated = x" "decimals updated \<le> MAX_DECIMALS"
    and "pers t = (pers s)\<lparr>p_allowed_token := (p_allowed_token (pers s))(x \<mapsto> updated)\<rparr>"
    and "inst t = inst s" "temp t = temp s" "world t = world s"
  using assms
  by (auto simp: update_token_internal_def validate_token_info_def storage_defs event_defs
      split: if_splits)

lemma add_token_internal_inv:
  assumes inv: "tokens_inv s" and add: "add_token_internal h a info s = Ok u t"
  shows "tokens_inv t"
proof -
  note shape = add_token_internal_Ok [OF add]
  have "index_inv (pers t)"
    using inv index_inv_push [where p = "pers s" and x = "token_asset info" and info = info
        and c = "category info"]
    by (simp add: shape tokens_inv_def cat_len_def)
  then show ?thesis
    using inv shape(1,2) by (auto simp: shape tokens_inv_def get_token_count_def domIff)
qed

lemma remove_token_internal_inv:
  assumes inv: "tokens_inv s" and rem: "remove_token_internal h a x s = Ok u t"
  shows "tokens_inv t"
proof -
  note shape = drop_token_Ok [OF remove_token_internal_Ok(2) [OF rem]]
  have x: "x \<in> dom (p_allowed_token (pers s))"
    using remove_token_internal_Ok(1) [OF rem] by (simp add: is_token_allowed_def domIff)
  moreover have "get_token_count s > 0"
    using inv x by (auto simp: tokens_inv_def card_gt_0_iff)
  moreover have "index_inv (pers t)"
    using inv by (auto simp: shape tokens_inv_def index_inv_def)
  ultimately show ?thesis
    using inv by (auto simp: shape tokens_inv_def get_token_count_def)
qed

lemma update_token_internal_inv:
  assumes inv: "tokens_inv s" and upd: "update_token_internal h a x updated s = Ok u t"
  shows "tokens_inv t"
proof -
  note shape = update_token_internal_Ok [OF upd]
  have "insert x (dom (p_allowed_token (pers s))) = dom (p_allowed_token (pers s))"
    using shape(1) by (auto simp: is_token_allowed_def)
  moreover have "index_inv (pers t)"
    using inv shape(1) by (auto simp: shape(4) tokens_inv_def index_inv_def is_token_allowed_def)
  ultimately show ?thesis
    using inv shape(2,3) by (auto simp: shape tokens_inv_def get_token_count_def)
qed

lemma add_all_tokens_inv:
  "tokens_inv s \<Longrightarrow> add_all_tokens h a infos s = Ok u t \<Longrightarrow> tokens_inv t"
  by (induction infos arbitrary: s) (auto dest: add_token_internal_inv)

end
