(* ===== verification/Contract_Upgrade.thy ===== *)
theory Contract_Upgrade
  imports Contract_Tokens
begin

text \<open>
  Contract upgrades, \<open>crates/contracts/src/upgrade.rs\<close>: the time-locked two-step
  upgrade of single-admin mode, the WASM replacement both modes share, and the
  once-per-version migration hook. \<open>upgrade_inv\<close> says that every pending upgrade
  carries the minimum delay and that migrations were run for past versions only.
\<close>

definition MIN_DELAY_LEDGERS :: u64 where
  "MIN_DELAY_LEDGERS = 4320"

definition zero_hash :: bytes32 where
  "zero_hash = replicate 32 0"

definition get_version :: "'w env \<Rightarrow> contract_version" where
  "get_version s = unwrap_or (get_contract_version s)
     \<lparr>major = 1, minor = 0, patch = 0, wasm_hash = zero_hash, upgraded_at = 0\<rparr>"

definition set_initial_version :: "'w host \<Rightarrow> bytes32 \<Rightarrow> 'w env \<Rightarrow> 'w env" where
  "set_initial_version h hash =
     set_contract_version h
       \<lparr>major = 1, minor = 0, patch = 0, wasm_hash = hash, upgraded_at = 0\<rparr>"

definition propose_upgrade ::
  "'w host \<Rightarrow> address \<Rightarrow> bytes32 \<Rightarrow> u64 \<Rightarrow> 'w env \<Rightarrow> (unit, 'w) call" where
  "propose_upgrade h admin new_hash after s =
     andThen (require_auth h admin s) (\<lambda>_ s.
     unwrap (get_admin s) (\<lambda>stored.
       if stored \<noteq> admin then Err Unauthorized s
       else if is_multisig s then Err UseGovernance s
       else if get_paused s then Err Paused s
       else let current = get_version s in
       if wasm_hash current = new_hash then Err SameWasmHash s
       else if new_hash = zero_hash then Err InvalidAmount s
       else if get_pending_upgrade s \<noteq> None then Err UpgradePending s
       else let now = ledger_sequence h in
       unwrap (plain_add_u64 (overflow_checks h) now MIN_DELAY_LEDGERS) (\<lambda>earliest.
         let effective_after = (if after < earliest then earliest else after);
             pending = \<lparr>new_wasm_hash = new_hash, proposed_at = now,
                        execute_after = effective_after, upgrade_proposer = admin\<rparr>
         in Ok () (extend_instance_ttl h
              (upgrade_proposed admin (wasm_hash current) new_hash effective_after
                (set_pending_upgrade pending s))))))"

definition migrate :: "'w host \<Rightarrow> contract_version \<Rightarrow> 'w env \<Rightarrow> (unit, 'w) call" where
  "migrate h v s =
     (if is_migration_done s (major v) (minor v) (patch v) then Err MigrationAlreadyDone s
      else Ok () (migration_completed (major v) (minor v) (patch v)
             (set_migration_done h (major v) (minor v) (patch v) s)))"

definition execute_wasm_upgrade :: "'w host \<Rightarrow> bytes32 \<Rightarrow> 'w env \<Rightarrow> (unit, 'w) call" where
  "execute_wasm_upgrade h new_hash s =
     (let old_version = get_version s; old_hash = wasm_hash old_version in
      if old_hash = new_hash then Err SameWasmHash s
      else unwrap (update_wasm h (world s) new_hash) (\<lambda>w.
        unwrap (plain_add_u32 (overflow_checks h) (patch old_version) 1) (\<lambda>new_patch.
          let new_version = \<lparr>major = major old_version, minor = minor old_version,
                patch = new_patch, wasm_hash = new_hash, upgraded_at = ledger_sequence h\<rparr>
          in migrate h new_version
               (upgrade_completed old_hash new_hash (ledger_sequence h)
                 (set_contract_version h new_version (s\<lparr>world := w\<rparr>))))))"

definition execute_upgrade :: "'w host \<Rightarrow> address \<Rightarrow> 'w env \<Rightarrow> (unit, 'w) call" where
  "execute_upgrade h admin s =
     unwrap (get_admin s) (\<lambda>stored.
       if stored \<noteq> admin then Err Unauthorized s
       else andThen (require_auth h admin s) (\<lambda>_ s.
       ok_or (get_pending_upgrade s) NoUpgradePending s (\<lambda>pending.
       if ledger_sequence h < execute_after pending then Err UpgradeLocked s
       else if get_paused s then Err Paused s
       else andThen (execute_wasm_upgrade h (new_wasm_hash pending) (clear_pending_upgrade s))
              (\<lambda>_ s. Ok () (extend_instance_ttl h s)))))"

definition cancel_upgrade :: "'w host \<Rightarrow> address \<Rightarrow> 'w env \<Rightarrow> (unit, 'w) call" where
  "cancel_upgrade h admin s =
     andThen (require_auth h admin s) (\<lambda>_ s.
     ok_or (get_pending_upgrade s) NoUpgradePending s (\<lambda>pending.
       if upgrade_proposer pending \<noteq> admin then Err Unauthorized s
       else Ok () (extend_instance_ttl h
              (upgrade_cancelled admin (clear_pending_upgrade s)))))"

definition get_version_at :: "'w env \<Rightarrow> u64 \<Rightarrow> contract_version option" where
  "get_version_at s ledger = p_version_history (pers s) ledger"

section \<open>Shapes of successful calls\<close>

lemma propose_upgrade_Ok:
  assumes "propose_upgrade h a hash after s = Ok u t"
  shows "authorized h a" "get_admin s = Some a" "\<not> is_multisig s" "\<not> get_paused s"
    and "get_pending_upgrade s = None" "hash \<noteq> zero_hash" "hash \<noteq> wasm_hash (get_version s)"
    and "\<exists>ea. inst t = (inst s)\<lparr>i_pending_upgrade := Some
           \<lparr>new_wasm_hash = hash, proposed_at = ledger_sequence h, execute_after = ea,
            upgrade_proposer = a\<rparr>\<rparr> \<and>
          (ledger_sequence h + MIN_DELAY_LEDGERS \<le> u64_max \<longrightarrow>
             ea = max after (ledger_sequence h + MIN_DELAY_LEDGERS))"
    and "pers t = pers s" "temp t = temp s" "world t = world s"
  using assms
  by (auto simp: propose_upgrade_def Let_def storage_defs event_defs plain_add_u64_def
      split: if_splits)

lemma execute_wasm_upgrade_Ok:
  assumes "execute_wasm_upgrade h hash s = Ok u t"
  shows "hash \<noteq> wasm_hash (get_version s)"
    and "\<exists>n w. plain_add_u32 (overflow_checks h) (patch (get_version s)) 1 = Some n \<and>
          update_wasm h (world s) hash = Some w \<and> world t = w \<and>
          \<not> is_migration_done s (major (get_version s)) (minor (get_version s)) n \<and>
          (let v = \<lparr>major = major (get_version s), minor = minor (get_version s), patch = n,
                    wasm_hash = hash, upgraded_at = ledger_sequence h\<rparr> in
           inst t = (inst s)\<lparr>i_contract_version := Some v\<rparr> \<and>
           pers t = (pers s)\<lparr>p_version_history := (p_version_history (pers s))(ledger_sequence h \<mapsto> v),
             p_migration_done := (p_migration_done (pers s))((major v, minor v, n) \<mapsto> True)\<rparr>)"
    and "temp t = temp s"
  using assms
  by (auto simp: execute_wasm_upgrade_def migrate_def Let_def storage_defs event_defs
      split: if_splits)

lemma execute_upgrade_Ok:
  assumes "execute_upgrade h a s = Ok u t"
  shows "authorized h a" "get_admin s = Some a" "\<not> get_paused s"
    and "\<exists>p t0. get_pending_upgrade s = Some p \<and> execute_after p \<le> ledger_sequence h \<and>
           execute_wasm_upgrade h (new_wasm_hash p) (clear_pending_upgrade s) = Ok () t0 \<and>
           t = extend_instance_ttl h t0"
  using assms by (auto simp: execute_upgrade_def split: if_splits)

lemma cancel_upgrade_Ok:
  assumes "cancel_upgrade h a s = Ok u t"
  shows "authorized h a" "\<exists>p. get_pending_upgrade s = Some p \<and> upgrade_proposer p = a"
    and "inst t = (inst s)\<lparr>i_pending_upgrade := None\<rparr>" "pers t = pers s" "temp t = temp s"
    and "world t = world s"
  using assms
  by (auto simp: cancel_upgrade_def storage_defs event_defs split: if_splits)

lemma get_version_clear [simp]: "get_version (clear_pending_upgrade s) = get_version s"
  by (simp add: get_version_def storage_defs)

section \<open>The upgrade invariants\<close>

text \<open>A pending upgrade carries the minimum delay and a real hash.\<close>

definition timelock_inv :: "'w env \<Rightarrow> bool" where
  "timelock_inv s \<longleftrightarrow>
     (\<forall>p. get_pending_upgrade s = Some p \<longrightarrow>
        proposed_at p + MIN_DELAY_LEDGERS \<le> execute_after p \<and> new_wasm_hash p \<noteq> zero_hash)"

text \<open>
  The version is always \<open>1.0.p\<close>, and migrations were run for the patch levels
  \<open>1..p\<close> and no others.
\<close>

definition version_inv :: "'w env \<Rightarrow> bool" where
  "version_inv s \<longleftrightarrow>
     major (get_version s) = 1 \<and> minor (get_version s) = 0 \<and>
     patch (get_version s) \<le> u32_max \<and>
     (\<forall>a b c. is_migration_done s a b c \<longleftrightarrow>
        a = 1 \<and> b = 0 \<and> 0 < c \<and> c \<le> patch (get_version s))"

lemma timelock_inv_frame:
  "timelock_inv s \<Longrightarrow> i_pending_upgrade (inst t) = i_pending_upgrade (inst s) \<Longrightarrow> timelock_inv t"
  by (simp add: timelock_inv_def storage_defs)

lemma timelock_inv_cleared: "i_pending_upgrade (inst t) = None \<Longrightarrow> timelock_inv t"
  by (simp add: timelock_inv_def storage_defs)

lemma version_inv_frame:
  assumes "version_inv s"
    and "i_contract_version (inst t) = i_contract_version (inst s)"
    and "p_migration_done (pers t) = p_migration_done (pers s)"
  shows "version_inv t"
  using assms by (simp add: version_inv_def get_version_def storage_defs)

lemma propose_upgrade_timelock:
  assumes prp: "propose_upgrade h a hash after s = Ok u t" and seq: "ledger_sequence h \<le> u32_max"
  shows "timelock_inv t"
proof -
  have "ledger_sequence h + MIN_DELAY_LEDGERS \<le> u64_max"
    using seq by (simp add: u32_max_def u64_max_def MIN_DELAY_LEDGERS_def)
  then show ?thesis
    using propose_upgrade_Ok(6,8) [OF prp] by (auto simp: timelock_inv_def storage_defs)
qed

lemma execute_wasm_upgrade_version:
  assumes inv: "version_inv s" and exe: "execute_wasm_upgrade h hash s = Ok u t"
    and "overflow_checks h"
  shows "version_inv t" "patch (get_version t) = patch (get_version s) + 1"
    "wasm_hash (get_version t) = hash"
  using inv execute_wasm_upgrade_Ok(2) [OF exe] assms(3)
  by (auto simp: version_inv_def get_version_def storage_defs Let_def plain_add_u32_def
      split: if_splits)

text \<open>Under the invariant the migration hook's guard never fires.\<close>

lemma migration_guard_unreachable:
  assumes "version_inv s" "overflow_checks h"
  shows "execute_wasm_upgrade h hash s \<noteq> Err MigrationAlreadyDone t"
proof -
  have "\<not> is_migration_done s 1 0 (Suc (patch (get_version s)))"
    using assms(1) by (simp add: version_inv_def)
  then show ?thesis
    using assms
    by (auto simp: execute_wasm_upgrade_def migrate_def Let_def version_inv_def plain_add_u32_def
        unwrap_def is_migration_done_def set_contract_version_def event_defs
        split: option.splits if_splits)
qed

end
