(* ===== verification/Contract_Governance.thy ===== *)
theory Contract_Governance
  imports Contract_Upgrade
begin

text \<open>
  Multi-signature governance, \<open>crates/contracts/src/governance.rs\<close>: the migration from
  the single admin, the proposal state machine (propose, approve, execute, cancel), the
  dispatch of approved actions and the guardian's emergency pause. \<open>governance_inv\<close>
  is what the proposal store and the configuration keep.
\<close>

definition MAX_SIGNERS :: u32 where
  "MAX_SIGNERS = 10"

fun is_in :: "address \<Rightarrow> address list \<Rightarrow> bool" where
  "is_in a [] = False"
| "is_in a (b # bs) = (if b = a then True else is_in a bs)"

definition is_signer :: "governance_config \<Rightarrow> address \<Rightarrow> bool" where
  "is_signer c a = is_in a (signers c)"

definition has_approved :: "proposal \<Rightarrow> address \<Rightarrow> bool" where
  "has_approved p a = is_in a (approvals p)"

lemma is_in_iff [simp]: "is_in a as \<longleftrightarrow> a \<in> set as"
  by (induction "as") auto

section \<open>Dispatch of approved actions\<close>

text \<open>The share check of \<open>SetFeeConfig\<close>: a checked sum.\<close>

fun checked_share_sum :: "u32 \<Rightarrow> fee_recipient list \<Rightarrow> u32 option" where
  "checked_share_sum acc [] = Some acc"
| "checked_share_sum acc (r # rs) =
     (case checked_add_u32 acc (share_bps r) of None \<Rightarrow> None | Some n \<Rightarrow> checked_share_sum n rs)"

definition dispatch_action ::
  "'w host \<Rightarrow> proposal_action \<Rightarrow> 'w env \<Rightarrow> (unit, 'w) call" where
  "dispatch_action h act s =
     (case act of
        SetFeeRate rate \<Rightarrow>
          (if rate > 1000 then Err InvalidAmount s else Ok () (set_fee_rate rate s))
      | SetFeeTo addr \<Rightarrow> Ok () (set_fee_to addr s)
      | SetFeeConfig config \<Rightarrow>
          (if length (recipients config) > 5 then Err InvalidFeeConfig s
           else ok_or (checked_share_sum 0 (recipients config)) InvalidFeeConfig s (\<lambda>total_bps.
             if total_bps \<noteq> 10000 then Err InvalidFeeConfig s
             else Ok () (set_fee_config config s)))
      | RegisterPool p _ \<Rightarrow>
          (let s1 = extend_ttl h (SKey (KSupportedPool p)) 17280 (17280 * 30)
                      (set_supported_pool h p s)
           in unwrap (checked_add_u32 (get_pool_count s1) 1) (\<lambda>n.
                Ok () (pool_registered p (set_pool_count n s1))))
      | DeregisterPool p \<Rightarrow>
          (let s1 = remove_supported_pool p s; count = get_pool_count s1
           in Ok () (if count > 0 then set_pool_count (saturating_sub_u count 1) s1 else s1))
      | Pause \<Rightarrow> Ok () (paused_event (set_paused True s))
      | Unpause \<Rightarrow> Ok () (unpaused_event (set_paused False s))
      | Upgrade hash \<Rightarrow> execute_wasm_upgrade h hash s
      | AddSigner a \<Rightarrow>
          unwrap (get_governance s) (\<lambda>config.
            if length (signers config) \<ge> MAX_SIGNERS then Err SignerLimitReached s
            else Ok () (set_governance (config\<lparr>signers := signers config @ [a]\<rparr>) s))
      | RemoveSigner a \<Rightarrow>
          unwrap (get_governance s) (\<lambda>config.
            if length (signers config) \<le> threshold config then Err ThresholdNotMet s
            else Ok () (set_governance
                   (config\<lparr>signers := filter (\<lambda>b. b \<noteq> a) (signers config)\<rparr>) s))
      | ChangeThreshold n \<Rightarrow>
          unwrap (get_governance s) (\<lambda>config.
            if n = 0 \<or> n > length (signers config) then Err InvalidAmount s
            else Ok () (set_governance (config\<lparr>threshold := n\<rparr>) s)))"

section \<open>Public operations\<close>

fun has_duplicate :: "address list \<Rightarrow> bool" where
  "has_duplicate [] = False"
| "has_duplicate (a # as) = (a \<in> set as \<or> has_duplicate as)"

lemma has_duplicate_iff [simp]: "has_duplicate as \<longleftrightarrow> \<not> distinct as"
  by (induction "as") auto

definition init_governance ::
  "'w host \<Rightarrow> address list \<Rightarrow> u32 \<Rightarrow> u64 \<Rightarrow> address option \<Rightarrow> 'w env \<Rightarrow> (unit, 'w) call" where
  "init_governance h sigs thr ttl guardian s =
     (if sigs = [] \<or> thr = 0 \<or> thr > length sigs then Err InvalidAmount s
      else if length sigs > MAX_SIGNERS then Err SignerLimitReached s
      else if ttl = 0 then Err InvalidAmount s
      else if has_duplicate sigs then Err InvalidAmount s
      else if current_contract_address h \<in> set sigs then Err InvalidRecipient s
      else let s1 = set_governance \<lparr>signers = sigs, threshold = thr, proposal_ttl = ttl\<rparr> s
           in Ok () (case guardian of None \<Rightarrow> s1 | Some g \<Rightarrow> guardian_set g (set_guardian g s1)))"

definition migrate_to_multisig ::
  "'w host \<Rightarrow> address \<Rightarrow> address list \<Rightarrow> u32 \<Rightarrow> u64 \<Rightarrow> address option \<Rightarrow> 'w env \<Rightarrow> (unit, 'w) call" where
  "migrate_to_multisig h admin sigs thr ttl guardian s =
     andThen (require_auth h admin s) (\<lambda>_ s.
     unwrap (get_admin s) (\<lambda>current.
       if current \<noteq> admin then Err Unauthorized s
       else if is_multisig s then Err AlreadyInitialized s
       else andThen (init_governance h sigs thr ttl guardian s) (\<lambda>_ s.
         Ok () (extend_instance_ttl h
           (governance_migrated admin (length sigs) thr (set_multisig s))))))"

definition execute_proposal :: "'w host \<Rightarrow> u64 \<Rightarrow> 'w env \<Rightarrow> (unit, 'w) call" where
  "execute_proposal h n s =
     unwrap (get_governance s) (\<lambda>config.
     ok_or (get_proposal_entry s n) ProposalNotFound s (\<lambda>p.
       if executed p then Err ProposalAlreadyExecuted s
       else if ledger_sequence h > expires_at p then Err ProposalExpired s
       else if length (approvals p) < threshold config then Err ThresholdNotMet s
       else andThen (dispatch_action h (action p) (save_proposal h (p\<lparr>executed := True\<rparr>) s))
              (\<lambda>_ s. Ok () (extend_instance_ttl h (proposal_executed n s)))))"

definition new_proposal ::
  "'w host \<Rightarrow> governance_config \<Rightarrow> u64 \<Rightarrow> address \<Rightarrow> proposal_action \<Rightarrow> proposal" where
  "new_proposal h config n signer act =
     \<lparr>proposal_id = n, action = act, proposer = signer, approvals = [signer],
      created_at = ledger_sequence h,
      expires_at = saturating_add_u64 (ledger_sequence h) (proposal_ttl config),
      executed = False\<rparr>"

definition propose ::
  "'w host \<Rightarrow> address \<Rightarrow> proposal_action \<Rightarrow> 'w env \<Rightarrow> (u64, 'w) call" where
  "propose h signer act s =
     andThen (require_auth h signer s) (\<lambda>_ s.
     unwrap (get_governance s) (\<lambda>config.
       if \<not> is_signer config signer then Err Unauthorized s
       else andThen (next_proposal_id s) (\<lambda>n s.
         let s1 = proposal_created n signer act
                    (save_proposal h (new_proposal h config n signer act) s)
         in andThen (if threshold config = 1 then execute_proposal h n s1 else Ok () s1)
              (\<lambda>_ s. Ok n (extend_instance_ttl h s)))))"

definition approve :: "'w host \<Rightarrow> address \<Rightarrow> u64 \<Rightarrow> 'w env \<Rightarrow> (unit, 'w) call" where
  "approve h signer n s =
     andThen (require_auth h signer s) (\<lambda>_ s.
     unwrap (get_governance s) (\<lambda>config.
       if \<not> is_signer config signer then Err Unauthorized s
       else ok_or (get_proposal_entry s n) ProposalNotFound s (\<lambda>p.
         if executed p then Err ProposalAlreadyExecuted s
         else if ledger_sequence h > expires_at p then Err ProposalExpired s
         else if has_approved p signer then Err AlreadyApproved s
         else let p1 = p\<lparr>approvals := approvals p @ [signer]\<rparr>;
                  approval_count = length (approvals p1);
                  s1 = proposal_approved n signer approval_count (save_proposal h p1 s)
         in andThen (if approval_count \<ge> threshold config then execute_proposal h n s1
                     else Ok () s1)
              (\<lambda>_ s. Ok () (extend_instance_ttl h s)))))"

definition cancel :: "'w host \<Rightarrow> address \<Rightarrow> u64 \<Rightarrow> 'w env \<Rightarrow> (unit, 'w) call" where
  "cancel h signer n s =
     andThen (require_auth h signer s) (\<lambda>_ s.
     unwrap (get_governance s) (\<lambda>config.
     ok_or (get_proposal_entry s n) ProposalNotFound s (\<lambda>p.
       if executed p then Err ProposalAlreadyExecuted s
       else if proposer p \<noteq> signer \<and> \<not> is_signer config signer then Err Unauthorized s
       else Ok () (extend_instance_ttl h
              (proposal_cancelled n signer (save_proposal h (p\<lparr>executed := True\<rparr>) s))))))"

definition guardian_pause :: "'w host \<Rightarrow> address \<Rightarrow> 'w env \<Rightarrow> (unit, 'w) call" where
  "guardian_pause h guardian s =
     andThen (require_auth h guardian s) (\<lambda>_ s.
     ok_or (get_guardian s) Unauthorized s (\<lambda>stored.
       if stored \<noteq> guardian then Err Unauthorized s
       else Ok () (extend_instance_ttl h (guardian_paused guardian (set_paused True s)))))"

definition get_governance_config :: "'w env \<Rightarrow> (governance_config, 'w) call" where
  "get_governance_config s =
     (if \<not> is_multisig s then Err NotMultiSig s
      else unwrap (get_governance s) (\<lambda>c. Ok c s))"

definition get_proposal :: "u64 \<Rightarrow> 'w env \<Rightarrow> (proposal, 'w) call" where
  "get_proposal n s = ok_or (get_proposal_entry s n) ProposalNotFound s (\<lambda>p. Ok p s)"

section \<open>Dispatch: what each action may change\<close>

text \<open>No action touches the proposals, the counter, the multi-sig flag or the guardian.\<close>

lemma dispatch_action_frame:
  assumes "dispatch_action h act s = Ok u t"
  shows "p_proposal (pers t) = p_proposal (pers s)"
    and "i_proposal_counter (inst t) = i_proposal_counter (inst s)"
    and "i_is_multisig (inst t) = i_is_multisig (inst s)"
    and "i_guardian (inst t) = i_guardian (inst s)"
    and "i_admin (inst t) = i_admin (inst s)"
  using assms
  by (cases act; force simp: dispatch_action_def storage_defs event_defs Let_def
        dest!: execute_wasm_upgrade_Ok(2) split: if_splits)+

text \<open>The governance configuration changes by the signer and threshold actions only.\<close>

lemma dispatch_action_governance:
  assumes "dispatch_action h act s = Ok u t"
  shows "(i_governance (inst t) = i_governance (inst s)) \<or>
    (\<exists>c. i_governance (inst s) = Some c \<and>
      ((\<exists>a. act = AddSigner a \<and> length (signers c) < MAX_SIGNERS \<and>
            i_governance (inst t) = Some (c\<lparr>signers := signers c @ [a]\<rparr>)) \<or>
       (\<exists>a. act = RemoveSigner a \<and> threshold c < length (signers c) \<and>
            i_governance (inst t) = Some (c\<lparr>signers := filter (\<lambda>b. b \<noteq> a) (signers c)\<rparr>)) \<or>
       (\<exists>n. act = ChangeThreshold n \<and> 0 < n \<and> n \<le> length (signers c) \<and>
            i_governance (inst t) = Some (c\<lparr>threshold := n\<rparr>))))"
  using assms
  by (cases act; force simp: dispatch_action_def storage_defs event_defs Let_def
        dest!: execute_wasm_upgrade_Ok(2) split: if_splits)

section \<open>Shapes of successful calls\<close>

lemma save_proposal_simps [simp]:
  "inst (save_proposal h p s) = inst s"
  "pers (save_proposal h p s) =
     (pers s)\<lparr>p_proposal := (p_proposal (pers s))(proposal_id p \<mapsto> p)\<rparr>"
  "temp (save_proposal h p s) = temp s"
  "world (save_proposal h p s) = world s"
  "events (save_proposal h p s) = events s"
  by (simp_all add: save_proposal_def)

lemma execute_proposal_Ok:
  assumes "execute_proposal h n s = Ok u t"
  shows "\<exists>c p t0. get_governance s = Some c \<and> get_proposal_entry s n = Some p \<and>
    \<not> executed p \<and> ledger_sequence h \<le> expires_at p \<and> threshold c \<le> length (approvals p) \<and>
    dispatch_action h (action p) (save_proposal h (p\<lparr>executed := True\<rparr>) s) = Ok () t0 \<and>
    t = extend_instance_ttl h (proposal_executed n t0)"
  using assms by (auto simp: execute_proposal_def split: if_splits)

lemma next_proposal_id_Ok:
  assumes "next_proposal_id s = Ok n t"
  shows "n = unwrap_or (i_proposal_counter (inst s)) 0 + 1"
    and "t = set_inst (\<lambda>i. i\<lparr>i_proposal_counter := Some n\<rparr>) s"
  using assms by (auto simp: next_proposal_id_def checked_add_u64_def split: if_splits)

lemma propose_Ok:
  assumes "propose h a act s = Ok n t"
  obtains c s1 t0 where "authorized h a" "get_governance s = Some c" "a \<in> set (signers c)"
    and "n = unwrap_or (i_proposal_counter (inst s)) 0 + 1"
    and "s1 = proposal_created n a act (save_proposal h (new_proposal h c n a act)
               (set_inst (\<lambda>i. i\<lparr>i_proposal_counter := Some n\<rparr>) s))"
    and "(if threshold c = 1 then execute_proposal h n s1 else Ok () s1) = Ok () t0"
    and "t = extend_instance_ttl h t0"
proof -
  from assms obtain c where c: "authorized h a" "get_governance s = Some c" "is_signer c a"
    and body: "andThen (next_proposal_id s) (\<lambda>n s.
         let s1 = proposal_created n a act (save_proposal h (new_proposal h c n a act) s)
         in andThen (if threshold c = 1 then execute_proposal h n s1 else Ok () s1)
              (\<lambda>_ s. Ok n (extend_instance_ttl h s))) = Ok n t"
    by (auto simp: propose_def split: if_split_asm)
  from body obtain s0 where nid: "next_proposal_id s = Ok n s0"
    and rest: "\<exists>t0. (let s1 = proposal_created n a act (save_proposal h (new_proposal h c n a act) s0)
         in if threshold c = 1 then execute_proposal h n s1 else Ok () s1) = Ok () t0 \<and>
         t = extend_instance_ttl h t0"
    by (auto simp: Let_def)
  note id = next_proposal_id_Ok [OF nid]
  from rest obtain t0 where
    "(if threshold c = 1
      then execute_proposal h n (proposal_created n a act (save_proposal h (new_proposal h c n a act) s0))
      else Ok () (proposal_created n a act (save_proposal h (new_proposal h c n a act) s0))) = Ok () t0"
    and "t = extend_instance_ttl h t0"
    unfolding Let_def by blast
  moreover have "a \<in> set (signers c)"
    using c(3) by (simp add: is_signer_def)
  ultimately show ?thesis
    using that [OF c(1,2) _ id(1)] unfolding id(2) by blast
qed

lemma approve_Ok:
  assumes "approve h a n s = Ok u t"
  obtains c p s1 t0 where "authorized h a" "get_governance s = Some c" "a \<in> set (signers c)"
    and "get_proposal_entry s n = Some p" "\<not> executed p" "ledger_sequence h \<le> expires_at p"
    and "a \<notin> set (approvals p)"
    and "s1 = proposal_approved n a (length (approvals p) + 1)
               (save_proposal h (p\<lparr>approvals := approvals p @ [a]\<rparr>) s)"
    and "(if threshold c \<le> length (approvals p) + 1 then execute_proposal h n s1 else Ok () s1)
           = Ok () t0"
    and "t = extend_instance_ttl h t0"
  using assms
  by (auto simp: approve_def is_signer_def has_approved_def Let_def split: if_splits)

lemma cancel_Ok:
  assumes "cancel h a n s = Ok u t"
  shows "authorized h a"
    and "\<exists>c p. get_governance s = Some c \<and> get_proposal_entry s n = Some p \<and> \<not> executed p \<and>
      (proposer p = a \<or> a \<in> set (signers c)) \<and>
      t = extend_instance_ttl h
            (proposal_cancelled n a (save_proposal h (p\<lparr>executed := True\<rparr>) s))"
  using assms by (auto simp: cancel_def is_signer_def split: if_splits)

lemma init_governance_Ok:
  assumes "init_governance h sigs thr ttl g s = Ok u t"
  shows "distinct sigs" "0 < thr" "thr \<le> length sigs" "length sigs \<le> MAX_SIGNERS" "0 < ttl"
    and "current_contract_address h \<notin> set sigs"
    and "inst t = (inst s)\<lparr>i_governance := Some \<lparr>signers = sigs, threshold = thr, proposal_ttl = ttl\<rparr>,
           i_guardian := (case g of None \<Rightarrow> i_guardian (inst s) | Some a \<Rightarrow> Some a)\<rparr>"
    and "pers t = pers s" "temp t = temp s" "world t = world s"
  using assms
  by (auto simp: init_governance_def storage_defs event_defs Let_def split: if_splits option.splits)

lemma migrate_to_multisig_Ok:
  assumes "migrate_to_multisig h a sigs thr ttl g s = Ok u t"
  shows "authorized h a" "get_admin s = Some a" "\<not> is_multisig s"
    and "\<exists>t0. init_governance h sigs thr ttl g s = Ok () t0 \<and>
      t = extend_instance_ttl h (governance_migrated a (length sigs) thr (set_multisig t0))"
  using assms by (auto simp: migrate_to_multisig_def split: if_splits)

lemma guardian_pause_Ok:
  assumes "guardian_pause h g s = Ok u t"
  shows "authorized h g" "get_guardian s = Some g"
    and "inst t = (inst s)\<lparr>i_paused := Some True\<rparr>" "pers t = pers s" "temp t = temp s"
    and "world t = world s"
  using assms by (auto simp: guardian_pause_def storage_defs event_defs split: if_splits)

section \<open>The governance invariant\<close>

definition proposal_wf :: "u64 \<Rightarrow> u64 \<Rightarrow> proposal \<Rightarrow> bool" where
  "proposal_wf counter n p \<longleftrightarrow>
     proposal_id p = n \<and> 0 < n \<and> n \<le> counter \<and>
     distinct (approvals p) \<and> approvals p \<noteq> [] \<and> hd (approvals p) = proposer p"

definition config_wf :: "governance_config \<Rightarrow> bool" where
  "config_wf c \<longleftrightarrow> 0 < threshold c \<and> length (signers c) \<le> MAX_SIGNERS \<and> 0 < proposal_ttl c"

definition governance_inv :: "'w env \<Rightarrow> bool" where
  "governance_inv s \<longleftrightarrow>
     (is_multisig s \<longleftrightarrow> get_governance s \<noteq> None) \<and>
     (\<forall>c. get_governance s = Some c \<longrightarrow> config_wf c) \<and>
     (\<forall>n p. get_proposal_entry s n = Some p \<longrightarrow>
        proposal_wf (unwrap_or (i_proposal_counter (inst s)) 0) n p)"

lemma governance_inv_frame:
  assumes "governance_inv s"
    and "i_is_multisig (inst t) = i_is_multisig (inst s)"
    and "i_governance (inst t) = i_governance (inst s)"
    and "i_proposal_counter (inst t) = i_proposal_counter (inst s)"
    and "p_proposal (pers t) = p_proposal (pers s)"
  shows "governance_inv t"
  using assms by (simp add: governance_inv_def storage_defs)

lemma governance_inv_save:
  assumes "governance_inv s"
    and "proposal_wf (unwrap_or (i_proposal_counter (inst s)) 0) (proposal_id p) p"
  shows "governance_inv (save_proposal h p s)"
  using assms by (auto simp: governance_inv_def get_proposal_entry_def is_multisig_def
      get_governance_def split: if_splits)

lemma dispatch_action_governance_inv:
  assumes inv: "governance_inv s" and disp: "dispatch_action h act s = Ok u t"
  shows "governance_inv t"
proof -
  note frame = dispatch_action_frame [OF disp]
  have "config_wf c'" if c': "i_governance (inst t) = Some c'" for c'
  proof (cases "i_governance (inst t) = i_governance (inst s)")
    case True
    then show ?thesis using inv c' by (simp add: governance_inv_def get_governance_def)
  next
    case False
    then obtain c where c: "i_governance (inst s) = Some c"
      and cases: "(\<exists>a. length (signers c) < MAX_SIGNERS \<and> c' = c\<lparr>signers := signers c @ [a]\<rparr>) \<or>
        (\<exists>a. c' = c\<lparr>signers := filter (\<lambda>b. b \<noteq> a) (signers c)\<rparr>) \<or>
        (\<exists>n. 0 < n \<and> c' = c\<lparr>threshold := n\<rparr>)"
      using dispatch_action_governance [OF disp] c' by auto
    have "config_wf c"
      using inv c by (simp add: governance_inv_def get_governance_def)
    with cases show ?thesis
      by (auto simp: config_wf_def intro: order_trans [OF length_filter_le])
  qed
  moreover have "i_governance (inst t) = None \<longleftrightarrow> i_governance (inst s) = None"
    using dispatch_action_governance [OF disp] by auto
  ultimately show ?thesis
    using inv by (auto simp: governance_inv_def storage_defs frame)
qed

lemma execute_proposal_inv:
  assumes inv: "governance_inv s" and exe: "execute_proposal h n s = Ok u t"
  shows "governance_inv t"
proof -
  obtain p t0 where p: "get_proposal_entry s n = Some p"
    and d: "dispatch_action h (action p) (save_proposal h (p\<lparr>executed := True\<rparr>) s) = Ok () t0"
    and t: "t = extend_instance_ttl h (proposal_executed n t0)"
    using execute_proposal_Ok [OF exe] by blast
  have "governance_inv (save_proposal h (p\<lparr>executed := True\<rparr>) s)"
    using inv p by (intro governance_inv_save) (auto simp: governance_inv_def proposal_wf_def)
  from dispatch_action_governance_inv [OF this d] show ?thesis
    by (rule governance_inv_frame) (simp_all add: t event_defs)
qed

lemma propose_inv:
  assumes inv: "governance_inv s" and prp: "propose h a act s = Ok n t"
  shows "governance_inv t"
proof -
  obtain c s1 t0 where "authorized h a" "get_governance s = Some c" "a \<in> set (signers c)"
    and n: "n = unwrap_or (i_proposal_counter (inst s)) 0 + 1"
    and s1: "s1 = proposal_created n a act (save_proposal h (new_proposal h c n a act)
               (set_inst (\<lambda>i. i\<lparr>i_proposal_counter := Some n\<rparr>) s))"
    and step: "(if threshold c = 1 then execute_proposal h n s1 else Ok () s1) = Ok () t0"
    and t: "t = extend_instance_ttl h t0"
    using prp by (rule propose_Ok)
  let ?s0 = "set_inst (\<lambda>i. i\<lparr>i_proposal_counter := Some n\<rparr>) s"
  have "proposal_wf n m q" if "get_proposal_entry s m = Some q" for m q
    using inv n that unfolding governance_inv_def proposal_wf_def by fastforce
  then have "governance_inv ?s0"
    using inv by (auto simp: governance_inv_def storage_defs)
  then have "governance_inv (save_proposal h (new_proposal h c n a act) ?s0)"
    by (rule governance_inv_save) (simp add: proposal_wf_def n new_proposal_def)
  then have "governance_inv s1"
    by (rule governance_inv_frame) (simp_all add: event_defs s1)
  then have "governance_inv t0"
    using step by (auto intro: execute_proposal_inv split: if_splits)
  then show ?thesis
    by (rule governance_inv_frame) (simp_all add: t)
qed

lemma approve_inv:
  assumes inv: "governance_inv s" and app: "approve h a n s = Ok u t"
  shows "governance_inv t"
proof -
  obtain c p s1 t0 where "authorized h a" "get_governance s = Some c" "a \<in> set (signers c)"
    and p: "get_proposal_entry s n = Some p" and "\<not> executed p" "ledger_sequence h \<le> expires_at p"
    and fresh: "a \<notin> set (approvals p)"
    and s1: "s1 = proposal_approved n a (length (approvals p) + 1)
               (save_proposal h (p\<lparr>approvals := approvals p @ [a]\<rparr>) s)"
    and step: "(if threshold c \<le> length (approvals p) + 1 then execute_proposal h n s1
                else Ok () s1) = Ok () t0"
    and t: "t = extend_instance_ttl h t0"
    using app by (rule approve_Ok)
  have "governance_inv (save_proposal h (p\<lparr>approvals := approvals p @ [a]\<rparr>) s)"
    using inv p fresh by (intro governance_inv_save) (auto simp: governance_inv_def proposal_wf_def)
  then have "governance_inv s1"
    by (rule governance_inv_frame) (simp_all add: event_defs s1)
  then have "governance_inv t0"
    using step by (auto intro: execute_proposal_inv split: if_splits)
  then show ?thesis
    by (rule governance_inv_frame) (simp_all add: t)
qed

lemma cancel_inv:
  assumes inv: "governance_inv s" and can: "cancel h a n s = Ok u t"
  shows "governance_inv t"
proof -
  obtain p where p: "get_proposal_entry s n = Some p"
    and t: "t = extend_instance_ttl h
              (proposal_cancelled n a (save_proposal h (p\<lparr>executed := True\<rparr>) s))"
    using cancel_Ok(2) [OF can] by blast
  have "governance_inv (save_proposal h (p\<lparr>executed := True\<rparr>) s)"
    using inv p by (intro governance_inv_save) (auto simp: governance_inv_def proposal_wf_def)
  then show ?thesis
    by (rule governance_inv_frame) (simp_all add: t event_defs)
qed

lemma migrate_to_multisig_inv:
  assumes inv: "governance_inv s" and mig: "migrate_to_multisig h a sigs thr ttl g s = Ok u t"
  shows "governance_inv t"
proof -
  obtain t0 where i: "init_governance h sigs thr ttl g s = Ok () t0"
    and t: "t = extend_instance_ttl h (governance_migrated a (length sigs) thr (set_multisig t0))"
    using migrate_to_multisig_Ok(4) [OF mig] by blast
  note shape = init_governance_Ok [OF i]
  show ?thesis
    using inv shape(2,4,5)
    by (auto simp: t governance_inv_def storage_defs event_defs shape(7,8) config_wf_def)
qed

end
