(* ===== verification/Contract_Adapters.thy ===== *)
theory Contract_Adapters
  imports Contract_Governance
begin

text \<open>
  The pool interface: the router's fallible calls to a pool
  (\<open>crates/contracts/src/adapters.rs\<close>) and the constant-product adapter
  (\<open>constant_product_adapter.rs\<close>) with its fee-adjusted quote. The locale
  \<open>amm_quote\<close> is what a trader and a liquidity provider rely on of such a quote.
\<close>

section \<open>Calls to a pool\<close>

definition AmmAdapter_quote ::
  "'w host \<Rightarrow> address \<Rightarrow> asset \<Rightarrow> asset \<Rightarrow> i128 \<Rightarrow> 'w env \<Rightarrow> (i128, 'w) call" where
  "AmmAdapter_quote h p input output amt s =
     (case pool_quote h (world s) p input output amt of
        Some (val, w) \<Rightarrow> Ok val (s\<lparr>world := w\<rparr>)
      | None \<Rightarrow> Err AmmQuoteCallFailed s)"

definition AmmAdapter_swap ::
  "'w host \<Rightarrow> address \<Rightarrow> asset \<Rightarrow> asset \<Rightarrow> i128 \<Rightarrow> i128 \<Rightarrow> 'w env \<Rightarrow> (i128, 'w) call" where
  "AmmAdapter_swap h p input output amt min_out s =
     (case pool_swap h (world s) p input output amt min_out of
        Some (val, w) \<Rightarrow> Ok val (s\<lparr>world := w\<rparr>)
      | None \<Rightarrow> Err AmmSwapCallFailed s)"

definition AmmAdapter_get_reserves ::
  "'w host \<Rightarrow> address \<Rightarrow> 'w env \<Rightarrow> (i128 \<times> i128, 'w) call" where
  "AmmAdapter_get_reserves h p s =
     (case pool_reserves h (world s) p of
        Some (val, w) \<Rightarrow> Ok val (s\<lparr>world := w\<rparr>)
      | None \<Rightarrow> Err AmmReservesCallFailed s)"

lemma AmmAdapter_Ok:
  "AmmAdapter_quote h p x y amt s = Ok v t \<longleftrightarrow>
     (\<exists>w. pool_quote h (world s) p x y amt = Some (v, w) \<and> t = s\<lparr>world := w\<rparr>)"
  "AmmAdapter_swap h p x y amt m s = Ok v t \<longleftrightarrow>
     (\<exists>w. pool_swap h (world s) p x y amt m = Some (v, w) \<and> t = s\<lparr>world := w\<rparr>)"
  "AmmAdapter_get_reserves h p s = Ok r t \<longleftrightarrow>
     (\<exists>w. pool_reserves h (world s) p = Some (r, w) \<and> t = s\<lparr>world := w\<rparr>)"
  by (auto simp: AmmAdapter_quote_def AmmAdapter_swap_def AmmAdapter_get_reserves_def
      split: option.splits)

section \<open>The constant-product adapter\<close>

text \<open>
  The arithmetic of \<open>adapter_quote\<close> on the pool's reserves; \<open>None\<close> is one of its
  panics (overflow of a product, or an empty pool quoted for a zero amount).
\<close>

definition cp_amount_out :: "i128 \<Rightarrow> i128 \<Rightarrow> i128 \<Rightarrow> i128 option" where
  "cp_amount_out res_in res_out amt =
     (case checked_mul amt 997 of None \<Rightarrow> None | Some amount_with_fee \<Rightarrow>
      case checked_mul amount_with_fee res_out of None \<Rightarrow> None | Some numerator \<Rightarrow>
      case checked_mul res_in 1000 of None \<Rightarrow> None | Some v \<Rightarrow>
      case checked_add v amount_with_fee of None \<Rightarrow> None | Some denominator \<Rightarrow>
      if denominator = 0 then None else checked_div numerator denominator)"

text \<open>
  The adapter contract keeps the address of its pool in its own instance storage
  (\<open>POOL\<close>); \<open>None\<close> is a trap of the adapter or of the pool it calls.
\<close>

definition cp_get_rsrvs ::
  "'w host \<Rightarrow> address option \<Rightarrow> 'w \<Rightarrow> ((i128 \<times> i128) \<times> 'w) option" where
  "cp_get_rsrvs h POOL w = (case POOL of None \<Rightarrow> None | Some p \<Rightarrow> pool_reserves h w p)"

definition cp_swap ::
  "'w host \<Rightarrow> address option \<Rightarrow> asset \<Rightarrow> asset \<Rightarrow> i128 \<Rightarrow> i128 \<Rightarrow> 'w \<Rightarrow> (i128 \<times> 'w) option" where
  "cp_swap h POOL input output amt min_out w =
     (case POOL of None \<Rightarrow> None | Some p \<Rightarrow> pool_swap h w p input output amt min_out)"

definition cp_adapter_quote ::
  "'w host \<Rightarrow> address option \<Rightarrow> asset \<Rightarrow> asset \<Rightarrow> i128 \<Rightarrow> 'w \<Rightarrow> (i128 \<times> 'w) option" where
  "cp_adapter_quote h POOL input output amt w =
     (case cp_get_rsrvs h POOL w of
        None \<Rightarrow> None
      | Some ((res_in, res_out), w1) \<Rightarrow>
          (case cp_amount_out res_in res_out amt of None \<Rightarrow> None | Some q \<Rightarrow> Some (q, w1)))"

section \<open>What a pool quote promises\<close>

text \<open>
  Trades against a pool at its quoted output: the input is added to one reserve, the
  output taken from the other.
\<close>

fun trade_run ::
  "(int \<Rightarrow> int \<Rightarrow> int \<Rightarrow> int option) \<Rightarrow> int \<times> int \<Rightarrow> int list \<Rightarrow> (int \<times> int) option" where
  "trade_run quote (x, y) [] = Some (x, y)"
| "trade_run quote (x, y) (dx # rest) =
     (case quote x y dx of None \<Rightarrow> None | Some dy \<Rightarrow> trade_run quote (x + dx, y - dy) rest)"

locale amm_quote =
  fixes quote :: "int \<Rightarrow> int \<Rightarrow> int \<Rightarrow> int option"
  assumes quote_bounds: "0 < x \<Longrightarrow> 0 < y \<Longrightarrow> 0 \<le> dx \<Longrightarrow> quote x y dx = Some dy \<Longrightarrow> 0 \<le> dy \<and> dy < y"
    and quote_product: "0 < x \<Longrightarrow> 0 < y \<Longrightarrow> 0 \<le> dx \<Longrightarrow> quote x y dx = Some dy \<Longrightarrow>
          x * y \<le> (x + dx) * (y - dy)"
    and quote_mono: "0 < x \<Longrightarrow> 0 < y \<Longrightarrow> 0 \<le> dx \<Longrightarrow> dx \<le> dx' \<Longrightarrow>
          quote x y dx = Some dy \<Longrightarrow> quote x y dx' = Some dy' \<Longrightarrow> dy \<le> dy'"
begin

text \<open>No sequence of trades empties the pool or lowers the product of its reserves.\<close>

lemma trade_run_product:
  assumes "0 < x" "0 < y" "\<forall>dx \<in> set dxs. 0 \<le> dx" "trade_run quote (x, y) dxs = Some (x', y')"
  shows "0 < x' \<and> 0 < y' \<and> x * y \<le> x' * y'"
  using assms
proof (induction dxs arbitrary: x y)
  case Nil
  then show ?case by simp
next
  case (Cons dx dxs)
  then obtain dy where q: "quote x y dx = Some dy"
    and rest: "trade_run quote (x + dx, y - dy) dxs = Some (x', y')"
    by (auto split: option.splits)
  have "0 \<le> dx" using Cons.prems(3) by simp
  note b = quote_bounds [OF Cons.prems(1,2) this q] quote_product [OF Cons.prems(1,2) this q]
  have "0 < x' \<and> 0 < y' \<and> (x + dx) * (y - dy) \<le> x' * y'"
    using Cons.prems \<open>0 \<le> dx\<close> b by (intro Cons.IH [OF _ _ _ rest]) auto
  with b show ?case by linarith
qed

end

lemma cp_amount_out_Some:
  assumes "cp_amount_out x y dx = Some dy" "0 < x" "0 \<le> y" "0 \<le> dx"
  shows "dy = (dx * 997 * y) div (x * 1000 + dx * 997)" "0 < x * 1000 + dx * 997"
  using assms by (auto simp: cp_amount_out_def sdiv_nonneg split: option.splits if_splits)

text \<open>The quote is the largest output that pays for itself with the fee.\<close>

lemma cp_output_le:
  assumes "cp_amount_out x y dx = Some dy" "0 < x" "0 \<le> y" "0 \<le> dx"
  shows "dy * (x * 1000 + dx * 997) \<le> dx * 997 * y" "0 \<le> dy"
  using cp_amount_out_Some [OF assms] assms(3,4)
  by (auto simp: pos_imp_zdiv_nonneg_iff minus_mod_eq_div_mult [symmetric])

lemma cp_output_lt:
  assumes q: "cp_amount_out x y dx = Some dy" and pos: "0 < x" "0 < y" "0 \<le> dx"
  shows "dy < y"
proof (rule ccontr)
  assume "\<not> dy < y"
  then have "y * (x * 1000 + dx * 997) \<le> dy * (x * 1000 + dx * 997)"
    using pos by (intro mult_right_mono) auto
  also have "\<dots> \<le> dx * 997 * y"
    using cp_output_le(1) [OF q] pos by simp
  finally have "y * (x * 1000) \<le> 0" by (simp add: algebra_simps)
  with pos show False by (simp add: mult_le_0_iff)
qed

lemma cp_output_product:
  assumes q: "cp_amount_out x y dx = Some dy" and pos: "0 < x" "0 < y" "0 \<le> dx"
  shows "x * y \<le> (x + dx) * (y - dy)"
proof -
  have "dx * dy \<le> dx * y"
    using cp_output_lt [OF q pos] pos by (intro mult_left_mono) auto
  moreover have "dy * (x * 1000 + dx * 997) \<le> dx * 997 * y"
    using cp_output_le(1) [OF q] pos by simp
  ultimately have "1000 * (dy * x + dy * dx) \<le> 1000 * (dx * y)"
    by (simp add: algebra_simps)
  then show ?thesis by (simp add: algebra_simps)
qed

lemma cp_output_mono:
  assumes q: "cp_amount_out x y dx = Some dy" "cp_amount_out x y dx' = Some dy'"
    and pos: "0 < x" "0 < y" "0 \<le> dx" "dx \<le> dx'"
  shows "dy \<le> dy'"
proof -
  let ?d = "x * 1000 + dx * 997" and ?d' = "x * 1000 + dx' * 997"
  have d: "0 < ?d" "0 < ?d'" using pos by auto
  have "dy * ?d * ?d' \<le> dx * 997 * y * ?d'"
    using cp_output_le(1) [OF q(1)] pos d by (intro mult_right_mono) auto
  also have "\<dots> \<le> dx' * 997 * y * ?d"
    using mult_left_mono [OF pos(4), of "997 * y * (x * 1000)"] pos by (simp add: algebra_simps)
  finally have "(dy * ?d') * ?d \<le> (dx' * 997 * y) * ?d" by (simp add: algebra_simps)
  then have "dy * ?d' \<le> dx' * 997 * y"
    using d(1) by (simp add: mult_le_cancel_right)
  then have "dy * ?d' div ?d' \<le> (dx' * 997 * y) div ?d'"
    using d(2) by (rule zdiv_mono1)
  then show ?thesis
    using cp_amount_out_Some(1) [OF q(2)] pos d(2) by simp
qed

interpretation cp: amm_quote cp_amount_out
  by unfold_locales
    (use cp_output_lt cp_output_le(2) cp_output_product cp_output_mono in \<open>force+\<close>)

end
