(* ===== verification/Contract_Fees.thy ===== *)
theory Contract_Fees
  imports Contract_Adapters
begin

text \<open>
  Fee configuration and distribution of the router (\<open>router.rs\<close>,
  \<open>set_fee_distribution_config\<close> to \<open>distribute_fees_internal\<close>). The loop that pays
  the recipients is related to \<open>payouts\<close>, the list of amounts it pays, whose sum is
  then computed exactly.
\<close>

section \<open>Configuration\<close>

text \<open>The running sum uses the plain operator \<open>+=\<close>.\<close>

fun plain_share_sum :: "bool \<Rightarrow> u32 \<Rightarrow> fee_recipient list \<Rightarrow> u32 option" where
  "plain_share_sum checks acc [] = Some acc"
| "plain_share_sum checks acc (r # rs) =
     (case plain_add_u32 checks acc (share_bps r) of
        None \<Rightarrow> None | Some n \<Rightarrow> plain_share_sum checks n rs)"

definition set_fee_distribution_config ::
  "'w host \<Rightarrow> fee_config \<Rightarrow> 'w env \<Rightarrow> (unit, 'w) call" where
  "set_fee_distribution_config h config s =
     (if is_multisig s then Err UseGovernance s
      else unwrap (get_admin s) (\<lambda>admin.
        andThen (require_auth h admin s) (\<lambda>_ s.
        unwrap (plain_share_sum (overflow_checks h) 0 (recipients config)) (\<lambda>total_bps.
          if total_bps \<noteq> 10000 \<or> length (recipients config) > 5 then Err InvalidFeeConfig s
          else Ok () (extend_instance_ttl h (set_fee_config config s))))))"

section \<open>Distribution\<close>

text \<open>The first recipient labelled \<open>treasury\<close>, if there is one.\<close>

fun find_treasury :: "nat \<Rightarrow> fee_recipient list \<Rightarrow> nat option" where
  "find_treasury i [] = None"
| "find_treasury i (r # rs) =
     (if label r = ''treasury'' then Some i else find_treasury (i + 1) rs)"

definition takes_dust :: "nat option \<Rightarrow> nat \<Rightarrow> nat \<Rightarrow> bool" where
  "takes_dust treasury num_recipients i =
     (case treasury of Some t \<Rightarrow> i = t | None \<Rightarrow> i = num_recipients - 1)"

definition share_amount :: "i128 \<Rightarrow> u32 \<Rightarrow> i128" where
  "share_amount bal bps =
     unwrap_or (checked_div (unwrap_or (checked_mul bal (int bps)) i128_max) 10000) 0"

definition pay_recipient ::
  "'w host \<Rightarrow> asset \<Rightarrow> fee_recipient \<Rightarrow> i128 \<Rightarrow> 'w env \<Rightarrow> (unit, 'w) call" where
  "pay_recipient h x r amount s =
     (let self = current_contract_address h in
      if label r = ''burn'' then
        andThen (case x of
            Soroban token \<Rightarrow>
              unwrap (token_burn h (world s) token self amount)
                (\<lambda>w. Ok () (fees_burned h x amount (s\<lparr>world := w\<rparr>)))
          | Issued issuer _ \<Rightarrow>
              andThen (transfer_asset h x self issuer amount s)
                (\<lambda>_ s. Ok () (fees_burned h x amount s))
          | Native \<Rightarrow> Ok () s)
          (\<lambda>_ s. Ok () (add_total_burned h x amount s))
      else transfer_asset h x self (recipient_address r) amount s)"

fun pay_recipients ::
  "'w host \<Rightarrow> asset \<Rightarrow> i128 \<Rightarrow> nat option \<Rightarrow> nat \<Rightarrow> nat \<Rightarrow> fee_recipient list \<Rightarrow> i128 \<Rightarrow>
   'w env \<Rightarrow> (unit, 'w) call" where
  "pay_recipients h x bal treasury n i [] remaining s = Ok () s"
| "pay_recipients h x bal treasury n i (r # rs) remaining s =
     (let amount = (if takes_dust treasury n i then remaining
                    else share_amount bal (share_bps r)) in
      if amount > 0 then
        andThen (pay_recipient h x r amount s) (\<lambda>_.
          pay_recipients h x bal treasury n (i + 1) rs
            (saturating_sub_i128 remaining amount))
      else pay_recipients h x bal treasury n (i + 1) rs remaining s)"

definition distribute_fees_internal ::
  "'w host \<Rightarrow> asset \<Rightarrow> fee_config \<Rightarrow> 'w env \<Rightarrow> (unit, 'w) call" where
  "distribute_fees_internal h x config s =
     (let total_balance = get_fee_balance s x; recs = recipients config in
      if total_balance = 0 then Ok () s
      else andThen (pay_recipients h x total_balance (find_treasury 0 recs) (length recs) 0 recs
                      total_balance (set_fee_balance h x 0 s))
             (\<lambda>_ s. Ok () (fees_distributed h x total_balance
                (push_distribution_history h x
                   \<lparr>timestamp = ledger_sequence h, total_distributed = total_balance\<rparr> s))))"

definition distribute_fees :: "'w host \<Rightarrow> asset \<Rightarrow> 'w env \<Rightarrow> (unit, 'w) call" where
  "distribute_fees h x s =
     ok_or (get_fee_config s) NotInitialized s (\<lambda>config.
       distribute_fees_internal h x config s)"

section \<open>The amounts paid\<close>

text \<open>
  \<open>payouts\<close> lists the amount the loop computes for each recipient, paid when it is
  positive; paying that list one by one is what the loop does.
\<close>

fun payouts :: "i128 \<Rightarrow> nat option \<Rightarrow> nat \<Rightarrow> nat \<Rightarrow> fee_recipient list \<Rightarrow> i128 \<Rightarrow> i128 list" where
  "payouts bal treasury n i [] remaining = []"
| "payouts bal treasury n i (r # rs) remaining =
     (let amount = (if takes_dust treasury n i then remaining
                    else share_amount bal (share_bps r)) in
      if amount > 0
      then amount # payouts bal treasury n (i + 1) rs (saturating_sub_i128 remaining amount)
      else 0 # payouts bal treasury n (i + 1) rs remaining)"

fun pay_all ::
  "'w host \<Rightarrow> asset \<Rightarrow> (fee_recipient \<times> i128) list \<Rightarrow> 'w env \<Rightarrow> (unit, 'w) call" where
  "pay_all h x [] s = Ok () s"
| "pay_all h x ((r, amount) # rest) s =
     (if amount > 0 then andThen (pay_recipient h x r amount s) (\<lambda>_. pay_all h x rest)
      else pay_all h x rest s)"

lemma length_payouts [simp]: "length (payouts bal tr n i rs remaining) = length rs"
  by (induction rs arbitrary: i remaining) (auto simp: Let_def)

lemma andThen_cong:
  "(\<And>x s. m = Ok x s \<Longrightarrow> f x s = g x s) \<Longrightarrow> andThen m f = andThen m g"
  by (cases m) auto

lemma pay_recipients_eq:
  "pay_recipients h x bal tr n i rs remaining s =
     pay_all h x (zip rs (payouts bal tr n i rs remaining)) s"
  by (induction rs arbitrary: i remaining s) (auto simp: Let_def intro: andThen_cong)

lemma find_treasury_bounds: "find_treasury i rs = Some t \<Longrightarrow> i \<le> t \<and> t < i + length rs"
  by (induction rs arbitrary: i) (auto split: if_splits, fastforce+)

text \<open>While no product overflows, a share is the rounded-down fraction of the balance.\<close>

lemma share_amount_eq:
  assumes "0 \<le> bal" "bal * 10000 \<le> i128_max" "bps \<le> 10000"
  shows "share_amount bal bps = bal * int bps div 10000"
proof -
  have "bal * int bps \<le> bal * 10000"
    using assms(1,3) by (intro mult_left_mono) auto
  moreover have "0 \<le> bal * int bps"
    using assms(1) by simp
  ultimately have "in_i128 (bal * int bps)"
    using assms(2) by (simp add: in_i128_def i128_min_def)
  moreover then have "in_i128 (bal * int bps div 10000)"
    using assms(1) by (intro in_i128_div) auto
  ultimately show ?thesis
    using assms(1) by (simp add: share_amount_def checked_mul_def checked_div_def checked_i128_def
        sdiv_nonneg)
qed

definition shares :: "i128 \<Rightarrow> fee_recipient list \<Rightarrow> i128" where
  "shares bal rs = sum_list (map (\<lambda>r. share_amount bal (share_bps r)) rs)"

lemma shares_simps [simp]:
  "shares bal [] = 0"
  "shares bal (r # rs) = share_amount bal (share_bps r) + shares bal rs"
  by (simp_all add: shares_def)

definition total_bps :: "fee_recipient list \<Rightarrow> nat" where
  "total_bps rs = sum_list (map share_bps rs)"

lemma total_bps_simps [simp]:
  "total_bps [] = 0"
  "total_bps (r # rs) = share_bps r + total_bps rs"
  by (simp_all add: total_bps_def)

lemma share_amount_nonneg:
  "0 \<le> bal \<Longrightarrow> bal * 10000 \<le> i128_max \<Longrightarrow> bps \<le> 10000 \<Longrightarrow> 0 \<le> share_amount bal bps"
  by (simp add: share_amount_eq pos_imp_zdiv_nonneg_iff)

lemma shares_le:
  assumes "0 \<le> bal" "bal * 10000 \<le> i128_max" "total_bps rs \<le> 10000"
  shows "shares bal rs * 10000 \<le> bal * int (total_bps rs)"
  using assms(3)
proof (induction rs)
  case Nil
  then show ?case by simp
next
  case (Cons r rs)
  have "share_amount bal (share_bps r) * 10000 \<le> bal * int (share_bps r)"
    using assms(1,2) Cons.prems by (simp add: share_amount_eq minus_mod_eq_div_mult [symmetric])
  then show ?case
    using Cons by (simp add: algebra_simps)
qed

lemma shares_nonneg:
  "0 \<le> bal \<Longrightarrow> bal * 10000 \<le> i128_max \<Longrightarrow> total_bps rs \<le> 10000 \<Longrightarrow> 0 \<le> shares bal rs"
  by (induction rs) (auto intro!: add_nonneg_nonneg share_amount_nonneg)

lemma total_bps_take: "total_bps (take k rs) \<le> total_bps rs"
  by (induction rs arbitrary: k) (auto simp: take_Cons split: nat.splits)

lemma shares_prefix_le:
  assumes "0 \<le> bal" "bal * 10000 \<le> i128_max" "total_bps rs \<le> 10000"
  shows "shares bal (take k rs) \<le> bal"
proof -
  have le: "total_bps (take k rs) \<le> 10000"
    using total_bps_take [of k rs] assms(3) by simp
  have "shares bal (take k rs) * 10000 \<le> bal * int (total_bps (take k rs))"
    using shares_le [OF assms(1,2) le] .
  also have "\<dots> \<le> bal * 10000"
    using assms(1) le by (intro mult_left_mono) auto
  finally show ?thesis by simp
qed

text \<open>The position that receives what is left.\<close>

definition dust_index :: "fee_recipient list \<Rightarrow> nat" where
  "dust_index rs = (case find_treasury 0 rs of Some t \<Rightarrow> t | None \<Rightarrow> length rs - 1)"

lemma dust_index_less: "rs \<noteq> [] \<Longrightarrow> dust_index rs < length rs"
  using find_treasury_bounds [of 0 rs] by (auto simp: dust_index_def split: option.splits)

lemma takes_dust_iff:
  "takes_dust (find_treasury 0 rs) (length rs) i \<longleftrightarrow> i = dust_index rs"
  by (auto simp: takes_dust_def dust_index_def split: option.splits)

text \<open>Behind the dust position every recipient is still paid its share.\<close>

lemma payouts_behind:
  assumes "0 \<le> bal" "bal * 10000 \<le> i128_max" "total_bps rs \<le> 10000"
    and "\<And>j. i \<le> j \<Longrightarrow> \<not> takes_dust tr n j"
  shows "sum_list (payouts bal tr n i rs remaining) = shares bal rs"
  using assms(3,4)
proof (induction rs arbitrary: i remaining)
  case Nil
  then show ?case by simp
next
  case (Cons r rs)
  have "0 \<le> share_amount bal (share_bps r)"
    using assms(1,2) Cons.prems(1) by (intro share_amount_nonneg) auto
  moreover have "sum_list (payouts bal tr n (Suc i) rs m) = shares bal rs" for m
    using Cons.prems by (intro Cons.IH) auto
  ultimately show ?case
    using Cons.prems(2) [of i] by (simp add: Let_def)
qed

lemma sum_payouts_from:
  assumes bal: "0 \<le> bal" "bal * 10000 \<le> i128_max"
    and "total_bps rs \<le> 10000" "k < length rs" "\<And>j. takes_dust tr n j \<longleftrightarrow> j = i + k"
    and "shares bal (take k rs) \<le> remaining" "remaining \<le> bal"
  shows "sum_list (payouts bal tr n i rs remaining) = remaining + shares bal (drop (Suc k) rs)"
  using assms(3-7)
proof (induction rs arbitrary: i k remaining)
  case Nil
  then show ?case by simp
next
  case (Cons r rs)
  have amount: "0 \<le> share_amount bal (share_bps r)"
    using bal Cons.prems(1) by (intro share_amount_nonneg) auto
  have "bal \<le> i128_max" using bal by linarith
  show ?case
  proof (cases k)
    case 0
    have "sum_list (payouts bal tr n (Suc i) rs m) = shares bal rs" for m
      using Cons.prems 0 by (intro payouts_behind [OF bal]) auto
    moreover have "0 \<le> remaining" using Cons.prems 0 by simp
    ultimately show ?thesis
      using Cons.prems(3) [of i] 0 by (simp add: Let_def)
  next
    case (Suc k')
    let ?a = "share_amount bal (share_bps r)"
    have IH: "sum_list (payouts bal tr n (Suc i) rs m) = m + shares bal (drop (Suc k') rs)"
      if "shares bal (take k' rs) \<le> m" "m \<le> bal" for m
      using Cons.prems Suc that by (intro Cons.IH) auto
    have take: "?a + shares bal (take k' rs) \<le> remaining"
      using Cons.prems(4) Suc by simp
    have "total_bps (take k' rs) \<le> 10000"
      using total_bps_take [of k' rs] Cons.prems(1) by simp
    then have "0 \<le> shares bal (take k' rs)"
      using shares_nonneg [OF bal] by simp
    then have sub: "saturating_sub_i128 remaining ?a = remaining - ?a"
      using take amount Cons.prems(5) \<open>bal \<le> i128_max\<close> bal(1)
      by (auto simp: saturating_sub_i128_def i128_min_def)
    show ?thesis
      using IH [of "remaining - ?a"] IH [of remaining] take amount sub Cons.prems(3) [of i]
        Cons.prems(5) Suc by (auto simp: Let_def)
  qed
qed

lemma sum_payouts:
  assumes "0 \<le> bal" "bal * 10000 \<le> i128_max" "total_bps rs \<le> 10000" "rs \<noteq> []"
  shows "sum_list (payouts bal (find_treasury 0 rs) (length rs) 0 rs bal) =
    bal + shares bal (drop (Suc (dust_index rs)) rs)"
  using assms shares_prefix_le [OF assms(1-3)] dust_index_less [OF assms(4)]
  by (intro sum_payouts_from) (auto simp: takes_dust_iff)

lemma payouts_nonneg: "\<forall>a \<in> set (payouts bal tr n i rs remaining). 0 \<le> a"
  by (induction rs arbitrary: i remaining) (auto simp: Let_def)

section \<open>The router's token balance\<close>

text \<open>
  What the SEP-41 token interface documents of a successful \<open>transfer\<close> and
  \<open>burn\<close>: the source account holds the amount and loses it.
\<close>

definition sep41_debits :: "'w host \<Rightarrow> ('w \<Rightarrow> address \<Rightarrow> address \<Rightarrow> int) \<Rightarrow> bool" where
  "sep41_debits h balance \<longleftrightarrow>
     (\<forall>w token from to amt w'. token_transfer h w token from to amt = Some w' \<and> from \<noteq> to \<longrightarrow>
        amt \<le> balance w token from \<and> balance w' token from = balance w token from - amt) \<and>
     (\<forall>w token from amt w'. token_burn h w token from amt = Some w' \<longrightarrow>
        amt \<le> balance w token from \<and> balance w' token from = balance w token from - amt)"

lemma sep41_transferD:
  "sep41_debits h balance \<Longrightarrow> token_transfer h w token from to amt = Some w' \<Longrightarrow> to \<noteq> from \<Longrightarrow>
   balance w' token from = balance w token from - amt"
  by (simp add: sep41_debits_def) metis

lemma sep41_burnD:
  "sep41_debits h balance \<Longrightarrow> token_burn h w token from amt = Some w' \<Longrightarrow>
   balance w' token from = balance w token from - amt"
  by (simp add: sep41_debits_def)

lemma world_storage_ops [simp]:
  "world (set_fee_balance h x n s) = world s"
  "world (add_total_burned h x n s) = world s"
  "world (push_distribution_history h x r s) = world s"
  "world (fees_burned h x n s) = world s"
  "world (fees_distributed h x n s) = world s"
  by (simp_all add: storage_defs event_defs Let_def)

lemma pay_recipient_debit:
  assumes "sep41_debits h balance" "pay_recipient h (Soroban token) r amt s = Ok u t"
    and "recipient_address r \<noteq> current_contract_address h"
  shows "balance (world t) token (current_contract_address h) =
    balance (world s) token (current_contract_address h) - amt"
  using assms
  by (auto simp: pay_recipient_def transfer_asset_def Let_def dest: sep41_transferD sep41_burnD
      split: if_splits)

lemma pay_all_debit:
  assumes "sep41_debits h balance" "pay_all h (Soroban token) pays s = Ok u t"
    and "\<forall>(r, amt) \<in> set pays. recipient_address r \<noteq> current_contract_address h \<and> 0 \<le> amt"
  shows "balance (world t) token (current_contract_address h) =
    balance (world s) token (current_contract_address h) - sum_list (map snd pays)"
  using assms(2,3)
proof (induction pays arbitrary: s)
  case Nil
  then show ?case by simp
next
  case (Cons q pays)
  obtain r amt where q: "q = (r, amt)" by (cases q)
  show ?case
  proof (cases "amt > 0")
    case True
    then obtain s1 where pay: "pay_recipient h (Soroban token) r amt s = Ok () s1"
      and rest: "pay_all h (Soroban token) pays s1 = Ok u t"
      using Cons.prems q by auto
    show ?thesis
      using Cons.IH [OF rest] Cons.prems(2) q pay_recipient_debit [OF assms(1) pay] by auto
  next
    case False
    then show ?thesis using Cons q by auto
  qed
qed

section \<open>What fee handling leaves alone\<close>

text \<open>
  The configuration of the contract: everything but the counters, balances and
  histories that swaps and distributions update.
\<close>

definition same_config :: "'w env \<Rightarrow> 'w env \<Rightarrow> bool" where
  "same_config s t \<longleftrightarrow>
     inst t = inst s \<and>
     p_supported_pool (pers t) = p_supported_pool (pers s) \<and>
     p_whitelisted (pers t) = p_whitelisted (pers s) \<and>
     p_proposal (pers t) = p_proposal (pers s) \<and>
     p_version_history (pers t) = p_version_history (pers s) \<and>
     p_migration_done (pers t) = p_migration_done (pers s) \<and>
     p_allowed_token (pers t) = p_allowed_token (pers s) \<and>
     p_cat_entry (pers t) = p_cat_entry (pers s) \<and>
     p_cat_len (pers t) = p_cat_len (pers s)"

lemma same_config_refl [simp]: "same_config s s"
  by (simp add: same_config_def)

lemma same_config_trans: "same_config s t \<Longrightarrow> same_config t r \<Longrightarrow> same_config s r"
  by (simp add: same_config_def)

text \<open>The swap counters are left alone as well.\<close>

definition same_accounts :: "'w env \<Rightarrow> 'w env \<Rightarrow> bool" where
  "same_accounts s t \<longleftrightarrow> same_config s t \<and>
     p_swap_nonce (pers t) = p_swap_nonce (pers s) \<and>
     p_total_swap_volume (pers t) = p_total_swap_volume (pers s)"

lemma same_accounts_refl [simp]: "same_accounts s s"
  by (simp add: same_accounts_def)

lemma same_accounts_trans: "same_accounts s t \<Longrightarrow> same_accounts t r \<Longrightarrow> same_accounts s r"
  by (auto simp: same_accounts_def intro: same_config_trans)

lemma same_accounts_config: "same_accounts s t \<Longrightarrow> same_config s t"
  by (simp add: same_accounts_def)

lemma transfer_asset_Ok:
  "transfer_asset h x a b amt s = Ok u t \<Longrightarrow> \<exists>w. t = s\<lparr>world := w\<rparr>"
  by (cases x) (auto simp: transfer_asset_def intro: exI [of _ "world s"])

lemma pay_recipient_accounts: "pay_recipient h x r amt s = Ok u t \<Longrightarrow> same_accounts s t"
  by (auto simp: pay_recipient_def same_accounts_def same_config_def storage_defs event_defs Let_def
      dest!: transfer_asset_Ok split: if_splits asset.splits)

lemma pay_all_accounts: "pay_all h x pays s = Ok u t \<Longrightarrow> same_accounts s t"
proof (induction pays arbitrary: s)
  case Nil
  then show ?case by simp
next
  case (Cons q pays)
  then show ?case
    by (cases q) (auto split: if_splits dest!: pay_recipient_accounts intro: same_accounts_trans)
qed

lemma distribute_fees_internal_accounts:
  assumes "distribute_fees_internal h x c s = Ok u t"
  shows "same_accounts s t"
proof (cases "get_fee_balance s x = 0")
  case True
  then show ?thesis using assms by (simp add: distribute_fees_internal_def)
next
  case False
  then obtain t0 pays where "pay_all h x pays (set_fee_balance h x 0 s) = Ok () t0"
    and "t = fees_distributed h x (get_fee_balance s x) (push_distribution_history h x
         \<lparr>timestamp = ledger_sequence h, total_distributed = get_fee_balance s x\<rparr> t0)"
    using assms by (auto simp: distribute_fees_internal_def pay_recipients_eq Let_def)
  then show ?thesis
    using pay_all_accounts by (fastforce simp: same_accounts_def same_config_def storage_defs event_defs Let_def)
qed

lemma distribute_fees_accounts: "distribute_fees h x s = Ok u t \<Longrightarrow> same_accounts s t"
  by (auto simp: distribute_fees_def dest: distribute_fees_internal_accounts)

lemma set_fee_distribution_config_Ok:
  assumes "set_fee_distribution_config h c s = Ok u t"
  shows "\<not> is_multisig s" "\<exists>admin. get_admin s = Some admin \<and> authorized h admin"
    and "plain_share_sum (overflow_checks h) 0 (recipients c) = Some 10000"
    and "length (recipients c) \<le> 5"
    and "inst t = (inst s)\<lparr>i_fee_config := Some c\<rparr>" "pers t = pers s" "temp t = temp s"
    and "world t = world s"
  using assms by (auto simp: set_fee_distribution_config_def storage_defs split: if_splits)

end
