(* ===== verification/Contract_Swap.thy ===== *)
theory Contract_Swap
  imports Contract_Fees
begin

text \<open>
  Quoting and executing swaps (\<open>router.rs\<close>): route validation, \<open>get_quote\<close>, the
  numbered steps of \<open>execute_swap_internal\<close> as one definition each, the per-account
  rate limit and the commit-reveal flow.
\<close>

definition MAX_HOPS :: u32 where
  "MAX_HOPS = 4"

definition BASE_CPU_PER_HOP :: u64 where
  "BASE_CPU_PER_HOP = 5000000"

definition CCI_OVERHEAD :: u64 where
  "CCI_OVERHEAD = 1000000"

section \<open>Route validation and quotes\<close>

definition require_not_paused :: "'w env \<Rightarrow> (unit, 'w) call" where
  "require_not_paused s = (if get_paused s then Err Paused s else Ok () s)"

definition estimate_resources :: "i128 \<Rightarrow> route \<Rightarrow> 'w env \<Rightarrow> (resource_estimate, 'w) call" where
  "estimate_resources amt r s =
     (if amt \<le> 0 \<or> hops r = [] then Err InvalidRoute s
      else let num_hops = length (hops r) in
      if num_hops > MAX_HOPS then Err InvalidRoute s
      else let cpu = saturating_add_u64 (saturating_mul_u64 BASE_CPU_PER_HOP num_hops)
                       (saturating_mul_u64 CCI_OVERHEAD num_hops)
      in Ok \<lparr>estimated_cpu = cpu,
             storage_reads = saturating_add_u32 (saturating_add_u32 1 num_hops) 1,
             storage_writes = 1, estimate_events = 1,
             will_succeed = cpu < 100000000\<rparr> s)"

text \<open>Hop-to-hop continuity: each hop starts from the asset the one before it delivers.\<close>

fun hops_continuous :: "route_hop list \<Rightarrow> bool" where
  "hops_continuous (a # b # rest) =
     (if destination a \<noteq> source b then False else hops_continuous (b # rest))"
| "hops_continuous _ = True"

definition validate_route_internal :: "'w host \<Rightarrow> route \<Rightarrow> 'w env \<Rightarrow> (unit, 'w) call" where
  "validate_route_internal h r s =
     (if hops r = [] then Err EmptyRoute s
      else if length (hops r) > MAX_HOPS then Err TooManyHops s
      else if route_expires_at r > 0 \<and> ledger_sequence h > route_expires_at r then Err RouteExpired s
      else if estimated_output r < 0 \<or> min_output r < 0 then Err InvalidAmount s
      else if estimated_output r > 0 \<and> min_output r > estimated_output r then Err InvalidRoute s
      else if \<not> hops_continuous (hops r) then Err InvalidRoute s
      else andThen (validate_route_assets r s) (\<lambda>_ s.
        if \<not> batch_check_pools s (map pool (hops r)) then Err PoolNotSupported s
        else Ok () s))"

text \<open>
  One iteration per hop; the impact counter grows by 5 per hop and a route has at most
  four hops, so it stays far below the width of \<open>u32\<close>.
\<close>

fun quote_hops ::
  "'w host \<Rightarrow> route_hop list \<Rightarrow> i128 \<Rightarrow> u32 \<Rightarrow> 'w env \<Rightarrow> (i128 \<times> u32, 'w) call" where
  "quote_hops h [] amt impact s = Ok (amt, impact) s"
| "quote_hops h (hop # rest) amt impact s =
     andThen (AmmAdapter_quote h (pool hop) (source hop) (destination hop) amt s) (\<lambda>out s.
       quote_hops h rest out (impact + 5) s)"

text \<open>The fee in basis points of the output, and what is left of it.\<close>

definition charge_fee :: "u32 \<Rightarrow> i128 \<Rightarrow> 'w env \<Rightarrow> (i128 \<times> i128, 'w) call" where
  "charge_fee fee_rate amt s =
     ok_or (checked_mul amt (int fee_rate)) Overflow s (\<lambda>product.
     ok_or (checked_div product 10000) Overflow s (\<lambda>fee_amount.
     ok_or (checked_sub amt fee_amount) Overflow s (\<lambda>final_output.
       Ok (fee_amount, final_output) s)))"

definition get_quote :: "'w host \<Rightarrow> i128 \<Rightarrow> route \<Rightarrow> 'w env \<Rightarrow> (quote_result, 'w) call" where
  "get_quote h amt r s =
     (if amt \<le> 0 then Err InsufficientInput s
      else andThen (validate_route_internal h r s) (\<lambda>_ s.
        andThen (quote_hops h (hops r) amt 0 s) (\<lambda>(current_amount, total_impact_bps) s.
        andThen (charge_fee (get_fee_rate s) current_amount s) (\<lambda>(fee_amount, final_output) s.
          Ok \<lparr>expected_output = final_output, price_impact_bps = total_impact_bps,
              quote_fee_amount = fee_amount, quote_route = r,
              valid_until = saturating_add_u64 (ledger_sequence h) 120\<rparr> s))))"

definition validate_route :: "'w host \<Rightarrow> route \<Rightarrow> 'w env \<Rightarrow> (unit, 'w) call" where
  "validate_route h r s = validate_route_internal h r s"

section \<open>The steps of a swap\<close>

fun check_pools :: "'w env \<Rightarrow> route_hop list \<Rightarrow> (unit, 'w) call" where
  "check_pools s [] = Ok () s"
| "check_pools s (hop # rest) =
     (if \<not> is_supported_pool s (pool hop) then Err PoolNotSupported s else check_pools s rest)"

text \<open>Argument checks, recipient authorization, deadlines and pool support (steps 1 to 3).\<close>

definition check_swap_params ::
  "'w host \<Rightarrow> address \<Rightarrow> swap_params \<Rightarrow> 'w env \<Rightarrow> (unit, 'w) call" where
  "check_swap_params h sender p s =
     (if amount_in p \<le> 0 then Err InvalidAmount s
      else if min_amount_out p < 0 \<or> min_output (params_route p) < 0 then Err InvalidAmount s
      else if max_price_impact_bps p > 10000 then Err InvalidAmount s
      else if max_execution_spread_bps p > 10000 then Err InvalidAmount s
      else if recipient p = current_contract_address h then Err InvalidRecipient s
      else andThen (if recipient p \<noteq> sender then require_auth h (recipient p) s else Ok () s)
        (\<lambda>_ s.
          if ledger_sequence h > deadline p then Err DeadlineExceeded s
          else if ledger_sequence h < not_before p then Err ExecutionTooEarly s
          else if hops (params_route p) = [] \<or> length (hops (params_route p)) > 4
            then Err InvalidRoute s
          else check_pools s (hops (params_route p))))"

text \<open>Step 4. The window is compared only when the account has swapped in it.\<close>

definition check_rate_limit :: "'w host \<Rightarrow> address \<Rightarrow> 'w env \<Rightarrow> (unit, 'w) call" where
  "check_rate_limit h sender s =
     (case get_mev_config s of
        None \<Rightarrow> Ok () s
      | Some cfg \<Rightarrow>
          if is_whitelisted s sender then Ok () s
          else
            let current_ledger = ledger_sequence h;
                window_start = get_account_swap_window_start h s sender;
                swap_count = get_account_swap_count h s sender;
                window = rate_limit_window_ledgers cfg;
                reset = Ok () (set_account_swap_count h sender 1 window
                          (set_account_swap_window_start h sender current_ledger window s))
            in if swap_count > 0 then
                 unwrap (plain_add_u32 (overflow_checks h) window_start window) (\<lambda>window_end.
                   if current_ledger < window_end then
                     (if swap_count \<ge> rate_limit_max_swaps cfg then
                        Err RateLimitExceeded (rate_limit_hit sender swap_count window s)
                      else unwrap (plain_add_u32 (overflow_checks h) swap_count 1) (\<lambda>n.
                        Ok () (set_account_swap_count h sender n window s)))
                   else reset)
               else reset)"

text \<open>Step 5. A pool whose reserves cannot be read is recorded as \<open>(0, 0)\<close>.\<close>

fun snapshot_reserves ::
  "'w host \<Rightarrow> route_hop list \<Rightarrow> 'w env \<Rightarrow> ((i128 \<times> i128) list, 'w) call" where
  "snapshot_reserves h [] s = Ok [] s"
| "snapshot_reserves h (hop # rest) s =
     (let (r, s1) = (case AmmAdapter_get_reserves h (pool hop) s of
                       Ok r s1 \<Rightarrow> (r, s1) | _ \<Rightarrow> ((0, 0), s))
      in andThen (snapshot_reserves h rest s1) (\<lambda>rs s. Ok (r # rs) s))"

text \<open>Step 7.\<close>

fun swap_hops ::
  "'w host \<Rightarrow> route_hop list \<Rightarrow> i128 \<Rightarrow> u32 \<Rightarrow> 'w env \<Rightarrow> (i128 \<times> u32, 'w) call" where
  "swap_hops h [] amt impact s = Ok (amt, impact) s"
| "swap_hops h (hop # rest) amt impact s =
     andThen (AmmAdapter_swap h (pool hop) (source hop) (destination hop) amt 0 s) (\<lambda>out s.
       swap_hops h rest out (impact + 5) s)"

text \<open>Step 9.\<close>

definition execution_spread :: "i128 \<Rightarrow> i128 \<Rightarrow> 'w env \<Rightarrow> (i128, 'w) call" where
  "execution_spread estimated final_output s =
     (if final_output < estimated then
        ok_or (checked_sub estimated final_output) Overflow s (\<lambda>diff.
        ok_or (checked_mul diff 10000) Overflow s (\<lambda>scaled.
        ok_or (checked_div scaled estimated) Overflow s (\<lambda>spread. Ok spread s)))
      else Ok 0 s)"

definition required_min_out :: "swap_params \<Rightarrow> i128" where
  "required_min_out p =
     (if min_output (params_route p) > min_amount_out p then min_output (params_route p)
      else min_amount_out p)"

definition slippage_guards ::
  "swap_params \<Rightarrow> u32 \<Rightarrow> i128 \<Rightarrow> 'w env \<Rightarrow> (unit, 'w) call" where
  "slippage_guards p total_impact_bps final_output s =
     (if max_price_impact_bps p > 0 \<and> total_impact_bps > max_price_impact_bps p
        then Err PriceImpactTooHigh s
      else andThen
        (if max_execution_spread_bps p > 0 \<and> estimated_output (params_route p) > 0 then
           andThen (execution_spread (estimated_output (params_route p)) final_output s)
             (\<lambda>spread s. if spread > int (max_execution_spread_bps p) then Err SpreadTooHigh s
                         else Ok () s)
         else Ok () s)
        (\<lambda>_ s. if final_output < required_min_out p then Err SlippageExceeded s else Ok () s))"

text \<open>Step 10. Both reserves of a pool moving the same way is taken as manipulation.\<close>

definition same_direction :: "i128 \<times> i128 \<Rightarrow> i128 \<times> i128 \<Rightarrow> bool" where
  "same_direction pre post =
     (let delta_0 = unwrap_or (checked_sub (fst post) (fst pre)) i128_min;
          delta_1 = unwrap_or (checked_sub (snd post) (snd pre)) i128_min
      in (delta_0 > 0 \<and> delta_1 > 0) \<or> (delta_0 < 0 \<and> delta_1 < 0))"

fun check_reserves ::
  "'w host \<Rightarrow> (route_hop \<times> (i128 \<times> i128)) list \<Rightarrow> 'w env \<Rightarrow> (unit, 'w) call" where
  "check_reserves h [] s = Ok () s"
| "check_reserves h ((hop, pre) # rest) s =
     (if fst pre = 0 \<and> snd pre = 0 then check_reserves h rest s
      else case AmmAdapter_get_reserves h (pool hop) s of
        Ok post s1 \<Rightarrow>
          (if same_direction pre post then Err ReserveManipulationDetected s1
           else check_reserves h rest s1)
      | _ \<Rightarrow> check_reserves h rest s)"

text \<open>Step 11.\<close>

definition note_high_impact :: "address \<Rightarrow> u32 \<Rightarrow> i128 \<Rightarrow> 'w env \<Rightarrow> 'w env" where
  "note_high_impact sender impact amt s =
     (case get_mev_config s of
        None \<Rightarrow> s
      | Some cfg \<Rightarrow>
          if impact > mev_max_price_impact_bps cfg then high_impact_swap sender impact amt s else s)"

text \<open>Collecting the fee, and distributing it when the configuration asks for it.\<close>

definition collect_fee :: "'w host \<Rightarrow> asset \<Rightarrow> i128 \<Rightarrow> 'w env \<Rightarrow> (unit, 'w) call" where
  "collect_fee h x fee_amount s =
     (if fee_amount > 0 then
        let s1 = fee_collected h x fee_amount (add_fee_balance h x fee_amount s)
        in case get_fee_config s1 of
             None \<Rightarrow> Ok () s1
           | Some config \<Rightarrow>
               if auto_distribute config \<and> get_fee_balance s1 x \<ge> min_distribution config
               then distribute_fees_internal h x config s1 else Ok () s1
      else Ok () s)"

definition check_ttl_health :: "'w host \<Rightarrow> 'w env \<Rightarrow> 'w env" where
  "check_ttl_health h s =
     (let last_extended = get_last_ttl_extension s in
      if last_extended = 0 then s
      else let elapsed = saturating_sub_u (ledger_sequence h) last_extended;
               pools_remaining = saturating_sub_u POOL_TTL_EXTEND_TO elapsed
           in if pools_remaining < POOL_TTL_THRESHOLD
              then ttl_warning pools_remaining POOL_TTL_THRESHOLD s else s)"

fun extend_pools :: "'w host \<Rightarrow> address list \<Rightarrow> 'w env \<Rightarrow> 'w env" where
  "extend_pools h [] s = s"
| "extend_pools h (p # ps) s = extend_pools h ps (extend_pool_ttl h p s)"

text \<open>Steps 12 on: pay the recipient, collect the fee, update the counters.\<close>

definition settle_swap ::
  "'w host \<Rightarrow> address \<Rightarrow> swap_params \<Rightarrow> i128 \<Rightarrow> i128 \<Rightarrow> 'w env \<Rightarrow> (swap_result, 'w) call" where
  "settle_swap h sender p fee_amount final_output s =
     (let hs = hops (params_route p); out_asset = destination (last hs) in
      andThen (transfer_asset h out_asset (current_contract_address h) (recipient p) final_output s)
        (\<lambda>_ s. andThen (collect_fee h out_asset fee_amount s)
        (\<lambda>_ s. andThen (increment_nonce h sender s)
        (\<lambda>_ s. Ok \<lparr>result_amount_in = amount_in p, result_amount_out = final_output,
                   result_route = params_route p, executed_at = ledger_sequence h\<rparr>
          (swap_executed h sender (amount_in p) final_output fee_amount (params_route p)
            (check_ttl_health h (extend_instance_ttl h
              (extend_pools h (map pool hs) (add_swap_volume h (amount_in p) s)))))))))"

definition execute_swap_internal ::
  "'w host \<Rightarrow> address \<Rightarrow> swap_params \<Rightarrow> 'w env \<Rightarrow> (swap_result, 'w) call" where
  "execute_swap_internal h sender p s =
     (let hs = hops (params_route p) in
      andThen (check_swap_params h sender p s) (\<lambda>_ s.
      andThen (check_rate_limit h sender s) (\<lambda>_ s.
      andThen (snapshot_reserves h hs s) (\<lambda>pre_reserves s.
      andThen (transfer_asset h (source (hd hs)) sender (pool (hd hs)) (amount_in p) s) (\<lambda>_ s.
      andThen (swap_hops h hs (amount_in p) 0 s) (\<lambda>(swapped, total_impact_bps) s.
      andThen (charge_fee (get_fee_rate s) swapped s) (\<lambda>(fee_amount, final_output) s.
      andThen (slippage_guards p total_impact_bps final_output s) (\<lambda>_ s.
      andThen (check_reserves h (zip hs pre_reserves) s) (\<lambda>_ s.
        settle_swap h sender p fee_amount final_output
          (note_high_impact sender total_impact_bps (amount_in p) s))))))))))"

section \<open>Entry points\<close>

definition execute_swap ::
  "'w host \<Rightarrow> address \<Rightarrow> swap_params \<Rightarrow> 'w env \<Rightarrow> (swap_result, 'w) call" where
  "execute_swap h sender p s =
     andThen (require_auth h sender s) (\<lambda>_ s.
     andThen (require_not_paused s) (\<lambda>_ s.
     andThen (validate_route_assets (params_route p) s) (\<lambda>_ s.
       case get_mev_config s of
         None \<Rightarrow> execute_swap_internal h sender p s
       | Some cfg \<Rightarrow>
           if amount_in p \<ge> commitment_required_above cfg then Err CommitmentRequired s
           else execute_swap_internal h sender p s)))"

definition execute ::
  "'w host \<Rightarrow> address \<Rightarrow> swap_params \<Rightarrow> 'w env \<Rightarrow> (swap_result, 'w) call" where
  "execute h sender p s =
     (case execute_swap h sender p
             (execution_requested h sender (amount_in p) (length (hops (params_route p)))
               (deadline p) s) of
        Err e s1 \<Rightarrow> Err e (execution_failed h sender (error_code e) s1)
      | other \<Rightarrow> other)"

definition commit_swap ::
  "'w host \<Rightarrow> address \<Rightarrow> bytes32 \<Rightarrow> i128 \<Rightarrow> 'w env \<Rightarrow> (unit, 'w) call" where
  "commit_swap h sender hash deposit s =
     andThen (require_auth h sender s) (\<lambda>_ s.
     andThen (require_not_paused s) (\<lambda>_ s.
       if deposit \<le> 0 then Err InvalidAmount s
       else if hash = zero_hash then Err InvalidAmount s
       else ok_or (get_mev_config s) NotInitialized s (\<lambda>cfg.
         unwrap (plain_add_u32 (overflow_checks h) (ledger_sequence h)
                   (rate_limit_window_ledgers cfg)) (\<lambda>exp.
           let commitment = \<lparr>commitment_sender = sender, deposit_amount = deposit,
                 commitment_hash = hash, commitment_created_at = ledger_sequence h,
                 commitment_expires_at = exp\<rparr>
           in Ok () (extend_instance_ttl h (commitment_created sender hash deposit
                (set_commitment h hash commitment (rate_limit_window_ledgers cfg) s)))))))"

text \<open>The bytes that are hashed: amounts, deadline and salt, and nothing of the route.\<close>

definition reveal_payload :: "swap_params \<Rightarrow> bytes32 \<Rightarrow> bytes" where
  "reveal_payload p salt =
     i128_to_be_bytes (amount_in p) @ i128_to_be_bytes (min_amount_out p) @
     u64_to_be_bytes (deadline p) @ salt"

definition reveal_and_execute ::
  "'w host \<Rightarrow> address \<Rightarrow> swap_params \<Rightarrow> bytes32 \<Rightarrow> 'w env \<Rightarrow> (swap_result, 'w) call" where
  "reveal_and_execute h sender p salt s =
     andThen (require_auth h sender s) (\<lambda>_ s.
     andThen (require_not_paused s) (\<lambda>_ s.
       let computed_hash = sha256 h (reveal_payload p salt) in
       ok_or (get_commitment h s computed_hash) CommitmentNotFound s (\<lambda>commitment.
         if commitment_sender commitment \<noteq> sender then Err InvalidReveal s
         else if ledger_sequence h > commitment_expires_at commitment then Err CommitmentExpired s
         else execute_swap_internal h sender p
                (commitment_revealed sender computed_hash (remove_commitment computed_hash s)))))"

section \<open>What a swap leaves alone\<close>

lemma AmmAdapter_accounts:
  "AmmAdapter_quote h p x y amt s = Ok v t \<Longrightarrow> same_accounts s t"
  "AmmAdapter_swap h p x y amt m s = Ok v t \<Longrightarrow> same_accounts s t"
  "AmmAdapter_get_reserves h p s = Ok r t \<Longrightarrow> same_accounts s t"
  by (auto simp: AmmAdapter_Ok same_accounts_def same_config_def)

lemma quote_hops_accounts: "quote_hops h hs amt i s = Ok v t \<Longrightarrow> same_accounts s t"
  by (induction hs arbitrary: amt i s) (auto dest!: AmmAdapter_accounts intro: same_accounts_trans)

lemma swap_hops_accounts: "swap_hops h hs amt i s = Ok v t \<Longrightarrow> same_accounts s t"
  by (induction hs arbitrary: amt i s) (auto dest!: AmmAdapter_accounts intro: same_accounts_trans)

lemma snapshot_reserves_accounts: "snapshot_reserves h hs s = Ok rs t \<Longrightarrow> same_accounts s t"
  by (induction hs arbitrary: s rs)
    (auto simp: Let_def split: outcome.splits prod.splits dest!: AmmAdapter_accounts
      intro: same_accounts_trans)

lemma check_reserves_accounts: "check_reserves h hs s = Ok u t \<Longrightarrow> same_accounts s t"
  by (induction h hs s rule: check_reserves.induct)
    (auto split: outcome.splits if_splits dest!: AmmAdapter_accounts intro: same_accounts_trans)

lemma check_pools_Ok [simp]:
  "check_pools s hs = Ok u t \<longleftrightarrow> t = s \<and> (\<forall>hop \<in> set hs. is_supported_pool s (pool hop))"
  by (induction hs) auto

lemma check_swap_params_Ok:
  assumes "check_swap_params h sender p s = Ok u t"
  shows "t = s" "0 < amount_in p" "0 \<le> min_amount_out p" "0 \<le> min_output (params_route p)"
    and "recipient p \<noteq> current_contract_address h"
    and "recipient p = sender \<or> authorized h (recipient p)"
    and "not_before p \<le> ledger_sequence h" "ledger_sequence h \<le> deadline p"
    and "hops (params_route p) \<noteq> []" "length (hops (params_route p)) \<le> 4"
    and "\<forall>hop \<in> set (hops (params_route p)). is_supported_pool s (pool hop)"
  using assms by (auto simp: check_swap_params_def split: if_splits)

lemma check_rate_limit_accounts: "check_rate_limit h a s = Ok u t \<Longrightarrow> same_accounts s t"
  by (auto simp: check_rate_limit_def same_accounts_def same_config_def storage_defs event_defs Let_def
      split: option.splits if_splits)

lemma charge_fee_Ok:
  assumes "charge_fee rate amt s = Ok (fee, out) t"
  shows "t = s" "fee = amt * int rate sdiv 10000" "out = amt - fee"
  using assms by (auto simp: charge_fee_def)

lemma execution_spread_Ok [simp]: "execution_spread e f s = Ok v t \<Longrightarrow> t = s"
  by (auto simp: execution_spread_def split: if_splits)

lemma slippage_guards_Ok:
  assumes "slippage_guards p impact out s = Ok u t"
  shows "t = s" "required_min_out p \<le> out"
    "max_price_impact_bps p = 0 \<or> impact \<le> max_price_impact_bps p"
  using assms by (auto simp: slippage_guards_def dest: execution_spread_Ok split: if_splits)

lemma note_high_impact_accounts [simp]: "same_accounts s (note_high_impact a i amt s)"
  by (auto simp: note_high_impact_def same_accounts_def same_config_def event_defs split: option.splits)

lemma collect_fee_accounts: "collect_fee h x fee s = Ok u t \<Longrightarrow> same_accounts s t"
proof -
  have step: "same_accounts s (fee_collected h x fee (add_fee_balance h x fee s))"
    by (simp add: same_accounts_def same_config_def storage_defs event_defs Let_def)
  assume "collect_fee h x fee s = Ok u t"
  then show ?thesis
    using step by (auto simp: collect_fee_def Let_def split: if_splits option.splits
        dest: distribute_fees_internal_accounts intro: same_accounts_trans)
qed

lemma extend_pools_simps [simp]:
  "inst (extend_pools h ps s) = inst s"
  "pers (extend_pools h ps s) = pers s"
  "temp (extend_pools h ps s) = temp s"
  "events (extend_pools h ps s) = events s"
  "world (extend_pools h ps s) = world s"
  by (induction ps arbitrary: s) auto

lemma check_ttl_health_simps [simp]:
  "inst (check_ttl_health h s) = inst s"
  "pers (check_ttl_health h s) = pers s"
  "temp (check_ttl_health h s) = temp s"
  "world (check_ttl_health h s) = world s"
  by (simp_all add: check_ttl_health_def Let_def event_defs)

lemma increment_nonce_Ok:
  assumes "increment_nonce h a s = Ok u t"
  shows "inst t = inst s" "temp t = temp s" "world t = world s"
    and "pers t = (pers s)\<lparr>p_swap_nonce := (p_swap_nonce (pers s))(a \<mapsto> get_nonce s a + 1)\<rparr>"
  using assms by (auto simp: increment_nonce_def)

section \<open>The shape of a successful swap\<close>

lemma settle_swap_Ok:
  assumes "settle_swap h a p fee out s = Ok r t"
  obtains s1 s2 s3 where
    "transfer_asset h (destination (last (hops (params_route p)))) (current_contract_address h)
       (recipient p) out s = Ok () s1"
    "collect_fee h (destination (last (hops (params_route p)))) fee s1 = Ok () s2"
    "increment_nonce h a s2 = Ok () s3"
    "r = \<lparr>result_amount_in = amount_in p, result_amount_out = out,
          result_route = params_route p, executed_at = ledger_sequence h\<rparr>"
    "t = swap_executed h a (amount_in p) out fee (params_route p)
       (check_ttl_health h (extend_instance_ttl h
         (extend_pools h (map pool (hops (params_route p))) (add_swap_volume h (amount_in p) s3))))"
  using assms by (auto simp: settle_swap_def Let_def)

lemma settle_swap_config: "settle_swap h a p fee out s = Ok r t \<Longrightarrow> same_config s t"
proof (erule settle_swap_Ok)
  fix s1 s2 s3
  assume tr: "transfer_asset h (destination (last (hops (params_route p))))
      (current_contract_address h) (recipient p) out s = Ok () s1"
    and fee: "collect_fee h (destination (last (hops (params_route p)))) fee s1 = Ok () s2"
    and nonce: "increment_nonce h a s2 = Ok () s3"
    and t: "t = swap_executed h a (amount_in p) out fee (params_route p)
       (check_ttl_health h (extend_instance_ttl h
         (extend_pools h (map pool (hops (params_route p))) (add_swap_volume h (amount_in p) s3))))"
  have "same_config s s1" using transfer_asset_Ok [OF tr] by (auto simp: same_config_def)
  moreover have "same_config s1 s2" using collect_fee_accounts [OF fee] by (rule same_accounts_config)
  moreover have "same_config s2 s3"
    using increment_nonce_Ok [OF nonce] by (simp add: same_config_def)
  moreover have "same_config s3 t"
    by (simp add: t same_config_def event_defs add_swap_volume_def)
  ultimately show "same_config s t" by (blast intro: same_config_trans)
qed

lemma execute_swap_internal_Ok:
  assumes "execute_swap_internal h a p s = Ok r t"
  obtains s1 pre s2 s3 swapped impact s4 fee out s5 where
    "check_swap_params h a p s = Ok () s"
    "check_rate_limit h a s = Ok () s1"
    "snapshot_reserves h (hops (params_route p)) s1 = Ok pre s2"
    "transfer_asset h (source (hd (hops (params_route p)))) a
       (pool (hd (hops (params_route p)))) (amount_in p) s2 = Ok () s3"
    "swap_hops h (hops (params_route p)) (amount_in p) 0 s3 = Ok (swapped, impact) s4"
    "charge_fee (get_fee_rate s4) swapped s4 = Ok (fee, out) s4"
    "slippage_guards p impact out s4 = Ok () s4"
    "check_reserves h (zip (hops (params_route p)) pre) s4 = Ok () s5"
    "settle_swap h a p fee out (note_high_impact a impact (amount_in p) s5) = Ok r t"
proof -
  from assms obtain s0 s1 pre s2 s3 si s4 fo s4' s4'' s5 where
    f: "check_swap_params h a p s = Ok () s0"
    "check_rate_limit h a s0 = Ok () s1"
    "snapshot_reserves h (hops (params_route p)) s1 = Ok pre s2"
    "transfer_asset h (source (hd (hops (params_route p)))) a
       (pool (hd (hops (params_route p)))) (amount_in p) s2 = Ok () s3"
    "swap_hops h (hops (params_route p)) (amount_in p) 0 s3 = Ok si s4"
    "charge_fee (get_fee_rate s4) (fst si) s4 = Ok fo s4'"
    "slippage_guards p (snd si) (snd fo) s4' = Ok () s4''"
    "check_reserves h (zip (hops (params_route p)) pre) s4'' = Ok () s5"
    "settle_swap h a p (fst fo) (snd fo) (note_high_impact a (snd si) (amount_in p) s5) = Ok r t"
    by (auto simp: execute_swap_internal_def Let_def split_beta)
  moreover have "s0 = s" using check_swap_params_Ok(1) [OF f(1)] .
  moreover have "s4' = s4" using charge_fee_Ok(1) [of _ _ _ "fst fo" "snd fo"] f(6) by simp
  moreover have "s4'' = s4'" using slippage_guards_Ok(1) [OF f(7)] .
  ultimately show ?thesis
    using that [of s1 pre s2 s3 "fst si" "snd si" s4 "fst fo" "snd fo" s5] by simp
qed

lemma execute_swap_internal_config:
  assumes "execute_swap_internal h a p s = Ok r t"
  shows "same_config s t"
  using assms
proof (rule execute_swap_internal_Ok)
  fix s1 pre s2 s3 swapped impact s4 fee out s5
  assume "check_rate_limit h a s = Ok () s1"
    and "snapshot_reserves h (hops (params_route p)) s1 = Ok pre s2"
    and tr: "transfer_asset h (source (hd (hops (params_route p)))) a
       (pool (hd (hops (params_route p)))) (amount_in p) s2 = Ok () s3"
    and "swap_hops h (hops (params_route p)) (amount_in p) 0 s3 = Ok (swapped, impact) s4"
    and "check_reserves h (zip (hops (params_route p)) pre) s4 = Ok () s5"
    and "settle_swap h a p fee out (note_high_impact a impact (amount_in p) s5) = Ok r t"
  moreover have "same_config s2 s3" using transfer_asset_Ok [OF tr] by (auto simp: same_config_def)
  ultimately show "same_config s t"
    by (meson check_rate_limit_accounts snapshot_reserves_accounts swap_hops_accounts
        check_reserves_accounts settle_swap_config note_high_impact_accounts same_accounts_config
        same_config_trans)
qed

text \<open>Every swap entry point that succeeds keeps the configuration.\<close>

lemma execute_swap_Ok:
  assumes "execute_swap h a p s = Ok r t"
  shows "authorized h a" "\<not> get_paused s"
    and "validate_route_assets (params_route p) s = Ok () s"
    and "\<And>cfg. get_mev_config s = Some cfg \<Longrightarrow> amount_in p < commitment_required_above cfg"
    and "execute_swap_internal h a p s = Ok r t"
  using assms
  by (auto simp: execute_swap_def require_not_paused_def validate_route_assets_Ok
      split: if_splits option.splits)

lemma execute_Ok:
  assumes "execute h a p s = Ok r t"
  shows "execute_swap h a p (execution_requested h a (amount_in p)
           (length (hops (params_route p))) (deadline p) s) = Ok r t"
  using assms by (auto simp: execute_def split: outcome.splits)

lemma reveal_and_execute_Ok:
  assumes "reveal_and_execute h a p salt s = Ok r t"
  shows "authorized h a" "\<not> get_paused s"
    and "\<exists>c. get_commitment h s (sha256 h (reveal_payload p salt)) = Some c \<and>
          commitment_sender c = a \<and> ledger_sequence h \<le> commitment_expires_at c"
    and "execute_swap_internal h a p
           (commitment_revealed a (sha256 h (reveal_payload p salt))
             (remove_commitment (sha256 h (reveal_payload p salt)) s)) = Ok r t"
  using assms
  by (auto simp: reveal_and_execute_def require_not_paused_def Let_def split: if_splits)

lemma swap_entry_config:
  "execute_swap h a p s = Ok r t \<Longrightarrow> same_config s t"
  "execute h a p s = Ok r t \<Longrightarrow> same_config s t"
  "reveal_and_execute h a p salt s = Ok r t \<Longrightarrow> same_config s t"
  "commit_swap h a hash d s = Ok u t \<Longrightarrow> same_config s t"
  "get_quote h amt rt s = Ok q t \<Longrightarrow> same_config s t"
proof -
  show 1: "execute_swap h a p s = Ok r t \<Longrightarrow> same_config s t" for s
    using execute_swap_Ok(5) execute_swap_internal_config by blast
  show "execute h a p s = Ok r t \<Longrightarrow> same_config s t"
    using 1 [OF execute_Ok] by (simp add: same_config_def event_defs)
  show "reveal_and_execute h a p salt s = Ok r t \<Longrightarrow> same_config s t"
    using execute_swap_internal_config [OF reveal_and_execute_Ok(4)]
    by (simp add: same_config_def event_defs remove_commitment_def)
  show "commit_swap h a hash d s = Ok u t \<Longrightarrow> same_config s t"
    by (auto simp: commit_swap_def require_not_paused_def same_config_def storage_defs event_defs
        Let_def split: if_splits)
  show "get_quote h amt rt s = Ok q t \<Longrightarrow> same_config s t"
    by (auto simp: get_quote_def validate_route_internal_def validate_route_assets_Ok
        dest!: quote_hops_accounts [THEN same_accounts_config] charge_fee_Ok(1) split: if_splits)
qed

end
