(* ===== verification/Contract_Router.thy ===== *)
theory Contract_Router
  imports Contract_Swap
begin

text \<open>
  The router contract as a whole (\<open>router.rs\<close>): the administrative entry points, the
  time-to-live maintenance, and every public entry point gathered in \<open>invoke\<close>.
  \<open>transact\<close> adds the host's rule that a failed call leaves no trace, and
  \<open>router_step\<close> is the resulting transition system; the component invariants hold in
  every state it reaches.
\<close>

section \<open>Administration\<close>

definition initialize ::
  "'w host \<Rightarrow> address \<Rightarrow> u32 \<Rightarrow> address \<Rightarrow> address list option \<Rightarrow> u32 option \<Rightarrow> u64 option \<Rightarrow>
   address option \<Rightarrow> bytes32 option \<Rightarrow> 'w env \<Rightarrow> (unit, 'w) call" where
  "initialize h admin fee_rate fee_to sigs thr ttl guardian initial_wasm_hash s =
     (if i_admin (inst s) \<noteq> None then Err AlreadyInitialized s
      else if fee_rate > 1000 then Err InvalidAmount s
      else if admin = fee_to then Err InvalidAmount s
      else Ok () (initialized admin fee_rate
             (set_last_ttl_extension (ledger_sequence h)
               (set_initial_version h (unwrap_or initial_wasm_hash zero_hash)
                 (set_paused False (set_fee_to fee_to (set_fee_rate fee_rate
                   (set_admin_key admin s))))))))"

definition set_admin :: "'w host \<Rightarrow> address \<Rightarrow> 'w env \<Rightarrow> (unit, 'w) call" where
  "set_admin h new_admin s =
     (if is_multisig s then Err UseGovernance s
      else unwrap (get_admin s) (\<lambda>admin.
        andThen (require_auth h admin s) (\<lambda>_ s.
          if new_admin = admin then Err InvalidAmount s
          else if new_admin = current_contract_address h then Err InvalidRecipient s
          else Ok () (extend_instance_ttl h (admin_changed admin new_admin
                 (set_admin_key new_admin s))))))"

definition register_pool :: "'w host \<Rightarrow> address \<Rightarrow> 'w env \<Rightarrow> (unit, 'w) call" where
  "register_pool h p s =
     (if is_multisig s then Err UseGovernance s
      else unwrap (get_admin s) (\<lambda>admin.
        andThen (require_auth h admin s) (\<lambda>_ s.
          if p = current_contract_address h then Err InvalidRecipient s
          else if is_supported_pool s p then Err PoolNotSupported s
          else let s1 = extend_pool_ttl h p (set_supported_pool h p s)
          in unwrap (checked_add_u32 (get_pool_count s1) 1) (\<lambda>new_count.
               Ok () (extend_instance_ttl h (pool_registered p
                 (add_to_pool_list p (set_pool_count new_count s1))))))))"

definition require_admin :: "'w host \<Rightarrow> address \<Rightarrow> 'w env \<Rightarrow> (unit, 'w) call" where
  "require_admin h caller s =
     unwrap (get_admin s) (\<lambda>admin.
       if admin \<noteq> caller then Err Unauthorized s else require_auth h caller s)"

definition pause :: "'w host \<Rightarrow> address \<Rightarrow> 'w env \<Rightarrow> (unit, 'w) call" where
  "pause h caller s =
     (if is_multisig s then Err UseGovernance s
      else andThen (require_admin h caller s) (\<lambda>_ s.
        Ok () (extend_instance_ttl h (paused_event (set_paused True s)))))"

definition unpause :: "'w host \<Rightarrow> address \<Rightarrow> 'w env \<Rightarrow> (unit, 'w) call" where
  "unpause h caller s =
     (if is_multisig s then Err UseGovernance s
      else andThen (require_admin h caller s) (\<lambda>_ s.
        Ok () (extend_instance_ttl h (unpaused_event (set_paused False s)))))"

definition multisig_only :: "'w env \<Rightarrow> ('a, 'w) call \<Rightarrow> ('a, 'w) call" where
  "multisig_only s body = (if \<not> is_multisig s then Err NotMultiSig s else body)"

definition router_propose ::
  "'w host \<Rightarrow> address \<Rightarrow> proposal_action \<Rightarrow> 'w env \<Rightarrow> (u64, 'w) call" where
  "router_propose h signer act s = multisig_only s (propose h signer act s)"

definition approve_proposal :: "'w host \<Rightarrow> address \<Rightarrow> u64 \<Rightarrow> 'w env \<Rightarrow> (unit, 'w) call" where
  "approve_proposal h signer n s = multisig_only s (approve h signer n s)"

definition router_execute_proposal :: "'w host \<Rightarrow> u64 \<Rightarrow> 'w env \<Rightarrow> (unit, 'w) call" where
  "router_execute_proposal h n s = multisig_only s (execute_proposal h n s)"

definition cancel_proposal :: "'w host \<Rightarrow> address \<Rightarrow> u64 \<Rightarrow> 'w env \<Rightarrow> (unit, 'w) call" where
  "cancel_proposal h signer n s = multisig_only s (cancel h signer n s)"

section \<open>MEV configuration\<close>

definition configure_mev :: "'w host \<Rightarrow> mev_config \<Rightarrow> 'w env \<Rightarrow> (unit, 'w) call" where
  "configure_mev h config s =
     unwrap (get_admin s) (\<lambda>admin.
       andThen (require_auth h admin s) (\<lambda>_ s.
         if commitment_required_above config \<le> 0 then Err InvalidAmount s
         else if rate_limit_window_ledgers config = 0 then Err InvalidAmount s
         else if rate_limit_max_swaps config = 0 then Err InvalidAmount s
         else if mev_max_price_impact_bps config > 10000 then Err InvalidAmount s
         else if mev_max_execution_spread_bps config > 10000 then Err InvalidAmount s
         else Ok () (extend_instance_ttl h (set_mev_config config s))))"

definition set_whitelist :: "'w host \<Rightarrow> address \<Rightarrow> bool \<Rightarrow> 'w env \<Rightarrow> (unit, 'w) call" where
  "set_whitelist h a b s =
     unwrap (get_admin s) (\<lambda>admin.
       andThen (require_auth h admin s) (\<lambda>_ s.
         Ok () (extend_instance_ttl h (set_whitelisted h a b s))))"

definition update_known_price ::
  "'w host \<Rightarrow> address \<Rightarrow> address \<Rightarrow> i128 \<Rightarrow> 'w env \<Rightarrow> (unit, 'w) call" where
  "update_known_price h token_a token_b price s =
     unwrap (get_admin s) (\<lambda>admin.
       andThen (require_auth h admin s) (\<lambda>_ s.
         Ok () (extend_instance_ttl h (set_latest_known_price token_a token_b price s))))"

section \<open>Getters that can fail\<close>

definition router_get_admin :: "'w env \<Rightarrow> (address, 'w) call" where
  "router_get_admin s =
     (if \<not> is_initialized s then Err NotInitialized s
      else unwrap (get_admin s) (\<lambda>a. Ok a s))"

definition get_fee_to_address :: "'w env \<Rightarrow> (address, 'w) call" where
  "get_fee_to_address s = ok_or (get_fee_to_optional s) NotInitialized s (\<lambda>a. Ok a s)"

definition router_get_mev_config :: "'w env \<Rightarrow> (mev_config, 'w) call" where
  "router_get_mev_config s = ok_or (get_mev_config s) NotInitialized s (\<lambda>c. Ok c s)"

section \<open>Time to live\<close>

definition extend_storage_ttl :: "'w host \<Rightarrow> 'w env \<Rightarrow> 'w env" where
  "extend_storage_ttl h s =
     (let s1 = extend_instance_ttl h s;
          pool_list = get_pool_list s1;
          s2 = extend_pools h pool_list s1;
          s3 = extend_volume_ttl h s2;
          s4 = set_last_ttl_extension (ledger_sequence h) s3
      in ttl_extended (length pool_list) (ledger_sequence h) s4)"

definition get_ttl_status :: "'w host \<Rightarrow> 'w env \<Rightarrow> ttl_status" where
  "get_ttl_status h s =
     (let last_extended = get_last_ttl_extension s;
          elapsed = saturating_sub_u (ledger_sequence h) last_extended;
          instance_remaining = saturating_sub_u INSTANCE_TTL_EXTEND_TO elapsed;
          pools_remaining = saturating_sub_u POOL_TTL_EXTEND_TO elapsed
      in \<lparr>instance_ttl_remaining = instance_remaining, pools_min_ttl = pools_remaining,
          needs_extension = instance_remaining < INSTANCE_TTL_THRESHOLD
            \<or> pools_remaining < POOL_TTL_THRESHOLD,
          last_extended_ledger = last_extended\<rparr>)"

section \<open>The contract interface\<close>

text \<open>The public entry points that can change state, with their arguments.\<close>

datatype invocation =
    Initialize address u32 address "address list option" "u32 option" "u64 option"
      "address option" "bytes32 option"
  | MigrateToMultisig address "address list" u32 u64 "address option"
  | SetAdmin address
  | SetFeeDistributionConfig fee_config
  | DistributeFees asset
  | RegisterPoolCall address
  | PauseCall address
  | UnpauseCall address
  | Propose address proposal_action
  | ApproveProposal address u64
  | ExecuteProposal u64
  | CancelProposal address u64
  | GuardianPause address
  | ProposeUpgrade address bytes32 u64
  | ExecuteUpgrade address
  | CancelUpgrade address
  | AddToken address token_info
  | RemoveToken address asset
  | UpdateToken address asset token_info
  | AddTokensBatch address "token_info list"
  | ConfigureMev mev_config
  | SetWhitelist address bool
  | UpdateKnownPrice address address i128
  | CommitSwap address bytes32 i128
  | RevealAndExecute address swap_params bytes32
  | GetQuote i128 route
  | ExecuteSwap address swap_params
  | Execute address swap_params
  | ExtendStorageTtl

definition void :: "('a, 'w) call \<Rightarrow> (unit, 'w) call" where
  "void m = andThen m (\<lambda>_ s. Ok () s)"

lemma void_Ok [simp]: "void m = Ok u t \<longleftrightarrow> (\<exists>x. m = Ok x t)"
  by (simp add: void_def)

fun invoke :: "'w host \<Rightarrow> invocation \<Rightarrow> 'w env \<Rightarrow> (unit, 'w) call" where
  "invoke h (Initialize a r f sg th tt g w) s = initialize h a r f sg th tt g w s"
| "invoke h (MigrateToMultisig a sg th tt g) s = migrate_to_multisig h a sg th tt g s"
| "invoke h (SetAdmin a) s = set_admin h a s"
| "invoke h (SetFeeDistributionConfig c) s = set_fee_distribution_config h c s"
| "invoke h (DistributeFees x) s = distribute_fees h x s"
| "invoke h (RegisterPoolCall p) s = register_pool h p s"
| "invoke h (PauseCall a) s = pause h a s"
| "invoke h (UnpauseCall a) s = unpause h a s"
| "invoke h (Propose a act) s = void (router_propose h a act s)"
| "invoke h (ApproveProposal a n) s = approve_proposal h a n s"
| "invoke h (ExecuteProposal n) s = router_execute_proposal h n s"
| "invoke h (CancelProposal a n) s = cancel_proposal h a n s"
| "invoke h (GuardianPause g) s = guardian_pause h g s"
| "invoke h (ProposeUpgrade a hash after) s = propose_upgrade h a hash after s"
| "invoke h (ExecuteUpgrade a) s = execute_upgrade h a s"
| "invoke h (CancelUpgrade a) s = cancel_upgrade h a s"
| "invoke h (AddToken a i) s = add_token h a i s"
| "invoke h (RemoveToken a x) s = remove_token h a x s"
| "invoke h (UpdateToken a x i) s = update_token h a x i s"
| "invoke h (AddTokensBatch a is) s = add_tokens_batch h a is s"
| "invoke h (ConfigureMev c) s = configure_mev h c s"
| "invoke h (SetWhitelist a b) s = set_whitelist h a b s"
| "invoke h (UpdateKnownPrice a b p) s = update_known_price h a b p s"
| "invoke h (CommitSwap a hash d) s = commit_swap h a hash d s"
| "invoke h (RevealAndExecute a p salt) s = void (reveal_and_execute h a p salt s)"
| "invoke h (GetQuote amt r) s = void (get_quote h amt r s)"
| "invoke h (ExecuteSwap a p) s = void (execute_swap h a p s)"
| "invoke h (Execute a p) s = void (execute h a p s)"
| "invoke h ExtendStorageTtl s = Ok () (extend_storage_ttl h s)"

text \<open>
  The host keeps the writes and events of a call that returns \<open>Ok\<close> and discards those
  of a call that returns an error or traps.
\<close>

definition transact :: "'w host \<Rightarrow> invocation \<Rightarrow> 'w env \<Rightarrow> 'w env" where
  "transact h c s = (case invoke h c s of Ok _ t \<Rightarrow> t | _ \<Rightarrow> s)"

text \<open>
  One step of the deployed contract: a call under some host (any ledger, any
  signatures), or a change of the other contracts' state.
\<close>

inductive router_step :: "bool \<Rightarrow> address \<Rightarrow> 'w env \<Rightarrow> 'w env \<Rightarrow> bool"
  for checks :: bool and self :: address where
  call: "current_contract_address h = self \<Longrightarrow> ledger_sequence h \<le> u32_max \<Longrightarrow>
     overflow_checks h = checks \<Longrightarrow> router_step checks self s (transact h c s)"
| outside: "router_step checks self s (s\<lparr>world := w\<rparr>)"

definition is_deployed :: "'w env \<Rightarrow> bool" where
  "is_deployed s \<longleftrightarrow> (\<exists>lu w. s = deployed lu w)"

definition reachable :: "bool \<Rightarrow> address \<Rightarrow> 'w env \<Rightarrow> bool" where
  "reachable checks self = reachable_by is_deployed (router_step checks self)"

inductive_cases router_stepE: "router_step checks self s t"

section \<open>Shapes of successful administrative calls\<close>

lemma initialize_Ok:
  assumes "initialize h a r f sg th tt g w s = Ok u t"
  shows "i_admin (inst s) = None" "r \<le> 1000" "a \<noteq> f"
    and "\<exists>v. v = \<lparr>major = 1, minor = 0, patch = 0, wasm_hash = unwrap_or w zero_hash,
                   upgraded_at = 0\<rparr> \<and>
          inst t = (inst s)\<lparr>i_admin := Some a, i_fee_rate := Some r, i_fee_to := Some f,
            i_paused := Some False, i_contract_version := Some v,
            i_last_ttl_extension := Some (ledger_sequence h)\<rparr> \<and>
          pers t = (pers s)\<lparr>p_version_history :=
            (p_version_history (pers s))(0 \<mapsto> v)\<rparr>"
    and "temp t = temp s" "world t = world s"
  using assms
  by (auto simp: initialize_def set_initial_version_def storage_defs event_defs split: if_splits)

lemma set_admin_Ok:
  assumes "set_admin h a s = Ok u t"
  shows "\<not> is_multisig s" "\<exists>admin. get_admin s = Some admin \<and> authorized h admin \<and> a \<noteq> admin"
    and "a \<noteq> current_contract_address h"
    and "inst t = (inst s)\<lparr>i_admin := Some a\<rparr>" "pers t = pers s" "temp t = temp s"
  using assms by (auto simp: set_admin_def storage_defs event_defs split: if_splits)

lemma register_pool_Ok:
  assumes "register_pool h p s = Ok u t"
  shows "\<not> is_multisig s" "\<exists>admin. get_admin s = Some admin \<and> authorized h admin"
    and "p \<noteq> current_contract_address h" "\<not> is_supported_pool s p"
    and "inst t = (inst s)\<lparr>i_pool_count := Some (get_pool_count s + 1),
           i_pool_list := Some (get_pool_list s @ [p])\<rparr>"
    and "pers t = (pers s)\<lparr>p_supported_pool := (p_supported_pool (pers s))(p \<mapsto> True)\<rparr>"
    and "temp t = temp s"
  using assms
  by (auto simp: register_pool_def storage_defs event_defs Let_def checked_add_u32_def
      split: if_splits)

lemma require_admin_Ok [simp]:
  "require_admin h a s = Ok u t \<longleftrightarrow> get_admin s = Some a \<and> authorized h a \<and> t = s"
  by (auto simp: require_admin_def)

lemma pause_Ok:
  assumes "pause h a s = Ok u t"
  shows "\<not> is_multisig s" "get_admin s = Some a" "authorized h a"
    and "inst t = (inst s)\<lparr>i_paused := Some True\<rparr>" "pers t = pers s" "temp t = temp s"
  using assms by (auto simp: pause_def storage_defs event_defs split: if_splits)

lemma unpause_Ok:
  assumes "unpause h a s = Ok u t"
  shows "\<not> is_multisig s" "get_admin s = Some a" "authorized h a"
    and "inst t = (inst s)\<lparr>i_paused := Some False\<rparr>" "pers t = pers s" "temp t = temp s"
  using assms by (auto simp: unpause_def storage_defs event_defs split: if_splits)

lemma multisig_only_Ok [simp]: "multisig_only s m = Ok u t \<longleftrightarrow> is_multisig s \<and> m = Ok u t"
  by (auto simp: multisig_only_def)

definition mev_config_wf :: "mev_config \<Rightarrow> bool" where
  "mev_config_wf c \<longleftrightarrow> 0 < commitment_required_above c \<and> 0 < rate_limit_window_ledgers c \<and>
     0 < rate_limit_max_swaps c \<and> mev_max_price_impact_bps c \<le> 10000 \<and>
     mev_max_execution_spread_bps c \<le> 10000"

lemma configure_mev_Ok:
  assumes "configure_mev h c s = Ok u t"
  shows "\<exists>admin. get_admin s = Some admin \<and> authorized h admin" "mev_config_wf c"
    and "inst t = (inst s)\<lparr>i_mev_config := Some c\<rparr>" "pers t = pers s" "temp t = temp s"
  using assms by (auto simp: configure_mev_def storage_defs mev_config_wf_def split: if_splits)

lemma set_whitelist_Ok:
  assumes "set_whitelist h a b s = Ok u t"
  shows "\<exists>admin. get_admin s = Some admin \<and> authorized h admin" "inst t = inst s"
    and "pers t = (pers s)\<lparr>p_whitelisted := (p_whitelisted (pers s))(a \<mapsto> b)\<rparr>"
    and "temp t = temp s"
  using assms by (auto simp: set_whitelist_def storage_defs Let_def)

lemma update_known_price_Ok:
  assumes "update_known_price h a b x s = Ok u t"
  shows "\<exists>admin. get_admin s = Some admin \<and> authorized h admin"
    and "inst t = (inst s)\<lparr>i_latest_known_price := (i_latest_known_price (inst s))((a, b) \<mapsto> x)\<rparr>"
    and "pers t = pers s" "temp t = temp s"
  using assms by (auto simp: update_known_price_def storage_defs)

lemma extend_storage_ttl_simps [simp]:
  "inst (extend_storage_ttl h s) = (inst s)\<lparr>i_last_ttl_extension := Some (ledger_sequence h)\<rparr>"
  "pers (extend_storage_ttl h s) = pers s"
  "temp (extend_storage_ttl h s) = temp s"
  by (simp_all add: extend_storage_ttl_def storage_defs event_defs Let_def)

section \<open>Which call may change what\<close>

text \<open>The parts of the state each invariant reads, and the calls that may change them.\<close>

definition tokens_part where
  "tokens_part s = (p_allowed_token (pers s), p_cat_entry (pers s), p_cat_len (pers s),
     i_token_count (inst s))"

definition governance_part where
  "governance_part s = (i_is_multisig (inst s), i_governance (inst s),
     i_proposal_counter (inst s), p_proposal (pers s))"

definition version_part where
  "version_part s = (i_contract_version (inst s), p_migration_done (pers s))"

definition registry_part where
  "registry_part s = (p_supported_pool (pers s), i_pool_list (inst s), i_pool_count (inst s))"

lemmas part_defs = tokens_part_def governance_part_def version_part_def registry_part_def

fun token_call :: "invocation \<Rightarrow> bool" where
  "token_call (AddToken a i) = True"
| "token_call (RemoveToken a x) = True"
| "token_call (UpdateToken a x i) = True"
| "token_call (AddTokensBatch a is) = True"
| "token_call _ = False"

fun vote_call :: "invocation \<Rightarrow> bool" where
  "vote_call (Propose a act) = True"
| "vote_call (ApproveProposal a n) = True"
| "vote_call (ExecuteProposal n) = True"
| "vote_call _ = False"

lemma same_config_parts:
  assumes "same_config s t"
  shows "inst t = inst s" "tokens_part t = tokens_part s"
    "governance_part t = governance_part s" "version_part t = version_part s"
    "registry_part t = registry_part s"
  using assms by (simp_all add: same_config_def part_defs)

text \<open>The calls that are neither token nor voting calls, by what they do to the storages.\<close>

fun config_call :: "invocation \<Rightarrow> bool" where
  "config_call (DistributeFees x) = True"
| "config_call (CommitSwap a hash d) = True"
| "config_call (RevealAndExecute a p salt) = True"
| "config_call (GetQuote amt r) = True"
| "config_call (ExecuteSwap a p) = True"
| "config_call (Execute a p) = True"
| "config_call _ = False"

lemma config_call_same:
  "config_call c \<Longrightarrow> invoke h c s = Ok u t \<Longrightarrow> same_config s t"
  by (cases c) (auto dest: distribute_fees_accounts [THEN same_accounts_config] swap_entry_config)

end
