(* ===== verification/Contract_Invariants.thy ===== *)
theory Contract_Invariants
  imports Contract_Router
begin

text \<open>
  The invariants of the router contract over every state its entry points reach. A
  component's invariant is proved for the component's operations in its own theory;
  here it is carried through the remaining entry points, through the actions
  governance dispatches, and through \<open>router_step\<close>.
\<close>

section \<open>Invariants that governance acts on only by dispatching\<close>

text \<open>Two states that differ at most in the proposals, their counter, the liveness, the events and
  the other contracts.\<close>

definition same_but_proposals :: "'w env \<Rightarrow> 'w env \<Rightarrow> bool" where
  "same_but_proposals s t \<longleftrightarrow>
     inst t = (inst s)\<lparr>i_proposal_counter := i_proposal_counter (inst t)\<rparr> \<and>
     pers t = (pers s)\<lparr>p_proposal := p_proposal (pers t)\<rparr>"

lemma same_but_proposals_simps:
  assumes "same_but_proposals s t"
  shows "tokens_part t = tokens_part s" "version_part t = version_part s"
    "registry_part t = registry_part s" "i_pending_upgrade (inst t) = i_pending_upgrade (inst s)"
    "i_fee_rate (inst t) = i_fee_rate (inst s)" "i_mev_config (inst t) = i_mev_config (inst s)"
    "i_fee_config (inst t) = i_fee_config (inst s)"
    "i_admin (inst t) = i_admin (inst s)" "i_governance (inst t) = i_governance (inst s)"
    "i_is_multisig (inst t) = i_is_multisig (inst s)" "i_paused (inst t) = i_paused (inst s)"
proof -
  obtain n m where "inst t = (inst s)\<lparr>i_proposal_counter := n\<rparr>" "pers t = (pers s)\<lparr>p_proposal := m\<rparr>"
    using assms unfolding same_but_proposals_def by blast
  then show "tokens_part t = tokens_part s" "version_part t = version_part s"
    "registry_part t = registry_part s" "i_pending_upgrade (inst t) = i_pending_upgrade (inst s)"
    "i_fee_rate (inst t) = i_fee_rate (inst s)" "i_mev_config (inst t) = i_mev_config (inst s)"
    "i_fee_config (inst t) = i_fee_config (inst s)"
    "i_admin (inst t) = i_admin (inst s)" "i_governance (inst t) = i_governance (inst s)"
    "i_is_multisig (inst t) = i_is_multisig (inst s)" "i_paused (inst t) = i_paused (inst s)"
    by (simp_all add: part_defs)
qed

text \<open>
  The interface between governance and a component whose state it does not own: the
  component's invariant does not read the proposals, and every dispatched action keeps
  it. Then every voting call keeps it.
\<close>

locale governed =
  fixes h :: "'w host"
    and inv :: "'w env \<Rightarrow> bool"
  assumes inv_frame: "inv s \<Longrightarrow> same_but_proposals s t \<Longrightarrow> inv t"
    and inv_dispatch: "inv s \<Longrightarrow> dispatch_action h act s = Ok u t \<Longrightarrow> inv t"
begin

lemma execute_proposal_governed:
  assumes "inv s" "execute_proposal h n s = Ok u t"
  shows "inv t"
proof -
  obtain p t0 where
    d: "dispatch_action h (action p) (save_proposal h (p\<lparr>executed := True\<rparr>) s) = Ok () t0"
    and t: "t = extend_instance_ttl h (proposal_executed n t0)"
    using execute_proposal_Ok [OF assms(2)] by blast
  have "inv (save_proposal h (p\<lparr>executed := True\<rparr>) s)"
    using assms(1) by (rule inv_frame) (simp add: same_but_proposals_def)
  from inv_dispatch [OF this d] show ?thesis
    by (rule inv_frame) (simp add: t same_but_proposals_def event_defs)
qed

lemma propose_governed:
  assumes "inv s" "propose h a act s = Ok n t"
  shows "inv t"
proof -
  obtain c s1 t0 where "authorized h a" "get_governance s = Some c" "a \<in> set (signers c)"
    and "n = unwrap_or (i_proposal_counter (inst s)) 0 + 1"
    and s1: "s1 = proposal_created n a act (save_proposal h (new_proposal h c n a act)
               (set_inst (\<lambda>i. i\<lparr>i_proposal_counter := Some n\<rparr>) s))"
    and step: "(if threshold c = 1 then execute_proposal h n s1 else Ok () s1) = Ok () t0"
    and t: "t = extend_instance_ttl h t0"
    using assms(2) by (rule propose_Ok)
  have "inv s1"
    using assms(1) by (rule inv_frame) (simp add: s1 same_but_proposals_def event_defs)
  then have "inv t0"
    using step by (simp split: if_splits add: execute_proposal_governed)
  then show ?thesis
    by (rule inv_frame) (simp add: t same_but_proposals_def)
qed

lemma approve_governed:
  assumes "inv s" "approve h a n s = Ok u t"
  shows "inv t"
proof -
  obtain c p s1 t0 where "authorized h a" "get_governance s = Some c" "a \<in> set (signers c)"
    and "get_proposal_entry s n = Some p" "\<not> executed p" "ledger_sequence h \<le> expires_at p"
    and "a \<notin> set (approvals p)"
    and s1: "s1 = proposal_approved n a (length (approvals p) + 1)
               (save_proposal h (p\<lparr>approvals := approvals p @ [a]\<rparr>) s)"
    and step: "(if threshold c \<le> length (approvals p) + 1 then execute_proposal h n s1
                else Ok () s1) = Ok () t0"
    and t: "t = extend_instance_ttl h t0"
    using assms(2) by (rule approve_Ok)
  have "inv s1"
    using assms(1) by (rule inv_frame) (simp add: s1 same_but_proposals_def event_defs)
  then have "inv t0"
    using step by (simp split: if_splits add: execute_proposal_governed)
  then show ?thesis
    by (rule inv_frame) (simp add: t same_but_proposals_def)
qed

lemma cancel_governed:
  assumes "inv s" "cancel h a n s = Ok u t"
  shows "inv t"
proof -
  obtain p where t: "t = extend_instance_ttl h
      (proposal_cancelled n a (save_proposal h (p\<lparr>executed := True\<rparr>) s))"
    using cancel_Ok(2) [OF assms(2)] by blast
  show ?thesis
    using assms(1) by (rule inv_frame) (simp add: t same_but_proposals_def event_defs)
qed

lemma vote_governed:
  assumes "inv s" "invoke h c s = Ok u t" "vote_call c \<or> (\<exists>a n. c = CancelProposal a n)"
  shows "inv t"
  using assms
  by (cases c) (auto simp: router_propose_def approve_proposal_def router_execute_proposal_def
      cancel_proposal_def
      dest: propose_governed approve_governed execute_proposal_governed cancel_governed)

end

text \<open>What dispatching an action leaves alone.\<close>

lemma execute_wasm_upgrade_storage:
  assumes "execute_wasm_upgrade h hash s = Ok u t"
  shows "\<exists>v. inst t = (inst s)\<lparr>i_contract_version := Some v\<rparr>"
    and "\<exists>a b. pers t = (pers s)\<lparr>p_version_history := a, p_migration_done := b\<rparr>"
  using execute_wasm_upgrade_Ok(2) [OF assms] unfolding Let_def by blast+

lemma dispatch_upgrade: "dispatch_action h (Upgrade hash) s = execute_wasm_upgrade h hash s"
  by (simp add: dispatch_action_def)

lemma dispatch_action_cases:
  assumes "dispatch_action h act s = Ok u t"
  obtains (upgrade) hash where "act = Upgrade hash" "execute_wasm_upgrade h hash s = Ok u t"
  | (fee_rate) r where "act = SetFeeRate r" "r \<le> 1000" "pers t = pers s"
      "inst t = (inst s)\<lparr>i_fee_rate := Some r\<rparr>"
  | (fee_to) a where "act = SetFeeTo a" "pers t = pers s" "inst t = (inst s)\<lparr>i_fee_to := Some a\<rparr>"
  | (fee_config) c where "act = SetFeeConfig c" "pers t = pers s"
      "length (recipients c) \<le> 5" "checked_share_sum 0 (recipients c) = Some 10000"
      "inst t = (inst s)\<lparr>i_fee_config := Some c\<rparr>"
  | (pools) m n where "(\<exists>p ty. act = RegisterPool p ty) \<or> (\<exists>p. act = DeregisterPool p)"
      "pers t = (pers s)\<lparr>p_supported_pool := m\<rparr>" "inst t = (inst s)\<lparr>i_pool_count := n\<rparr>"
  | (paused) b where "act = (if b then Pause else Unpause)" "pers t = pers s"
      "inst t = (inst s)\<lparr>i_paused := Some b\<rparr>"
  | (signers) c where "pers t = pers s" "inst t = (inst s)\<lparr>i_governance := Some c\<rparr>"
      "get_governance s \<noteq> None"
proof (cases act)
  case (Upgrade hash)
  then show ?thesis using assms by (intro upgrade [of hash]) (simp_all add: dispatch_upgrade)
next
  case (SetFeeRate r)
  show ?thesis
    by (rule fee_rate [of r]; use assms in \<open>auto simp: SetFeeRate dispatch_action_def storage_defs event_defs
        Let_def split: if_splits\<close>)
next
  case (SetFeeTo a)
  show ?thesis
    by (rule fee_to [of a]; use assms in \<open>auto simp: SetFeeTo dispatch_action_def storage_defs event_defs
        Let_def split: if_splits\<close>)
next
  case (SetFeeConfig c)
  show ?thesis
    by (rule fee_config [of c]; use assms in \<open>auto simp: SetFeeConfig dispatch_action_def storage_defs event_defs
        Let_def split: if_splits\<close>)
next
  case (RegisterPool p ty)
  show ?thesis
    by (rule pools [of "(p_supported_pool (pers s))(p \<mapsto> True)" "i_pool_count (inst t)"]; use assms in \<open>auto simp: RegisterPool dispatch_action_def storage_defs event_defs
        Let_def split: if_splits\<close>)
next
  case (DeregisterPool p)
  show ?thesis
    by (rule pools [of "(p_supported_pool (pers s))(p := None)" "i_pool_count (inst t)"]; use assms in \<open>auto simp: DeregisterPool dispatch_action_def storage_defs event_defs
        Let_def split: if_splits\<close>)
next
  case Pause
  show ?thesis
    by (rule paused [of True]; use assms in \<open>auto simp: Pause dispatch_action_def storage_defs event_defs
        Let_def split: if_splits\<close>)
next
  case Unpause
  show ?thesis
    by (rule paused [of False]; use assms in \<open>auto simp: Unpause dispatch_action_def storage_defs event_defs
        Let_def split: if_splits\<close>)
next
  case (AddSigner a)
  show ?thesis
    by (rule signers [of "the (i_governance (inst t))"]; use assms in \<open>auto simp: AddSigner dispatch_action_def storage_defs event_defs
        Let_def split: if_splits\<close>)
next
  case (RemoveSigner a)
  show ?thesis
    by (rule signers [of "the (i_governance (inst t))"]; use assms in \<open>auto simp: RemoveSigner dispatch_action_def storage_defs event_defs
        Let_def split: if_splits\<close>)
next
  case (ChangeThreshold n)
  show ?thesis
    by (rule signers [of "the (i_governance (inst t))"]; use assms in \<open>auto simp: ChangeThreshold dispatch_action_def storage_defs event_defs
        Let_def split: if_splits\<close>)
qed

lemma dispatch_action_parts:
  assumes "dispatch_action h act s = Ok u t"
  shows "tokens_part t = tokens_part s"
    and "i_pending_upgrade (inst t) = i_pending_upgrade (inst s)"
    and "i_mev_config (inst t) = i_mev_config (inst s)"
    and "version_part t = version_part s \<or> (\<exists>hash. execute_wasm_upgrade h hash s = Ok () t)"
    and "i_fee_rate (inst t) = i_fee_rate (inst s) \<or> (\<exists>r \<le> 1000. i_fee_rate (inst t) = Some r)"
  using assms
  by (cases rule: dispatch_action_cases;
      auto simp: part_defs dest: execute_wasm_upgrade_storage)+

section \<open>What each entry point does to the configuration\<close>

text \<open>Token calls change the allowlist, its index and its counter, and nothing else.\<close>

definition same_but_tokens :: "'w env \<Rightarrow> 'w env \<Rightarrow> bool" where
  "same_but_tokens s t \<longleftrightarrow>
     (\<exists>n. inst t = (inst s)\<lparr>i_token_count := n\<rparr>) \<and>
     (\<exists>a b c. pers t = (pers s)\<lparr>p_allowed_token := a, p_cat_entry := b, p_cat_len := c\<rparr>)"

lemma same_but_tokensI:
  assumes "inst t = (inst s)\<lparr>i_token_count := i_token_count (inst t)\<rparr>"
    and "pers t = (pers s)\<lparr>p_allowed_token := p_allowed_token (pers t),
           p_cat_entry := p_cat_entry (pers t), p_cat_len := p_cat_len (pers t)\<rparr>"
  shows "same_but_tokens s t"
  using assms unfolding same_but_tokens_def by blast

lemma same_but_tokens_refl: "same_but_tokens s s"
  by (rule same_but_tokensI) simp_all

lemma same_but_tokens_trans:
  "same_but_tokens s t \<Longrightarrow> same_but_tokens t r \<Longrightarrow> same_but_tokens s r"
  by (rule same_but_tokensI) (auto simp: same_but_tokens_def)

lemma add_token_internal_same: "add_token_internal h a i s = Ok u t \<Longrightarrow> same_but_tokens s t"
  by (rule same_but_tokensI) (simp_all add: add_token_internal_Ok(3,4))

lemma add_all_tokens_same: "add_all_tokens h a is s = Ok u t \<Longrightarrow> same_but_tokens s t"
  by (induction "is" arbitrary: s)
    (auto intro: same_but_tokens_refl same_but_tokens_trans add_token_internal_same)

lemma remove_token_internal_same: "remove_token_internal h a x s = Ok u t \<Longrightarrow> same_but_tokens s t"
  by (drule remove_token_internal_Ok(2), rule same_but_tokensI)
    (simp_all add: drop_token_Ok(1,2))

lemma update_token_internal_same:
  "update_token_internal h a x i s = Ok u t \<Longrightarrow> same_but_tokens s t"
  by (rule same_but_tokensI) (simp_all add: update_token_internal_Ok(4,5))

lemma token_call_same:
  "token_call c \<Longrightarrow> invoke h c s = Ok u t \<Longrightarrow> same_but_tokens s t"
  by (cases c) (auto simp: add_token_def remove_token_def update_token_def add_tokens_batch_def
      intro: add_token_internal_same remove_token_internal_same update_token_internal_same
        add_all_tokens_same split: if_splits)

text \<open>
  Every successful call is one of the following. The voting and token calls are
  described by their components' theories.
\<close>

lemma invoke_cases:
  assumes "invoke h c s = Ok u t"
  obtains (config) "same_config s t"
  | (token) "token_call c" "same_but_tokens s t" "\<not> is_multisig s"
  | (vote) "vote_call c \<or> (\<exists>a n. c = CancelProposal a n)" "is_multisig s"
  | (initialized) a r f v where "i_admin (inst s) = None" "r \<le> 1000" "a \<noteq> f"
      "major v = 1" "minor v = 0" "patch v = 0"
      "\<exists>n. inst t = (inst s)\<lparr>i_admin := Some a, i_fee_rate := Some r, i_fee_to := Some f,
            i_paused := Some False, i_contract_version := Some v, i_last_ttl_extension := n\<rparr>"
      "\<exists>m. pers t = (pers s)\<lparr>p_version_history := m\<rparr>"
  | (admin) a where "inst t = (inst s)\<lparr>i_admin := Some a\<rparr>" "pers t = pers s"
      "i_admin (inst s) \<noteq> None" "\<not> is_multisig s"
  | (registered) p where "c = RegisterPoolCall p" "register_pool h p s = Ok u t"
  | (paused) b where "inst t = (inst s)\<lparr>i_paused := Some b\<rparr>" "pers t = pers s"
      "b \<or> \<not> is_multisig s"
  | (migrated) a sigs thr ttl g where "migrate_to_multisig h a sigs thr ttl g s = Ok u t"
      "\<exists>gc g'. inst t = (inst s)\<lparr>i_governance := Some gc, i_guardian := g', i_is_multisig := Some True\<rparr>"
      "pers t = pers s" "i_admin (inst s) \<noteq> None" "\<not> is_multisig s"
  | (proposed) a hash n where "propose_upgrade h a hash n s = Ok u t"
      "\<exists>pu. inst t = (inst s)\<lparr>i_pending_upgrade := pu\<rparr>" "pers t = pers s"
      "i_admin (inst s) \<noteq> None"
  | (upgraded) hash t0 where "execute_wasm_upgrade h hash (clear_pending_upgrade s) = Ok () t0"
      "t = extend_instance_ttl h t0"
      "\<exists>v. inst t = (inst s)\<lparr>i_pending_upgrade := None, i_contract_version := v\<rparr>"
      "\<exists>a b. pers t = (pers s)\<lparr>p_version_history := a, p_migration_done := b\<rparr>" "i_admin (inst s) \<noteq> None"
  | (cancelled) "inst t = (inst s)\<lparr>i_pending_upgrade := None\<rparr>" "pers t = pers s"
  | (fee_config) fc where "inst t = (inst s)\<lparr>i_fee_config := Some fc\<rparr>" "pers t = pers s"
      "\<not> is_multisig s"
  | (mev) mc where "inst t = (inst s)\<lparr>i_mev_config := Some mc\<rparr>" "pers t = pers s" "mev_config_wf mc"
  | (price) m where "inst t = (inst s)\<lparr>i_latest_known_price := m\<rparr>" "pers t = pers s"
  | (whitelist) m where "inst t = inst s" "pers t = (pers s)\<lparr>p_whitelisted := m\<rparr>"
  | (ttl) n where "inst t = (inst s)\<lparr>i_last_ttl_extension := n\<rparr>" "pers t = pers s"
proof (cases "config_call c \<or> token_call c \<or> vote_call c \<or> (\<exists>a n. c = CancelProposal a n)")
  case True
  then show ?thesis
  proof (elim disjE)
    assume "config_call c"
    from config_call_same [OF this assms] show ?thesis by (rule config)
  next
    assume c: "token_call c"
    then have "\<not> is_multisig s"
      using assms by (cases c) (auto simp: add_token_def remove_token_def update_token_def
          add_tokens_batch_def)
    with c token_call_same [OF c assms] show ?thesis by (intro token)
  next
    assume v: "vote_call c"
    have "is_multisig s"
      using v assms by (cases c) (auto simp: router_propose_def approve_proposal_def
          router_execute_proposal_def)
    with v show ?thesis by (blast intro: vote)
  next
    assume v: "\<exists>a n. c = CancelProposal a n"
    then have "is_multisig s" using assms by (auto simp: cancel_proposal_def)
    with v show ?thesis by (intro vote disjI2)
  qed
next
  case False
  then show ?thesis
  proof (cases c)
    case (Initialize a r f sg th tt g w)
    then have ok: "initialize h a r f sg th tt g w s = Ok u t" using assms by simp
    show ?thesis
      by (rule initialized [OF initialize_Ok(1-3) [OF ok], of "\<lparr>major = 1, minor = 0, patch = 0,
            wasm_hash = unwrap_or w zero_hash, upgraded_at = 0\<rparr>"];
          use initialize_Ok(4) [OF ok] in \<open>auto\<close>)
  next
    case (MigrateToMultisig a sigs thr ttl g)
    then have ok: "migrate_to_multisig h a sigs thr ttl g s = Ok u t" using assms by simp
    obtain t0 where i: "init_governance h sigs thr ttl g s = Ok () t0"
      and t: "t = extend_instance_ttl h (governance_migrated a (length sigs) thr (set_multisig t0))"
      using migrate_to_multisig_Ok(4) [OF ok] by blast
    show ?thesis
      by (rule migrated [OF ok]; use init_governance_Ok(7,8) [OF i] migrate_to_multisig_Ok(2,3) [OF ok]
            in \<open>auto simp: t storage_defs event_defs\<close>)
  next
    case (SetAdmin a)
    then show ?thesis using assms set_admin_Ok [of h a s u t]
      by (intro admin [of a]) (auto simp: storage_defs)
  next
    case (SetFeeDistributionConfig fc)
    then show ?thesis using assms set_fee_distribution_config_Ok [of h fc s u t]
      by (intro fee_config [of fc]) auto
  next
    case (RegisterPoolCall p)
    then show ?thesis using assms by (intro registered [of p]) auto
  next
    case (PauseCall a)
    then show ?thesis using assms pause_Ok [of h a s u t] by (intro paused [of True]) auto
  next
    case (UnpauseCall a)
    then show ?thesis using assms unpause_Ok [of h a s u t] by (intro paused [of False]) auto
  next
    case (GuardianPause g)
    then show ?thesis using assms guardian_pause_Ok [of h g s u t] by (intro paused [of True]) auto
  next
    case (ProposeUpgrade a hash n)
    then show ?thesis using assms propose_upgrade_Ok [of h a hash n s u t]
      by (intro proposed [of a hash n]) (auto simp: storage_defs)
  next
    case (ExecuteUpgrade a)
    then have ok: "execute_upgrade h a s = Ok u t" using assms by simp
    obtain p :: pending_upgrade and t0 where
      e: "execute_wasm_upgrade h (new_wasm_hash p) (clear_pending_upgrade s) = Ok () t0"
      and t: "t = extend_instance_ttl h t0"
      using execute_upgrade_Ok(4) [OF ok] by blast
    show ?thesis
      by (rule upgraded [OF e t]; use execute_wasm_upgrade_storage [OF e] execute_upgrade_Ok(2) [OF ok]
            in \<open>auto simp: t storage_defs\<close>)
  next
    case (CancelUpgrade a)
    then show ?thesis using assms cancel_upgrade_Ok [of h a s u t] by (intro cancelled) auto
  next
    case (ConfigureMev mc)
    then show ?thesis using assms configure_mev_Ok [of h mc s u t] by (intro mev [of mc]) auto
  next
    case (SetWhitelist a b)
    then show ?thesis using assms set_whitelist_Ok [of h a b s u t] by (intro whitelist) auto
  next
    case (UpdateKnownPrice a b x)
    then show ?thesis using assms update_known_price_Ok [of h a b x s u t] by (intro price) auto
  next
    case ExtendStorageTtl
    then show ?thesis using assms by (intro ttl) auto
  qed auto
qed

section \<open>The invariants over every entry point\<close>

text \<open>The fee stays at most ten percent and the MEV configuration well formed.\<close>

definition limits_inv :: "'w env \<Rightarrow> bool" where
  "limits_inv s \<longleftrightarrow> get_fee_rate s \<le> 1000 \<and>
     (\<forall>c. get_mev_config s = Some c \<longrightarrow> mev_config_wf c)"

text \<open>Before \<open>initialize\<close> there is no version, no governance and no pending upgrade.\<close>

definition lifecycle_inv :: "'w env \<Rightarrow> bool" where
  "lifecycle_inv s \<longleftrightarrow>
     (\<not> is_initialized s \<longrightarrow> get_contract_version s = None \<and> \<not> is_multisig s)"

text \<open>
  While the contract has a single admin, the pool list enumerates the registered pools
  without repetition and the counter is its length.
\<close>

definition registry_inv :: "'w env \<Rightarrow> bool" where
  "registry_inv s \<longleftrightarrow>
     (\<not> is_multisig s \<longrightarrow>
        distinct (get_pool_list s) \<and> get_pool_count s = length (get_pool_list s) \<and>
        (\<forall>p. is_supported_pool s p \<longleftrightarrow> p \<in> set (get_pool_list s)))"

lemma tokens_inv_part: "tokens_part t = tokens_part s \<Longrightarrow> tokens_inv s \<Longrightarrow> tokens_inv t"
  by (erule tokens_inv_frame) (simp_all add: tokens_part_def)

lemma governance_inv_part:
  "governance_part t = governance_part s \<Longrightarrow> governance_inv s \<Longrightarrow> governance_inv t"
  by (erule governance_inv_frame) (simp_all add: governance_part_def)

lemma version_inv_part: "version_part t = version_part s \<Longrightarrow> version_inv s \<Longrightarrow> version_inv t"
  by (erule version_inv_frame) (simp_all add: version_part_def)

interpretation tokens_governed: governed h tokens_inv
  by unfold_locales
    (blast intro: tokens_inv_part same_but_proposals_simps(1) dispatch_action_parts(1))+

interpretation timelock_governed: governed h timelock_inv
  by unfold_locales
    (blast intro: timelock_inv_frame same_but_proposals_simps(4) dispatch_action_parts(2))+

interpretation limits_governed: governed h limits_inv
proof unfold_locales
  fix s t :: "'a env"
  show "limits_inv t" if "limits_inv s" "same_but_proposals s t"
    using that same_but_proposals_simps(5,6) [OF that(2)] by (simp add: limits_inv_def storage_defs)
  show "limits_inv t" if "limits_inv s" "dispatch_action h act s = Ok u t" for act u
    using that(1) dispatch_action_parts(3,5) [OF that(2)]
    by (auto simp: limits_inv_def storage_defs)
qed

lemma version_governed:
  assumes "overflow_checks h"
  shows "governed h version_inv"
proof
  fix s t :: "'a env" and act u
  show "version_inv s \<Longrightarrow> same_but_proposals s t \<Longrightarrow> version_inv t"
    by (blast intro: version_inv_part same_but_proposals_simps(2))
  show "version_inv t" if "version_inv s" "dispatch_action h act s = Ok u t"
    using dispatch_action_parts(4) [OF that(2)] that(1) assms
    by (blast intro: version_inv_part execute_wasm_upgrade_version(1))
qed

lemma invoke_tokens_inv:
  assumes inv: "tokens_inv s" and ok: "invoke h c s = Ok u t"
  shows "tokens_inv t"
  using ok
proof (cases rule: invoke_cases)
  case token
  then show ?thesis
    using inv ok by (cases c) (auto simp: add_token_def remove_token_def update_token_def
        add_tokens_batch_def dest: add_token_internal_inv remove_token_internal_inv
        update_token_internal_inv add_all_tokens_inv split: if_splits)
next
  case vote
  then show ?thesis using inv ok by (blast intro: tokens_governed.vote_governed)
next
  case (registered p)
  then show ?thesis
    using register_pool_Ok(5,6) [of h p s u t] by (intro tokens_inv_part [OF _ inv]) (simp add: tokens_part_def)
qed (auto intro!: tokens_inv_part [OF _ inv] simp: tokens_part_def same_config_def)

lemma invoke_governance_inv:
  assumes inv: "governance_inv s" and ok: "invoke h c s = Ok u t"
  shows "governance_inv t"
  using ok
proof (cases rule: invoke_cases)
  case vote
  then show ?thesis
    using inv ok by (cases c) (auto simp: router_propose_def approve_proposal_def
        router_execute_proposal_def cancel_proposal_def
        dest: propose_inv approve_inv execute_proposal_inv cancel_inv)
next
  case (migrated a sigs thr ttl g)
  then show ?thesis using inv by (blast intro: migrate_to_multisig_inv)
next
  case (registered p)
  then show ?thesis
    using register_pool_Ok(5,6) [of h p s u t]
    by (intro governance_inv_part [OF _ inv]) (simp add: governance_part_def)
qed (auto intro!: governance_inv_part [OF _ inv] simp: governance_part_def same_config_def
    same_but_tokens_def)

lemma invoke_timelock_inv:
  assumes inv: "timelock_inv s" and ok: "invoke h c s = Ok u t"
    and seq: "ledger_sequence h \<le> u32_max"
  shows "timelock_inv t"
  using ok
proof (cases rule: invoke_cases)
  case vote
  then show ?thesis using inv ok by (blast intro: timelock_governed.vote_governed)
next
  case (proposed a hash n)
  then show ?thesis using seq by (blast intro: propose_upgrade_timelock)
next
  case (registered p)
  then show ?thesis
    using register_pool_Ok(5) [of h p s u t] by (intro timelock_inv_frame [OF inv]) simp
next
  case (upgraded hash t0)
  then show ?thesis by (intro timelock_inv_cleared) auto
next
  case cancelled
  then show ?thesis by (intro timelock_inv_cleared) auto
qed (auto intro!: timelock_inv_frame [OF inv] simp: same_config_def same_but_tokens_def)

lemma invoke_limits_inv:
  assumes inv: "limits_inv s" and ok: "invoke h c s = Ok u t"
  shows "limits_inv t"
  using ok
proof (cases rule: invoke_cases)
  case vote
  then show ?thesis using inv ok by (blast intro: limits_governed.vote_governed)
next
  case (registered p)
  then show ?thesis
    using inv register_pool_Ok(5) [of h p s u t] by (simp add: limits_inv_def storage_defs)
qed (use inv in \<open>auto simp: limits_inv_def storage_defs same_config_def same_but_tokens_def\<close>)

text \<open>Voting calls keep the admin and the multi-sig flag.\<close>

interpretation admin_governed: governed h "\<lambda>s. get_admin s = a \<and> is_multisig s"
  by unfold_locales
    (auto simp: storage_defs same_but_proposals_simps dispatch_action_frame)

lemma invoke_lifecycle_inv:
  assumes inv: "lifecycle_inv s" and ok: "invoke h c s = Ok u t"
  shows "lifecycle_inv t"
  using ok
proof (cases rule: invoke_cases)
  case vote
  then have "get_admin t = get_admin s"
    using ok admin_governed.vote_governed [where a = "get_admin s" and s = s] by blast
  then show ?thesis using inv vote(2) by (simp add: lifecycle_inv_def storage_defs)
next
  case (registered p)
  then show ?thesis
    using inv register_pool_Ok(5) [of h p s u t] by (simp add: lifecycle_inv_def storage_defs)
qed (use inv in \<open>auto simp: lifecycle_inv_def storage_defs same_config_def same_but_tokens_def\<close>)

lemma invoke_version_inv:
  assumes inv: "version_inv s" "lifecycle_inv s" and ok: "invoke h c s = Ok u t"
    and checks: "overflow_checks h"
  shows "version_inv t"
  using ok
proof (cases rule: invoke_cases)
  case vote
  then show ?thesis using inv ok by (blast intro: governed.vote_governed [OF version_governed [OF checks]])
next
  case (registered p)
  then show ?thesis
    using register_pool_Ok(5,6) [of h p s u t]
    by (intro version_inv_part [OF _ inv(1)]) (simp add: version_part_def)
next
  case (initialized a r f v)
  then have "get_version s = \<lparr>major = 1, minor = 0, patch = 0, wasm_hash = zero_hash, upgraded_at = 0\<rparr>"
    using inv(2) by (simp add: lifecycle_inv_def get_version_def storage_defs)
  then have "\<not> is_migration_done s a b c" for a b c
    using inv(1) by (auto simp: version_inv_def)
  then show ?thesis
    using initialized by (auto simp: version_inv_def get_version_def storage_defs)
next
  case (upgraded hash t0)
  have "version_inv (clear_pending_upgrade s)"
    using inv(1) by (rule version_inv_frame) (simp_all add: storage_defs)
  from execute_wasm_upgrade_version(1) [OF this upgraded(1) checks] show ?thesis
    by (rule version_inv_frame) (simp_all add: upgraded(2))
qed (auto intro!: version_inv_part [OF _ inv(1)] simp: version_part_def same_config_def
    same_but_tokens_def)

lemma invoke_registry_inv:
  assumes inv: "registry_inv s" and ok: "invoke h c s = Ok u t"
  shows "registry_inv t"
  using ok
proof (cases rule: invoke_cases)
  case vote
  then have "is_multisig t"
    using ok admin_governed.vote_governed [where a = "get_admin s" and s = s] by blast
  then show ?thesis by (simp add: registry_inv_def)
next
  case (registered p)
  note shape = register_pool_Ok [OF registered(2)]
  show ?thesis
    using inv shape(1,4) by (auto simp: registry_inv_def storage_defs shape(5,6))
qed (use inv in \<open>auto simp: registry_inv_def storage_defs same_config_def same_but_tokens_def\<close>)

section \<open>Reachable states\<close>

lemma deployed_simps [simp]:
  "inst (deployed lu w) = empty_instance"
  "pers (deployed lu w) = empty_persistent"
  "temp (deployed lu w) = empty_temporary"
  by (simp_all add: deployed_def)

lemma router_step_preserves:
  fixes inv :: "'w env \<Rightarrow> bool"
  assumes "router_step checks self s t" and "inv s"
    and "\<And>h c u t. overflow_checks h = checks \<Longrightarrow> ledger_sequence h \<le> u32_max \<Longrightarrow>
           invoke h c s = Ok u t \<Longrightarrow> inv t"
    and "\<And>w. inv (s\<lparr>world := w\<rparr>)"
  shows "inv t"
  using assms by (cases rule: router_step.cases) (auto simp: transact_def split: outcome.splits)

lemma outside_frame:
  "tokens_inv s \<Longrightarrow> tokens_inv (s\<lparr>world := w\<rparr>)"
  "governance_inv s \<Longrightarrow> governance_inv (s\<lparr>world := w\<rparr>)"
  "timelock_inv s \<Longrightarrow> timelock_inv (s\<lparr>world := w\<rparr>)"
  "version_inv s \<Longrightarrow> version_inv (s\<lparr>world := w\<rparr>)"
  "limits_inv s \<Longrightarrow> limits_inv (s\<lparr>world := w\<rparr>)"
  "lifecycle_inv s \<Longrightarrow> lifecycle_inv (s\<lparr>world := w\<rparr>)"
  "registry_inv s \<Longrightarrow> registry_inv (s\<lparr>world := w\<rparr>)"
  by (simp_all add: tokens_inv_def governance_inv_def timelock_inv_def version_inv_def get_version_def
      limits_inv_def lifecycle_inv_def registry_inv_def storage_defs)

interpretation tokens_reach: step_invariant is_deployed "router_step checks self"
  tokens_inv
proof unfold_locales
  fix s t :: "'a env"
  show "is_deployed s \<Longrightarrow> tokens_inv s"
    by (auto simp: is_deployed_def tokens_inv_def index_inv_def storage_defs empty_instance_def
        empty_persistent_def)
  show "tokens_inv s \<Longrightarrow> router_step checks self s t \<Longrightarrow> tokens_inv t"
    by (erule router_step_preserves) (auto intro: invoke_tokens_inv outside_frame)
qed

interpretation governance_reach: step_invariant is_deployed "router_step checks self"
  governance_inv
proof unfold_locales
  fix s t :: "'a env"
  show "is_deployed s \<Longrightarrow> governance_inv s"
    by (auto simp: is_deployed_def governance_inv_def storage_defs empty_instance_def
        empty_persistent_def)
  show "governance_inv s \<Longrightarrow> router_step checks self s t \<Longrightarrow> governance_inv t"
    by (erule router_step_preserves) (auto intro: invoke_governance_inv outside_frame)
qed

interpretation timelock_reach: step_invariant is_deployed "router_step checks self"
  timelock_inv
proof unfold_locales
  fix s t :: "'a env"
  show "is_deployed s \<Longrightarrow> timelock_inv s"
    by (auto simp: is_deployed_def timelock_inv_def storage_defs empty_instance_def)
  show "timelock_inv s \<Longrightarrow> router_step checks self s t \<Longrightarrow> timelock_inv t"
    by (erule router_step_preserves) (auto intro: invoke_timelock_inv outside_frame)
qed

interpretation limits_reach: step_invariant is_deployed "router_step checks self"
  limits_inv
proof unfold_locales
  fix s t :: "'a env"
  show "is_deployed s \<Longrightarrow> limits_inv s"
    by (auto simp: is_deployed_def limits_inv_def storage_defs empty_instance_def)
  show "limits_inv s \<Longrightarrow> router_step checks self s t \<Longrightarrow> limits_inv t"
    by (erule router_step_preserves) (auto intro: invoke_limits_inv outside_frame)
qed

interpretation registry_reach: step_invariant is_deployed "router_step checks self"
  registry_inv
proof unfold_locales
  fix s t :: "'a env"
  show "is_deployed s \<Longrightarrow> registry_inv s"
    by (auto simp: is_deployed_def registry_inv_def storage_defs empty_instance_def
        empty_persistent_def)
  show "registry_inv s \<Longrightarrow> router_step checks self s t \<Longrightarrow> registry_inv t"
    by (erule router_step_preserves) (auto intro: invoke_registry_inv outside_frame)
qed

interpretation lifecycle_reach: step_invariant is_deployed "router_step checks self"
  lifecycle_inv
proof unfold_locales
  fix s t :: "'a env"
  show "is_deployed s \<Longrightarrow> lifecycle_inv s"
    by (auto simp: is_deployed_def lifecycle_inv_def storage_defs empty_instance_def)
  show "lifecycle_inv s \<Longrightarrow> router_step checks self s t \<Longrightarrow> lifecycle_inv t"
    by (erule router_step_preserves) (auto intro: invoke_lifecycle_inv outside_frame)
qed

interpretation version_reach: step_invariant is_deployed "router_step True self"
  "\<lambda>s. version_inv s \<and> lifecycle_inv s"
proof unfold_locales
  fix s t :: "'a env"
  show "is_deployed s \<Longrightarrow> version_inv s \<and> lifecycle_inv s"
    by (auto simp: is_deployed_def version_inv_def get_version_def lifecycle_inv_def storage_defs
        empty_instance_def empty_persistent_def)
  show "version_inv s \<and> lifecycle_inv s \<Longrightarrow> router_step True self s t \<Longrightarrow> version_inv t \<and> lifecycle_inv t"
    by (erule router_step_preserves) (auto intro: invoke_version_inv invoke_lifecycle_inv outside_frame)
qed

end
