(* ===== verification/Contract_Demo.thy ===== *)
theory Contract_Demo
  imports Contract_Invariants
begin

text \<open>
  A concrete host, for the inputs at which the properties are shown to apply: token
  balances kept in a function, one constant-product pool whose reserves are its
  balances, and the documented behaviour of time to live. Runs of the contract on it
  are sequences of \<open>transact\<close>.
\<close>

section \<open>The demonstration host\<close>

type_synonym demo_world = "address \<times> address \<Rightarrow> int"

definition demo_transfer ::
  "demo_world \<Rightarrow> address \<Rightarrow> address \<Rightarrow> address \<Rightarrow> i128 \<Rightarrow> demo_world option" where
  "demo_transfer w token from to amount =
     (if amount < 0 \<or> w (token, from) < amount then None
      else let w1 = w((token, from) := w (token, from) - amount)
           in Some (w1((token, to) := w1 (token, to) + amount)))"

definition demo_burn :: "demo_world \<Rightarrow> address \<Rightarrow> address \<Rightarrow> i128 \<Rightarrow> demo_world option" where
  "demo_burn w token from amount =
     (if amount < 0 \<or> w (token, from) < amount then None
      else Some (w((token, from) := w (token, from) - amount)))"

definition demo_reserves :: "demo_world \<Rightarrow> address \<Rightarrow> int \<times> int" where
  "demo_reserves w p = (w (''A'', p), w (''B'', p))"

text \<open>The pool sells token \<open>B\<close> for token \<open>A\<close>, which it has been sent beforehand.\<close>

definition demo_swap ::
  "demo_world \<Rightarrow> address \<Rightarrow> asset \<Rightarrow> asset \<Rightarrow> i128 \<Rightarrow> i128 \<Rightarrow> (i128 \<times> demo_world) option" where
  "demo_swap w p input output amount min_out =
     (case cp_amount_out (w (''A'', p) - amount) (w (''B'', p)) amount of
        None \<Rightarrow> None
      | Some out \<Rightarrow>
          (case demo_transfer w ''B'' p ''router'' out of
             None \<Rightarrow> None | Some w1 \<Rightarrow> Some (out, w1)))"

definition demo_quote ::
  "demo_world \<Rightarrow> address \<Rightarrow> asset \<Rightarrow> asset \<Rightarrow> i128 \<Rightarrow> (i128 \<times> demo_world) option" where
  "demo_quote w p input output amount =
     (case cp_amount_out (w (''A'', p)) (w (''B'', p)) amount of
        None \<Rightarrow> None | Some out \<Rightarrow> Some (out, w))"

definition demo_host :: "u32 \<Rightarrow> address list \<Rightarrow> demo_world host" where
  "demo_host ledger signatures =
     \<lparr>current_contract_address = ''router'', ledger_sequence = ledger,
      authorized = (\<lambda>a. a \<in> set signatures), overflow_checks = True,
      sha256 = (\<lambda>bs. rev (take 32 (rev bs))),
      token_transfer = demo_transfer, token_burn = demo_burn,
      pool_quote = demo_quote, pool_swap = demo_swap,
      pool_reserves = (\<lambda>w p. Some (demo_reserves w p, w)),
      update_wasm = (\<lambda>w hash. Some w),
      ttl_on_write = (\<lambda>lu now. case lu of None \<Rightarrow> now + 16 | Some l \<Rightarrow> max l (now + 16)),
      ttl_extend = (\<lambda>lu now thr ext. if lu < now + thr then max lu (now + ext) else lu)\<rparr>"

lemma demo_host_simps [simp]:
  "current_contract_address (demo_host l sg) = ''router''"
  "ledger_sequence (demo_host l sg) = l"
  "authorized (demo_host l sg) a \<longleftrightarrow> a \<in> set sg"
  "overflow_checks (demo_host l sg)"
  by (simp_all add: demo_host_def)

definition demo_world0 :: demo_world where
  "demo_world0 = (\<lambda>_. 0)((''A'', ''user'') := 5000, (''A'', ''pool'') := 1000000,
     (''B'', ''pool'') := 2000000)"

section \<open>A run of the contract\<close>

text \<open>Each call carries the ledger it runs in and the signatures it carries.\<close>

fun demo_run :: "(u32 \<times> address list \<times> invocation) list \<Rightarrow> demo_world env \<Rightarrow> demo_world env" where
  "demo_run [] s = s"
| "demo_run ((l, sg, c) # rest) s = demo_run rest (transact (demo_host l sg) c s)"

definition demo_deployed :: "demo_world env" where
  "demo_deployed = deployed 1000 demo_world0"

lemma demo_run_reachable:
  assumes "reachable True ''router'' s" "\<forall>(l, sg, c) \<in> set cs. l \<le> u32_max"
  shows "reachable True ''router'' (demo_run cs s)"
  using assms
proof (induction cs arbitrary: s)
  case Nil
  then show ?case by simp
next
  case (Cons q cs)
  obtain l sg c where q: "q = (l, sg, c)" by (cases q)
  have "router_step True ''router'' s (transact (demo_host l sg) c s)"
    using Cons.prems(2) q by (intro router_step.call) auto
  then have "reachable True ''router'' (transact (demo_host l sg) c s)"
    using Cons.prems(1) unfolding reachable_def by (rule reachable_by.step [rotated])
  then show ?case
    using Cons q by simp
qed

lemma demo_deployed_reachable: "reachable True ''router'' demo_deployed"
  unfolding reachable_def demo_deployed_def
  by (rule reachable_by.start) (auto simp: is_deployed_def)

text \<open>Initialization, a registered pool, an MEV configuration, migration to three signers.\<close>

definition demo_calls :: "(u32 \<times> address list \<times> invocation) list" where
  "demo_calls =
     [(10, [], Initialize ''admin'' 30 ''fees'' None None None None None),
      (11, [''admin''], RegisterPoolCall ''pool''),
      (12, [''admin''], ConfigureMev \<lparr>mev_max_price_impact_bps = 500,
         mev_max_execution_spread_bps = 500, rate_limit_window_ledgers = 100,
         rate_limit_max_swaps = 2, commitment_required_above = 100000\<rparr>)]"

definition demo_single :: "demo_world env" where
  "demo_single = demo_run demo_calls demo_deployed"

definition demo_multisig :: "demo_world env" where
  "demo_multisig = demo_run
     [(20, [''admin''], MigrateToMultisig ''admin'' [''s1'', ''s2'', ''s3''] 2 1000 (Some ''guard''))]
     demo_single"

lemma demo_single_reachable: "reachable True ''router'' demo_single"
  unfolding demo_single_def
  by (rule demo_run_reachable [OF demo_deployed_reachable]) (simp add: demo_calls_def u32_max_def)

lemma demo_multisig_reachable: "reachable True ''router'' demo_multisig"
  unfolding demo_multisig_def
  by (rule demo_run_reachable [OF demo_single_reachable]) (simp add: u32_max_def)

section \<open>Evaluation\<close>

lemmas call_eval = transact_def void_def require_auth_simps storage_defs event_defs Let_def
  checked_add_u32_def checked_add_u64_def u32_max_def u64_max_def

definition demo_mev :: mev_config where
  "demo_mev = \<lparr>mev_max_price_impact_bps = 500, mev_max_execution_spread_bps = 500,
     rate_limit_window_ledgers = 100, rate_limit_max_swaps = 2, commitment_required_above = 100000\<rparr>"

definition demo_version :: contract_version where
  "demo_version = \<lparr>major = 1, minor = 0, patch = 0, wasm_hash = zero_hash, upgraded_at = 0\<rparr>"

definition demo_instance :: instance_storage where
  "demo_instance = empty_instance\<lparr>i_admin := Some ''admin'', i_fee_rate := Some 30,
     i_fee_to := Some ''fees'', i_paused := Some False, i_pool_count := Some 1,
     i_pool_list := Some [''pool''], i_last_ttl_extension := Some 10,
     i_contract_version := Some demo_version, i_mev_config := Some demo_mev\<rparr>"

definition demo_persistent :: persistent_storage where
  "demo_persistent = empty_persistent\<lparr>p_supported_pool := [''pool'' \<mapsto> True],
     p_version_history := [0 \<mapsto> demo_version]\<rparr>"

definition demo_governance :: governance_config where
  "demo_governance = \<lparr>signers = [''s1'', ''s2'', ''s3''], threshold = 2, proposal_ttl = 1000\<rparr>"

lemma demo_single_storage:
  "inst demo_single = demo_instance"
  "pers demo_single = demo_persistent"
  "temp demo_single = empty_temporary"
  "world demo_single = demo_world0"
  by (simp_all add: demo_single_def demo_calls_def demo_deployed_def initialize_def register_pool_def
      configure_mev_def call_eval empty_instance_def empty_persistent_def set_initial_version_def
      demo_instance_def demo_persistent_def demo_version_def demo_mev_def cong: eval_congs)
     (simp add: deployed_def)

lemma demo_multisig_storage:
  "inst demo_multisig = demo_instance\<lparr>i_is_multisig := Some True,
     i_governance := Some demo_governance, i_guardian := Some ''guard''\<rparr>"
  "pers demo_multisig = demo_persistent"
  "temp demo_multisig = empty_temporary"
  "world demo_multisig = demo_world0"
  by (simp_all add: demo_multisig_def migrate_to_multisig_def init_governance_def call_eval
      demo_single_storage demo_instance_def empty_instance_def demo_governance_def MAX_SIGNERS_def
      cong: eval_congs)

end
