(* ===== verification/Contract_Guarantees.thy ===== *)
theory Contract_Guarantees
  imports Contract_Demo
begin

text \<open>
  What the router contract guarantees to its administrators and signers: quorum and
  finality of proposals, the authority multi-sig mode leaves to single keys, the upgrade
  timelock, the allowlist and the pool registry, over every reachable state.
\<close>

section \<open>Proposals\<close>

text \<open>
  The voting contract of governance, without storage: a proposal is open with the set of
  its voters, or closed; a vote closes it once the voters reach the threshold.
\<close>

datatype ballot = Open "address set" | Closed

definition ballot_of :: "proposal \<Rightarrow> ballot" where
  "ballot_of p = (if executed p then Closed else Open (set (approvals p)))"

definition ballots :: "'w env \<Rightarrow> u64 \<Rightarrow> ballot option" where
  "ballots s n = map_option ballot_of (get_proposal_entry s n)"

fun cast_vote :: "u32 \<Rightarrow> address \<Rightarrow> ballot \<Rightarrow> ballot" where
  "cast_vote thr a Closed = Closed"
| "cast_vote thr a (Open voters) =
     (if thr \<le> card (insert a voters) then Closed else Open (insert a voters))"

lemma reachable_governance: "reachable checks self s \<Longrightarrow> governance_inv s"
  unfolding reachable_def by (rule governance_reach.inv_reachable)

lemma governance_inv_proposal:
  assumes "governance_inv s" "get_proposal_entry s n = Some p"
  shows "proposal_id p = n" "distinct (approvals p)" "n \<le> unwrap_or (i_proposal_counter (inst s)) 0"
  using assms by (auto simp: governance_inv_def proposal_wf_def)

lemma execute_proposal_entries:
  assumes inv: "governance_inv s" and exe: "execute_proposal h n s = Ok u t"
  shows "\<exists>p. get_proposal_entry s n = Some p \<and> \<not> executed p \<and>
    p_proposal (pers t) = (p_proposal (pers s))(n \<mapsto> p\<lparr>executed := True\<rparr>)"
proof -
  obtain p t0 where p: "get_proposal_entry s n = Some p" "\<not> executed p"
    and d: "dispatch_action h (action p) (save_proposal h (p\<lparr>executed := True\<rparr>) s) = Ok () t0"
    and t: "t = extend_instance_ttl h (proposal_executed n t0)"
    using execute_proposal_Ok [OF exe] by blast
  then show ?thesis
    using dispatch_action_frame(1) [OF d] governance_inv_proposal(1) [OF inv p(1)]
    by (auto simp: event_defs)
qed

lemma approve_entries:
  assumes inv: "governance_inv s" and app: "approve h a n s = Ok u t"
    and c: "get_governance s = Some c"
  shows "\<exists>p. get_proposal_entry s n = Some p \<and> \<not> executed p \<and> a \<notin> set (approvals p) \<and>
    p_proposal (pers t) = (p_proposal (pers s))(n \<mapsto> p\<lparr>approvals := approvals p @ [a],
      executed := (threshold c \<le> length (approvals p) + 1)\<rparr>)"
proof -
  obtain c' p s1 t0 where "authorized h a" and c': "get_governance s = Some c'"
    and "a \<in> set (signers c')"
    and p: "get_proposal_entry s n = Some p" and open': "\<not> executed p"
    and "ledger_sequence h \<le> expires_at p"
    and fresh: "a \<notin> set (approvals p)"
    and s1: "s1 = proposal_approved n a (length (approvals p) + 1)
               (save_proposal h (p\<lparr>approvals := approvals p @ [a]\<rparr>) s)"
    and step: "(if threshold c' \<le> length (approvals p) + 1 then execute_proposal h n s1
                else Ok () s1) = Ok () t0"
    and t: "t = extend_instance_ttl h t0"
    using app by (rule approve_Ok)
  note id = governance_inv_proposal(1) [OF inv p]
  have "governance_inv (save_proposal h (p\<lparr>approvals := approvals p @ [a]\<rparr>) s)"
    using inv p fresh by (intro governance_inv_save) (auto simp: governance_inv_def proposal_wf_def)
  then have inv1: "governance_inv s1"
    by (rule governance_inv_frame) (simp_all add: event_defs s1)
  have entries: "p_proposal (pers s1) = (p_proposal (pers s))(n \<mapsto> p\<lparr>approvals := approvals p @ [a]\<rparr>)"
    by (simp add: s1 event_defs id)
  have same: "p\<lparr>approvals := xs, executed := False\<rparr> = p\<lparr>approvals := xs\<rparr>" for xs
    using open' by (cases p) simp
  show ?thesis
  proof (cases "threshold c \<le> length (approvals p) + 1")
    case True
    then show ?thesis
      using execute_proposal_entries [OF inv1, of h n "()" t0] step p open' fresh c c'
      by (auto simp: t entries get_proposal_entry_def)
  next
    case False
    then show ?thesis using step p open' fresh c c' entries by (auto simp: t same)
  qed
qed


lemma propose_entries:
  assumes inv: "governance_inv s" and prp: "propose h a act s = Ok n t"
  shows "n = unwrap_or (i_proposal_counter (inst s)) 0 + 1"
    and "\<And>m. m \<noteq> n \<Longrightarrow> get_proposal_entry t m = get_proposal_entry s m"
proof -
  obtain c s1 t0 where "authorized h a" "get_governance s = Some c" "a \<in> set (signers c)"
    and n: "n = unwrap_or (i_proposal_counter (inst s)) 0 + 1"
    and s1: "s1 = proposal_created n a act (save_proposal h (new_proposal h c n a act)
               (set_inst (\<lambda>i. i\<lparr>i_proposal_counter := Some n\<rparr>) s))"
    and step: "(if threshold c = 1 then execute_proposal h n s1 else Ok () s1) = Ok () t0"
    and t: "t = extend_instance_ttl h t0"
    using prp by (rule propose_Ok)
  show "n = unwrap_or (i_proposal_counter (inst s)) 0 + 1" by (rule n)
  have entry: "p_proposal (pers s1) = (p_proposal (pers s))(n \<mapsto> new_proposal h c n a act)"
    by (simp add: s1 event_defs new_proposal_def)
  have "\<exists>q. p_proposal (pers t0) = (p_proposal (pers s))(n \<mapsto> q)"
  proof (cases "threshold c = 1")
    case True
    then have "execute_proposal h n s1 = Ok () t0" using step by simp
    then obtain p t1 where p: "get_proposal_entry s1 n = Some p"
      and d: "dispatch_action h (action p) (save_proposal h (p\<lparr>executed := True\<rparr>) s1) = Ok () t1"
      and t0: "t0 = extend_instance_ttl h (proposal_executed n t1)"
      using execute_proposal_Ok by blast
    have "proposal_id p = n"
      using p entry by (auto simp: get_proposal_entry_def new_proposal_def)
    then show ?thesis
      using dispatch_action_frame(1) [OF d] entry by (auto simp: t0 event_defs)
  next
    case False
    then show ?thesis using step entry by auto
  qed
  then show "\<And>m. m \<noteq> n \<Longrightarrow> get_proposal_entry t m = get_proposal_entry s m"
    by (auto simp: t get_proposal_entry_def)
qed

lemma cancel_entries:
  assumes inv: "governance_inv s" and can: "cancel h a n s = Ok u t"
  shows "\<exists>p. get_proposal_entry s n = Some p \<and> \<not> executed p \<and>
    p_proposal (pers t) = (p_proposal (pers s))(n \<mapsto> p\<lparr>executed := True\<rparr>)"
proof -
  obtain p where p: "get_proposal_entry s n = Some p" "\<not> executed p"
    and t: "t = extend_instance_ttl h
              (proposal_cancelled n a (save_proposal h (p\<lparr>executed := True\<rparr>) s))"
    using cancel_Ok(2) [OF can] by blast
  then show ?thesis
    using governance_inv_proposal(1) [OF inv p(1)] by (auto simp: event_defs)
qed

lemma invoke_executed_proposal:
  assumes inv: "governance_inv s" and ok: "invoke h c s = Ok u t"
    and p: "get_proposal_entry s n = Some p" "executed p"
  shows "get_proposal_entry t n = Some p"
  using ok
proof (cases rule: invoke_cases)
  case vote
  then show ?thesis
  proof (elim disjE exE)
    assume "vote_call c"
    then show ?thesis
    proof (cases c)
      case (Propose a act)
      then obtain m where "propose h a act s = Ok m t" using ok by (auto simp: router_propose_def)
      note e = propose_entries [OF inv this]
      have "n \<noteq> m" using e(1) governance_inv_proposal(3) [OF inv p(1)] by linarith
      then show ?thesis using e(2) p(1) by simp
    next
      case (ApproveProposal a m)
      then have app: "approve h a m s = Ok u t" using ok by (simp add: approve_proposal_def)
      obtain gc where "get_governance s = Some gc" using app by (rule approve_Ok)
      from approve_entries [OF inv app this] p show ?thesis
        by (auto simp: get_proposal_entry_def)
    next
      case (ExecuteProposal m)
      then have "execute_proposal h m s = Ok u t" using ok by (simp add: router_execute_proposal_def)
      from execute_proposal_entries [OF inv this] p show ?thesis
        by (auto simp: get_proposal_entry_def)
    qed auto
  next
    fix a m assume "c = CancelProposal a m"
    then have "cancel h a m s = Ok u t" using ok by (simp add: cancel_proposal_def)
    from cancel_entries [OF inv this] p show ?thesis by (auto simp: get_proposal_entry_def)
  qed
next
  case (registered q)
  then show ?thesis
    using p register_pool_Ok(6) [of h q s u t] by (simp add: get_proposal_entry_def)
qed (use p in \<open>auto simp: get_proposal_entry_def same_config_def same_but_tokens_def\<close>)


text \<open>
  A proposal that only became executable when the threshold was lowered from two to one:
  the state before its execution.
\<close>

definition demo_proposed :: "demo_world env" where
  "demo_proposed = demo_run [(30, [''s1''], Propose ''s1'' (SetFeeRate 50))] demo_multisig"

definition demo_lowered :: "demo_world env" where
  "demo_lowered = demo_run [(31, [''s1''], Propose ''s1'' (ChangeThreshold 1)),
     (32, [''s2''], ApproveProposal ''s2'' 2)] demo_proposed"

definition demo_proposal :: proposal where
  "demo_proposal = \<lparr>proposal_id = 1, action = SetFeeRate 50, proposer = ''s1'', approvals = [''s1''],
      created_at = 30, expires_at = 1030, executed = False\<rparr>"

lemmas governance_eval = call_eval router_propose_def approve_proposal_def multisig_only_def
  propose_def approve_def execute_proposal_def next_proposal_id_def is_signer_def has_approved_def
  new_proposal_def saturating_add_u64_def dispatch_action_def

lemma demo_proposed_storage:
  "inst demo_proposed = (inst demo_multisig)\<lparr>i_proposal_counter := Some 1\<rparr>"
  "pers demo_proposed = demo_persistent\<lparr>p_proposal := [1 \<mapsto> demo_proposal]\<rparr>"
  "temp demo_proposed = empty_temporary"
  by (simp_all add: demo_proposed_def governance_eval demo_multisig_storage demo_governance_def
      demo_instance_def empty_instance_def demo_persistent_def empty_persistent_def
      demo_proposal_def cong: eval_congs)


lemma demo_proposed_reachable: "reachable True ''router'' demo_proposed"
  unfolding demo_proposed_def
  by (rule demo_run_reachable [OF demo_multisig_reachable]) (simp add: u32_max_def)

lemma demo_lowered_reachable: "reachable True ''router'' demo_lowered"
  unfolding demo_lowered_def
  by (rule demo_run_reachable [OF demo_proposed_reachable]) (simp add: u32_max_def)



text \<open>
  C2: once a proposal is executed or cancelled its record never changes again: no call of the
  contract, and nothing outside it, reopens, alters or removes it.
\<close>

theorem executed_proposal_final:
  assumes "reachable checks self s" "router_step checks self s t"
    and "get_proposal_entry s n = Some p" "executed p"
  shows "get_proposal_entry t n = Some p"
  using assms(2)
proof cases
  case (call h c)
  show ?thesis
  proof (cases "invoke h c s")
    case (Ok u t')
    note inv = reachable_governance [OF assms(1)]
    have "get_proposal_entry t' n = Some p"
      using invoke_executed_proposal [OF inv Ok assms(3,4)] .
    then show ?thesis using call Ok by (simp add: transact_def)
  qed (use call assms(3) in \<open>simp_all add: transact_def\<close>)
next
  case (outside w)
  then show ?thesis using assms(3) by (simp add: get_proposal_entry_def)
qed

theorem executed_proposal_final_witness:
  "\<exists>p. get_proposal_entry demo_lowered 2 = Some p \<and> executed p \<and>
     get_proposal_entry (transact (demo_host 40 [''s3'']) (ApproveProposal ''s3'' 2) demo_lowered) 2
       = Some p"
proof -
  let ?p = "\<lparr>proposal_id = 2, action = ChangeThreshold 1, proposer = ''s1'',
    approvals = [''s1'', ''s2''], created_at = 31, expires_at = 1031, executed = True\<rparr>"
  have p: "get_proposal_entry demo_lowered 2 = Some ?p"
    by (simp add: demo_lowered_def governance_eval demo_proposed_storage demo_multisig_storage
      demo_governance_def demo_instance_def empty_instance_def demo_persistent_def
      empty_persistent_def cong: eval_congs)
  have "router_step True ''router'' demo_lowered
      (transact (demo_host 40 [''s3'']) (ApproveProposal ''s3'' 2) demo_lowered)"
    by (rule router_step.call) (simp_all add: u32_max_def)
  from executed_proposal_final [OF demo_lowered_reachable this p] p show ?thesis by simp
qed

text \<open>
  C3: approving refines the abstract vote: the approver is added to the voters of the one
  proposal named, the proposal is closed exactly when the voters reach the threshold, and every other
  proposal is left as it was.
\<close>

theorem approve_refines_vote:
  assumes "reachable checks self s" "approve h a n s = Ok u t" "get_governance s = Some c"
  shows "ballots t = (ballots s)(n := map_option (cast_vote (threshold c) a) (ballots s n))"
proof -
  note inv = reachable_governance [OF assms(1)]
  obtain p where p: "get_proposal_entry s n = Some p" "\<not> executed p" "a \<notin> set (approvals p)"
    and t: "p_proposal (pers t) = (p_proposal (pers s))(n \<mapsto> p\<lparr>approvals := approvals p @ [a],
      executed := (threshold c \<le> length (approvals p) + 1)\<rparr>)"
    using approve_entries [OF inv assms(2,3)] by blast
  have "card (insert a (set (approvals p))) = length (approvals p) + 1"
    using p(3) governance_inv_proposal(2) [OF inv p(1)] by (simp add: distinct_card)
  then show ?thesis
    using p t by (auto simp: ballots_def ballot_of_def get_proposal_entry_def fun_eq_iff)
qed

theorem approve_refines_vote_witness:
  "\<exists>t. approve (demo_host 40 [''s2'']) ''s2'' 1 demo_proposed = Ok () t \<and> ballots t 1 = Some Closed"
proof -
  have c: "get_governance demo_proposed = Some demo_governance"
    by (simp add: get_governance_def demo_proposed_storage demo_multisig_storage)
  have "\<exists>t. approve (demo_host 40 [''s2'']) ''s2'' 1 demo_proposed = Ok () t"
    by (simp add: governance_eval demo_proposed_storage demo_multisig_storage demo_proposal_def
        demo_governance_def demo_instance_def empty_instance_def cong: eval_congs)
  then obtain t where t: "approve (demo_host 40 [''s2'']) ''s2'' 1 demo_proposed = Ok () t" ..
  have "ballots demo_proposed 1 = Some (Open {''s1''})"
    by (simp add: ballots_def ballot_of_def get_proposal_entry_def demo_proposed_storage demo_proposal_def)
  then show ?thesis
    using t approve_refines_vote [OF demo_proposed_reachable t c] by (simp add: demo_governance_def)
qed

section \<open>Authority\<close>

lemma reachable_lifecycle: "reachable checks self s \<Longrightarrow> lifecycle_inv s"
  unfolding reachable_def by (rule lifecycle_reach.inv_reachable)

lemma reachable_multisig_admin:
  assumes "reachable checks self s" "is_multisig s"
  shows "i_admin (inst s) \<noteq> None"
  using reachable_lifecycle [OF assms(1)] assms(2) by (auto simp: lifecycle_inv_def is_initialized_def)

text \<open>
  C4: in multi-sig mode only a vote changes who administers the contract and what it charges.
  Any other call that succeeds, whoever signs it, keeps the admin, the signers and the threshold, the guardian,
  the fee rate, the fee recipient and split, the registered pools and the token
  allowlist, and does not lift a pause.
\<close>

theorem multisig_authority:
  assumes "reachable checks self s" "is_multisig s" "invoke h c s = Ok u t" "\<not> vote_call c"
  shows "get_admin t = get_admin s \<and> get_governance t = get_governance s \<and>
    get_guardian t = get_guardian s \<and> get_fee_rate t = get_fee_rate s \<and>
    get_fee_to_optional t = get_fee_to_optional s \<and> get_fee_config t = get_fee_config s \<and>
    registry_part t = registry_part s \<and> tokens_part t = tokens_part s \<and>
    (get_paused s \<longrightarrow> get_paused t)"
  using assms(3)
proof (cases rule: invoke_cases)
  case vote
  then obtain a n where "cancel h a n s = Ok u t"
    using assms(3,4) by (auto simp: cancel_proposal_def)
  then obtain p where "t = extend_instance_ttl h
      (proposal_cancelled n a (save_proposal h (p\<lparr>executed := True\<rparr>) s))"
    using cancel_Ok(2) by blast
  then show ?thesis by (simp add: storage_defs event_defs part_defs)
next
  case (initialized a r f v)
  then show ?thesis using reachable_multisig_admin [OF assms(1,2)] by simp
next
  case (registered p)
  then show ?thesis using register_pool_Ok(1) assms(2) by blast
qed (use assms(2) in \<open>auto simp: storage_defs part_defs same_config_def\<close>)

theorem multisig_authority_witness:
  "is_multisig demo_multisig \<and>
   (\<exists>t. invoke (demo_host 40 [''guard'']) (GuardianPause ''guard'') demo_multisig = Ok () t \<and>
        get_paused t \<and> get_governance t = get_governance demo_multisig)"
proof -
  have m: "is_multisig demo_multisig"
    by (simp add: is_multisig_def demo_multisig_storage)
  have "\<exists>t. invoke (demo_host 40 [''guard'']) (GuardianPause ''guard'') demo_multisig = Ok () t \<and>
      get_paused t"
    by (simp add: guardian_pause_def call_eval demo_multisig_storage cong: eval_congs)
  then obtain t where t: "invoke (demo_host 40 [''guard'']) (GuardianPause ''guard'') demo_multisig = Ok () t"
    "get_paused t" by blast
  show ?thesis
    using multisig_authority [OF demo_multisig_reachable m t(1)] m t by simp
qed

definition demo_wasm :: bytes32 where
  "demo_wasm = replicate 32 7"

definition demo_pending :: "demo_world env" where
  "demo_pending = demo_run [(13, [''admin''], ProposeUpgrade ''admin'' demo_wasm 0)] demo_single"

definition demo_pending_multisig :: "demo_world env" where
  "demo_pending_multisig = demo_run
     [(20, [''admin''], MigrateToMultisig ''admin'' [''s1'', ''s2'', ''s3''] 2 1000 None)] demo_pending"

lemma demo_wasm_neq: "demo_wasm \<noteq> zero_hash" "zero_hash \<noteq> demo_wasm"
  by (simp_all add: demo_wasm_def zero_hash_def)

lemma demo_pending_storage:
  "inst demo_pending = demo_instance\<lparr>i_pending_upgrade := Some \<lparr>new_wasm_hash = demo_wasm,
     proposed_at = 13, execute_after = 13 + MIN_DELAY_LEDGERS, upgrade_proposer = ''admin''\<rparr>\<rparr>"
  "pers demo_pending = demo_persistent"
  by (simp_all add: demo_pending_def propose_upgrade_def call_eval demo_single_storage demo_wasm_neq
      demo_instance_def empty_instance_def demo_version_def get_version_def plain_add_u64_def
      MIN_DELAY_LEDGERS_def cong: eval_congs)

lemma demo_pending_multisig_storage:
  "inst demo_pending_multisig = (inst demo_pending)\<lparr>i_is_multisig := Some True,
     i_governance := Some demo_governance\<rparr>"
  "pers demo_pending_multisig = demo_persistent"
  by (simp_all add: demo_pending_multisig_def migrate_to_multisig_def init_governance_def call_eval
      demo_pending_storage demo_instance_def empty_instance_def demo_governance_def MAX_SIGNERS_def
      cong: eval_congs)

lemma demo_pending_reachable:
  "reachable True ''router'' demo_pending"
  "reachable True ''router'' demo_pending_multisig"
proof -
  show 1: "reachable True ''router'' demo_pending"
    unfolding demo_pending_def
    by (rule demo_run_reachable [OF demo_single_reachable]) (simp add: u32_max_def)
  show "reachable True ''router'' demo_pending_multisig"
    unfolding demo_pending_multisig_def
    by (rule demo_run_reachable [OF 1]) (simp add: u32_max_def)
qed

lemma demo_pending_executes:
  assumes "s = demo_pending \<or> s = demo_pending_multisig"
  shows "\<exists>t. execute_upgrade (demo_host 17293 [''admin'']) ''admin'' s = Ok () t \<and>
    wasm_hash (get_version t) = demo_wasm"
  using assms
  by (elim disjE) (simp_all add: execute_upgrade_def execute_wasm_upgrade_def migrate_def call_eval
      demo_pending_multisig_storage demo_pending_storage demo_instance_def empty_instance_def
      demo_version_def get_version_def plain_add_u32_def MIN_DELAY_LEDGERS_def demo_wasm_neq
      demo_persistent_def empty_persistent_def demo_host_def cong: eval_congs)


section \<open>Upgrades\<close>

text \<open>
  C6: the timelock. Over every reachable state, an upgrade the admin executes was proposed at
  least \<open>MIN_DELAY_LEDGERS\<close> ledgers before, installs exactly the proposed hash, which is not
  the zero hash, and leaves no upgrade pending.
\<close>

theorem upgrade_timelock:
  assumes "reachable checks self s" "execute_upgrade h a s = Ok u t"
  shows "\<exists>p. get_pending_upgrade s = Some p \<and>
    proposed_at p + MIN_DELAY_LEDGERS \<le> ledger_sequence h \<and> new_wasm_hash p \<noteq> zero_hash \<and>
    wasm_hash (get_version t) = new_wasm_hash p \<and> get_pending_upgrade t = None"
proof -
  have inv: "timelock_inv s"
    using assms(1) unfolding reachable_def by (rule timelock_reach.inv_reachable)
  obtain p :: pending_upgrade and t0 where p: "get_pending_upgrade s = Some p" "execute_after p \<le> ledger_sequence h"
    and e: "execute_wasm_upgrade h (new_wasm_hash p) (clear_pending_upgrade s) = Ok () t0"
    and t: "t = extend_instance_ttl h t0"
    using execute_upgrade_Ok(4) [OF assms(2)] by blast
  have "wasm_hash (get_version t) = new_wasm_hash p" "get_pending_upgrade t = None"
    using execute_wasm_upgrade_Ok(2) [OF e] by (auto simp: t get_version_def storage_defs Let_def)
  then show ?thesis
    using p inv by (force simp: timelock_inv_def)
qed

theorem upgrade_timelock_witness:
  "\<exists>t. execute_upgrade (demo_host 17293 [''admin'']) ''admin'' demo_pending = Ok () t \<and>
     get_pending_upgrade t = None"
proof -
  obtain t where t: "execute_upgrade (demo_host 17293 [''admin'']) ''admin'' demo_pending = Ok () t"
    using demo_pending_executes by blast
  then show ?thesis
    using upgrade_timelock [OF demo_pending_reachable(1) t] by blast
qed

text \<open>
  With overflow checks on, the version of a reachable contract is \<open>1.0.p\<close>, the migration
  hook has run for the patch levels \<open>1..p\<close> exactly once each, and so its guard
  \<open>MigrationAlreadyDone\<close> never refuses an upgrade.
\<close>

theorem migrations_run_once:
  assumes "reachable True self s" "overflow_checks h"
  shows "version_inv s \<and> (\<forall>hash t. execute_wasm_upgrade h hash s \<noteq> Err MigrationAlreadyDone t)"
proof -
  have "version_inv s \<and> lifecycle_inv s"
    using assms(1) unfolding reachable_def by (rule version_reach.inv_reachable)
  then show ?thesis
    using migration_guard_unreachable [OF _ assms(2)] by blast
qed

theorem migrations_run_once_witness:
  "version_inv demo_pending \<and>
   execute_wasm_upgrade (demo_host 17293 []) demo_wasm demo_pending \<noteq> Err MigrationAlreadyDone demo_pending"
  using migrations_run_once [OF demo_pending_reachable(1), of "demo_host 17293 []"] by simp

section \<open>The allowlist, the pool registry and the limits\<close>

lemma reachable_tokens: "reachable checks self s \<Longrightarrow> tokens_inv s"
  unfolding reachable_def by (rule tokens_reach.inv_reachable)

lemma in_category_iff:
  "x \<in> set (get_tokens_by_category s c) \<longleftrightarrow>
     is_token_allowed s x \<and> (\<exists>i < cat_len s c. p_cat_entry (pers s) (c, i) = Some x)"
  by (auto simp: get_tokens_by_category_def eq_commute [of "Some x"] split: option.splits if_splits)

lemma tokens_inv_slot:
  "tokens_inv s \<Longrightarrow> i < cat_len s c \<longleftrightarrow> p_cat_entry (pers s) (c, i) \<noteq> None"
  by (simp add: tokens_inv_def index_inv_def cat_len_def)

lemma tokens_inv_listed:
  assumes "tokens_inv s" "is_token_allowed s x"
  shows "\<exists>c. x \<in> set (get_tokens_by_category s c)"
proof -
  obtain c i where "p_cat_entry (pers s) (c, i) = Some x"
    using assms by (auto simp: tokens_inv_def index_inv_def is_token_allowed_def)
  moreover from this have "i < cat_len s c"
    using tokens_inv_slot [OF assms(1)] by simp
  ultimately show ?thesis using assms(2) unfolding in_category_iff by blast
qed

text \<open>
  In every reachable state the token counter is the number of allowed tokens, every entry
  is stored under its own asset with at most 19 decimals, the index slots below a
  category's length are filled and the others empty, and the category queries together
  return exactly the allowed tokens.
\<close>

theorem allowlist_consistent:
  assumes "reachable checks self s"
  shows "finite {x. is_token_allowed s x} \<and> get_token_count s = card {x. is_token_allowed s x} \<and>
    (\<forall>x info. get_token_info s x = Some info \<longrightarrow> token_asset info = x \<and> decimals info \<le> MAX_DECIMALS) \<and>
    (\<forall>c i. i < cat_len s c \<longleftrightarrow> p_cat_entry (pers s) (c, i) \<noteq> None) \<and>
    (\<Union>c. set (get_tokens_by_category s c)) = {x. is_token_allowed s x}"
proof (intro conjI allI)
  note inv = reachable_tokens [OF assms]
  have dom: "{x. is_token_allowed s x} = dom (p_allowed_token (pers s))"
    by (auto simp: is_token_allowed_def)
  show "finite {x. is_token_allowed s x}" "get_token_count s = card {x. is_token_allowed s x}"
    using inv by (simp_all add: dom tokens_inv_def)
  show "get_token_info s x = Some info \<longrightarrow> token_asset info = x \<and> decimals info \<le> MAX_DECIMALS"
    for x info
    using inv by (simp add: tokens_inv_def get_token_info_def)
  show "i < cat_len s c \<longleftrightarrow> p_cat_entry (pers s) (c, i) \<noteq> None" for c i
    using inv by (rule tokens_inv_slot)
  show "(\<Union>c. set (get_tokens_by_category s c)) = {x. is_token_allowed s x}"
    using tokens_inv_listed [OF inv] by (auto simp: in_category_iff)
qed

definition demo_usd :: token_info where
  "demo_usd = \<lparr>token_asset = Soroban ''A'', token_name = ''Dollar'', token_code = ''USD'',
     decimals = 7, issuer_verified = True, category = Stablecoin, added_at = 0, added_by = ''admin''\<rparr>"

definition demo_tokens :: "demo_world env" where
  "demo_tokens = demo_run [(13, [''admin''], AddToken ''admin'' demo_usd)] demo_single"

lemma demo_tokens_reachable: "reachable True ''router'' demo_tokens"
  unfolding demo_tokens_def
  by (rule demo_run_reachable [OF demo_single_reachable]) (simp add: u32_max_def)

theorem allowlist_consistent_witness:
  "reachable True ''router'' demo_tokens \<and> get_token_count demo_tokens = 1 \<and>
   card {x. is_token_allowed demo_tokens x} = 1"
proof -
  have "get_token_count demo_tokens = 1"
    by (simp add: demo_tokens_def add_token_def require_admin_auth_def token_op_defs call_eval
        demo_usd_def MAX_DECIMALS_def demo_single_storage demo_instance_def empty_instance_def
        demo_persistent_def empty_persistent_def cong: eval_congs)
  then show ?thesis
    using allowlist_consistent [OF demo_tokens_reachable] demo_tokens_reachable by simp
qed

text \<open>
  While the contract has a single admin, the pool list enumerates exactly the registered
  pools, without repetition, and the pool counter is its length.
\<close>

theorem registry_consistent:
  assumes "reachable checks self s" "\<not> is_multisig s"
  shows "distinct (get_pool_list s) \<and> get_pool_count s = length (get_pool_list s) \<and>
    {p. is_supported_pool s p} = set (get_pool_list s)"
proof -
  have "registry_inv s"
    using assms(1) unfolding reachable_def by (rule registry_reach.inv_reachable)
  then show ?thesis using assms(2) by (auto simp: registry_inv_def)
qed

theorem registry_consistent_witness:
  "{p. is_supported_pool demo_single p} = {''pool''}"
  using registry_consistent [OF demo_single_reachable]
  by (simp add: storage_defs demo_single_storage demo_instance_def empty_instance_def)

text \<open>
  In every reachable state the fee is at most ten percent, and an MEV configuration has a
  positive window, a positive number of swaps, a positive commitment amount and bounds within 100 percent.
\<close>

theorem limits_respected:
  assumes "reachable checks self s"
  shows "get_fee_rate s \<le> 1000 \<and>
    (get_mev_config s = None \<or> mev_config_wf (the (get_mev_config s)))"
proof -
  have "limits_inv s"
    using assms unfolding reachable_def by (rule limits_reach.inv_reachable)
  then show ?thesis by (cases "get_mev_config s") (auto simp: limits_inv_def)
qed

theorem limits_respected_witness:
  "get_fee_rate demo_single = 30 \<and> mev_config_wf demo_mev"
  using limits_respected [OF demo_single_reachable]
  by (simp add: storage_defs demo_single_storage demo_instance_def empty_instance_def)

lemma invoke_keeps_admin:
  assumes "invoke h c s = Ok u t" "i_admin (inst s) \<noteq> None"
  shows "i_admin (inst t) \<noteq> None"
  using assms(1)
proof (cases rule: invoke_cases)
  case vote
  then have "get_admin t = get_admin s"
    using assms(1) admin_governed.vote_governed [where a = "get_admin s" and s = s] by blast
  then show ?thesis using assms(2) by (simp add: get_admin_def)
next
  case (registered p)
  then show ?thesis using assms(2) register_pool_Ok(5) [of h p s u t] by simp
qed (use assms(2) in \<open>auto simp: same_config_def same_but_tokens_def\<close>)

text \<open>
  A contract is initialized at most once: an initialized contract stays initialized
  through every step, and every further \<open>initialize\<close> is refused.
\<close>

theorem initialized_once:
  assumes "router_step checks self s t" "is_initialized s"
  shows "is_initialized t \<and> initialize h a r f sg th tt g w t = Err AlreadyInitialized t"
proof -
  have "i_admin (inst t) \<noteq> None"
    using assms(1)
  proof (rule router_step_preserves)
    show admin: "i_admin (inst s) \<noteq> None" using assms(2) by (simp add: is_initialized_def)
    show "i_admin (inst t) \<noteq> None" if "invoke h c s = Ok u t" for h c u t
      using that admin invoke_keeps_admin by blast
    show "\<And>w. i_admin (inst (s\<lparr>world := w\<rparr>)) \<noteq> None"
      using assms(2) by (simp add: is_initialized_def)
  qed
  then show ?thesis by (simp add: is_initialized_def initialize_def)
qed

theorem initialized_once_witness:
  "is_initialized demo_single \<and>
   is_initialized (transact (demo_host 30 [''admin'']) (SetAdmin ''next'') demo_single)"
proof -
  have "router_step True ''router'' demo_single
      (transact (demo_host 30 [''admin'']) (SetAdmin ''next'') demo_single)"
    by (rule router_step.call) (simp_all add: u32_max_def)
  moreover have "is_initialized demo_single"
    by (simp add: is_initialized_def demo_single_storage demo_instance_def)
  ultimately show ?thesis using initialized_once by blast
qed

section \<open>Pausing\<close>

text \<open>
  While the contract is paused no swap, commitment, reveal or upgrade goes through: the
  signed call returns \<open>Paused\<close>, and in every case the transaction leaves no
  trace.
\<close>

theorem paused_blocks:
  assumes "get_paused s" "authorized h a"
  shows "execute_swap h a p s = Err Paused s \<and> commit_swap h a hash d s = Err Paused s \<and>
    reveal_and_execute h a p salt s = Err Paused s \<and>
    transact h (Execute a p) s = s \<and> transact h (ExecuteSwap a p) s = s \<and>
    transact h (CommitSwap a hash d) s = s \<and> transact h (RevealAndExecute a p salt) s = s \<and>
    transact h (ProposeUpgrade a hash n) s = s \<and> transact h (ExecuteUpgrade a) s = s"
proof -
  have "execute_swap h a p t = Err Paused t" if "get_paused t" for t
    using that assms(2) by (simp add: execute_swap_def require_auth_def require_not_paused_def)
  then have "execute_swap h a p s = Err Paused s"
    "execute_swap h a p (execution_requested h a (amount_in p) (length (hops (params_route p)))
       (deadline p) s) = Err Paused (execution_requested h a (amount_in p)
         (length (hops (params_route p))) (deadline p) s)"
    using assms(1) by (simp_all add: event_defs get_paused_def)
  moreover have "commit_swap h a hash d s = Err Paused s"
    "reveal_and_execute h a p salt s = Err Paused s"
    using assms
    by (simp_all add: commit_swap_def reveal_and_execute_def require_auth_def require_not_paused_def)
  moreover have "\<And>t. propose_upgrade h a hash n s \<noteq> Ok () t" "\<And>t. execute_upgrade h a s \<noteq> Ok () t"
    using assms(1) propose_upgrade_Ok(4) execute_upgrade_Ok(3) by blast+
  ultimately show ?thesis
    by (auto simp: transact_def execute_def void_def split: outcome.splits)
qed

definition demo_paused :: "demo_world env" where
  "demo_paused = demo_run [(40, [''guard''], GuardianPause ''guard'')] demo_multisig"

lemma demo_paused_storage: "inst demo_paused = (inst demo_multisig)\<lparr>i_paused := Some True\<rparr>"
  by (simp add: demo_paused_def guardian_pause_def call_eval demo_multisig_storage cong: eval_congs)

theorem paused_blocks_witness:
  "get_paused demo_paused \<and>
   transact (demo_host 41 [''admin'']) (ExecuteUpgrade ''admin'') demo_paused = demo_paused"
  using paused_blocks [of demo_paused "demo_host 41 [''admin'']" "''admin''"]
  by (simp add: get_paused_def demo_paused_storage)

section \<open>Signer management\<close>







end
