(* ===== verification/Swap_Guarantees.thy ===== *)
theory Swap_Guarantees
  imports Contract_Demo
begin

text \<open>
  What a trader gets from the router contract: the terms every executed swap respects,
  the fee, the reserve and spread checks, the commit-reveal flow and route validation.
\<close>

section \<open>A swap on the demonstration host\<close>

definition demo_route :: route where
  "demo_route = \<lparr>hops = [\<lparr>source = Soroban ''A'', destination = Soroban ''B'', pool = ''pool'',
       hop_pool_type = AmmConstProd\<rparr>],
     estimated_output = 2000, min_output = 1900, route_expires_at = 0\<rparr>"

definition demo_params :: swap_params where
  "demo_params = \<lparr>params_route = demo_route, amount_in = 1000, min_amount_out = 1950,
     recipient = ''user'', deadline = 100, not_before = 0, max_price_impact_bps = 50,
     max_execution_spread_bps = 100\<rparr>"

lemma demo_pool_calls [simp]:
  "pool_swap (demo_host l sg) = demo_swap"
  "token_transfer (demo_host l sg) = demo_transfer"
  "pool_reserves (demo_host l sg) w p = Some (demo_reserves w p, w)"
  "pool_quote (demo_host l sg) = demo_quote"
  by (simp_all add: demo_host_def)

lemmas checked_defs = checked_add_def checked_sub_def checked_mul_def checked_div_def
  checked_i128_def in_i128_def i128_max_def i128_min_def sdiv_nonneg

definition demo_world1 :: demo_world where
  "demo_world1 = demo_world0((''A'', ''user'') := 4000, (''A'', ''pool'') := 1001000)"

definition demo_world2 :: demo_world where
  "demo_world2 = demo_world1((''B'', ''pool'') := 1998008, (''B'', ''router'') := 1992)"

definition demo_world3 :: demo_world where
  "demo_world3 = demo_world2((''B'', ''router'') := 5, (''B'', ''user'') := 1987)"

lemma demo_world_calls:
  "demo_transfer demo_world0 ''A'' ''user'' ''pool'' 1000 = Some demo_world1"
  "demo_swap demo_world1 ''pool'' x y 1000 0 = Some (1992, demo_world2)"
  "demo_transfer demo_world2 ''B'' ''router'' ''user'' 1987 = Some demo_world3"
  "demo_reserves demo_world0 ''pool'' = (1000000, 2000000)"
  "demo_reserves demo_world2 ''pool'' = (1001000, 1998008)"
  by (auto simp: demo_transfer_def demo_swap_def demo_reserves_def demo_world0_def demo_world1_def
      demo_world2_def demo_world3_def cp_amount_out_def checked_defs fun_eq_iff Let_def)

definition demo_result :: swap_result where
  "demo_result = \<lparr>result_amount_in = 1000, result_amount_out = 1987, result_route = demo_route,
     executed_at = 40\<rparr>"

text \<open>Any state with the configuration of \<open>demo_single\<close> and no recorded swaps of the user.\<close>

lemma demo_swap_internal:
  assumes "inst s = demo_instance" "pers s = demo_persistent" "world s = demo_world0"
    and "t_account_swap_count (temp s) ''user'' = None"
  shows "\<exists>t. execute_swap_internal (demo_host 40 [''user'']) ''user'' demo_params s = Ok demo_result t"
proof -
  let ?h = "demo_host 40 [''user'']"
  let ?r = "set_account_swap_count ?h ''user'' 1 100 (set_account_swap_window_start ?h ''user'' 40 100 s)"
  have 1: "check_swap_params ?h ''user'' demo_params s = Ok () s"
    using assms by (simp add: check_swap_params_def demo_params_def demo_route_def
        is_supported_pool_def demo_persistent_def)
  have "check_rate_limit ?h ''user'' s = Ok () ?r"
    using assms by (simp add: check_rate_limit_def Let_def storage_defs demo_instance_def demo_mev_def
        demo_persistent_def empty_persistent_def get_account_swap_count_def)
  moreover have "inst ?r = demo_instance" "pers ?r = demo_persistent" "world ?r = demo_world0"
    using assms by (simp_all add: storage_defs)
  ultimately obtain s1 where 2: "check_rate_limit ?h ''user'' s = Ok () s1"
    and s1: "inst s1 = demo_instance" "pers s1 = demo_persistent" "world s1 = demo_world0"
    by metis
  have 3: "snapshot_reserves ?h (hops demo_route) s1 = Ok [(1000000, 2000000)] s1"
    by (simp add: demo_route_def AmmAdapter_get_reserves_def s1 demo_world_calls)
  have 4: "transfer_asset ?h (Soroban ''A'') ''user'' ''pool'' 1000 s1 = Ok () (s1\<lparr>world := demo_world1\<rparr>)"
    by (simp add: transfer_asset_def s1 demo_world_calls)
  have 5: "swap_hops ?h (hops demo_route) 1000 0 (s1\<lparr>world := demo_world1\<rparr>) =
      Ok (1992, 5) (s1\<lparr>world := demo_world2\<rparr>)"
    by (simp add: demo_route_def AmmAdapter_swap_def demo_world_calls)
  have 6: "charge_fee 30 1992 u = Ok (5, 1987) u" for u :: "demo_world env"
    by (simp add: charge_fee_def checked_defs)
  have 7: "slippage_guards demo_params 5 1987 u = Ok () u" for u :: "demo_world env"
    by (simp add: slippage_guards_def execution_spread_def required_min_out_def demo_params_def
        demo_route_def checked_defs)
  have 8: "check_reserves ?h (zip (hops demo_route) [(1000000, 2000000)]) (s1\<lparr>world := demo_world2\<rparr>) =
      Ok () (s1\<lparr>world := demo_world2\<rparr>)"
    by (simp add: demo_route_def AmmAdapter_get_reserves_def demo_world_calls same_direction_def
        checked_defs)
  have 9: "\<exists>t. settle_swap ?h ''user'' demo_params 5 1987 u = Ok demo_result t"
    if "inst u = demo_instance" "pers u = demo_persistent" "world u = demo_world2" for u
    using that by (simp add: settle_swap_def Let_def demo_params_def demo_route_def demo_result_def
        transfer_asset_def demo_world_calls collect_fee_def event_defs storage_defs demo_instance_def
        empty_instance_def increment_nonce_def checked_defs demo_persistent_def empty_persistent_def)
  have rate: "get_fee_rate (s1\<lparr>world := w\<rparr>) = 30" for w
    by (simp add: get_fee_rate_def s1 demo_instance_def)
  have impact: "note_high_impact ''user'' 5 1000 (s1\<lparr>world := w\<rparr>) = s1\<lparr>world := w\<rparr>" for w
    by (simp add: note_high_impact_def get_mev_config_def s1 demo_instance_def demo_mev_def)
  have route: "params_route demo_params = demo_route" "amount_in demo_params = 1000"
    "source (hd (hops demo_route)) = Soroban ''A''" "pool (hd (hops demo_route)) = ''pool''"
    by (simp_all add: demo_params_def demo_route_def)
  show ?thesis
    using 9 [of "s1\<lparr>world := demo_world2\<rparr>"] s1
    by (simp add: execute_swap_internal_def Let_def route 1 2 3 4 5 6 7 8 rate impact)
qed

section \<open>The terms of an executed swap\<close>

lemma settle_swap_nonce:
  assumes "settle_swap h a p fee out s = Ok r t"
  shows "p_swap_nonce (pers t) = (p_swap_nonce (pers s))(a \<mapsto> get_nonce s a + 1)"
    and "result_amount_in r = amount_in p" "result_amount_out r = out"
    and "get_total_swap_volume t =
      unwrap_or (checked_add (get_total_swap_volume s) (amount_in p)) i128_max"
  using assms
proof (rule_tac [!] settle_swap_Ok)
  fix s1 s2 s3
  assume tr: "transfer_asset h (destination (last (hops (params_route p))))
      (current_contract_address h) (recipient p) out s = Ok () s1"
    and fee: "collect_fee h (destination (last (hops (params_route p)))) fee s1 = Ok () s2"
    and nonce: "increment_nonce h a s2 = Ok () s3"
    and r: "r = \<lparr>result_amount_in = amount_in p, result_amount_out = out,
          result_route = params_route p, executed_at = ledger_sequence h\<rparr>"
    and t: "t = swap_executed h a (amount_in p) out fee (params_route p)
       (check_ttl_health h (extend_instance_ttl h
         (extend_pools h (map pool (hops (params_route p))) (add_swap_volume h (amount_in p) s3))))"
  have "pers s1 = pers s" using transfer_asset_Ok [OF tr] by auto
  moreover have "p_swap_nonce (pers s2) = p_swap_nonce (pers s1)"
    "p_total_swap_volume (pers s2) = p_total_swap_volume (pers s1)"
    using collect_fee_accounts [OF fee] by (simp_all add: same_accounts_def)
  ultimately show "p_swap_nonce (pers t) = (p_swap_nonce (pers s))(a \<mapsto> get_nonce s a + 1)"
    "result_amount_in r = amount_in p" "result_amount_out r = out"
    "get_total_swap_volume t =
      unwrap_or (checked_add (get_total_swap_volume s) (amount_in p)) i128_max"
    using increment_nonce_Ok(4) [OF nonce]
    by (simp_all add: t r event_defs add_swap_volume_def get_nonce_def get_total_swap_volume_def)
qed

definition swap_terms ::
  "'w host \<Rightarrow> address \<Rightarrow> swap_params \<Rightarrow> swap_result \<Rightarrow> 'w env \<Rightarrow> 'w env \<Rightarrow> bool" where
  "swap_terms h a p r s t \<longleftrightarrow>
     (recipient p = a \<or> authorized h (recipient p)) \<and> recipient p \<noteq> current_contract_address h \<and>
     not_before p \<le> ledger_sequence h \<and> ledger_sequence h \<le> deadline p \<and>
     hops (params_route p) \<noteq> [] \<and> length (hops (params_route p)) \<le> 4 \<and>
     (\<forall>hop \<in> set (hops (params_route p)). is_supported_pool s (pool hop)) \<and>
     0 < amount_in p \<and> result_amount_in r = amount_in p \<and>
     min_amount_out p \<le> result_amount_out r \<and>
     min_output (params_route p) \<le> result_amount_out r \<and>
     (\<forall>b. get_nonce t b = get_nonce s b + (if b = a then 1 else 0)) \<and> same_config s t"

lemma execute_swap_internal_terms:
  assumes "execute_swap_internal h a p s = Ok r t"
  shows "swap_terms h a p r s t"
  using assms
proof (rule execute_swap_internal_Ok)
  fix s1 pre s2 s3 swapped impact s4 fee out s5
  assume params: "check_swap_params h a p s = Ok () s"
    and rate: "check_rate_limit h a s = Ok () s1"
    and snap: "snapshot_reserves h (hops (params_route p)) s1 = Ok pre s2"
    and tr: "transfer_asset h (source (hd (hops (params_route p)))) a
       (pool (hd (hops (params_route p)))) (amount_in p) s2 = Ok () s3"
    and swp: "swap_hops h (hops (params_route p)) (amount_in p) 0 s3 = Ok (swapped, impact) s4"
    and guards: "slippage_guards p impact out s4 = Ok () s4"
    and chk: "check_reserves h (zip (hops (params_route p)) pre) s4 = Ok () s5"
    and settle: "settle_swap h a p fee out (note_high_impact a impact (amount_in p) s5) = Ok r t"
  have "same_accounts s2 s3"
    using transfer_asset_Ok [OF tr] by (auto simp: same_accounts_def same_config_def)
  then have acc: "same_accounts s (note_high_impact a impact (amount_in p) s5)"
    using check_rate_limit_accounts [OF rate] snapshot_reserves_accounts [OF snap]
      swap_hops_accounts [OF swp] check_reserves_accounts [OF chk] note_high_impact_accounts
    by (meson same_accounts_trans)
  have "get_nonce t b = get_nonce s b + (if b = a then 1 else 0)" for b
    using settle_swap_nonce(1) [OF settle] acc by (simp add: get_nonce_def same_accounts_def)
  moreover have "min_amount_out p \<le> out" "min_output (params_route p) \<le> out"
    using slippage_guards_Ok(2) [OF guards] by (auto simp: required_min_out_def split: if_splits)
  ultimately show ?thesis
    using check_swap_params_Ok [OF params] settle_swap_nonce(2,3) [OF settle]
      execute_swap_internal_config [OF assms]
    by (simp add: swap_terms_def)
qed




section \<open>Fee, spread and reserve checks\<close>

text \<open>
  The fee of a swap. For a non-negative output and a rate of at most ten percent the fee
  is the rate's share rounded down and the trader gets the rest, at least nine tenths;
  the call fails with \<open>Overflow\<close> exactly when the product leaves the range of \<open>i128\<close>.
\<close>

theorem fee_split:
  assumes "0 \<le> amt" "amt \<le> i128_max" "rate \<le> 1000"
  shows "charge_fee rate amt s =
      (if amt * int rate \<le> i128_max
       then Ok (amt * int rate div 10000, amt - amt * int rate div 10000) s else Err Overflow s) \<and>
    0 \<le> amt * int rate div 10000 \<and> 9 * amt \<le> 10 * (amt - amt * int rate div 10000)"
proof -
  define f where "f = amt * int rate div 10000"
  have le: "amt * int rate \<le> amt * 1000"
    using assms by (intro mult_left_mono) auto
  have "f * 10000 \<le> amt * int rate"
    unfolding f_def using div_mult_mod_eq [of "amt * int rate" 10000]
      pos_mod_sign [of 10000 "amt * int rate"] by linarith
  then have "f * 10000 \<le> amt * 1000"
    using le by (rule order_trans)
  then have nine: "9 * amt \<le> 10 * (amt - f)"
    by simp
  have nonneg: "0 \<le> f" unfolding f_def using assms(1) by (simp add: pos_imp_zdiv_nonneg_iff)
  have prod: "0 \<le> amt * int rate" using assms(1) by simp
  then have "in_i128 (amt * int rate) \<longleftrightarrow> amt * int rate \<le> i128_max"
    by (auto simp: in_i128_def i128_min_def)
  moreover have "in_i128 f" "in_i128 (amt - f)"
    using nonneg nine assms(1,2) by (auto simp: in_i128_def i128_min_def)
  ultimately show ?thesis
    using prod nonneg nine by (simp add: charge_fee_def checked_mul_def checked_div_def
        checked_sub_def checked_i128_def sdiv_nonneg flip: f_def)
qed

theorem fee_split_witness:
  "charge_fee 30 1992 demo_single = Ok (5, 1987) demo_single"
  using fee_split [of 1992 30 demo_single] by (simp add: i128_max_def)

text \<open>
  The spread guard. When a swap passes it, an output below the estimate is less than
  \<open>max_execution_spread_bps\<close> plus one basis points below it, and the price impact counter is
  within its bound.
\<close>

theorem spread_bounded:
  assumes "slippage_guards p impact out s = Ok u t" "0 \<le> out"
    and "0 < max_execution_spread_bps p" "0 < estimated_output (params_route p)"
  shows "(estimated_output (params_route p) - out) * 10000 <
      (int (max_execution_spread_bps p) + 1) * estimated_output (params_route p) \<and>
    (max_price_impact_bps p = 0 \<or> impact \<le> max_price_impact_bps p)"
proof
  let ?e = "estimated_output (params_route p)" and ?m = "int (max_execution_spread_bps p)"
  show "max_price_impact_bps p = 0 \<or> impact \<le> max_price_impact_bps p"
    using slippage_guards_Ok(3) [OF assms(1)] .
  show "(?e - out) * 10000 < (?m + 1) * ?e"
  proof (cases "out < ?e")
    case True
    obtain v where "execution_spread ?e out s = Ok v s" "v \<le> ?m"
      using assms by (auto simp: slippage_guards_def dest: execution_spread_Ok split: if_splits)
    then have "(?e - out) * 10000 div ?e \<le> ?m"
      using True assms(4) by (auto simp: execution_spread_def sdiv_nonneg)
    then have "(?e - out) * 10000 div ?e * ?e \<le> ?m * ?e"
      using assms(4) by (intro mult_right_mono) auto
    moreover have "(?e - out) * 10000 mod ?e < ?e" using assms(4) by simp
    ultimately have "(?e - out) * 10000 < ?m * ?e + ?e"
      using div_mult_mod_eq [of "(?e - out) * 10000" ?e] by linarith
    then show ?thesis by (simp add: algebra_simps)
  next
    case False
    then have "(?e - out) * 10000 \<le> 0" by simp
    moreover have "0 < (?m + 1) * ?e" using assms(4) by simp
    ultimately show ?thesis by linarith
  qed
qed

theorem spread_bounded_witness:
  "slippage_guards demo_params 5 1987 demo_single = Ok () demo_single \<and>
   (2000 - 1987) * 10000 < (100 + 1) * (2000 :: int)"
proof -
  have g: "slippage_guards demo_params 5 1987 demo_single = Ok () demo_single"
    by (simp add: slippage_guards_def execution_spread_def required_min_out_def demo_params_def
        demo_route_def checked_defs)
  from spread_bounded [OF g] g show ?thesis
    by (simp add: demo_params_def demo_route_def)
qed

definition moved_together :: "i128 \<times> i128 \<Rightarrow> i128 \<times> i128 \<Rightarrow> bool" where
  "moved_together pre post \<longleftrightarrow>
     fst pre < fst post \<and> snd pre < snd post \<or> fst post < fst pre \<and> snd post < snd pre"

text \<open>
  What a pool promises of \<open>get_rsrvs\<close>: reading changes nothing, and reserves are
  non-negative.
\<close>

definition reads_only :: "'w host \<Rightarrow> 'w \<Rightarrow> bool" where
  "reads_only h w \<longleftrightarrow> (\<forall>p. case pool_reserves h w p of
     None \<Rightarrow> True
   | Some ((x, y), w') \<Rightarrow> w' = w \<and> 0 \<le> x \<and> x \<le> i128_max \<and> 0 \<le> y \<and> y \<le> i128_max)"

lemma reads_onlyD:
  assumes "reads_only h w" "pool_reserves h w p = Some (r, w')"
  shows "w' = w" "0 \<le> fst r" "fst r \<le> i128_max" "0 \<le> snd r" "snd r \<le> i128_max"
proof -
  have "case pool_reserves h w p of None \<Rightarrow> True
      | Some ((x, y), w') \<Rightarrow> w' = w \<and> 0 \<le> x \<and> x \<le> i128_max \<and> 0 \<le> y \<and> y \<le> i128_max"
    using assms(1) unfolding reads_only_def by blast
  then show "w' = w" "0 \<le> fst r" "fst r \<le> i128_max" "0 \<le> snd r" "snd r \<le> i128_max"
    using assms(2) by (cases r; simp)+
qed

lemma same_direction_iff:
  assumes "0 \<le> fst pre" "fst pre \<le> i128_max" "0 \<le> snd pre" "snd pre \<le> i128_max"
    and "0 \<le> fst post" "fst post \<le> i128_max" "0 \<le> snd post" "snd post \<le> i128_max"
  shows "same_direction pre post \<longleftrightarrow> moved_together pre post"
proof -
  have sub: "checked_sub (fst post) (fst pre) = Some (fst post - fst pre)"
    "checked_sub (snd post) (snd pre) = Some (snd post - snd pre)"
    using assms by (auto simp: checked_sub_def checked_i128_def in_i128_def i128_max_def i128_min_def)
  show ?thesis unfolding same_direction_def moved_together_def Let_def sub by auto
qed

text \<open>
  The reserve check. When reading reserves does not change them, the check passes
  exactly when no pool whose reserves were read before the swap has both reserves
  strictly higher, or both strictly lower, than before.
\<close>

theorem reserve_check:
  assumes "reads_only h (world s)"
    and "\<forall>(hop, x, y) \<in> set pre. 0 \<le> x \<and> x \<le> i128_max \<and> 0 \<le> y \<and> y \<le> i128_max"
  shows "check_reserves h pre s = Ok () s \<longleftrightarrow>
    (\<forall>(hop, r) \<in> set pre. r = (0, 0) \<or>
      (case pool_reserves h (world s) (pool hop) of
         None \<Rightarrow> True | Some (post, _) \<Rightarrow> \<not> moved_together r post))"
  using assms(2)
proof (induction pre)
  case Nil
  show ?case by simp
next
  case (Cons q pre)
  obtain hop x y where q: "q = (hop, x, y)" by (cases q)
  show ?case
  proof (cases "pool_reserves h (world s) (pool hop)")
    case None
    then show ?thesis using Cons q by (auto simp: AmmAdapter_get_reserves_def)
  next
    case (Some a)
    obtain post w where a: "a = (post, w)" by (cases a)
    note r = reads_onlyD [OF assms(1) Some [unfolded a]]
    have "same_direction (x, y) post \<longleftrightarrow> moved_together (x, y) post"
      using Cons.prems q r by (intro same_direction_iff) auto
    moreover have "AmmAdapter_get_reserves h (pool hop) s = Ok post s"
      using Some a r(1) by (simp add: AmmAdapter_get_reserves_def)
    ultimately show ?thesis using Cons Some a q by auto
  qed
qed

theorem reserve_check_witness:
  "check_reserves (demo_host 40 []) [(hd (hops demo_route), 1000001, 2000001)] demo_single \<noteq> Ok () demo_single \<and>
   check_reserves (demo_host 40 []) [(hd (hops demo_route), 999000, 2002000)] demo_single = Ok () demo_single"
proof -
  have "reads_only (demo_host 40 []) (world demo_single)"
    by (simp add: reads_only_def demo_single_storage demo_reserves_def demo_world0_def i128_max_def)
  note chk = reserve_check [OF this]
  have p: "pool (hd (hops demo_route)) = ''pool''" by (simp add: demo_route_def)
  show ?thesis
    using chk [of "[(hd (hops demo_route), 1000001, 2000001)]"]
      chk [of "[(hd (hops demo_route), 999000, 2002000)]"]
    by (simp add: p demo_single_storage demo_world_calls moved_together_def i128_max_def
        del: check_reserves.simps)
qed

section \<open>Commit and reveal\<close>

lemma remove_commitment_get [simp]:
  "get_commitment h (remove_commitment hash s) hash = None"
  by (simp add: get_commitment_def remove_commitment_def live_def)

text \<open>A swap leaves commitments alone.\<close>

lemma temp_ops [simp]:
  "t_commitment (temp (set_account_swap_count h a n W s)) = t_commitment (temp s)"
  "t_commitment (temp (set_account_swap_window_start h a n W s)) = t_commitment (temp s)"
  "temp (add_fee_balance h x m s) = temp s" "temp (set_fee_balance h x m s) = temp s"
  "temp (add_total_burned h x m s) = temp s" "temp (push_distribution_history h x r s) = temp s"
  "temp (add_swap_volume h m s) = temp s" "temp (fees_burned h x m s) = temp s"
  "temp (fees_distributed h x m s) = temp s" "temp (fee_collected h x m s) = temp s"
  "temp (note_high_impact a i m s) = temp s" "temp (swap_executed h a m out fee rt s) = temp s"
  by (simp_all add: storage_defs event_defs Let_def note_high_impact_def split: option.splits)

lemma check_rate_limit_commitments:
  "check_rate_limit h a s = Ok u t \<Longrightarrow> t_commitment (temp t) = t_commitment (temp s)"
  by (auto simp: check_rate_limit_def Let_def split: option.splits if_splits)

lemma transfer_asset_temp: "transfer_asset h x a b amt s = Ok u t \<Longrightarrow> temp t = temp s"
  by (auto dest: transfer_asset_Ok)

lemma pay_recipient_temp: "pay_recipient h x r amt s = Ok u t \<Longrightarrow> temp t = temp s"
  by (auto simp: pay_recipient_def Let_def dest: transfer_asset_temp split: if_splits asset.splits)

lemma pay_all_temp: "pay_all h x pays s = Ok u t \<Longrightarrow> temp t = temp s"
  by (induction h x pays s rule: pay_all.induct) (auto dest: pay_recipient_temp split: if_splits)

lemma collect_fee_temp: "collect_fee h x fee s = Ok u t \<Longrightarrow> temp t = temp s"
  by (auto simp: collect_fee_def distribute_fees_internal_def pay_recipients_eq Let_def
      dest: pay_all_temp split: if_splits option.splits)

lemma swap_hops_temp: "swap_hops h hs amt i s = Ok v t \<Longrightarrow> temp t = temp s"
  by (induction hs arbitrary: amt i s) (auto simp: AmmAdapter_Ok)

lemma snapshot_reserves_temp: "snapshot_reserves h hs s = Ok rs t \<Longrightarrow> temp t = temp s"
  by (induction hs arbitrary: s rs)
    (auto simp: Let_def AmmAdapter_Ok split: outcome.splits prod.splits)

lemma get_reserves_temp: "AmmAdapter_get_reserves h p s = Ok r t \<Longrightarrow> temp t = temp s"
  by (auto simp: AmmAdapter_Ok)

lemma check_reserves_temp: "check_reserves h hs s = Ok u t \<Longrightarrow> temp t = temp s"
  by (induction h hs s rule: check_reserves.induct)
    (auto dest!: get_reserves_temp split: outcome.splits if_splits)

lemma settle_swap_temp: "settle_swap h a p fee out s = Ok r t \<Longrightarrow> temp t = temp s"
  by (erule settle_swap_Ok)
    (auto dest!: transfer_asset_temp collect_fee_temp dest: increment_nonce_Ok(2))

lemma execute_swap_internal_commitments:
  assumes "execute_swap_internal h a p s = Ok r t"
  shows "t_commitment (temp t) = t_commitment (temp s)"
  using assms
  by (rule execute_swap_internal_Ok)
    (auto dest!: check_rate_limit_commitments snapshot_reserves_temp transfer_asset_temp
      swap_hops_temp check_reserves_temp settle_swap_temp)

text \<open>
  C9: a reveal needs a live commitment to exactly its hash, made by the same sender and not
  expired; it executes the swap on its terms and consumes the commitment, so that
  revealing the same hash again is refused with \<open>CommitmentNotFound\<close>.
\<close>

theorem reveal_consumes_commitment:
  assumes "reveal_and_execute h a p salt s = Ok r t"
  shows "\<exists>c. get_commitment h s (sha256 h (reveal_payload p salt)) = Some c \<and>
      commitment_sender c = a \<and> ledger_sequence h \<le> commitment_expires_at c \<and>
      authorized h a \<and> \<not> get_paused s \<and> swap_terms h a p r s t \<and>
      (\<forall>h' b q salt'. authorized h' b \<and>
         sha256 h' (reveal_payload q salt') = sha256 h (reveal_payload p salt) \<longrightarrow>
         reveal_and_execute h' b q salt' t = Err CommitmentNotFound t)"
proof -
  let ?hash = "sha256 h (reveal_payload p salt)"
  let ?s1 = "commitment_revealed a ?hash (remove_commitment ?hash s)"
  note ok = reveal_and_execute_Ok [OF assms]
  have "swap_terms h a p r ?s1 t" using execute_swap_internal_terms [OF ok(4)] .
  then have terms: "swap_terms h a p r s t"
    by (simp add: swap_terms_def storage_defs same_config_def event_defs)
  then have "\<not> get_paused t"
    using ok(2) by (simp add: swap_terms_def same_config_def get_paused_def)
  moreover have "t_commitment (temp t) ?hash = None"
    using execute_swap_internal_commitments [OF ok(4)]
    by (simp add: event_defs remove_commitment_def)
  ultimately have "reveal_and_execute h' b q salt' t = Err CommitmentNotFound t"
    if "authorized h' b" "sha256 h' (reveal_payload q salt') = ?hash" for h' b q salt'
    using that by (simp add: reveal_and_execute_def require_auth_simps require_not_paused_def
        get_commitment_def Let_def)
  then show ?thesis using ok(1-3) terms by blast
qed

definition demo_salt :: bytes32 where
  "demo_salt = replicate 32 9"

definition demo_committed :: "demo_world env" where
  "demo_committed = demo_run [(30, [''user''], CommitSwap ''user'' demo_salt 1000)] demo_single"

lemma demo_hash: "sha256 (demo_host l sg) (reveal_payload p demo_salt) = demo_salt"
  by (simp add: demo_host_def reveal_payload_def demo_salt_def)

lemma demo_committed_storage:
  "inst demo_committed = demo_instance" "pers demo_committed = demo_persistent"
  "world demo_committed = demo_world0" "t_account_swap_count (temp demo_committed) a = None"
  "get_commitment (demo_host 40 sg) demo_committed demo_salt = Some \<lparr>commitment_sender = ''user'',
     deposit_amount = 1000, commitment_hash = demo_salt, commitment_created_at = 30,
     commitment_expires_at = 130\<rparr>"
proof -
  have "demo_salt \<noteq> zero_hash" by (simp add: demo_salt_def zero_hash_def)
  moreover have "get_mev_config demo_single = Some demo_mev" "\<not> get_paused demo_single"
    by (simp_all add: storage_defs demo_single_storage demo_instance_def)
  ultimately show "inst demo_committed = demo_instance" "pers demo_committed = demo_persistent"
    "world demo_committed = demo_world0" "t_account_swap_count (temp demo_committed) a = None"
    "get_commitment (demo_host 40 sg) demo_committed demo_salt = Some \<lparr>commitment_sender = ''user'',
       deposit_amount = 1000, commitment_hash = demo_salt, commitment_created_at = 30,
       commitment_expires_at = 130\<rparr>"
    by (simp_all add: demo_committed_def transact_def commit_swap_def require_auth_simps
        require_not_paused_def plain_add_u32_def u32_max_def demo_mev_def Let_def event_defs
        set_commitment_def demo_single_storage empty_temporary_def get_commitment_def live_def
        live_until_extend_ttl cong: eval_congs)
      (simp add: demo_host_def)
qed

theorem reveal_consumes_commitment_witness:
  "\<exists>t. reveal_and_execute (demo_host 40 [''user'']) ''user'' demo_params demo_salt demo_committed =
      Ok demo_result t \<and>
    reveal_and_execute (demo_host 41 [''user'']) ''user'' demo_params demo_salt t =
      Err CommitmentNotFound t"
proof -
  let ?s1 = "commitment_revealed ''user'' demo_salt (remove_commitment demo_salt demo_committed)"
  have "\<exists>t. execute_swap_internal (demo_host 40 [''user'']) ''user'' demo_params ?s1 = Ok demo_result t"
    by (rule demo_swap_internal) (simp_all add: event_defs remove_commitment_def demo_committed_storage)
  then obtain t where "reveal_and_execute (demo_host 40 [''user'']) ''user'' demo_params demo_salt
      demo_committed = Ok demo_result t"
    by (auto simp: reveal_and_execute_def require_auth_simps require_not_paused_def demo_hash
        demo_committed_storage get_paused_def demo_instance_def)
  with reveal_consumes_commitment [OF this] show ?thesis by (auto simp: demo_hash)
qed

text \<open>
  A commitment binds the amounts, the deadline and the salt: two reveals with the same
  payload agree in all four. It binds nothing else, so the route and the recipient can be chosen at
  the reveal.
\<close>

theorem payload_binds:
  assumes "in_i128 (amount_in p)" "in_i128 (amount_in q)"
    and "in_i128 (min_amount_out p)" "in_i128 (min_amount_out q)"
    and "deadline p \<le> u64_max" "deadline q \<le> u64_max"
  shows "reveal_payload p salt = reveal_payload q salt' \<longleftrightarrow>
    amount_in p = amount_in q \<and> min_amount_out p = min_amount_out q \<and>
    deadline p = deadline q \<and> salt = salt'"
proof -
  have len: "length (i128_to_be_bytes x) = 16" "length (u64_to_be_bytes n) = 8" for x n
    by (simp_all add: i128_to_be_bytes_def u64_to_be_bytes_def)
  show ?thesis
    using assms by (simp add: reveal_payload_def append_eq_append_conv len
        i128_codec.enc_inject u64_codec.enc_inject)
qed

theorem payload_binds_witness:
  "reveal_payload demo_params demo_salt \<noteq> reveal_payload (demo_params\<lparr>amount_in := 1001\<rparr>) demo_salt \<and>
   reveal_payload demo_params demo_salt = reveal_payload (demo_params\<lparr>recipient := ''thief''\<rparr>) demo_salt"
proof -
  have "reveal_payload demo_params demo_salt \<noteq> reveal_payload (demo_params\<lparr>amount_in := 1001\<rparr>) demo_salt"
    using payload_binds [of demo_params "demo_params\<lparr>amount_in := 1001\<rparr>" demo_salt demo_salt]
    by (simp add: demo_params_def in_i128_def i128_max_def i128_min_def u64_max_def)
  then show ?thesis by (simp add: reveal_payload_def)
qed

section \<open>Route validation\<close>

lemma hops_continuous_iff:
  "hops_continuous hs \<longleftrightarrow> (\<forall>i. Suc i < length hs \<longrightarrow> destination (hs ! i) = source (hs ! Suc i))"
  by (induction hs rule: hops_continuous.induct) (auto simp: nth_Cons' less_Suc_eq_0_disj)

text \<open>
  \<open>validate_route\<close> accepts a route exactly when it has one to four hops, has not expired, its
  estimates are non-negative and consistent, each hop starts from the asset the one
  before delivers, its tokens are allowed when there is an allowlist, and all its pools
  are registered; it never changes the state.
\<close>

theorem validate_route_iff:
  "validate_route h r s = Ok () t \<longleftrightarrow>
     t = s \<and> hops r \<noteq> [] \<and> length (hops r) \<le> 4 \<and>
     (route_expires_at r = 0 \<or> ledger_sequence h \<le> route_expires_at r) \<and>
     0 \<le> estimated_output r \<and> 0 \<le> min_output r \<and>
     (estimated_output r = 0 \<or> min_output r \<le> estimated_output r) \<and>
     (\<forall>i < length (hops r) - 1. destination (hops r ! i) = source (hops r ! Suc i)) \<and>
     (get_token_count s = 0 \<or> (\<forall>hop \<in> set (hops r).
        is_token_allowed s (source hop) \<and> is_token_allowed s (destination hop))) \<and>
     (\<forall>hop \<in> set (hops r). is_supported_pool s (pool hop))"
  by (auto simp: validate_route_def validate_route_internal_def MAX_HOPS_def hops_continuous_iff
      validate_route_assets_Ok batch_check_pools_iff less_diff_conv)

theorem validate_route_iff_witness:
  "validate_route (demo_host 40 []) demo_route demo_single = Ok () demo_single"
  using validate_route_iff [of "demo_host 40 []" demo_route demo_single demo_single]
  by (simp add: demo_route_def storage_defs demo_single_storage demo_instance_def empty_instance_def
      demo_persistent_def)

end
