(* ===== verification/Rate_Limit_Guarantees.thy ===== *)
theory Rate_Limit_Guarantees
  imports Contract_Demo
begin

text \<open>
  The per-account rate limit of swaps (\<open>check_rate_limit\<close>) against a fixed-window limiter
  that knows nothing of storage or time to live: the contract accepts exactly the swaps
  the limiter accepts, and the limiter bounds how many fall into any interval of one
  window's length.
\<close>

section \<open>The abstract limiter\<close>

text \<open>The state is the start of the current window and the number of swaps accepted in it.\<close>

fun limiter :: "nat \<Rightarrow> nat \<Rightarrow> nat \<Rightarrow> (nat \<times> nat) option \<Rightarrow> (nat \<times> nat) option" where
  "limiter W M l None = Some (l, 1)"
| "limiter W M l (Some (b, n)) =
     (if l < b + W then (if M \<le> n then None else Some (b, n + 1)) else Some (l, 1))"

text \<open>The ledgers of the accepted swaps, among those of the attempted ones.\<close>

fun accepted :: "nat \<Rightarrow> nat \<Rightarrow> (nat \<times> nat) option \<Rightarrow> nat list \<Rightarrow> nat list" where
  "accepted W M st [] = []"
| "accepted W M st (l # ls) =
     (case limiter W M l st of
        None \<Rightarrow> accepted W M st ls
      | Some st' \<Rightarrow> l # accepted W M (Some (st')) ls)"

definition within :: "nat \<Rightarrow> nat \<Rightarrow> nat list \<Rightarrow> nat" where
  "within x W ls = length (filter (\<lambda>l. x \<le> l \<and> l < x + W) ls)"

lemma within_simps [simp]:
  "within x W [] = 0"
  "within x W (l # ls) = (if x \<le> l \<and> l < x + W then Suc (within x W ls) else within x W ls)"
  by (simp_all add: within_def)

lemma set_accepted: "set (accepted W M st ls) \<subseteq> set ls"
proof (induction ls arbitrary: st)
  case Nil
  show ?case by simp
next
  case (Cons l ls)
  then show ?case by (cases "limiter W M l st") auto
qed

lemma within_none:
  assumes "\<forall>l \<in> set ls. x + W \<le> l"
  shows "within x W (accepted W M st ls) = 0"
  using assms set_accepted [of W M st ls] by (fastforce simp: within_def filter_empty_conv)

text \<open>What is left of the current window, for an interval that ends with it or before.\<close>

lemma within_current:
  assumes "sorted ls" "1 \<le> n" "n \<le> M" "x + W \<le> b + W"
  shows "within x W (accepted W M (Some (b, n)) ls) \<le> M - n"
  using assms
proof (induction ls arbitrary: n)
  case Nil
  then show ?case by simp
next
  case (Cons l ls)
  show ?case
  proof (cases "l < b + W")
    case True
    then show ?thesis
      using Cons.IH [of n] Cons.IH [of "Suc n"] Cons.prems by (auto simp: Suc_le_eq)
  next
    case False
    then have "within x W (accepted W M (Some (l, 1)) ls) = 0"
      using Cons.prems by (intro within_none) auto
    then show ?thesis using False Cons.prems by simp
  qed
qed

lemma within_some:
  assumes "sorted ls" "1 \<le> n" "n \<le> M"
  shows "within x W (accepted W M (Some (b, n)) ls) \<le> (if x < b + W then M - n else M) + M"
  using assms
proof (induction ls arbitrary: b n)
  case Nil
  then show ?case by simp
next
  case (Cons l ls)
  show ?case
  proof (cases "l < b + W")
    case True
    then show ?thesis
      using Cons.IH [of n b] Cons.IH [of "Suc n" b] Cons.prems by (auto split: if_splits)
  next
    case new: False
    show ?thesis
    proof (cases "x \<le> l")
      case True
      have "within x W (accepted W M (Some (l, 1)) ls) \<le> M - 1"
        using Cons.prems True by (intro within_current) auto
      then show ?thesis using new Cons.prems by auto
    next
      case False
      then show ?thesis using new Cons.IH [of 1 l] Cons.prems by (auto split: if_splits)
    qed
  qed
qed

lemma within_accepted:
  assumes "sorted ls" "1 \<le> M"
  shows "within x W (accepted W M None ls) \<le> 2 * M"
proof (cases ls)
  case (Cons l ls')
  then show ?thesis
    using within_some [of ls' 1 M x W l] within_current [of ls' 1 M x W l] assms
    by (auto split: if_splits)
qed simp

section \<open>The contract follows the limiter\<close>

text \<open>
  What the host documents of \<open>extend_ttl(key, n, n)\<close>: afterwards the entry lives for at
  least \<open>n\<close> more ledgers.
\<close>

definition extends_for :: "'w host \<Rightarrow> bool" where
  "extends_for h \<longleftrightarrow> (\<forall>lu n. ledger_sequence h + n \<le> ttl_extend h lu (ledger_sequence h) n n)"

definition lives_until :: "nat \<Rightarrow> entry_key \<Rightarrow> 'w env \<Rightarrow> bool" where
  "lives_until l k s \<longleftrightarrow> (\<exists>lu. live_until s k = Some lu \<and> l \<le> lu)"

definition tracks :: "nat \<Rightarrow> address \<Rightarrow> 'w env \<Rightarrow> (nat \<times> nat) option \<Rightarrow> bool" where
  "tracks W a s st = (case st of
     None \<Rightarrow> t_account_swap_count (temp s) a = None
   | Some (b, n) \<Rightarrow>
       t_account_swap_window_start (temp s) a = Some b \<and> t_account_swap_count (temp s) a = Some n \<and>
       0 < n \<and> lives_until (b + W) (SKey (KAccountSwapWindowStart a)) s \<and>
       lives_until (b + W) (SKey (KAccountSwapCount a)) s)"

lemma lives_until_live: "lives_until l k s \<Longrightarrow> ledger_sequence h \<le> l \<Longrightarrow> live h k s"
  by (auto simp: lives_until_def live_def)

lemma set_count_tracks:
  assumes "extends_for h"
  shows "temp (set_account_swap_count h a n W s) =
      (temp s)\<lparr>t_account_swap_count := (t_account_swap_count (temp s))(a \<mapsto> n)\<rparr>"
    and "lives_until (ledger_sequence h + W) (SKey (KAccountSwapCount a)) (set_account_swap_count h a n W s)"
    and "k \<noteq> SKey (KAccountSwapCount a) \<Longrightarrow>
      live_until (set_account_swap_count h a n W s) k = live_until s k"
  using assms
  by (simp_all add: set_account_swap_count_def lives_until_def live_until_extend_ttl extends_for_def)

lemma set_start_tracks:
  assumes "extends_for h"
  shows "temp (set_account_swap_window_start h a n W s) =
      (temp s)\<lparr>t_account_swap_window_start := (t_account_swap_window_start (temp s))(a \<mapsto> n)\<rparr>"
    and "lives_until (ledger_sequence h + W) (SKey (KAccountSwapWindowStart a))
      (set_account_swap_window_start h a n W s)"
  using assms
  by (simp_all add: set_account_swap_window_start_def lives_until_def live_until_extend_ttl extends_for_def)

lemma lives_until_mono: "lives_until l k s \<Longrightarrow> l' \<le> l \<Longrightarrow> lives_until l' k s"
  by (auto simp: lives_until_def)

lemma lives_until_cong: "live_until t k = live_until s k \<Longrightarrow> lives_until l k s \<Longrightarrow> lives_until l k t"
  by (simp add: lives_until_def)

lemma reset_tracks:
  assumes "extends_for h"
  shows "tracks W a (set_account_swap_count h a 1 W
    (set_account_swap_window_start h a (ledger_sequence h) W s)) (Some (ledger_sequence h, 1))"
  using set_count_tracks [OF assms] set_start_tracks [OF assms]
  by (auto simp: tracks_def intro: lives_until_cong)

lemma check_rate_limit_tracks:
  assumes track: "tracks W a s st" and cfg: "get_mev_config s = Some cfg" "\<not> is_whitelisted s a"
    and W: "W = rate_limit_window_ledgers cfg" and M: "M = rate_limit_max_swaps cfg" "M \<le> u32_max"
    and h: "extends_for h" "ledger_sequence h + W \<le> u32_max"
    and st: "\<And>b n. st = Some (b, n) \<Longrightarrow> b \<le> ledger_sequence h \<and> n \<le> M"
  shows "case limiter W M (ledger_sequence h) st of
      None \<Rightarrow> \<exists>t. check_rate_limit h a s = Err RateLimitExceeded t
    | Some st' \<Rightarrow> \<exists>t. check_rate_limit h a s = Ok () t \<and> tracks W a t (Some st')"
proof (cases st)
  case None
  then have "get_account_swap_count h s a = 0"
    using track by (simp add: tracks_def get_account_swap_count_def)
  then show ?thesis
    using None cfg W reset_tracks [OF h(1), of W a s] by (simp add: check_rate_limit_def Let_def)
next
  case (Some bn)
  obtain b n where bn: "bn = (b, n)" by (cases bn)
  note b = st [OF Some [unfolded bn]]
  have t: "t_account_swap_window_start (temp s) a = Some b" "t_account_swap_count (temp s) a = Some n"
    "0 < n" "lives_until (b + W) (SKey (KAccountSwapWindowStart a)) s"
    "lives_until (b + W) (SKey (KAccountSwapCount a)) s"
    using track Some bn by (auto simp: tracks_def)
  show ?thesis
  proof (cases "ledger_sequence h < b + W")
    case True
    then have "get_account_swap_count h s a = n" "get_account_swap_window_start h s a = b"
      using t by (simp_all add: get_account_swap_count_def get_account_swap_window_start_def
          lives_until_live)
    moreover have "plain_add_u32 (overflow_checks h) b W = Some (b + W)"
      using b h(2) by (simp add: plain_add_u32_def)
    moreover have "plain_add_u32 (overflow_checks h) n 1 = Some (n + 1)" if "n < M"
      using M that by (simp add: plain_add_u32_def)
    moreover have "tracks W a (set_account_swap_count h a (n + 1) W s) (Some (b, n + 1))"
      using t set_count_tracks [OF h(1), where a = a and n = "n + 1" and W = W and s = s] b
      by (auto simp: tracks_def intro: lives_until_cong lives_until_mono)
    ultimately show ?thesis
      using True t(3) cfg W M Some bn by (simp add: check_rate_limit_def Let_def)
  next
    case False
    moreover have "get_account_swap_window_start h s a \<le> b"
      using t by (simp add: get_account_swap_window_start_def)
    ultimately show ?thesis
      using cfg W h(2) b Some bn reset_tracks [OF h(1), of W a s]
      by (auto simp: check_rate_limit_def Let_def plain_add_u32_def)
  qed
qed

section \<open>Sequences of swaps\<close>

text \<open>The ledgers of the swaps of one account that pass the check; a refused call leaves no trace.\<close>

fun rate_run :: "'w host list \<Rightarrow> address \<Rightarrow> 'w env \<Rightarrow> nat list" where
  "rate_run [] a s = []"
| "rate_run (h # hs) a s =
     (case check_rate_limit h a s of
        Ok _ t \<Rightarrow> ledger_sequence h # rate_run hs a t
      | _ \<Rightarrow> rate_run hs a s)"

lemma check_rate_limit_frame:
  assumes "check_rate_limit h a s = Ok u t"
  shows "get_mev_config t = get_mev_config s" "is_whitelisted t a = is_whitelisted s a"
  using check_rate_limit_accounts [OF assms]
  by (simp_all add: same_accounts_def same_config_def storage_defs)

lemma limiter_bounds:
  "limiter W M l st = Some (b', n') \<Longrightarrow> 1 \<le> M \<Longrightarrow>
   (\<And>b n. st = Some (b, n) \<Longrightarrow> b \<le> l \<and> n \<le> M) \<Longrightarrow> b' \<le> l \<and> n' \<le> M"
  by (cases st) (auto split: if_splits)

lemma rate_run_eq:
  assumes "tracks W a s st" "get_mev_config s = Some cfg" "\<not> is_whitelisted s a"
    and "W = rate_limit_window_ledgers cfg" "M = rate_limit_max_swaps cfg" "1 \<le> M" "M \<le> u32_max"
    and "\<forall>h \<in> set hs. extends_for h \<and> ledger_sequence h + W \<le> u32_max"
    and "sorted (map ledger_sequence hs)"
    and "\<And>b n. st = Some (b, n) \<Longrightarrow> (\<forall>h \<in> set hs. b \<le> ledger_sequence h) \<and> n \<le> M"
  shows "rate_run hs a s = accepted W M st (map ledger_sequence hs)"
  using assms(1-3,8-10)
proof (induction hs arbitrary: s st)
  case Nil
  then show ?case by simp
next
  case (Cons h hs)
  have step: "case limiter W M (ledger_sequence h) st of
      None \<Rightarrow> \<exists>t. check_rate_limit h a s = Err RateLimitExceeded t
    | Some st' \<Rightarrow> \<exists>t. check_rate_limit h a s = Ok () t \<and> tracks W a t (Some st')"
    using Cons.prems assms(4-7) by (intro check_rate_limit_tracks) auto
  show ?case
  proof (cases "limiter W M (ledger_sequence h) st")
    case None
    then obtain t where "check_rate_limit h a s = Err RateLimitExceeded t" using step by auto
    moreover have "rate_run hs a s = accepted W M st (map ledger_sequence hs)"
      using Cons.prems by (intro Cons.IH) auto
    ultimately show ?thesis using None by simp
  next
    case (Some st')
    then obtain t where t: "check_rate_limit h a s = Ok () t" "tracks W a t (Some st')"
      using step by auto
    obtain b' n' where st': "st' = (b', n')" by (cases st')
    have "b' \<le> ledger_sequence h \<and> n' \<le> M"
      using limiter_bounds [OF Some [unfolded st'] assms(6)] Cons.prems(6) by auto
    then have "rate_run hs a t = accepted W M (Some st') (map ledger_sequence hs)"
      using Cons.prems t check_rate_limit_frame [OF t(1)] st'
      by (intro Cons.IH) (auto intro: order_trans)
    then show ?thesis using Some t by simp
  qed
qed

text \<open>
  C10: the contract's rate limit is the fixed-window limiter. For an account that is not
  whitelisted and has no swaps on record, over any sequence of attempted swaps in
  non-decreasing ledgers, the swaps that pass \<open>check_rate_limit\<close> are exactly those the
  abstract limiter accepts, whatever the host does with entries past their time to
  live.
\<close>

theorem rate_limit_refines_limiter:
  assumes "get_mev_config s = Some cfg" "mev_config_wf cfg" "\<not> is_whitelisted s a"
    and "t_account_swap_count (temp s) a = None"
    and "rate_limit_max_swaps cfg \<le> u32_max" "sorted (map ledger_sequence hs)"
    and "\<forall>h \<in> set hs. extends_for h \<and> ledger_sequence h + rate_limit_window_ledgers cfg \<le> u32_max"
  shows "rate_run hs a s = accepted (rate_limit_window_ledgers cfg) (rate_limit_max_swaps cfg) None
    (map ledger_sequence hs)"
  using assms by (intro rate_run_eq) (auto simp: tracks_def mev_config_wf_def)

lemma demo_extends: "extends_for (demo_host l sg)"
  by (simp add: extends_for_def demo_host_def)

lemma demo_rate_state:
  "get_mev_config demo_single = Some demo_mev" "mev_config_wf demo_mev"
  "\<not> is_whitelisted demo_single a" "t_account_swap_count (temp demo_single) a = None"
  by (simp_all add: storage_defs demo_single_storage demo_instance_def empty_instance_def
      demo_persistent_def empty_persistent_def empty_temporary_def mev_config_wf_def demo_mev_def)

definition demo_hosts :: "demo_world host list" where
  "demo_hosts = map (\<lambda>l. demo_host l []) [50, 51, 52, 149, 150, 151, 152]"

theorem rate_limit_refines_limiter_witness:
  "rate_run demo_hosts ''user'' demo_single = [50, 51, 150, 151]"
  using rate_limit_refines_limiter [OF demo_rate_state(1,2), of "''user''" demo_hosts] demo_rate_state
    demo_extends
  by (simp add: demo_hosts_def demo_mev_def u32_max_def)

text \<open>
  C11: no interval of one window's length contains more than twice the configured number of
  accepted swaps of an account, whatever the host does with the account's entries.
\<close>

theorem rate_limit_bound:
  assumes "get_mev_config s = Some cfg" "mev_config_wf cfg" "\<not> is_whitelisted s a"
    and "t_account_swap_count (temp s) a = None"
    and "rate_limit_max_swaps cfg \<le> u32_max" "sorted (map ledger_sequence hs)"
    and "\<forall>h \<in> set hs. extends_for h \<and> ledger_sequence h + rate_limit_window_ledgers cfg \<le> u32_max"
  shows "within x (rate_limit_window_ledgers cfg) (rate_run hs a s) \<le> 2 * rate_limit_max_swaps cfg"
proof -
  have "rate_run hs a s = accepted (rate_limit_window_ledgers cfg) (rate_limit_max_swaps cfg) None
      (map ledger_sequence hs)"
    using assms by (intro rate_run_eq) (auto simp: tracks_def mev_config_wf_def)
  then show ?thesis
    using assms by (auto intro!: within_accepted simp: mev_config_wf_def)
qed

theorem rate_limit_bound_witness:
  "within 51 100 (rate_run demo_hosts ''user'' demo_single) \<le> 4"
  using rate_limit_bound [OF demo_rate_state(1,2), of "''user''" demo_hosts 51] demo_rate_state
    demo_extends
  by (simp add: demo_hosts_def demo_mev_def u32_max_def)

end
