(* ===== verification/Fee_Guarantees.thy ===== *)
theory Fee_Guarantees
  imports Contract_Demo
begin

text \<open>
  Where the collected fees go, what the constant-product adapter quotes, and what the
  keeper's time-to-live call reaches.
\<close>

section \<open>Fee distribution\<close>

lemma pay_recipient_fee_balance:
  "pay_recipient h x r amt s = Ok u t \<Longrightarrow> p_fee_balance (pers t) = p_fee_balance (pers s)"
  by (auto simp: pay_recipient_def storage_defs event_defs Let_def dest!: transfer_asset_Ok
      split: if_splits asset.splits)

lemma pay_all_fee_balance:
  "pay_all h x pays s = Ok u t \<Longrightarrow> p_fee_balance (pers t) = p_fee_balance (pers s)"
  by (induction h x pays s rule: pay_all.induct)
    (auto dest: pay_recipient_fee_balance split: if_splits)

lemma distribute_fees_debit:
  assumes sep: "sep41_debits h balance" and cfg: "get_fee_config s = Some c"
    and bal: "bal = get_fee_balance s (Soroban token)" "0 < bal" "bal * 10000 \<le> i128_max"
    and recs: "recipients c \<noteq> []" "total_bps (recipients c) \<le> 10000"
    and others: "\<forall>r \<in> set (recipients c). recipient_address r \<noteq> current_contract_address h"
    and ok: "distribute_fees h (Soroban token) s = Ok u t"
  shows "balance (world t) token (current_contract_address h) =
      balance (world s) token (current_contract_address h)
        - (bal + shares bal (drop (Suc (dust_index (recipients c))) (recipients c)))"
    and "get_fee_balance t (Soroban token) = 0"
proof -
  let ?pays = "zip (recipients c) (payouts bal (find_treasury 0 (recipients c))
    (length (recipients c)) 0 (recipients c) bal)"
  obtain t0 where pay: "pay_all h (Soroban token) ?pays (set_fee_balance h (Soroban token) 0 s) = Ok () t0"
    and t: "t = fees_distributed h (Soroban token) bal (push_distribution_history h (Soroban token)
         \<lparr>timestamp = ledger_sequence h, total_distributed = bal\<rparr> t0)"
    using ok cfg bal
    by (auto simp: distribute_fees_def distribute_fees_internal_def pay_recipients_eq Let_def)
  have "\<forall>(r, amt) \<in> set ?pays. recipient_address r \<noteq> current_contract_address h \<and> 0 \<le> amt"
    using others payouts_nonneg by (fastforce dest: set_zip_leftD set_zip_rightD)
  from pay_all_debit [OF sep pay this] show "balance (world t) token (current_contract_address h) =
      balance (world s) token (current_contract_address h)
        - (bal + shares bal (drop (Suc (dust_index (recipients c))) (recipients c)))"
    using sum_payouts [of bal "recipients c"] bal(2,3) recs by (simp add: t)
  show "get_fee_balance t (Soroban token) = 0"
    using pay_all_fee_balance [OF pay]
    by (simp add: t storage_defs event_defs Let_def)
qed

text \<open>
  A distribution of a token moves out of the contract exactly the recorded fee balance,
  and sets the record to zero, whenever the recipient labelled \<open>treasury\<close> is the last
  one, or there is none. The token is any that debits its sender as SEP-41 says.
\<close>

theorem distribution_conserves:
  assumes "sep41_debits h balance" "get_fee_config s = Some c"
    and "0 < get_fee_balance s (Soroban token)" "get_fee_balance s (Soroban token) * 10000 \<le> i128_max"
    and "recipients c \<noteq> []" "total_bps (recipients c) \<le> 10000"
    and "\<forall>r \<in> set (recipients c). recipient_address r \<noteq> current_contract_address h"
    and "\<forall>r \<in> set (butlast (recipients c)). label r \<noteq> ''treasury''"
    and "distribute_fees h (Soroban token) s = Ok u t"
  shows "balance (world t) token (current_contract_address h) =
      balance (world s) token (current_contract_address h) - get_fee_balance s (Soroban token) \<and>
    get_fee_balance t (Soroban token) = 0"
proof -
  have "find_treasury i rs = None \<or> find_treasury i rs = Some (i + length rs - 1)"
    if "\<forall>r \<in> set (butlast rs). label r \<noteq> ''treasury''" for i rs
    using that by (induction rs arbitrary: i) (auto split: if_splits, fastforce+)
  from this [OF assms(8), of 0] have "dust_index (recipients c) = length (recipients c) - 1"
    by (auto simp: dust_index_def)
  then have "drop (Suc (dust_index (recipients c))) (recipients c) = []"
    using assms(5) by simp
  then show ?thesis
    using distribute_fees_debit [OF assms(1,2) refl assms(3-7,9)] by simp
qed

text \<open>Two configurations on the demonstration host, with a fee balance of 1000 and 5000 tokens held.\<close>

definition demo_share :: "symbol \<Rightarrow> address \<Rightarrow> u32 \<Rightarrow> fee_recipient" where
  "demo_share l a n = \<lparr>recipient_address = a, share_bps = n, label = l\<rparr>"

definition demo_fees :: "fee_recipient list \<Rightarrow> demo_world env" where
  "demo_fees rs = (set_fee_balance (demo_host 30 []) (Soroban ''B'') 1000
     (set_fee_config \<lparr>recipients = rs, min_distribution = 0, auto_distribute = False\<rparr> demo_single))
       \<lparr>world := (\<lambda>_. 0)((''B'', ''router'') := 5000)\<rparr>"

definition demo_balance :: "demo_world \<Rightarrow> address \<Rightarrow> address \<Rightarrow> int" where
  "demo_balance w token a = w (token, a)"

lemma demo_sep41: "sep41_debits (demo_host l sg) demo_balance"
  by (auto simp: sep41_debits_def demo_host_def demo_transfer_def demo_burn_def demo_balance_def
      Let_def split: if_splits)

lemma demo_fees_state:
  "get_fee_config (demo_fees rs) =
     Some \<lparr>recipients = rs, min_distribution = 0, auto_distribute = False\<rparr>"
  "get_fee_balance (demo_fees rs) (Soroban ''B'') = 1000"
  "world (demo_fees rs) = (\<lambda>_. 0)((''B'', ''router'') := 5000)"
  by (simp_all add: demo_fees_def storage_defs)

lemma demo_share_amount: "share_amount 1000 5000 = 500"
  by (simp add: share_amount_eq i128_max_def)

text \<open>The tokens that have left the contract once a distribution has succeeded.\<close>

lemma demo_distribution:
  assumes "label r1 \<noteq> ''burn''" "label r2 \<noteq> ''burn''" "share_bps r1 = 5000" "share_bps r2 = 5000"
    and "recipient_address r1 = ''x''" "recipient_address r2 = ''y''"
  shows "\<exists>t. distribute_fees (demo_host 40 []) (Soroban ''B'') (demo_fees [r1, r2]) = Ok () t"
  using assms
  by (auto simp: distribute_fees_def distribute_fees_internal_def demo_fees_state Let_def
      pay_recipient_def transfer_asset_def demo_host_def demo_transfer_def takes_dust_def
      demo_share_amount saturating_sub_i128_def i128_max_def i128_min_def split: if_splits)

theorem distribution_conserves_witness:
  "\<exists>t. distribute_fees (demo_host 40 []) (Soroban ''B'')
        (demo_fees [demo_share ''dev'' ''x'' 5000, demo_share ''treasury'' ''y'' 5000]) = Ok () t \<and>
     demo_balance (world t) ''B'' ''router'' = 4000"
proof -
  let ?rs = "[demo_share ''dev'' ''x'' 5000, demo_share ''treasury'' ''y'' 5000]"
  obtain t where t: "distribute_fees (demo_host 40 []) (Soroban ''B'') (demo_fees ?rs) = Ok () t"
    using demo_distribution by (fastforce simp: demo_share_def)
  have "demo_balance (world t) ''B'' ''router'' = 5000 - 1000"
    using distribution_conserves [OF demo_sep41 demo_fees_state(1) _ _ _ _ _ _ t]
    by (simp add: demo_fees_state demo_share_def demo_balance_def i128_max_def)
  then show ?thesis using t by auto
qed

text \<open>
  C12: in general a distribution moves out the recorded balance and, on top of it, the shares of
  every recipient listed after the treasury: the treasury is paid all that is left at its
  turn, and the recipients behind it are paid as well. With a treasury in front the contract pays
  out more than it has recorded, from tokens that are not fees.
\<close>

theorem distribution_overpays:
  assumes "sep41_debits h balance" "get_fee_config s = Some c"
    and "0 < get_fee_balance s (Soroban token)" "get_fee_balance s (Soroban token) * 10000 \<le> i128_max"
    and "recipients c \<noteq> []" "total_bps (recipients c) \<le> 10000"
    and "\<forall>r \<in> set (recipients c). recipient_address r \<noteq> current_contract_address h"
    and "distribute_fees h (Soroban token) s = Ok u t"
  shows "balance (world t) token (current_contract_address h) =
      balance (world s) token (current_contract_address h) - get_fee_balance s (Soroban token)
        - shares (get_fee_balance s (Soroban token))
            (drop (Suc (dust_index (recipients c))) (recipients c))"
  using distribute_fees_debit(1) [OF assms(1,2) refl assms(3-8)] by simp

theorem distribution_overpays_witness:
  "\<exists>t. distribute_fees (demo_host 40 []) (Soroban ''B'')
        (demo_fees [demo_share ''treasury'' ''x'' 5000, demo_share ''dev'' ''y'' 5000]) = Ok () t \<and>
     demo_balance (world t) ''B'' ''router'' = 3500"
proof -
  let ?rs = "[demo_share ''treasury'' ''x'' 5000, demo_share ''dev'' ''y'' 5000]"
  obtain t where t: "distribute_fees (demo_host 40 []) (Soroban ''B'') (demo_fees ?rs) = Ok () t"
    using demo_distribution by (fastforce simp: demo_share_def)
  have "demo_balance (world t) ''B'' ''router'' = 5000 - 1000 - 500"
    using distribution_overpays [OF demo_sep41 demo_fees_state(1) _ _ _ _ _ t]
    by (simp add: demo_fees_state demo_share_def demo_balance_def i128_max_def dust_index_def
        demo_share_amount)
  then show ?thesis using t by auto
qed

section \<open>The constant-product adapter\<close>



section \<open>Time to live\<close>

lemma live_until_extend_pools:
  assumes "distinct ps"
  shows "live_until (extend_pools h ps s) (SKey (KSupportedPool p)) =
    (if p \<in> set ps \<and> is_supported_pool s p
     then map_option (\<lambda>lu. ttl_extend h lu (ledger_sequence h) POOL_TTL_THRESHOLD POOL_TTL_EXTEND_TO)
       (live_until s (SKey (KSupportedPool p)))
     else live_until s (SKey (KSupportedPool p)))"
  using assms
  by (induction ps arbitrary: s)
    (auto simp: extend_pool_ttl_def extend_persistent_ttl_def live_until_extend_ttl
      is_supported_pool_def)

lemma live_until_maintenance [simp]:
  "live_until (extend_volume_ttl h s) (SKey (KSupportedPool p)) = live_until s (SKey (KSupportedPool p))"
  "live_until (set_last_ttl_extension n s) = live_until s"
  "live_until (ttl_extended n m s) = live_until s"
  by (simp_all add: extend_volume_ttl_def extend_persistent_ttl_def live_until_extend_ttl
      set_last_ttl_extension_def event_defs)

text \<open>
  The keeper's \<open>extend_storage_ttl\<close> extends the entries of exactly the registered pools
  on the pool list, by the pool constants, and leaves the entry of every other pool as it
  was; afterwards a pool on the list lives for at least the threshold of 22 days.
\<close>

theorem keeper_extends_listed_pools:
  assumes "distinct (get_pool_list s)"
    and "\<forall>lu. ledger_sequence h + POOL_TTL_THRESHOLD \<le>
          ttl_extend h lu (ledger_sequence h) POOL_TTL_THRESHOLD POOL_TTL_EXTEND_TO"
  shows "if p \<in> set (get_pool_list s) \<and> is_supported_pool s p \<and> live_until s (SKey (KSupportedPool p)) \<noteq> None
     then \<exists>lu. live_until (extend_storage_ttl h s) (SKey (KSupportedPool p)) = Some lu \<and>
            ledger_sequence h + 22 * 17280 \<le> lu
     else live_until (extend_storage_ttl h s) (SKey (KSupportedPool p)) =
            live_until s (SKey (KSupportedPool p))"
proof -
  have "get_pool_list (extend_instance_ttl h s) = get_pool_list s"
    "is_supported_pool (extend_instance_ttl h s) p = is_supported_pool s p"
    by (simp_all add: storage_defs)
  then show ?thesis
    using assms live_until_extend_pools [OF assms(1), of h "extend_instance_ttl h s" p]
    by (auto simp: extend_storage_ttl_def Let_def POOL_TTL_THRESHOLD_def DAY_IN_LEDGERS_def)
qed

theorem keeper_extends_listed_pools_witness:
  "\<exists>lu. live_until (extend_storage_ttl (demo_host 40 []) demo_single) (SKey (KSupportedPool ''pool'')) =
     Some lu \<and> 40 + 22 * 17280 \<le> lu"
proof -
  have list: "get_pool_list demo_single = [''pool'']" "is_supported_pool demo_single ''pool''"
    by (simp_all add: storage_defs demo_single_storage demo_instance_def demo_persistent_def)
  have live: "live_until demo_single (SKey (KSupportedPool ''pool'')) \<noteq> None"
    by (simp add: demo_single_def demo_calls_def demo_deployed_def initialize_def register_pool_def
        configure_mev_def call_eval empty_instance_def empty_persistent_def set_initial_version_def
        live_until_extend_ttl extend_pool_ttl_def extend_persistent_ttl_def cong: eval_congs)
  have "\<forall>lu. 40 + POOL_TTL_THRESHOLD \<le>
      ttl_extend (demo_host 40 []) lu 40 POOL_TTL_THRESHOLD POOL_TTL_EXTEND_TO"
    by (simp add: demo_host_def ttl_constants)
  then show ?thesis
    using keeper_extends_listed_pools [of demo_single "demo_host 40 []" "''pool''"] list live by simp
qed

definition demo_pool2 :: "demo_world env" where
  "demo_pool2 = demo_run
     [(30, [''s1''], Propose ''s1'' (RegisterPool ''pool2'' AmmConstProd)),
      (31, [''s2''], ApproveProposal ''s2'' 1)] demo_multisig"

lemma demo_pool2_storage:
  "get_pool_list demo_pool2 = [''pool'']" "is_supported_pool demo_pool2 ''pool2''"
  by (simp_all add: demo_pool2_def router_propose_def approve_proposal_def multisig_only_def
      propose_def approve_def execute_proposal_def next_proposal_id_def is_signer_def has_approved_def
      new_proposal_def saturating_add_u64_def dispatch_action_def call_eval demo_multisig_storage
      demo_governance_def demo_instance_def empty_instance_def cong: eval_congs)

text \<open>
  A pool that governance registers is supported for swaps but is not put on the pool
  list, so the keeper's call never extends its entry.
\<close>

theorem governance_pools_not_listed:
  "\<exists>(s :: demo_world env) p. reachable True ''router'' s \<and> is_supported_pool s p \<and>
     p \<notin> set (get_pool_list s) \<and>
     live_until (extend_storage_ttl (demo_host 40 []) s) (SKey (KSupportedPool p)) =
       live_until s (SKey (KSupportedPool p))"
proof (intro exI conjI)
  show "reachable True ''router'' demo_pool2"
    unfolding demo_pool2_def
    by (rule demo_run_reachable [OF demo_multisig_reachable]) (simp add: u32_max_def)
  show "is_supported_pool demo_pool2 ''pool2''" "''pool2'' \<notin> set (get_pool_list demo_pool2)"
    by (simp_all add: demo_pool2_storage)
  have "get_pool_list (extend_instance_ttl (demo_host 40 []) demo_pool2) = [''pool'']"
    using demo_pool2_storage(1) by (simp add: get_pool_list_def)
  then show "live_until (extend_storage_ttl (demo_host 40 []) demo_pool2) (SKey (KSupportedPool ''pool2'')) =
      live_until demo_pool2 (SKey (KSupportedPool ''pool2''))"
    using live_until_extend_pools [of "[''pool'']" "demo_host 40 []" _ "''pool2''"]
    by (simp add: extend_storage_ttl_def Let_def)
qed

end
