(* ===== verification/Outcome_WP.thy ===== *)
theory Outcome_WP
  imports Prelude
begin

text \<open>
  Weakest preconditions for outcomes. \<open>wp m P Q\<close>: if \<open>m\<close> returns a value, \<open>P\<close>
  holds of it and of the state; if it returns an error, \<open>Q\<close> does. The equations
  compute the precondition of a handler from those of the operations it calls.
\<close>

named_theorems wp_simps \<open>preconditions of the combinators\<close>

definition wp :: "('a, 'e, 's) outcome \<Rightarrow> ('a \<Rightarrow> 's \<Rightarrow> bool) \<Rightarrow> ('e \<Rightarrow> 's \<Rightarrow> bool) \<Rightarrow> bool" where
  "wp m P Q = (case m of Ok v s \<Rightarrow> P v s | Err e s \<Rightarrow> Q e s | Panic \<Rightarrow> True)"

lemma wp_base [wp_simps]:
  "wp (Ok v s) P Q = P v s"
  "wp (Err e s) P Q = Q e s"
  "wp Panic P Q = True"
  by (simp_all add: wp_def)

lemma wp_andThen [wp_simps]: "wp (andThen m f) P Q = wp m (\<lambda>v s. wp (f v s) P Q) Q"
  by (cases m) (simp_all add: wp_simps)

lemma wp_unwrap [wp_simps]: "wp (unwrap x f) P Q = (\<forall>v. x = Some v \<longrightarrow> wp (f v) P Q)"
  by (cases x) (simp_all add: wp_simps)

lemma wp_ok_or [wp_simps]:
  "wp (ok_or x e s f) P Q = ((x = None \<longrightarrow> Q e s) \<and> (\<forall>v. x = Some v \<longrightarrow> wp (f v) P Q))"
  by (cases x) (simp_all add: wp_simps)

lemma wp_if [wp_simps]:
  "wp (if c then a else b) P Q = ((c \<longrightarrow> wp a P Q) \<and> (\<not> c \<longrightarrow> wp b P Q))"
  by simp

lemma wp_option [wp_simps]:
  "wp (case x of None \<Rightarrow> a | Some v \<Rightarrow> f v) P Q =
     ((x = None \<longrightarrow> wp a P Q) \<and> (\<forall>v. x = Some v \<longrightarrow> wp (f v) P Q))"
  by (cases x) simp_all

lemma wp_let [wp_simps]: "wp (let x = v in f x) P Q = wp (f v) P Q"
  by simp

lemma wp_mono:
  assumes "wp m P Q" "\<And>v s. P v s \<Longrightarrow> P' v s" "\<And>e s. Q e s \<Longrightarrow> Q' e s"
  shows "wp m P' Q'"
  using assms by (cases m) (auto simp: wp_simps)

lemma wp_conj: "wp m P Q \<Longrightarrow> wp m P' Q' \<Longrightarrow> wp m (\<lambda>v s. P v s \<and> P' v s) (\<lambda>e s. Q e s \<and> Q' e s)"
  by (cases m) (auto simp: wp_simps)

lemma wp_Ok: "wp m P Q \<Longrightarrow> m = Ok v s \<Longrightarrow> P v s"
  by (simp add: wp_simps)

lemma wp_Err: "wp m P Q \<Longrightarrow> m = Err e s \<Longrightarrow> Q e s"
  by (simp add: wp_simps)

lemma wpI: "(\<And>v s. m = Ok v s \<Longrightarrow> P v s) \<Longrightarrow> (\<And>e s. m = Err e s \<Longrightarrow> Q e s) \<Longrightarrow> wp m P Q"
  by (cases m) (auto simp: wp_simps)

text \<open>The state an operation leaves, whether it succeeds or fails; a panic ends the run.\<close>

definition leaves :: "('a, 'e, 's) outcome \<Rightarrow> 's \<Rightarrow> bool" where
  "leaves m s' = (case m of Ok _ t \<Rightarrow> t = s' | Err _ t \<Rightarrow> t = s' | Panic \<Rightarrow> False)"

lemma wp_leaves: "wp m P Q \<Longrightarrow> leaves m s' \<Longrightarrow> (\<And>v. P v s' \<Longrightarrow> R) \<Longrightarrow> (\<And>e. Q e s' \<Longrightarrow> R) \<Longrightarrow> R"
  by (cases m) (auto simp: leaves_def wp_simps)

end
