(* ===== verification/Cctp_Types.thy ===== *)
theory Cctp_Types
  imports Rust_Text
begin

text \<open>
  The data of the CCTP bridge: the enums and structs of \<open>models/v2_cctp.rs\<close>, the
  transfer row of \<open>cctp/store.rs\<close>, the saga's transition table
  (\<open>cctp/transitions.rs\<close>), the size bounds (\<open>cctp/bounds.rs\<close>), the bridge
  configuration with its validation (\<open>cctp/config.rs\<close>), the provider kill switch
  (\<open>kill_switch.rs\<close>, \<open>routing/cross_chain.rs\<close>) and the validation of a quote
  request.

  The crates \<open>stellar_strkey\<close> and \<open>hex\<close> are the record \<open>crates\<close>: the
  definitions that call them take it as an argument. A \<open>DateTime<Utc>\<close> is an
  integer number of nanoseconds and a \<open>Uuid\<close> a natural number.
\<close>

type_synonym instant = int
type_synonym uuid = nat
type_synonym bytes32 = bytes
type_synonym u128 = nat
type_synonym i32 = int

definition u128_max :: u128 where
  "u128_max = 2 ^ 128 - 1"

text \<open>\<open>m.map_err(f)?\<close> of a pure result inside a stateful function.\<close>

definition map_err :: "('d \<Rightarrow> 'e) \<Rightarrow> ('a, 'd) pure \<Rightarrow> 's \<Rightarrow> ('a, 'e, 's) outcome" where
  "map_err f m s = (case m of Ok v _ \<Rightarrow> Ok v s | Err e _ \<Rightarrow> Err (f e) s | Panic \<Rightarrow> Panic)"

lemma map_err_simps [simp]:
  "map_err f (Ok v u) s = Ok v s"
  "map_err f (Err e u) s = Err (f e) s"
  "map_err f Panic s = Panic"
  by (simp_all add: map_err_def)

lemma map_err_Ok [simp]: "map_err f m s = Ok v t \<longleftrightarrow> m = Ok v () \<and> t = s"
  by (cases m) auto

lemma map_err_Err [simp]: "map_err f m s = Err e t \<longleftrightarrow> (\<exists>d. m = Err d () \<and> e = f d) \<and> t = s"
  by (cases m) auto

lemma wp_map_err [wp_simps]:
  "wp (map_err f m s) P Q = ((\<forall>v. m = Ok v () \<longrightarrow> P v s) \<and> (\<forall>d. m = Err d () \<longrightarrow> Q (f d) s))"
  by (cases m) (simp_all add: wp_simps)

lemma andThen_Err:
  "andThen m f = Err e t \<longleftrightarrow> m = Err e t \<or> (\<exists>x s. m = Ok x s \<and> f x s = Err e t)"
  by (cases m) auto

text \<open>
  \<open>Duration::seconds\<close> in nanoseconds; \<open>as i64\<close> of an unsigned 64-bit number keeps
  its bits.
\<close>

definition seconds :: "i64 \<Rightarrow> int" where
  "seconds n = n * 1000000000"

definition as_i64 :: "u64 \<Rightarrow> i64" where
  "as_i64 n = (if n < 2 ^ 63 then int n else int n - 2 ^ 64)"

text \<open>The plain \<open>+= 1\<close> on the \<open>i32\<close> version, under the build's overflow checks.\<close>

definition plain_add_i32 :: "bool \<Rightarrow> i32 \<Rightarrow> i32 \<Rightarrow> i32 option" where
  "plain_add_i32 checks a b =
     (if - (2 ^ 31) \<le> a + b \<and> a + b < 2 ^ 31 then Some (a + b)
      else if checks then None else Some ((a + b + 2 ^ 31) mod 2 ^ 32 - 2 ^ 31))"

section \<open>Enums of the bridge\<close>

datatype cctp_direction = StellarToEvm | EvmToStellar

datatype cctp_finality = Standard | Fast

datatype cctp_transfer_status =
    Created | BurnPrepared | BurnSubmitted | AwaitingAttestation | AttestationReady
  | MintPrepared | MintSubmitted | Completed | AttestationFailed | MintFailedRetryable
  | Cancelled | ProviderKilled

text \<open>The text form a status has in the database.\<close>

fun status_str :: "cctp_transfer_status \<Rightarrow> string" where
  "status_str Created = ''created''"
| "status_str BurnPrepared = ''burn_prepared''"
| "status_str BurnSubmitted = ''burn_submitted''"
| "status_str AwaitingAttestation = ''awaiting_attestation''"
| "status_str AttestationReady = ''attestation_ready''"
| "status_str MintPrepared = ''mint_prepared''"
| "status_str MintSubmitted = ''mint_submitted''"
| "status_str Completed = ''completed''"
| "status_str AttestationFailed = ''attestation_failed''"
| "status_str MintFailedRetryable = ''mint_failed_retryable''"
| "status_str Cancelled = ''cancelled''"
| "status_str ProviderKilled = ''provider_killed''"

definition parse_status :: "string \<Rightarrow> cctp_transfer_status option" where
  "parse_status s =
     (if s = ''created'' then Some Created
      else if s = ''burn_prepared'' then Some BurnPrepared
      else if s = ''burn_submitted'' then Some BurnSubmitted
      else if s = ''awaiting_attestation'' then Some AwaitingAttestation
      else if s = ''attestation_ready'' then Some AttestationReady
      else if s = ''mint_prepared'' then Some MintPrepared
      else if s = ''mint_submitted'' then Some MintSubmitted
      else if s = ''completed'' then Some Completed
      else if s = ''attestation_failed'' then Some AttestationFailed
      else if s = ''mint_failed_retryable'' then Some MintFailedRetryable
      else if s = ''cancelled'' then Some Cancelled
      else if s = ''provider_killed'' then Some ProviderKilled
      else None)"

lemma parse_status_str [simp]: "parse_status (status_str st) = Some st"
  by (cases st) (simp_all add: parse_status_def)

section \<open>The transition table\<close>

fun is_allowed_transition :: "cctp_transfer_status \<Rightarrow> cctp_transfer_status \<Rightarrow> bool" where
  "is_allowed_transition from to \<longleftrightarrow>
     from = to \<or>
     (from, to) \<in> set
       [(Created, BurnPrepared), (Created, Cancelled), (Created, ProviderKilled),
        (BurnPrepared, BurnSubmitted), (BurnPrepared, AwaitingAttestation),
        (BurnPrepared, Cancelled), (BurnPrepared, ProviderKilled),
        (BurnSubmitted, AwaitingAttestation), (BurnSubmitted, ProviderKilled),
        (AwaitingAttestation, AttestationReady), (AwaitingAttestation, AttestationFailed),
        (AwaitingAttestation, ProviderKilled), (AttestationFailed, AwaitingAttestation),
        (AttestationReady, MintPrepared), (AttestationReady, ProviderKilled),
        (MintPrepared, MintSubmitted), (MintPrepared, MintFailedRetryable),
        (MintPrepared, ProviderKilled), (MintSubmitted, Completed),
        (MintSubmitted, MintFailedRetryable), (MintSubmitted, ProviderKilled),
        (MintFailedRetryable, MintPrepared), (MintFailedRetryable, ProviderKilled)]"

fun is_terminal :: "cctp_transfer_status \<Rightarrow> bool" where
  "is_terminal st \<longleftrightarrow> st \<in> set [Completed, Cancelled, ProviderKilled]"

fun is_recoverable_failure :: "cctp_transfer_status \<Rightarrow> bool" where
  "is_recoverable_failure st \<longleftrightarrow> st = AttestationFailed"

fun can_cancel :: "cctp_transfer_status \<Rightarrow> bool" where
  "can_cancel st \<longleftrightarrow> st \<in> set [Created, BurnPrepared]"

lemma terminal_absorbing: "is_terminal st \<Longrightarrow> is_allowed_transition st st' \<longleftrightarrow> st' = st"
  by (cases st; cases st') auto

declare is_allowed_transition.simps [simp del] is_terminal.simps [simp del] can_cancel.simps [simp del]

section \<open>Size bounds\<close>

definition MAX_RAW_MESSAGE_BYTES :: nat where "MAX_RAW_MESSAGE_BYTES = 8192"
definition MAX_ATTESTATION_BYTES :: nat where "MAX_ATTESTATION_BYTES = 8192"
definition MAX_HOOK_DATA_BYTES :: nat where "MAX_HOOK_DATA_BYTES = 4096"
definition MAX_MESSAGE_NONCE_LEN :: nat where "MAX_MESSAGE_NONCE_LEN = 128"
definition MAX_TX_HASH_LEN :: nat where "MAX_TX_HASH_LEN = 66"

text \<open>
  The two length checks return a message nobody reads: every caller replaces it, so
  the model returns whether the check passes.
\<close>

definition check_byte_len :: "bytes \<Rightarrow> nat \<Rightarrow> bool" where
  "check_byte_len b m \<longleftrightarrow> \<not> length b > m"

definition check_str_len :: "string \<Rightarrow> nat \<Rightarrow> bool" where
  "check_str_len s m \<longleftrightarrow> \<not> length s > m"

section \<open>Third-party crates\<close>

record crates =
  pk_from_string :: "string \<Rightarrow> bytes32 option"
  muxed_from_string :: "string \<Rightarrow> (bytes32 \<times> u64) option"
  contract_from_string :: "string \<Rightarrow> bytes32 option"
  pk_to_string :: "bytes32 \<Rightarrow> string"
  muxed_to_string :: "bytes32 \<times> u64 \<Rightarrow> string"
  contract_to_string :: "bytes32 \<Rightarrow> string"
  hex_decode :: "string \<Rightarrow> bytes option"
  hex_encode :: "bytes \<Rightarrow> string"

section \<open>Addresses and amounts\<close>

definition is_valid_evm_address :: "string \<Rightarrow> bool" where
  "is_valid_evm_address address =
     (let trimmed = trim address
      in if length trimmed \<noteq> 42 \<or> \<not> starts_with ''0x'' trimmed then False
         else list_all is_ascii_hexdigit (drop 2 trimmed))"

datatype stellar_recipient_key = Account bytes32 | Muxed bytes32 u64 | Contract bytes32

fun to_strkey :: "crates \<Rightarrow> stellar_recipient_key \<Rightarrow> string" where
  "to_strkey C (Account b) = pk_to_string C b"
| "to_strkey C (Muxed b i) = muxed_to_string C (b, i)"
| "to_strkey C (Contract b) = contract_to_string C b"

definition parse_recipient_strkey :: "crates \<Rightarrow> string \<Rightarrow> stellar_recipient_key option" where
  "parse_recipient_strkey C s =
     (let trimmed = trim s
      in case pk_from_string C trimmed of
           Some pk \<Rightarrow> Some (Account pk)
         | None \<Rightarrow>
             (case muxed_from_string C trimmed of
                Some (b, i) \<Rightarrow> Some (Muxed b i)
              | None \<Rightarrow> map_option Contract (contract_from_string C trimmed)))"

definition is_valid_stellar_recipient :: "crates \<Rightarrow> string \<Rightarrow> bool" where
  "is_valid_stellar_recipient C address =
     (case parse_recipient_strkey C address of
        Some (Account _) \<Rightarrow> True | Some (Muxed _ _) \<Rightarrow> True | _ \<Rightarrow> False)"

definition is_valid_stellar_account :: "crates \<Rightarrow> string \<Rightarrow> bool" where
  "is_valid_stellar_account C address \<longleftrightarrow> pk_from_string C (trim address) \<noteq> None"

definition is_valid_positive_decimal_amount :: "string \<Rightarrow> bool" where
  "is_valid_positive_decimal_amount amount =
     (if amount = [] \<or>
         list_ex (\<lambda>c. c \<in> set [CHR '' '', CHR 0x09, CHR 0x0A, CHR 0x0D, CHR ''+'', CHR ''-'',
                                CHR ''e'', CHR ''E'']) amount
      then False
      else
        (case split_on CHR ''.'' amount of
           [] \<Rightarrow> False
         | whole # rest \<Rightarrow>
             if whole = [] \<or> \<not> list_all is_ascii_digit whole then False
             else if length whole > 1 \<and> starts_with ''0'' whole then False
             else
               (case rest of
                  [] \<Rightarrow> whole \<noteq> ''0''
                | fraction # others \<Rightarrow>
                    if others \<noteq> [] \<or> fraction = [] \<or> \<not> list_all is_ascii_digit fraction then False
                    else \<not> (whole = ''0'' \<and> list_all (\<lambda>c. c = CHR ''0'') fraction))))"

section \<open>Quote requests\<close>

definition CCTP_PROVIDER_ID :: string where
  "CCTP_PROVIDER_ID = ''circle-cctp''"

definition CCTP_TESTNET_CORRIDOR_ID :: string where
  "CCTP_TESTNET_CORRIDOR_ID = ''circle-cctp:usdc:stellar-testnet:ethereum-sepolia''"

definition STELLAR_TESTNET_CHAIN_ID :: string where
  "STELLAR_TESTNET_CHAIN_ID = ''stellar:testnet''"

definition SEPOLIA_CHAIN_ID :: string where
  "SEPOLIA_CHAIN_ID = ''eip155:11155111''"

definition STELLAR_TESTNET_USDC_ASSET :: string where
  "STELLAR_TESTNET_USDC_ASSET =
     ''erc20:CBIELTK6YBZJU5UP2WWQEUCYKLPU6AUNZ2BQ4WWFEIE3USCIHMXQDAMA''"

definition STELLAR_TESTNET_USDC_CANONICAL :: string where
  "STELLAR_TESTNET_USDC_CANONICAL =
     ''stellar:testnet/erc20:CBIELTK6YBZJU5UP2WWQEUCYKLPU6AUNZ2BQ4WWFEIE3USCIHMXQDAMA''"

definition SEPOLIA_USDC_ASSET :: string where
  "SEPOLIA_USDC_ASSET = ''erc20:0x1c7d4b196cb0c7b01d743fbc6116a902379c7238''"

definition SEPOLIA_USDC_CANONICAL :: string where
  "SEPOLIA_USDC_CANONICAL =
     ''eip155:11155111/erc20:0x1c7d4b196cb0c7b01d743fbc6116a902379c7238''"

record cctp_chain_asset =
  asset_chain_id :: string
  asset_asset :: string
  asset_canonical :: string
  asset_symbol :: "string option"

record cctp_quote_request =
  r_corridor_id :: string
  r_provider :: string
  r_direction :: cctp_direction
  r_source_chain_id :: string
  r_destination_chain_id :: string
  r_source_asset :: cctp_chain_asset
  r_destination_asset :: cctp_chain_asset
  r_amount :: string
  r_recipient :: string
  r_sender :: "string option"
  r_mint_submitter :: "string option"
  r_finality :: cctp_finality

datatype cctp_validation_error =
    UnsupportedCorridor | InvalidFinality | InvalidRecipient | InvalidAmount
  | InvalidSender | InvalidMintSubmitter | ValStellarRemainder

definition asset_matches_frozen :: "cctp_chain_asset \<Rightarrow> string \<Rightarrow> string \<Rightarrow> string \<Rightarrow> bool" where
  "asset_matches_frozen a chain_id asset_id canonical \<longleftrightarrow>
     asset_chain_id a = chain_id \<and> asset_asset a = asset_id \<and> asset_canonical a = canonical"

text \<open>The strings the request must carry, per direction.\<close>

fun frozen_corridor :: "cctp_direction \<Rightarrow> string \<times> string \<times> string \<times> string \<times> string \<times> string" where
  "frozen_corridor StellarToEvm =
     (STELLAR_TESTNET_CHAIN_ID, SEPOLIA_CHAIN_ID,
      STELLAR_TESTNET_USDC_ASSET, STELLAR_TESTNET_USDC_CANONICAL,
      SEPOLIA_USDC_ASSET, SEPOLIA_USDC_CANONICAL)"
| "frozen_corridor EvmToStellar =
     (SEPOLIA_CHAIN_ID, STELLAR_TESTNET_CHAIN_ID,
      SEPOLIA_USDC_ASSET, SEPOLIA_USDC_CANONICAL,
      STELLAR_TESTNET_USDC_ASSET, STELLAR_TESTNET_USDC_CANONICAL)"

definition validate_parties :: "crates \<Rightarrow> cctp_quote_request \<Rightarrow> (unit, cctp_validation_error) pure" where
  "validate_parties C r =
     (case r_direction r of
        StellarToEvm \<Rightarrow>
          if \<not> is_valid_evm_address (r_recipient r) then Err InvalidRecipient ()
          else ok_or (r_sender r) InvalidSender () (\<lambda>sender.
            if \<not> is_valid_stellar_account C sender then Err InvalidSender () else Ok () ())
      | EvmToStellar \<Rightarrow>
          if \<not> is_valid_stellar_recipient C (r_recipient r) then Err InvalidRecipient ()
          else ok_or (r_sender r) InvalidSender () (\<lambda>sender.
            if \<not> is_valid_evm_address sender then Err InvalidSender ()
            else ok_or (r_mint_submitter r) InvalidMintSubmitter () (\<lambda>submitter.
              if \<not> is_valid_stellar_account C submitter then Err InvalidMintSubmitter ()
              else Ok () ())))"

definition validate_request :: "crates \<Rightarrow> cctp_quote_request \<Rightarrow> (unit, cctp_validation_error) pure" where
  "validate_request C r =
     (if r_corridor_id r \<noteq> CCTP_TESTNET_CORRIDOR_ID \<or> r_provider r \<noteq> CCTP_PROVIDER_ID
      then Err UnsupportedCorridor ()
      else
        (case frozen_corridor (r_direction r) of
           (source_chain, dest_chain, source_asset, source_canonical, dest_asset, dest_canonical) \<Rightarrow>
             if r_source_chain_id r \<noteq> source_chain \<or> r_destination_chain_id r \<noteq> dest_chain \<or>
                \<not> asset_matches_frozen (r_source_asset r) source_chain source_asset source_canonical \<or>
                \<not> asset_matches_frozen (r_destination_asset r) dest_chain dest_asset dest_canonical
             then Err UnsupportedCorridor ()
             else if \<not> is_valid_positive_decimal_amount (r_amount r) then Err InvalidAmount ()
             else validate_parties C r))"

section \<open>Configuration\<close>

definition STELLAR_TESTNET_DOMAIN :: u32 where "STELLAR_TESTNET_DOMAIN = 27"
definition SEPOLIA_DOMAIN :: u32 where "SEPOLIA_DOMAIN = 0"

definition STELLAR_TESTNET_PASSPHRASE :: string where
  "STELLAR_TESTNET_PASSPHRASE = ''Test SDF Network ; September 2015''"

definition IRIS_SANDBOX_HOST :: string where
  "IRIS_SANDBOX_HOST = ''iris-api-sandbox.circle.com''"

definition STELLAR_CCTP_FORWARDER :: string where
  "STELLAR_CCTP_FORWARDER = ''CA66Q2WFBND6V4UEB7RD4SAXSVIWMD6RA4X3U32ELVFGXV5PJK4T4VSZ''"

definition SEPOLIA_TOKEN_MESSENGER :: string where
  "SEPOLIA_TOKEN_MESSENGER = ''0x8FE6B999Dc680CcFDD5Bf7EB0974218be2542DAA''"

definition SEPOLIA_USDC :: string where
  "SEPOLIA_USDC = ''0x1c7d4b196cb0c7b01d743fbc6116a902379c7238''"

definition FINALITY_STANDARD :: u32 where "FINALITY_STANDARD = 2000"
definition FINALITY_FAST :: u32 where "FINALITY_FAST = 1000"

fun corridor_min_finality :: "cctp_finality \<Rightarrow> u32" where
  "corridor_min_finality Standard = FINALITY_STANDARD"
| "corridor_min_finality Fast = FINALITY_FAST"

record cctp_contract_addresses =
  stellar_token_messenger :: string
  stellar_message_transmitter :: string
  stellar_cctp_forwarder :: string
  stellar_usdc :: string
  sepolia_token_messenger :: string
  sepolia_message_transmitter :: string
  sepolia_usdc :: string

record cctp_config =
  enabled :: bool
  iris_base_url :: string
  stellar_domain :: u32
  sepolia_domain :: u32
  stellar_rpc_url :: string
  stellar_horizon_url :: string
  stellar_network_passphrase :: string
  sepolia_rpc_url :: string
  amount_cap :: string
  quote_ttl_secs :: u64
  mint_payload_ttl_secs :: u64
  poll_interval_secs :: u64
  poll_timeout_secs :: u64
  iris_timeout_secs :: u64
  iris_max_retries :: u32
  iris_keys_ttl_secs :: u64
  iris_keys_stale_max_secs :: u64
  attester_snapshot_ttl_secs :: u64
  attester_snapshot_stale_max_secs :: u64
  contracts :: cctp_contract_addresses

datatype cctp_config_error =
    MalformedAddress string | WrongDomainPair | NonHttpsUrl string
  | MainnetPassphraseOnTestnet | ZeroOrUnsafeLimit string | FastModeUnsupported | InvalidEnv string

text \<open>The error of a URL carries the URL with user information and query cut off.\<close>

definition redact_url :: "string \<Rightarrow> string" where
  "redact_url url =
     (case (case split_once ''//'' url of None \<Rightarrow> ([], url) | Some (a, b) \<Rightarrow> (a @ ''//'', b)) of
        (scheme, rest) \<Rightarrow> scheme @ hd (split_on CHR ''?'' (last (split_on CHR ''@'' rest))))"

record parsed_service_url =
  url_scheme :: string
  url_host :: string
  url_port :: "nat option"
  url_path :: string

definition parse_service_url :: "string \<Rightarrow> (parsed_service_url, cctp_config_error) pure" where
  "parse_service_url url_str =
     (let bad = Err (NonHttpsUrl (redact_url url_str)) (); trimmed = trim url_str
      in if CHR ''#'' \<in> set trimmed \<or> CHR ''@'' \<in> set trimmed then bad
      else
        (case (case split_once ''//'' trimmed of
                 Some (s, r) \<Rightarrow>
                   (to_ascii_lowercase (rev (dropWhile (\<lambda>c. c = CHR '':'') (rev s))), r)
               | None \<Rightarrow> ([], trimmed)) of
           (scheme, rest) \<Rightarrow>
             if scheme \<noteq> ''https'' \<and> scheme \<noteq> ''http'' then bad
             else
               (case (case split_once ''/'' rest of
                        Some (h, p) \<Rightarrow> (h, CHR ''/'' # hd (split_on CHR ''?'' p))
                      | None \<Rightarrow> (rest, ''/'')) of
                  (host_part, path) \<Rightarrow>
                    if CHR ''?'' \<in> set host_part then bad
                    else
                      (case rsplit_once CHR '':'' host_part of
                         Some (h, p) \<Rightarrow>
                           (case parse_unsigned (2 ^ 16 - 1) p of
                              None \<Rightarrow> bad
                            | Some port \<Rightarrow>
                                Ok \<lparr>url_scheme = scheme, url_host = to_ascii_lowercase h,
                                    url_port = Some port, url_path = path\<rparr> ())
                       | None \<Rightarrow>
                           Ok \<lparr>url_scheme = scheme, url_host = to_ascii_lowercase host_part,
                               url_port = None, url_path = path\<rparr> ()))))"

definition validate_iris_url :: "string \<Rightarrow> (unit, cctp_config_error) pure" where
  "validate_iris_url url =
     andThen (parse_service_url url) (\<lambda>parsed _.
       if url_host parsed \<noteq> IRIS_SANDBOX_HOST then Err (NonHttpsUrl (redact_url url)) ()
       else if url_scheme parsed \<noteq> ''https'' then Err (NonHttpsUrl (redact_url url)) ()
       else if url_path parsed \<noteq> ''/'' \<and> \<not> starts_with ''/v2'' (url_path parsed)
            then Err (NonHttpsUrl (redact_url url)) ()
       else Ok () ())"

definition validate_https_url :: "bool \<Rightarrow> string \<Rightarrow> (unit, cctp_config_error) pure" where
  "validate_https_url is_production url =
     andThen (parse_service_url url) (\<lambda>parsed _.
       if is_production \<and> url_scheme parsed \<noteq> ''https'' then Err (NonHttpsUrl (redact_url url)) ()
       else if url_scheme parsed \<noteq> ''https'' \<and> url_scheme parsed \<noteq> ''http''
            then Err (NonHttpsUrl (redact_url url)) ()
       else Ok () ())"

definition validate_stellar_contract :: "crates \<Rightarrow> string \<Rightarrow> (unit, cctp_config_error) pure" where
  "validate_stellar_contract C addr =
     (if contract_from_string C (trim addr) = None then Err (MalformedAddress addr) () else Ok () ())"

definition validate_evm_address :: "string \<Rightarrow> (unit, cctp_config_error) pure" where
  "validate_evm_address addr =
     (let trimmed = trim addr
      in if length trimmed \<noteq> 42 \<or> \<not> starts_with ''0x'' trimmed then Err (MalformedAddress addr) ()
         else if \<not> list_all is_ascii_hexdigit (drop 2 trimmed) then Err (MalformedAddress addr) ()
         else Ok () ())"

definition validate_contracts ::
  "crates \<Rightarrow> cctp_contract_addresses \<Rightarrow> (unit, cctp_config_error) pure" where
  "validate_contracts C a =
     andThen (validate_stellar_contract C (stellar_token_messenger a)) (\<lambda>_ _.
     andThen (validate_stellar_contract C (stellar_message_transmitter a)) (\<lambda>_ _.
     andThen (validate_stellar_contract C (stellar_cctp_forwarder a)) (\<lambda>_ _.
     andThen (validate_stellar_contract C (stellar_usdc a)) (\<lambda>_ _.
     andThen (validate_evm_address (sepolia_token_messenger a)) (\<lambda>_ _.
     andThen (validate_evm_address (sepolia_message_transmitter a)) (\<lambda>_ _.
     validate_evm_address (sepolia_usdc a)))))))"

definition validate_config ::
  "crates \<Rightarrow> bool \<Rightarrow> cctp_config \<Rightarrow> (unit, cctp_config_error) pure" where
  "validate_config C is_production cfg =
     (if stellar_domain cfg \<noteq> STELLAR_TESTNET_DOMAIN \<or> sepolia_domain cfg \<noteq> SEPOLIA_DOMAIN
      then Err WrongDomainPair ()
      else
        andThen (validate_contracts C (contracts cfg)) (\<lambda>_ _.
        if contains_str ''Public Global Stellar Network'' (stellar_network_passphrase cfg)
        then Err MainnetPassphraseOnTestnet ()
        else if stellar_network_passphrase cfg \<noteq> STELLAR_TESTNET_PASSPHRASE
        then Err WrongDomainPair ()
        else
          andThen (validate_iris_url (iris_base_url cfg)) (\<lambda>_ _.
          andThen (validate_https_url is_production (stellar_rpc_url cfg)) (\<lambda>_ _.
          andThen (validate_https_url is_production (stellar_horizon_url cfg)) (\<lambda>_ _.
          andThen
            (if enabled cfg then
               (if trim (sepolia_rpc_url cfg) = []
                then Err (InvalidEnv ''CCTP_ENABLED=true requires CCTP_SEPOLIA_RPC_URL or SEPOLIA_RPC_URL'') ()
                else validate_https_url is_production (sepolia_rpc_url cfg))
             else if trim (sepolia_rpc_url cfg) \<noteq> []
             then validate_https_url is_production (sepolia_rpc_url cfg)
             else Ok () ()) (\<lambda>_ _.
          if amount_cap cfg = [] \<or> quote_ttl_secs cfg = 0 \<or> poll_interval_secs cfg = 0 \<or>
             poll_timeout_secs cfg = 0 \<or> iris_timeout_secs cfg = 0 \<or> iris_keys_ttl_secs cfg = 0 \<or>
             iris_keys_stale_max_secs cfg = 0 \<or> attester_snapshot_ttl_secs cfg = 0 \<or>
             attester_snapshot_stale_max_secs cfg = 0
          then Err (ZeroOrUnsafeLimit ''timing or cap'') ()
          else Ok () ()))))))"

definition is_configured :: "crates \<Rightarrow> bool \<Rightarrow> cctp_config \<Rightarrow> bool" where
  "is_configured C is_production cfg =
     (case validate_config C is_production cfg of Ok _ _ \<Rightarrow> True | _ \<Rightarrow> False)"

definition DEFAULT_IRIS_SANDBOX_URL :: string where
  "DEFAULT_IRIS_SANDBOX_URL = ''https://iris-api-sandbox.circle.com''"

definition DEFAULT_STELLAR_TESTNET_RPC :: string where
  "DEFAULT_STELLAR_TESTNET_RPC = ''https://soroban-testnet.stellar.org''"

definition STELLAR_TOKEN_MESSENGER :: string where
  "STELLAR_TOKEN_MESSENGER = ''CDNG7HXAPBWICI2E3AUBP3YZWZELJLYSB6F5CC7WLDTLTHVM74SLRTHP''"

definition STELLAR_MESSAGE_TRANSMITTER :: string where
  "STELLAR_MESSAGE_TRANSMITTER = ''CBJ6MTCKKZG73PMDZCJMSFRD7DQEMI4FKDH7CGDSV4W6FHCRBCQAVVJY''"

definition STELLAR_USDC_CONTRACT :: string where
  "STELLAR_USDC_CONTRACT = ''CBIELTK6YBZJU5UP2WWQEUCYKLPU6AUNZ2BQ4WWFEIE3USCIHMXQDAMA''"

definition SEPOLIA_MESSAGE_TRANSMITTER :: string where
  "SEPOLIA_MESSAGE_TRANSMITTER = ''0xE737e5cEBEEBa77EFE34D4aa090756590b1CE275''"

definition default_testnet :: cctp_config where
  "default_testnet =
     \<lparr>enabled = False, iris_base_url = DEFAULT_IRIS_SANDBOX_URL,
      stellar_domain = STELLAR_TESTNET_DOMAIN, sepolia_domain = SEPOLIA_DOMAIN,
      stellar_rpc_url = DEFAULT_STELLAR_TESTNET_RPC,
      stellar_horizon_url = ''https://horizon-testnet.stellar.org'',
      stellar_network_passphrase = STELLAR_TESTNET_PASSPHRASE, sepolia_rpc_url = [],
      amount_cap = ''100000'', quote_ttl_secs = 300, mint_payload_ttl_secs = 600,
      poll_interval_secs = 5, poll_timeout_secs = 1800, iris_timeout_secs = 10,
      iris_max_retries = 2, iris_keys_ttl_secs = 900, iris_keys_stale_max_secs = 86400,
      attester_snapshot_ttl_secs = 900, attester_snapshot_stale_max_secs = 86400,
      contracts =
        \<lparr>stellar_token_messenger = STELLAR_TOKEN_MESSENGER,
         stellar_message_transmitter = STELLAR_MESSAGE_TRANSMITTER,
         stellar_cctp_forwarder = STELLAR_CCTP_FORWARDER,
         stellar_usdc = STELLAR_USDC_CONTRACT,
         sepolia_token_messenger = SEPOLIA_TOKEN_MESSENGER,
         sepolia_message_transmitter = SEPOLIA_MESSAGE_TRANSMITTER,
         sepolia_usdc = SEPOLIA_USDC\<rparr>\<rparr>"

section \<open>Provider kill switch\<close>

datatype override_directive = ForceInclude | ForceExclude

record provider_policy =
  pp_allowlist :: "string list"
  pp_denylist :: "string list"
  pp_kill_switches :: "string \<Rightarrow> bool option"

definition is_provider_allowed :: "provider_policy \<Rightarrow> string option \<Rightarrow> bool" where
  "is_provider_allowed policy provider =
     (case provider of
        None \<Rightarrow> True
      | Some p \<Rightarrow>
          if unwrap_or (pp_kill_switches policy p) False then False
          else if pp_allowlist policy \<noteq> [] \<and> p \<notin> set (pp_allowlist policy) then False
          else p \<notin> set (pp_denylist policy))"

text \<open>The provider part of the kill-switch state, as the routing policy reads it.\<close>

definition get_provider_policy :: "(string \<Rightarrow> override_directive option) \<Rightarrow> provider_policy" where
  "get_provider_policy providers =
     \<lparr>pp_allowlist = [], pp_denylist = [],
      pp_kill_switches = (\<lambda>p. if providers p = Some ForceExclude then Some True else None)\<rparr>"

lemma provider_allowed_iff:
  "is_provider_allowed (get_provider_policy ks) (Some p) \<longleftrightarrow> ks p \<noteq> Some ForceExclude"
  by (simp add: is_provider_allowed_def get_provider_policy_def)

end
