(* ===== verification/Cctp_Message.thy ===== *)
theory Cctp_Message
  imports Cctp_Types
begin

text \<open>
  The encodings of the bridge: \<open>cctp/encoding.rs\<close> (addresses as 32 bytes, decimal
  amounts as subunits, the forwarder hook) and \<open>cctp/message.rs\<close> (the CCTP v2
  message: parsing, validation against the corridor's expectations, and the synthetic
  message of the same layout).

  The lemmas give the slices of the assembled message, from which the round trip of
  the parser follows, and the exact condition under which a message is accepted.
\<close>

section \<open>Encodings\<close>

datatype encoding_error =
    InvalidEvmAddress string | InvalidStellarContract string | InvalidStellarAccount string
  | AmountOverflow | StellarRemainder string | InvalidHookData

text \<open>
  A validated address has 40 hexadecimal digits after its prefix. The \<open>expect\<close> and
  the copy into twenty bytes panic if the decoder returned anything else for them.
\<close>

definition evm_address_to_bytes32 :: "crates \<Rightarrow> string \<Rightarrow> (bytes32, encoding_error) pure" where
  "evm_address_to_bytes32 C address =
     (if \<not> is_valid_evm_address address then Err (InvalidEvmAddress address) ()
      else
        unwrap (hex_decode C (unwrap_or (strip_prefix ''0x'' (trim address)) (trim address))) (\<lambda>b.
          if length b = 20 then Ok (replicate 12 0 @ b) () else Panic))"

definition stellar_contract_to_bytes32 :: "crates \<Rightarrow> string \<Rightarrow> (bytes32, encoding_error) pure" where
  "stellar_contract_to_bytes32 C strkey =
     ok_or (contract_from_string C (trim strkey)) (InvalidStellarContract strkey) () (\<lambda>b. Ok b ())"

definition stellar_account_to_bytes32 :: "crates \<Rightarrow> string \<Rightarrow> (bytes32, encoding_error) pure" where
  "stellar_account_to_bytes32 C g_address =
     ok_or (pk_from_string C (trim g_address)) (InvalidStellarAccount g_address) () (\<lambda>b. Ok b ())"

definition u32_to_be_bytes :: "u32 \<Rightarrow> bytes" where
  "u32_to_be_bytes x = be_bytes 4 (int x)"

definition u128_to_be_bytes :: "u128 \<Rightarrow> bytes" where
  "u128_to_be_bytes x = be_bytes 16 (int x)"

definition string_bytes :: "string \<Rightarrow> bytes" where
  "string_bytes s = map (\<lambda>c. of_nat (of_char c)) s"

definition build_forwarder_hook_data_recipient :: "crates \<Rightarrow> string \<Rightarrow> (bytes, encoding_error) pure" where
  "build_forwarder_hook_data_recipient C recipient =
     ok_or (parse_recipient_strkey C recipient) (InvalidStellarAccount recipient) () (\<lambda>key.
       case key of
         Contract _ \<Rightarrow> Err InvalidHookData ()
       | _ \<Rightarrow>
           let recipient_bytes = string_bytes (to_strkey C key)
           in Ok (replicate 24 0 @ u32_to_be_bytes 0
                  @ u32_to_be_bytes (length recipient_bytes mod 2 ^ 32) @ recipient_bytes) ())"

definition split_decimal :: "string \<Rightarrow> (string \<times> string, encoding_error) pure" where
  "split_decimal amount =
     (let parts = split_on CHR ''.'' amount
      in if length parts > 2 \<or> parts = [] then Err AmountOverflow ()
         else Ok (parts ! 0, if length parts > 1 then parts ! 1 else []) ())"

definition pad_fraction :: "string \<Rightarrow> nat \<Rightarrow> string" where
  "pad_fraction fraction width =
     (if length fraction > width then take width fraction
      else fraction @ replicate (width - length fraction) CHR ''0'')"

definition parse_decimal_to_subunits :: "string \<Rightarrow> nat \<Rightarrow> (u128, encoding_error) pure" where
  "parse_decimal_to_subunits amount scale =
     andThen (split_decimal amount) (\<lambda>(whole, fraction) _.
       ok_or (parse_unsigned u128_max (whole @ pad_fraction fraction scale)) AmountOverflow ()
         (\<lambda>v. Ok v ()))"

definition decimal_to_cctp_subunits :: "string \<Rightarrow> (u128, encoding_error) pure" where
  "decimal_to_cctp_subunits amount = parse_decimal_to_subunits amount 6"

definition cctp_subunits_to_stellar_subunits :: "u128 \<Rightarrow> (u128, encoding_error) pure" where
  "cctp_subunits_to_stellar_subunits cctp =
     (if cctp * 10 \<le> u128_max then Ok (cctp * 10) () else Err AmountOverflow ())"

definition stellar_outbound_cctp_amount ::
  "string \<Rightarrow> (u128 \<times> string option, encoding_error) pure" where
  "stellar_outbound_cctp_amount amount_7dp =
     andThen (split_decimal amount_7dp) (\<lambda>(whole, fraction) _.
       let frac7 = pad_fraction fraction 7;
           frac6 = take 6 frac7;
           remainder_digit = (if length frac7 > 6 then frac7 ! 6 else CHR ''0'')
       in andThen (parse_decimal_to_subunits (whole @ ''.'' @ frac6) 6) (\<lambda>cctp _.
            Ok (cctp, if remainder_digit \<noteq> CHR ''0''
                      then Some (''0.000000'' @ [remainder_digit]) else None) ()))"

definition stellar_outbound_cctp_amount_strict :: "string \<Rightarrow> (u128, encoding_error) pure" where
  "stellar_outbound_cctp_amount_strict amount_7dp =
     andThen (stellar_outbound_cctp_amount amount_7dp) (\<lambda>(cctp, rem) _.
       case rem of Some r \<Rightarrow> Err (StellarRemainder r) () | None \<Rightarrow> Ok cctp ())"

definition stellar_local_to_canonical_amount :: "i128 \<Rightarrow> (i128, encoding_error) pure" where
  "stellar_local_to_canonical_amount local_amount =
     (if local_amount \<le> 0 then Err AmountOverflow ()
      else if local_amount smod 10 \<noteq> 0
      then Err (StellarRemainder (show_nat (nat local_amount))) ()
      else Ok (local_amount sdiv 10) ())"

definition stellar_local_to_canonical_amount_allow_zero :: "i128 \<Rightarrow> (i128, encoding_error) pure" where
  "stellar_local_to_canonical_amount_allow_zero local_amount =
     (if local_amount = 0 then Ok 0 () else stellar_local_to_canonical_amount local_amount)"

definition canonical_to_stellar_local_amount :: "i128 \<Rightarrow> (i128, encoding_error) pure" where
  "canonical_to_stellar_local_amount canonical =
     ok_or (checked_mul canonical 10) AmountOverflow () (\<lambda>v. Ok v ())"

definition format_stellar_amount :: "u128 \<Rightarrow> string" where
  "format_stellar_amount subunits =
     (let whole = subunits div 10000000; frac = subunits mod 10000000
      in show_nat whole @ ''.'' @ show_padded 7 frac)"

section \<open>Messages\<close>

definition MESSAGE_HEADER_LEN :: nat where "MESSAGE_HEADER_LEN = 148"

record parsed_burn_message_body =
  b_version :: u32
  b_burn_token :: bytes32
  b_mint_recipient :: bytes32
  b_amount :: u128
  b_message_sender :: bytes32
  b_max_fee :: u128
  b_fee_executed :: u128
  b_expiration_block :: u128
  b_hook_data :: bytes

record parsed_cctp_message =
  m_version :: u32
  m_source_domain :: u32
  m_destination_domain :: u32
  m_nonce :: bytes32
  m_sender :: bytes32
  m_recipient :: bytes32
  m_destination_caller :: bytes32
  m_min_finality_threshold :: u32
  m_finality_threshold_executed :: u32
  m_body :: parsed_burn_message_body

datatype message_parse_error = TooShort | InvalidHex | BodyTooShort | Overflow

definition decode_hex_message :: "crates \<Rightarrow> string \<Rightarrow> (bytes, message_parse_error) pure" where
  "decode_hex_message C raw =
     (let trimmed = trim raw;
          hex = (case strip_prefix ''0x'' trimmed of
                   Some h \<Rightarrow> h
                 | None \<Rightarrow> unwrap_or (strip_prefix ''0X'' trimmed) trimmed)
      in ok_or (hex_decode C hex) InvalidHex () (\<lambda>b. Ok b ()))"

text \<open>\<open>bytes.get(offset..offset + n)\<close>\<close>

definition slice :: "nat \<Rightarrow> nat \<Rightarrow> bytes \<Rightarrow> bytes" where
  "slice offset n b = take n (drop offset b)"

definition get_range :: "bytes \<Rightarrow> nat \<Rightarrow> nat \<Rightarrow> bytes option" where
  "get_range b offset n = (if offset + n \<le> length b then Some (slice offset n b) else None)"

definition read_u32_be :: "bytes \<Rightarrow> nat \<Rightarrow> (u32, message_parse_error) pure" where
  "read_u32_be b offset = ok_or (get_range b offset 4) TooShort () (\<lambda>s. Ok (nat (from_be s)) ())"

definition read_bytes32 :: "bytes \<Rightarrow> nat \<Rightarrow> (bytes32, message_parse_error) pure" where
  "read_bytes32 b offset = ok_or (get_range b offset 32) TooShort () (\<lambda>s. Ok s ())"

definition read_u256 :: "bytes \<Rightarrow> nat \<Rightarrow> (u128, message_parse_error) pure" where
  "read_u256 b offset =
     ok_or (get_range b offset 32) TooShort () (\<lambda>s.
       if take 16 s \<noteq> replicate 16 0 then Err Overflow ()
       else Ok (nat (from_be (drop 16 s))) ())"

definition parse_burn_message_body ::
  "bytes \<Rightarrow> (parsed_burn_message_body, message_parse_error) pure" where
  "parse_burn_message_body b =
     (if length b < 228 then Err BodyTooShort ()
      else
        andThen (read_u32_be b 0) (\<lambda>version _.
        andThen (read_bytes32 b 4) (\<lambda>burn_token _.
        andThen (read_bytes32 b 36) (\<lambda>mint_recipient _.
        andThen (read_u256 b 68) (\<lambda>amount _.
        andThen (read_bytes32 b 100) (\<lambda>message_sender _.
        andThen (read_u256 b 132) (\<lambda>max_fee _.
        andThen (read_u256 b 164) (\<lambda>fee_executed _.
        andThen (read_u256 b 196) (\<lambda>expiration_block _.
          Ok \<lparr>b_version = version, b_burn_token = burn_token, b_mint_recipient = mint_recipient,
              b_amount = amount, b_message_sender = message_sender, b_max_fee = max_fee,
              b_fee_executed = fee_executed, b_expiration_block = expiration_block,
              b_hook_data = drop 228 b\<rparr> ())))))))))"

definition parse_cctp_v2_message :: "bytes \<Rightarrow> (parsed_cctp_message, message_parse_error) pure" where
  "parse_cctp_v2_message b =
     (if length b < MESSAGE_HEADER_LEN then Err TooShort ()
      else
        andThen (read_u32_be b 0) (\<lambda>version _.
        andThen (read_u32_be b 4) (\<lambda>source_domain _.
        andThen (read_u32_be b 8) (\<lambda>destination_domain _.
        andThen (read_bytes32 b 12) (\<lambda>nonce _.
        andThen (read_bytes32 b 44) (\<lambda>sender _.
        andThen (read_bytes32 b 76) (\<lambda>recipient _.
        andThen (read_bytes32 b 108) (\<lambda>destination_caller _.
        andThen (read_u32_be b 140) (\<lambda>min_finality_threshold _.
        andThen (read_u32_be b 144) (\<lambda>finality_threshold_executed _.
        andThen (parse_burn_message_body (drop 148 b)) (\<lambda>body _.
          Ok \<lparr>m_version = version, m_source_domain = source_domain,
              m_destination_domain = destination_domain, m_nonce = nonce, m_sender = sender,
              m_recipient = recipient, m_destination_caller = destination_caller,
              m_min_finality_threshold = min_finality_threshold,
              m_finality_threshold_executed = finality_threshold_executed, m_body = body\<rparr> ())))))))))))"

section \<open>Corridor validation\<close>

record corridor_message_expectations =
  e_source_domain :: u32
  e_destination_domain :: u32
  e_header_recipient :: bytes32
  e_header_sender :: bytes32
  e_burn_token :: bytes32
  e_mint_recipient :: bytes32
  e_destination_caller :: bytes32
  e_amount_cctp_subunits :: u128
  e_min_finality :: u32
  e_body_message_sender :: bytes32
  e_hook_data :: "bytes option"
  e_hook_data_required_empty :: bool

datatype message_validation_error =
    Parse message_parse_error | WrongSourceDomain | WrongDestinationDomain
  | WrongHeaderRecipient | WrongHeaderSender | WrongBurnToken | WrongMintRecipient
  | WrongDestinationCaller | WrongAmount | WrongFinality | WrongMessageSender
  | WrongHookData | FinalityNotExecuted | HookDataTooLarge

definition normalize_finality :: "u32 \<Rightarrow> u32" where
  "normalize_finality threshold =
     (if threshold \<le> FINALITY_FAST then FINALITY_FAST else FINALITY_STANDARD)"

definition hook_check ::
  "corridor_message_expectations \<Rightarrow> bytes \<Rightarrow> bool" where
  "hook_check e hook =
     (if e_hook_data_required_empty e then hook = []
      else (case e_hook_data e of Some expected_hook \<Rightarrow> hook = expected_hook | None \<Rightarrow> hook = []))"

text \<open>The comparisons of the parsed message, in the order of the source.\<close>

definition corridor_checks ::
  "corridor_message_expectations \<Rightarrow> parsed_cctp_message \<Rightarrow>
     (parsed_cctp_message, message_validation_error) pure" where
  "corridor_checks e m =
     (let body = m_body m; normalized_min = normalize_finality (m_min_finality_threshold m);
          normalized_expected = normalize_finality (e_min_finality e)
      in if m_source_domain m \<noteq> e_source_domain e then Err WrongSourceDomain ()
      else if m_destination_domain m \<noteq> e_destination_domain e then Err WrongDestinationDomain ()
      else if m_recipient m \<noteq> e_header_recipient e then Err WrongHeaderRecipient ()
      else if m_sender m \<noteq> e_header_sender e then Err WrongHeaderSender ()
      else if b_burn_token body \<noteq> e_burn_token e then Err WrongBurnToken ()
      else if b_mint_recipient body \<noteq> e_mint_recipient e then Err WrongMintRecipient ()
      else if b_message_sender body \<noteq> e_body_message_sender e then Err WrongMessageSender ()
      else if m_destination_caller m \<noteq> e_destination_caller e then Err WrongDestinationCaller ()
      else if b_amount body \<noteq> e_amount_cctp_subunits e then Err WrongAmount ()
      else if normalized_min \<noteq> normalized_expected then Err WrongFinality ()
      else if m_finality_threshold_executed m < normalized_min then Err FinalityNotExecuted ()
      else if \<not> check_byte_len (b_hook_data body) MAX_HOOK_DATA_BYTES then Err HookDataTooLarge ()
      else if \<not> hook_check e (b_hook_data body) then Err WrongHookData ()
      else Ok m ())"

definition validate_message_for_corridor ::
  "crates \<Rightarrow> string \<Rightarrow> corridor_message_expectations \<Rightarrow>
     (parsed_cctp_message, message_validation_error) pure" where
  "validate_message_for_corridor C raw_hex e =
     andThen (map_err Parse (decode_hex_message C raw_hex) ()) (\<lambda>b _.
       if \<not> check_byte_len b MAX_RAW_MESSAGE_BYTES then Err (Parse TooShort) ()
       else andThen (map_err Parse (parse_cctp_v2_message b) ()) (\<lambda>m _. corridor_checks e m))"

section \<open>The synthetic message\<close>

text \<open>\<open>msg[offset..].copy_from_slice(src)\<close> at the length of the source\<close>

definition write_at :: "nat \<Rightarrow> bytes \<Rightarrow> bytes \<Rightarrow> bytes" where
  "write_at offset src msg = take offset msg @ src @ drop (offset + length src) msg"

definition build_synthetic_cctp_message :: "corridor_message_expectations \<Rightarrow> bytes" where
  "build_synthetic_cctp_message e =
     (let hook_len = (case e_hook_data e of Some h \<Rightarrow> length h | None \<Rightarrow> 0);
          msg = replicate (148 + 228 + hook_len) 0;
          msg = write_at 4 (u32_to_be_bytes (e_source_domain e)) msg;
          msg = write_at 8 (u32_to_be_bytes (e_destination_domain e)) msg;
          msg = write_at 44 (e_header_sender e) msg;
          msg = write_at 76 (e_header_recipient e) msg;
          msg = write_at 108 (e_destination_caller e) msg;
          msg = write_at 140 (u32_to_be_bytes (e_min_finality e)) msg;
          msg = write_at 144 (u32_to_be_bytes (e_min_finality e)) msg;
          msg = write_at (148 + 4) (e_burn_token e) msg;
          msg = write_at (148 + 36) (e_mint_recipient e) msg;
          msg = write_at (148 + 68 + 16) (u128_to_be_bytes (e_amount_cctp_subunits e)) msg;
          msg = write_at (148 + 100) (e_body_message_sender e) msg
      in case e_hook_data e of
           Some h \<Rightarrow> if hook_len > 0 then write_at (148 + 228) h msg else msg
         | None \<Rightarrow> msg)"

definition encode_message_hex :: "crates \<Rightarrow> bytes \<Rightarrow> string" where
  "encode_message_hex C b = ''0x'' @ hex_encode C b"

text \<open>What the types of the struct guarantee: 32-byte fields and numbers at their width.\<close>

definition expectations_sized :: "corridor_message_expectations \<Rightarrow> bool" where
  "expectations_sized e \<longleftrightarrow>
     e_source_domain e \<le> u32_max \<and> e_destination_domain e \<le> u32_max \<and> e_min_finality e \<le> u32_max \<and>
     e_amount_cctp_subunits e \<le> u128_max \<and>
     (\<forall>b \<in> {e_header_recipient e, e_header_sender e, e_burn_token e, e_mint_recipient e,
            e_destination_caller e, e_body_message_sender e}. length b = 32)"

text \<open>What the \<open>hex\<close> crate promises: decoding inverts encoding, which prints hexadecimal digits.\<close>

definition hex_codec :: "crates \<Rightarrow> bool" where
  "hex_codec C \<longleftrightarrow>
     (\<forall>b. hex_decode C (hex_encode C b) = Some b \<and> list_all is_ascii_hexdigit (hex_encode C b))"

section \<open>Facts on slices\<close>

lemma length_write_at [simp]:
  "offset + length src \<le> length msg \<Longrightarrow> length (write_at offset src msg) = length msg"
  by (simp add: write_at_def)

lemma slice_write_same:
  "offset + length src \<le> length msg \<Longrightarrow> n = length src \<Longrightarrow> slice offset n (write_at offset src msg) = src"
  by (simp add: slice_def write_at_def)

lemma slice_nth: "offset + n \<le> length b \<Longrightarrow> slice offset n b = map (\<lambda>i. b ! (offset + i)) [0..<n]"
  by (rule nth_equalityI) (simp_all add: slice_def)

lemma write_at_nth:
  assumes "offset + length src \<le> length msg" "i < length msg"
  shows "write_at offset src msg ! i =
    (if offset \<le> i \<and> i < offset + length src then src ! (i - offset) else msg ! i)"
proof -
  have "length (take offset msg) = offset"
    using assms by simp
  then show ?thesis
    using assms
    by (auto simp: write_at_def nth_append not_less)
qed

lemma slice_write_other:
  assumes "offset + length src \<le> length msg" "k + n \<le> length msg"
    and "k + n \<le> offset \<or> offset + length src \<le> k"
  shows "slice k n (write_at offset src msg) = slice k n msg"
  using assms by (auto simp: slice_nth write_at_nth)

lemma slice_replicate: "k + n \<le> m \<Longrightarrow> slice k n (replicate m x) = replicate n x"
  by (simp add: slice_def min_def)

lemma slice_length [simp]: "k + n \<le> length b \<Longrightarrow> length (slice k n b) = n"
  by (simp add: slice_def)

lemma slice_slice: "j + n \<le> m \<Longrightarrow> k + m \<le> length b \<Longrightarrow> slice j n (slice k m b) = slice (k + j) n b"
  by (simp add: slice_nth add.assoc)

lemma slice_drop: "slice k n (drop j b) = slice (j + k) n b"
  by (simp add: slice_def add.commute)

lemma drop_slice: "k + n = length b \<Longrightarrow> drop k b = slice k n b"
  by (simp add: slice_def)

lemma slice_split: "slice k (m + n) b = slice k m b @ slice (k + m) n b"
  by (simp add: slice_def take_add add.commute)

lemmas slice_facts = slice_write_same slice_write_other slice_replicate

lemma u32_bytes [simp]:
  "length (u32_to_be_bytes x) = 4" "x \<le> u32_max \<Longrightarrow> nat (from_be (u32_to_be_bytes x)) = x"
  by (simp_all add: u32_to_be_bytes_def from_be_be_bytes u32_max_def)

lemma u128_bytes [simp]:
  "length (u128_to_be_bytes x) = 16" "x \<le> u128_max \<Longrightarrow> nat (from_be (u128_to_be_bytes x)) = x"
  by (simp_all add: u128_to_be_bytes_def from_be_be_bytes u128_max_def)

lemma from_be_zeros [simp]: "from_be (replicate n 0) = 0"
  by (induction n) (simp_all add: from_be_def replicate_append_same [symmetric])

section \<open>Parsing the synthetic message\<close>

definition synthetic_parsed :: "corridor_message_expectations \<Rightarrow> parsed_cctp_message" where
  "synthetic_parsed e =
     \<lparr>m_version = 0, m_source_domain = e_source_domain e,
      m_destination_domain = e_destination_domain e, m_nonce = replicate 32 0,
      m_sender = e_header_sender e, m_recipient = e_header_recipient e,
      m_destination_caller = e_destination_caller e,
      m_min_finality_threshold = e_min_finality e,
      m_finality_threshold_executed = e_min_finality e,
      m_body =
        \<lparr>b_version = 0, b_burn_token = e_burn_token e, b_mint_recipient = e_mint_recipient e,
         b_amount = e_amount_cctp_subunits e, b_message_sender = e_body_message_sender e,
         b_max_fee = 0, b_fee_executed = 0, b_expiration_block = 0,
         b_hook_data = unwrap_or (e_hook_data e) []\<rparr>\<rparr>"

text \<open>The message written without its hook, and every slice the parser reads.\<close>

definition synthetic_base :: "corridor_message_expectations \<Rightarrow> nat \<Rightarrow> bytes" where
  "synthetic_base e hook_len =
     write_at (148 + 100) (e_body_message_sender e)
      (write_at (148 + 68 + 16) (u128_to_be_bytes (e_amount_cctp_subunits e))
       (write_at (148 + 36) (e_mint_recipient e)
        (write_at (148 + 4) (e_burn_token e)
         (write_at 144 (u32_to_be_bytes (e_min_finality e))
          (write_at 140 (u32_to_be_bytes (e_min_finality e))
           (write_at 108 (e_destination_caller e)
            (write_at 76 (e_header_recipient e)
             (write_at 44 (e_header_sender e)
              (write_at 8 (u32_to_be_bytes (e_destination_domain e))
               (write_at 4 (u32_to_be_bytes (e_source_domain e))
                (replicate (148 + 228 + hook_len) 0)))))))))))"

lemma sized_lengths:
  assumes "expectations_sized e"
  shows "length (e_header_recipient e) = 32" "length (e_header_sender e) = 32"
    "length (e_burn_token e) = 32" "length (e_mint_recipient e) = 32"
    "length (e_destination_caller e) = 32" "length (e_body_message_sender e) = 32"
  using assms by (simp_all add: expectations_sized_def)

text \<open>A buffer of the message's length; writing below its hook keeps the length.\<close>

definition buffer :: "nat \<Rightarrow> bytes \<Rightarrow> bool" where
  "buffer k msg \<longleftrightarrow> length msg = 376 + k"

lemma buffer_write: "off + length src \<le> 376 \<Longrightarrow> buffer k msg \<Longrightarrow> buffer k (write_at off src msg)"
  by (simp add: buffer_def)

lemma buffer_replicate: "buffer k (replicate (148 + 228 + k) 0)"
  by (simp add: buffer_def)

lemma buffer_slice_same:
  "off + length src \<le> 376 \<Longrightarrow> buffer k msg \<Longrightarrow> n = length src \<Longrightarrow>
     slice off n (write_at off src msg) = src"
  by (simp add: buffer_def slice_write_same)

lemma buffer_slice_other:
  "j + n \<le> off \<or> off + length src \<le> j \<Longrightarrow> off + length src \<le> 376 \<Longrightarrow> j + n \<le> 376 \<Longrightarrow>
     buffer k msg \<Longrightarrow> slice j n (write_at off src msg) = slice j n msg"
  by (rule slice_write_other) (auto simp: buffer_def)

lemma length_synthetic_base:
  assumes "expectations_sized e"
  shows "length (synthetic_base e k) = 376 + k"
proof -
  have "buffer k (synthetic_base e k)"
    unfolding synthetic_base_def
    by (simp add: buffer_write buffer_replicate [simplified] sized_lengths [OF assms])
  then show ?thesis
    by (simp add: buffer_def)
qed

lemma synthetic_base_slices:
  assumes "expectations_sized e"
  shows "slice 0 4 (synthetic_base e k) = replicate 4 0"
    "slice 4 4 (synthetic_base e k) = u32_to_be_bytes (e_source_domain e)"
    "slice 8 4 (synthetic_base e k) = u32_to_be_bytes (e_destination_domain e)"
    "slice 12 32 (synthetic_base e k) = replicate 32 0"
    "slice 44 32 (synthetic_base e k) = e_header_sender e"
    "slice 76 32 (synthetic_base e k) = e_header_recipient e"
    "slice 108 32 (synthetic_base e k) = e_destination_caller e"
    "slice 140 4 (synthetic_base e k) = u32_to_be_bytes (e_min_finality e)"
    "slice 144 4 (synthetic_base e k) = u32_to_be_bytes (e_min_finality e)"
    "slice 148 4 (synthetic_base e k) = replicate 4 0"
    "slice 152 32 (synthetic_base e k) = e_burn_token e"
    "slice 184 32 (synthetic_base e k) = e_mint_recipient e"
    "slice 216 16 (synthetic_base e k) = replicate 16 0"
    "slice 232 16 (synthetic_base e k) = u128_to_be_bytes (e_amount_cctp_subunits e)"
    "slice 248 32 (synthetic_base e k) = e_body_message_sender e"
    "slice 280 16 (synthetic_base e k) = replicate 16 0"
    "slice 296 16 (synthetic_base e k) = replicate 16 0"
    "slice 312 16 (synthetic_base e k) = replicate 16 0"
    "slice 328 16 (synthetic_base e k) = replicate 16 0"
    "slice 344 16 (synthetic_base e k) = replicate 16 0"
    "slice 360 16 (synthetic_base e k) = replicate 16 0"
  by (simp_all add: synthetic_base_def buffer_slice_same [where k = k] buffer_slice_other [where k = k]
      buffer_write buffer_replicate [simplified] slice_replicate sized_lengths [OF assms])

lemma build_synthetic_shape:
  assumes "expectations_sized e"
  defines "hook \<equiv> unwrap_or (e_hook_data e) []"
  shows "length (build_synthetic_cctp_message e) = 376 + length hook"
    and "k + n \<le> 376 \<Longrightarrow>
      slice k n (build_synthetic_cctp_message e) = slice k n (synthetic_base e (length hook))"
    and "drop 376 (build_synthetic_cctp_message e) = hook"
proof -
  note len = length_synthetic_base [OF assms(1), of "length hook"]
  have msg: "build_synthetic_cctp_message e =
      (if hook = [] then synthetic_base e 0 else write_at 376 hook (synthetic_base e (length hook)))"
    by (cases "e_hook_data e")
      (simp_all add: build_synthetic_cctp_message_def synthetic_base_def Let_def hook_def)
  show "length (build_synthetic_cctp_message e) = 376 + length hook"
    using len by (auto simp: msg)
  show "k + n \<le> 376 \<Longrightarrow>
      slice k n (build_synthetic_cctp_message e) = slice k n (synthetic_base e (length hook))"
    using len by (auto simp: msg intro!: slice_write_other)
  show "drop 376 (build_synthetic_cctp_message e) = hook"
    using len by (auto simp: msg write_at_def)
qed

lemma read_ok:
  "off + 4 \<le> length b \<Longrightarrow> read_u32_be b off = Ok (nat (from_be (slice off 4 b))) ()"
  "off + 32 \<le> length b \<Longrightarrow> read_bytes32 b off = Ok (slice off 32 b) ()"
  "off + 32 \<le> length b \<Longrightarrow> slice off 16 b = replicate 16 0 \<Longrightarrow>
     read_u256 b off = Ok (nat (from_be (slice (off + 16) 16 b))) ()"
proof -
  show "off + 32 \<le> length b \<Longrightarrow> slice off 16 b = replicate 16 0 \<Longrightarrow>
     read_u256 b off = Ok (nat (from_be (slice (off + 16) 16 b))) ()"
    using slice_split [of off 16 16 b] by (simp add: read_u256_def get_range_def)
qed (simp_all add: read_u32_be_def read_bytes32_def get_range_def)

lemma parse_synthetic:
  assumes "expectations_sized e"
  shows "parse_cctp_v2_message (build_synthetic_cctp_message e) = Ok (synthetic_parsed e) ()"
proof -
  let ?msg = "build_synthetic_cctp_message e"
  note len = build_synthetic_shape(1) [OF assms] and sl = build_synthetic_shape(2) [OF assms]
    and hook = build_synthetic_shape(3) [OF assms]
  note slices = sl synthetic_base_slices [OF assms] slice_drop
  have body: "parse_burn_message_body (drop 148 ?msg) = Ok (m_body (synthetic_parsed e)) ()"
    using assms hook
    by (simp add: parse_burn_message_body_def len read_ok slices synthetic_parsed_def
        expectations_sized_def)
  show ?thesis
    using assms
    by (simp add: parse_cctp_v2_message_def MESSAGE_HEADER_LEN_def len read_ok body slices
        expectations_sized_def) (simp add: synthetic_parsed_def)
qed

section \<open>Accepted messages\<close>

text \<open>
  The conditions a message must meet for the corridor, written as one predicate on the
  parsed message.
\<close>

definition corridor_bound :: "corridor_message_expectations \<Rightarrow> parsed_cctp_message \<Rightarrow> bool" where
  "corridor_bound e m \<longleftrightarrow>
     m_source_domain m = e_source_domain e \<and> m_destination_domain m = e_destination_domain e \<and>
     m_recipient m = e_header_recipient e \<and> m_sender m = e_header_sender e \<and>
     b_burn_token (m_body m) = e_burn_token e \<and> b_mint_recipient (m_body m) = e_mint_recipient e \<and>
     b_message_sender (m_body m) = e_body_message_sender e \<and>
     m_destination_caller m = e_destination_caller e \<and>
     b_amount (m_body m) = e_amount_cctp_subunits e \<and>
     normalize_finality (m_min_finality_threshold m) = normalize_finality (e_min_finality e) \<and>
     normalize_finality (e_min_finality e) \<le> m_finality_threshold_executed m \<and>
     length (b_hook_data (m_body m)) \<le> MAX_HOOK_DATA_BYTES \<and> hook_check e (b_hook_data (m_body m))"

lemma guard_Ok: "(if c then Err d s else r) = Ok v t \<longleftrightarrow> \<not> c \<and> r = Ok v t"
  by simp

lemma corridor_checks_Ok: "corridor_checks e m = Ok m' () \<longleftrightarrow> m' = m \<and> corridor_bound e m"
  by (simp add: corridor_checks_def corridor_bound_def Let_def guard_Ok check_byte_len_def not_less
      split del: if_split cong: conj_cong) auto

lemma validate_accepts:
  "validate_message_for_corridor C raw e = Ok m () \<longleftrightarrow>
     (\<exists>b. decode_hex_message C raw = Ok b () \<and> length b \<le> MAX_RAW_MESSAGE_BYTES \<and>
          parse_cctp_v2_message b = Ok m () \<and> corridor_bound e m)"
  by (auto simp: validate_message_for_corridor_def guard_Ok check_byte_len_def not_less
      corridor_checks_Ok split del: if_split)

lemma decode_not_panic: "decode_hex_message C raw \<noteq> Panic"
  by (simp add: decode_hex_message_def Let_def ok_or_def split: option.splits)

lemma trim_hex: "list_all is_ascii_hexdigit h \<Longrightarrow> trim (''0x'' @ h) = ''0x'' @ h"
proof -
  assume h: "list_all is_ascii_hexdigit h"
  have "\<not> is_whitespace c" if "is_ascii_hexdigit c" for c
    using that by (auto simp: is_whitespace_def is_ascii_hexdigit_def is_ascii_digit_def)
  then have "\<not> is_whitespace (last (''0x'' @ h))"
    using h by (cases "h = []") (simp_all add: is_whitespace_def list_all_iff)
  then have "dropWhile is_whitespace (rev (''0x'' @ h)) = rev (''0x'' @ h)"
    by (simp only: dropWhile_eq_self_iff hd_rev) simp
  then show ?thesis
    by (simp add: trim_def is_whitespace_def)
qed

lemma decode_encode_hex: "hex_codec C \<Longrightarrow> decode_hex_message C (encode_message_hex C b) = Ok b ()"
  unfolding hex_codec_def decode_hex_message_def encode_message_hex_def
  using trim_hex [of "hex_encode C b"] strip_prefix_append [of "''0x''" "hex_encode C b"]
  by (simp add: Let_def)

section \<open>Amounts\<close>

lemma split_decimal_two:
  "list_all is_ascii_digit w \<Longrightarrow> list_all is_ascii_digit f \<Longrightarrow> split_decimal (w @ ''.'' @ f) = Ok (w, f) ()"
  using split_on_append [of "CHR ''.''" w f] split_on_free [of "CHR ''.''" f]
  by (simp add: split_decimal_def digits_no_dot Let_def)

lemma split_decimal_one: "list_all is_ascii_digit w \<Longrightarrow> split_decimal w = Ok (w, []) ()"
  using split_on_free [of "CHR ''.''" w] by (simp add: split_decimal_def digits_no_dot)

lemma pad_fraction_digits:
  "list_all is_ascii_digit f \<Longrightarrow> list_all is_ascii_digit (pad_fraction f k)"
  "length (pad_fraction f k) = k"
  by (auto simp: pad_fraction_def list_all_iff dest: in_set_takeD)

text \<open>
  The value of a decimal text is the value of its digits up to the scale; further
  digits are cut off.
\<close>

lemma parse_decimal_value:
  assumes "list_all is_ascii_digit w" "w \<noteq> []" "list_all is_ascii_digit f"
  shows "parse_decimal_to_subunits (w @ ''.'' @ f) k =
    (let v = digits_value w * 10 ^ k + digits_value (pad_fraction f k)
     in if v \<le> u128_max then Ok v () else Err AmountOverflow ())"
proof -
  have "list_all is_ascii_digit (w @ pad_fraction f k)" "w @ pad_fraction f k \<noteq> []"
    using assms pad_fraction_digits(1) [of f k] by auto
  note p = parse_unsigned_digits [OF this, of u128_max]
  have "digits_value (w @ pad_fraction f k) = digits_value w * 10 ^ k + digits_value (pad_fraction f k)"
    by (simp add: digits_value_append pad_fraction_digits(2))
  with p show ?thesis
    using split_decimal_two [OF assms(1) assms(3)] by (simp add: parse_decimal_to_subunits_def Let_def)
qed

lemma digits_value_pad_fraction:
  "list_all is_ascii_digit f \<Longrightarrow>
     digits_value (pad_fraction f k) = digits_value f * 10 ^ k div 10 ^ length f"
proof (cases "length f > k")
  case True
  assume f: "list_all is_ascii_digit f"
  have "f = take k f @ drop k f"
    by simp
  then have "digits_value f = digits_value (take k f) * 10 ^ (length f - k) + digits_value (drop k f)"
    by (metis digits_value_append length_drop)
  moreover have "digits_value (drop k f) < 10 ^ (length f - k)"
    using digits_value_less [of "drop k f"] f by (auto simp: list_all_iff dest: in_set_dropD)
  ultimately have "digits_value f div 10 ^ (length f - k) = digits_value (take k f)"
    by simp
  moreover have "(10 :: nat) ^ length f = 10 ^ (length f - k) * 10 ^ k"
    using True by (simp flip: power_add)
  ultimately show ?thesis
    using True by (simp add: pad_fraction_def)
next
  case False
  then have "(10 :: nat) ^ k = 10 ^ (k - length f) * 10 ^ length f"
    by (simp flip: power_add)
  with False show ?thesis
    by (simp add: pad_fraction_def digits_value_append)
qed

lemma format_stellar_parses:
  assumes "10 * c \<le> u128_max"
  shows "decimal_to_cctp_subunits (format_stellar_amount (10 * c)) = Ok c ()"
proof -
  let ?w = "10 * c div 10000000" and ?f = "10 * c mod 10000000"
  have len: "length (show_padded 7 ?f) = 7"
    by (rule show_padded_facts(3)) simp_all
  have f: "digits_value (pad_fraction (show_padded 7 ?f) 6) = ?f div 10"
    using show_padded_facts(1,2) [of 7 ?f] len by (simp add: digits_value_pad_fraction)
  have w: "?w = c div 1000000" and m: "?f = 10 * (c mod 1000000)"
    using div_mult_mult1 [of 10 c 1000000] mult_mod_right [of 10 c 1000000] by simp_all
  have "?w * 1000000 + ?f div 10 = c"
    unfolding w m by simp
  with assms f show ?thesis
    using parse_decimal_value [of "show_nat ?w" "show_padded 7 ?f" 6] show_padded_facts(1) [of 7 ?f]
    by (simp add: decimal_to_cctp_subunits_def format_stellar_amount_def Let_def)
qed

end
