(* ===== verification/Cctp_Store.thy ===== *)
theory Cctp_Store
  imports Cctp_Message
begin

text \<open>
  The transfer store of \<open>cctp/store.rs\<close>: the transfer row, the patch of a
  transition, the interface \<open>CctpTransferStore\<close> as a record of operations, and its
  in-memory implementation with the two uniqueness indices.

  An operation returns an \<open>outcome\<close>. The store has no rollback: the state an error
  carries is the state the store keeps. Each reading of \<open>Utc::now()\<close> is a value of
  the clock argument, numbered in the order of the source.

  The locale \<open>transfer_store_laws\<close> states what the service relies on; it is
  interpreted on the in-memory store. The last section has the store's own
  guarantees: uniqueness of the source hash and of the message nonce, and that the
  version identifies the row.
\<close>

type_synonym clock = "nat \<Rightarrow> instant"

section \<open>Rows and patches\<close>

record cctp_transfer =
  transfer_id :: uuid
  support_reference_id :: string
  corridor_id :: string
  provider :: string
  direction :: cctp_direction
  source_chain_id :: string
  destination_chain_id :: string
  source_asset :: string
  source_asset_canonical :: string
  destination_asset :: string
  destination_asset_canonical :: string
  sender :: string
  recipient :: string
  mint_submitter :: "string option"
  amount :: string
  destination_amount :: string
  finality :: cctp_finality
  runtime_fee_quote :: "string option"
  max_fee :: "string option"
  fee_expires_at :: "instant option"
  quote_expires_at :: instant
  status :: cctp_transfer_status
  source_tx_hash :: "string option"
  source_approval_tx_hash :: "string option"
  source_approval_verified_at :: "instant option"
  destination_tx_hash :: "string option"
  iris_message_hash :: "string option"
  message_nonce :: "string option"
  raw_message :: "bytes option"
  attestation :: "bytes option"
  retry_count :: u32
  last_provider_error :: "string option"
  last_provider_code :: "string option"
  version :: i32
  created_at :: instant
  updated_at :: instant
  terminal_at :: "instant option"
  mint_payload_hash :: "string option"
  mint_payload_expires_at :: "instant option"
  approval_payload_hash :: "string option"
  approval_expiration_ledger :: "u64 option"
  burn_payload_hash :: "string option"
  burn_prepare_step :: "string option"
  access_token_hash :: "string option"
  last_polled_at :: "instant option"
  poll_lease_until :: "instant option"
  reattest_lease_owner_hash :: "string option"
  reattest_lease_until :: "instant option"
  reattest_attempt_count :: u32
  reattest_cooldown_until :: "instant option"

datatype poll_lease_outcome = Acquired | Skipped

datatype reattest_claim_outcome = Claimed | NotAllowed | InProgress

datatype cctp_store_error =
    Store_Database string | Store_NotFound | Store_InvalidTransition | Store_DuplicateSourceTxHash
  | Store_VersionConflict | Store_InvalidStatus string | Store_InvalidDirection string
  | Store_PayloadTooLarge

record transfer_patch =
  p_source_tx_hash :: "string option"
  p_source_approval_tx_hash :: "string option"
  p_source_approval_verified_at :: "instant option"
  p_destination_tx_hash :: "string option"
  p_iris_message_hash :: "string option"
  p_message_nonce :: "string option"
  p_raw_message :: "bytes option"
  p_attestation :: "bytes option"
  p_runtime_fee_quote :: "string option"
  p_max_fee :: "string option"
  p_fee_expires_at :: "instant option"
  p_last_provider_error :: "string option"
  p_last_provider_code :: "string option"
  p_increment_retry :: bool
  p_clear_terminal_at :: bool
  p_mint_payload_hash :: "string option"
  p_mint_payload_expires_at :: "instant option"
  p_clear_mint_payload :: bool
  p_mint_submitter :: "string option"
  p_approval_payload_hash :: "string option"
  p_approval_expiration_ledger :: "u64 option"
  p_burn_payload_hash :: "string option"
  p_burn_prepare_step :: "string option"

definition default_patch :: transfer_patch where
  "default_patch =
     \<lparr>p_source_tx_hash = None, p_source_approval_tx_hash = None,
      p_source_approval_verified_at = None, p_destination_tx_hash = None,
      p_iris_message_hash = None, p_message_nonce = None, p_raw_message = None,
      p_attestation = None, p_runtime_fee_quote = None, p_max_fee = None,
      p_fee_expires_at = None, p_last_provider_error = None, p_last_provider_code = None,
      p_increment_retry = False, p_clear_terminal_at = False, p_mint_payload_hash = None,
      p_mint_payload_expires_at = None, p_clear_mint_payload = False, p_mint_submitter = None,
      p_approval_payload_hash = None, p_approval_expiration_ledger = None,
      p_burn_payload_hash = None, p_burn_prepare_step = None\<rparr>"

definition validate_patch :: "transfer_patch \<Rightarrow> (unit, cctp_store_error) pure" where
  "validate_patch p =
     (if \<not> (case p_raw_message p of Some raw \<Rightarrow> check_byte_len raw MAX_RAW_MESSAGE_BYTES | None \<Rightarrow> True)
      then Err Store_PayloadTooLarge ()
      else if \<not> (case p_attestation p of Some a \<Rightarrow> check_byte_len a MAX_ATTESTATION_BYTES | None \<Rightarrow> True)
      then Err Store_PayloadTooLarge ()
      else if \<not> (case p_source_tx_hash p of Some h \<Rightarrow> check_str_len h MAX_TX_HASH_LEN | None \<Rightarrow> True)
      then Err Store_PayloadTooLarge ()
      else if \<not> (case p_message_nonce p of Some n \<Rightarrow> check_str_len n MAX_MESSAGE_NONCE_LEN | None \<Rightarrow> True)
      then Err Store_PayloadTooLarge ()
      else Ok () ())"

section \<open>The store interface\<close>

record 's transfer_store =
  ts_insert :: "cctp_transfer \<Rightarrow> 's \<Rightarrow> (unit, cctp_store_error, 's) outcome"
  ts_get :: "uuid \<Rightarrow> 's \<Rightarrow> (cctp_transfer option, cctp_store_error, 's) outcome"
  ts_get_authorized :: "uuid \<Rightarrow> string \<Rightarrow> 's \<Rightarrow> (cctp_transfer option, cctp_store_error, 's) outcome"
  ts_try_acquire_poll_lease ::
    "clock \<Rightarrow> uuid \<Rightarrow> i64 \<Rightarrow> i64 \<Rightarrow> 's \<Rightarrow>
       ((cctp_transfer \<times> poll_lease_outcome) option, cctp_store_error, 's) outcome"
  ts_claim_reattest_lease ::
    "clock \<Rightarrow> uuid \<Rightarrow> string \<Rightarrow> i64 \<Rightarrow> u32 \<Rightarrow> 's \<Rightarrow>
       ((cctp_transfer \<times> reattest_claim_outcome) option, cctp_store_error, 's) outcome"
  ts_finalize_reattest_success ::
    "clock \<Rightarrow> uuid \<Rightarrow> string \<Rightarrow> 's \<Rightarrow> (cctp_transfer option, cctp_store_error, 's) outcome"
  ts_finalize_reattest_failure ::
    "clock \<Rightarrow> uuid \<Rightarrow> string \<Rightarrow> string \<Rightarrow> string \<Rightarrow> i64 \<Rightarrow> 's \<Rightarrow>
       (cctp_transfer option, cctp_store_error, 's) outcome"
  ts_transition ::
    "clock \<Rightarrow> uuid \<Rightarrow> i32 \<Rightarrow> cctp_transfer_status \<Rightarrow> transfer_patch \<Rightarrow> 's \<Rightarrow>
       (cctp_transfer, cctp_store_error, 's) outcome"
  ts_record_approval_submission ::
    "clock \<Rightarrow> uuid \<Rightarrow> i32 \<Rightarrow> string \<Rightarrow> instant \<Rightarrow> 's \<Rightarrow> (cctp_transfer, cctp_store_error, 's) outcome"
  ts_record_verified_burn ::
    "clock \<Rightarrow> uuid \<Rightarrow> i32 \<Rightarrow> string \<Rightarrow> 's \<Rightarrow> (cctp_transfer, cctp_store_error, 's) outcome"
  ts_record_mint_prepared ::
    "clock \<Rightarrow> uuid \<Rightarrow> i32 \<Rightarrow> string \<Rightarrow> instant \<Rightarrow> string option \<Rightarrow> 's \<Rightarrow>
       (cctp_transfer, cctp_store_error, 's) outcome"
  ts_record_mint_submission ::
    "clock \<Rightarrow> uuid \<Rightarrow> i32 \<Rightarrow> string \<Rightarrow> 's \<Rightarrow> (cctp_transfer, cctp_store_error, 's) outcome"
  ts_record_mint_completed ::
    "clock \<Rightarrow> uuid \<Rightarrow> i32 \<Rightarrow> 's \<Rightarrow> (cctp_transfer, cctp_store_error, 's) outcome"

section \<open>The in-memory store\<close>

record mem_store =
  transfers :: "uuid \<Rightarrow> cctp_transfer option"
  source_tx_hashes :: "string \<Rightarrow> uuid option"
  message_nonces :: "string \<times> string \<Rightarrow> uuid option"

definition mem_empty :: mem_store where
  "mem_empty = \<lparr>transfers = (\<lambda>_. None), source_tx_hashes = (\<lambda>_. None), message_nonces = (\<lambda>_. None)\<rparr>"

definition put :: "uuid \<Rightarrow> cctp_transfer \<Rightarrow> mem_store \<Rightarrow> mem_store" where
  "put tid t s = s\<lparr>transfers := (transfers s)(tid \<mapsto> t)\<rparr>"

definition mem_insert :: "cctp_transfer \<Rightarrow> mem_store \<Rightarrow> (unit, cctp_store_error, mem_store) outcome" where
  "mem_insert t s =
     (if transfers s (transfer_id t) \<noteq> None then Err (Store_Database ''row not found'') s
      else Ok () (put (transfer_id t) t s))"

definition mem_get ::
  "uuid \<Rightarrow> mem_store \<Rightarrow> (cctp_transfer option, cctp_store_error, mem_store) outcome" where
  "mem_get tid s = Ok (transfers s tid) s"

definition mem_get_authorized ::
  "uuid \<Rightarrow> string \<Rightarrow> mem_store \<Rightarrow> (cctp_transfer option, cctp_store_error, mem_store) outcome" where
  "mem_get_authorized tid token_hash s =
     (case transfers s tid of
        None \<Rightarrow> Ok None s
      | Some t \<Rightarrow> if access_token_hash t \<noteq> Some token_hash then Ok None s else Ok (Some t) s)"

definition later_than :: "instant option \<Rightarrow> instant \<Rightarrow> bool" where
  "later_than u now = (case u of Some x \<Rightarrow> x > now | None \<Rightarrow> False)"

definition mem_try_acquire_poll_lease ::
  "clock \<Rightarrow> uuid \<Rightarrow> i64 \<Rightarrow> i64 \<Rightarrow> mem_store \<Rightarrow>
     ((cctp_transfer \<times> poll_lease_outcome) option, cctp_store_error, mem_store) outcome" where
  "mem_try_acquire_poll_lease clk tid lease_secs min_interval_secs s =
     (case transfers s tid of
        None \<Rightarrow> Ok None s
      | Some t \<Rightarrow>
          let now = clk 0;
              lease_active = later_than (poll_lease_until t) now;
              interval_ok = (case last_polled_at t of
                               Some p \<Rightarrow> p + seconds min_interval_secs \<le> now | None \<Rightarrow> True)
          in if lease_active \<or> \<not> interval_ok then Ok (Some (t, Skipped)) s
             else
               let t = t\<lparr>poll_lease_until := Some (now + seconds lease_secs),
                         last_polled_at := Some now, updated_at := now\<rparr>
               in Ok (Some (t, Acquired)) (put tid t s))"

definition mem_claim_reattest_lease ::
  "clock \<Rightarrow> uuid \<Rightarrow> string \<Rightarrow> i64 \<Rightarrow> u32 \<Rightarrow> mem_store \<Rightarrow>
     ((cctp_transfer \<times> reattest_claim_outcome) option, cctp_store_error, mem_store) outcome" where
  "mem_claim_reattest_lease clk tid owner lease_secs max_attempts s =
     (case transfers s tid of
        None \<Rightarrow> Ok None s
      | Some t \<Rightarrow>
          let now = clk 0
          in if status t \<noteq> AttestationFailed \<or> reattest_attempt_count t \<ge> max_attempts \<or>
                later_than (reattest_cooldown_until t) now
             then Ok (Some (t, NotAllowed)) s
             else
               let lease_active = later_than (reattest_lease_until t) now
               in if lease_active \<and> reattest_lease_owner_hash t \<noteq> Some owner
                  then Ok (Some (t, InProgress)) s
                  else if lease_active \<and> reattest_lease_owner_hash t = Some owner
                  then
                    let t = t\<lparr>reattest_lease_until := Some (now + seconds lease_secs), updated_at := now\<rparr>
                    in Ok (Some (t, Claimed)) (put tid t s)
                  else
                    let t = t\<lparr>reattest_lease_owner_hash := Some owner,
                              reattest_lease_until := Some (now + seconds lease_secs),
                              updated_at := now\<rparr>
                    in Ok (Some (t, Claimed)) (put tid t s))"

definition mem_finalize_reattest_success ::
  "bool \<Rightarrow> clock \<Rightarrow> uuid \<Rightarrow> string \<Rightarrow> mem_store \<Rightarrow>
     (cctp_transfer option, cctp_store_error, mem_store) outcome" where
  "mem_finalize_reattest_success checks clk tid owner s =
     (case transfers s tid of
        None \<Rightarrow> Ok None s
      | Some t \<Rightarrow>
          if status t \<noteq> AttestationFailed \<or> reattest_lease_owner_hash t \<noteq> Some owner then Ok None s
          else
            unwrap (plain_add_u32 checks (retry_count t) 1) (\<lambda>retries.
            unwrap (plain_add_u32 checks (reattest_attempt_count t) 1) (\<lambda>attempts.
            unwrap (plain_add_i32 checks (version t) 1) (\<lambda>v.
              let t = t\<lparr>status := AwaitingAttestation, retry_count := retries,
                        reattest_attempt_count := attempts, reattest_lease_owner_hash := None,
                        reattest_lease_until := None, reattest_cooldown_until := None,
                        last_provider_error := None, last_provider_code := None,
                        terminal_at := None, version := v, updated_at := clk 0\<rparr>
              in Ok (Some t) (put tid t s)))))"

definition mem_finalize_reattest_failure ::
  "bool \<Rightarrow> clock \<Rightarrow> uuid \<Rightarrow> string \<Rightarrow> string \<Rightarrow> string \<Rightarrow> i64 \<Rightarrow> mem_store \<Rightarrow>
     (cctp_transfer option, cctp_store_error, mem_store) outcome" where
  "mem_finalize_reattest_failure checks clk tid owner code err cooldown_secs s =
     (case transfers s tid of
        None \<Rightarrow> Ok None s
      | Some t \<Rightarrow>
          if status t \<noteq> AttestationFailed \<or> reattest_lease_owner_hash t \<noteq> Some owner then Ok None s
          else
            unwrap (plain_add_u32 checks (reattest_attempt_count t) 1) (\<lambda>attempts.
            unwrap (plain_add_i32 checks (version t) 1) (\<lambda>v.
              let t = t\<lparr>reattest_attempt_count := attempts, reattest_lease_owner_hash := None,
                        reattest_lease_until := None,
                        reattest_cooldown_until := Some (clk 0 + seconds cooldown_secs),
                        last_provider_code := Some code, last_provider_error := Some err,
                        version := v, updated_at := clk 1\<rparr>
              in Ok (Some t) (put tid t s))))"

text \<open>\<open>if let Some(v) = patch.f { transfer.f = Some(v) }\<close>\<close>

definition or_keep :: "'a option \<Rightarrow> 'a option \<Rightarrow> 'a option" where
  "or_keep p old = (case p of Some v \<Rightarrow> Some v | None \<Rightarrow> old)"

text \<open>The entry of the source-hash index, taken before the row is changed.\<close>

definition bind_source_hash ::
  "uuid \<Rightarrow> string \<Rightarrow> mem_store \<Rightarrow> (unit, cctp_store_error, mem_store) outcome" where
  "bind_source_hash tid h s =
     (case source_tx_hashes s h of
        Some existing \<Rightarrow> if existing \<noteq> tid then Err Store_DuplicateSourceTxHash s else Ok () s
      | None \<Rightarrow> Ok () (s\<lparr>source_tx_hashes := (source_tx_hashes s)(h \<mapsto> tid)\<rparr>))"

definition bind_patch_source ::
  "uuid \<Rightarrow> transfer_patch \<Rightarrow> mem_store \<Rightarrow> (unit, cctp_store_error, mem_store) outcome" where
  "bind_patch_source tid p s =
     (case p_source_tx_hash p of Some h \<Rightarrow> bind_source_hash tid h s | None \<Rightarrow> Ok () s)"

text \<open>The fields assigned before the nonce index is consulted.\<close>

definition patch_first :: "transfer_patch \<Rightarrow> cctp_transfer \<Rightarrow> cctp_transfer" where
  "patch_first p t =
     t\<lparr>source_tx_hash := or_keep (p_source_tx_hash p) (source_tx_hash t),
       source_approval_tx_hash := or_keep (p_source_approval_tx_hash p) (source_approval_tx_hash t),
       destination_tx_hash := or_keep (p_destination_tx_hash p) (destination_tx_hash t),
       iris_message_hash := or_keep (p_iris_message_hash p) (iris_message_hash t)\<rparr>"

text \<open>
  The nonce index; a nonce another transfer holds ends the call with an error, after
  the fields above have been written.
\<close>

definition bind_message_nonce ::
  "uuid \<Rightarrow> transfer_patch \<Rightarrow> cctp_transfer \<Rightarrow> mem_store \<Rightarrow>
     (cctp_transfer, cctp_store_error, mem_store) outcome" where
  "bind_message_nonce tid p t s =
     (case p_message_nonce p of
        None \<Rightarrow> Ok t s
      | Some v \<Rightarrow>
          let key = (source_chain_id t, v); t' = t\<lparr>message_nonce := Some v\<rparr>
          in case message_nonces s key of
               Some existing \<Rightarrow>
                 if existing \<noteq> tid then Err Store_InvalidTransition (put tid t s) else Ok t' s
             | None \<Rightarrow> Ok t' (s\<lparr>message_nonces := (message_nonces s)(key \<mapsto> tid)\<rparr>))"

text \<open>The remaining fields, with the two clock readings of the status change.\<close>

definition patch_rest ::
  "clock \<Rightarrow> cctp_transfer_status \<Rightarrow> transfer_patch \<Rightarrow> u32 \<Rightarrow> i32 \<Rightarrow> cctp_transfer \<Rightarrow> cctp_transfer" where
  "patch_rest clk new_status p retries v t =
     t\<lparr>raw_message := or_keep (p_raw_message p) (raw_message t),
       attestation := or_keep (p_attestation p) (attestation t),
       runtime_fee_quote := or_keep (p_runtime_fee_quote p) (runtime_fee_quote t),
       max_fee := or_keep (p_max_fee p) (max_fee t),
       fee_expires_at := or_keep (p_fee_expires_at p) (fee_expires_at t),
       last_provider_error := or_keep (p_last_provider_error p) (last_provider_error t),
       last_provider_code := or_keep (p_last_provider_code p) (last_provider_code t),
       retry_count := retries,
       status := new_status,
       version := v,
       updated_at := clk 0,
       terminal_at := (if p_clear_terminal_at p then None
                       else if is_terminal new_status then Some (clk 1) else terminal_at t),
       mint_payload_hash := (if p_clear_mint_payload p then None
                             else or_keep (p_mint_payload_hash p) (mint_payload_hash t)),
       mint_payload_expires_at := (if p_clear_mint_payload p then None
                             else or_keep (p_mint_payload_expires_at p) (mint_payload_expires_at t)),
       mint_submitter := or_keep (p_mint_submitter p) (mint_submitter t),
       approval_payload_hash := or_keep (p_approval_payload_hash p) (approval_payload_hash t),
       approval_expiration_ledger :=
         or_keep (p_approval_expiration_ledger p) (approval_expiration_ledger t),
       burn_payload_hash := or_keep (p_burn_payload_hash p) (burn_payload_hash t),
       burn_prepare_step := or_keep (p_burn_prepare_step p) (burn_prepare_step t)\<rparr>"

definition mem_transition ::
  "bool \<Rightarrow> clock \<Rightarrow> uuid \<Rightarrow> i32 \<Rightarrow> cctp_transfer_status \<Rightarrow> transfer_patch \<Rightarrow> mem_store \<Rightarrow>
     (cctp_transfer, cctp_store_error, mem_store) outcome" where
  "mem_transition checks clk tid expected_version new_status p s =
     ok_or (transfers s tid) Store_NotFound s (\<lambda>t.
       if version t \<noteq> expected_version then Err Store_VersionConflict s
       else if \<not> is_allowed_transition (status t) new_status then Err Store_InvalidTransition s
       else
         andThen (map_err id (validate_patch p) s) (\<lambda>_ s.
         andThen (bind_patch_source tid p s) (\<lambda>_ s.
         andThen (bind_message_nonce tid p (patch_first p t) s) (\<lambda>t s.
         unwrap (if p_increment_retry p then plain_add_u32 checks (retry_count t) 1
                 else Some (retry_count t)) (\<lambda>retries.
         unwrap (plain_add_i32 checks (version t) 1) (\<lambda>v.
           let t = patch_rest clk new_status p retries v t
           in Ok t (put tid t s)))))))"

definition mem_record_approval_submission ::
  "bool \<Rightarrow> clock \<Rightarrow> uuid \<Rightarrow> i32 \<Rightarrow> string \<Rightarrow> instant \<Rightarrow> mem_store \<Rightarrow>
     (cctp_transfer, cctp_store_error, mem_store) outcome" where
  "mem_record_approval_submission checks clk tid expected_version tx_hash verified_at s =
     (if \<not> check_str_len tx_hash MAX_TX_HASH_LEN then Err Store_PayloadTooLarge s
      else
        ok_or (transfers s tid) Store_NotFound s (\<lambda>t.
          if version t \<noteq> expected_version then Err Store_VersionConflict s
          else if status t \<noteq> BurnPrepared then Err Store_InvalidTransition s
          else
            (case source_approval_tx_hash t of
               Some existing \<Rightarrow>
                 if existing \<noteq> tx_hash then Err Store_InvalidTransition s else Ok t s
             | None \<Rightarrow>
                 unwrap (plain_add_i32 checks (version t) 1) (\<lambda>v.
                   let t = t\<lparr>source_approval_tx_hash := Some tx_hash,
                             source_approval_verified_at := Some verified_at,
                             version := v, updated_at := clk 0\<rparr>
                   in Ok t (put tid t s)))))"

definition mem_record_verified_burn ::
  "bool \<Rightarrow> clock \<Rightarrow> uuid \<Rightarrow> i32 \<Rightarrow> string \<Rightarrow> mem_store \<Rightarrow>
     (cctp_transfer, cctp_store_error, mem_store) outcome" where
  "mem_record_verified_burn checks clk tid expected_version tx_hash s =
     (if \<not> check_str_len tx_hash MAX_TX_HASH_LEN then Err Store_PayloadTooLarge s
      else
        ok_or (transfers s tid) Store_NotFound s (\<lambda>t.
          if version t \<noteq> expected_version then Err Store_VersionConflict s
          else if status t \<noteq> BurnPrepared then Err Store_InvalidTransition s
          else
            andThen (bind_source_hash tid tx_hash s) (\<lambda>_ s.
            unwrap (plain_add_i32 checks (version t) 1) (\<lambda>v.
              let t = t\<lparr>source_tx_hash := Some tx_hash, status := AwaitingAttestation,
                        version := v, updated_at := clk 0\<rparr>
              in Ok t (put tid t s)))))"

definition mem_record_mint_prepared ::
  "bool \<Rightarrow> clock \<Rightarrow> uuid \<Rightarrow> i32 \<Rightarrow> string \<Rightarrow> instant \<Rightarrow> string option \<Rightarrow> mem_store \<Rightarrow>
     (cctp_transfer, cctp_store_error, mem_store) outcome" where
  "mem_record_mint_prepared checks clk tid expected_version payload_hash expires_at submitter s =
     mem_transition checks clk tid expected_version MintPrepared
       (default_patch\<lparr>p_mint_payload_hash := Some payload_hash,
                      p_mint_payload_expires_at := Some expires_at,
                      p_mint_submitter := submitter\<rparr>) s"

definition mem_record_mint_submission ::
  "bool \<Rightarrow> clock \<Rightarrow> uuid \<Rightarrow> i32 \<Rightarrow> string \<Rightarrow> mem_store \<Rightarrow>
     (cctp_transfer, cctp_store_error, mem_store) outcome" where
  "mem_record_mint_submission checks clk tid expected_version tx_hash s =
     mem_transition checks clk tid expected_version MintSubmitted
       (default_patch\<lparr>p_destination_tx_hash := Some tx_hash\<rparr>) s"

definition mem_record_mint_completed ::
  "bool \<Rightarrow> clock \<Rightarrow> uuid \<Rightarrow> i32 \<Rightarrow> mem_store \<Rightarrow>
     (cctp_transfer, cctp_store_error, mem_store) outcome" where
  "mem_record_mint_completed checks clk tid expected_version s =
     mem_transition checks clk tid expected_version Completed default_patch s"

definition mem_ops :: "bool \<Rightarrow> mem_store transfer_store" where
  "mem_ops checks =
     \<lparr>ts_insert = mem_insert, ts_get = mem_get, ts_get_authorized = mem_get_authorized,
      ts_try_acquire_poll_lease = mem_try_acquire_poll_lease,
      ts_claim_reattest_lease = mem_claim_reattest_lease,
      ts_finalize_reattest_success = mem_finalize_reattest_success checks,
      ts_finalize_reattest_failure = mem_finalize_reattest_failure checks,
      ts_transition = mem_transition checks,
      ts_record_approval_submission = mem_record_approval_submission checks,
      ts_record_verified_burn = mem_record_verified_burn checks,
      ts_record_mint_prepared = mem_record_mint_prepared checks,
      ts_record_mint_submission = mem_record_mint_submission checks,
      ts_record_mint_completed = mem_record_mint_completed checks\<rparr>"

section \<open>The saga of a row\<close>

text \<open>
  What the bridge protocol depends on: the terms of the transfer, its status and the
  evidence collected so far. Leases, counters, provider notes and times are left out.
\<close>

record saga =
  sg_status :: cctp_transfer_status
  sg_direction :: cctp_direction
  sg_sender :: string
  sg_recipient :: string
  sg_amount :: string
  sg_finality :: cctp_finality
  sg_quote_expires_at :: instant
  sg_source_tx :: "string option"
  sg_destination_tx :: "string option"
  sg_nonce :: "string option"
  sg_raw_message :: "bytes option"
  sg_attestation :: "bytes option"
  sg_mint_payload :: "string option"

definition saga_of :: "cctp_transfer \<Rightarrow> saga" where
  "saga_of t =
     \<lparr>sg_status = status t, sg_direction = direction t, sg_sender = sender t,
      sg_recipient = recipient t, sg_amount = amount t, sg_finality = finality t,
      sg_quote_expires_at = quote_expires_at t, sg_source_tx = source_tx_hash t,
      sg_destination_tx = destination_tx_hash t, sg_nonce = message_nonce t,
      sg_raw_message = raw_message t, sg_attestation = attestation t,
      sg_mint_payload = mint_payload_hash t\<rparr>"

lemma saga_of_simps [simp]:
  "sg_status (saga_of t) = status t" "sg_direction (saga_of t) = direction t"
  "sg_sender (saga_of t) = sender t" "sg_recipient (saga_of t) = recipient t"
  "sg_amount (saga_of t) = amount t" "sg_finality (saga_of t) = finality t"
  "sg_quote_expires_at (saga_of t) = quote_expires_at t"
  "sg_source_tx (saga_of t) = source_tx_hash t"
  "sg_destination_tx (saga_of t) = destination_tx_hash t" "sg_nonce (saga_of t) = message_nonce t"
  "sg_raw_message (saga_of t) = raw_message t" "sg_attestation (saga_of t) = attestation t"
  "sg_mint_payload (saga_of t) = mint_payload_hash t"
  by (simp_all add: saga_of_def)

definition patch_saga :: "cctp_transfer_status \<Rightarrow> transfer_patch \<Rightarrow> saga \<Rightarrow> saga" where
  "patch_saga st p g =
     g\<lparr>sg_status := st,
       sg_source_tx := or_keep (p_source_tx_hash p) (sg_source_tx g),
       sg_destination_tx := or_keep (p_destination_tx_hash p) (sg_destination_tx g),
       sg_nonce := or_keep (p_message_nonce p) (sg_nonce g),
       sg_raw_message := or_keep (p_raw_message p) (sg_raw_message g),
       sg_attestation := or_keep (p_attestation p) (sg_attestation g),
       sg_mint_payload := (if p_clear_mint_payload p then None
                           else or_keep (p_mint_payload_hash p) (sg_mint_payload g))\<rparr>"

lemma or_keep_simps [simp]: "or_keep None x = x" "or_keep (Some v) x = Some v"
  by (simp_all add: or_keep_def)

definition sagas :: "(uuid \<Rightarrow> cctp_transfer option) \<Rightarrow> uuid \<Rightarrow> saga option" where
  "sagas rows tid = map_option saga_of (rows tid)"

lemma sagas_upd: "sagas (rows(tid \<mapsto> t)) = (sagas rows)(tid \<mapsto> saga_of t)"
  by (simp add: sagas_def fun_eq_iff)

lemma sagas_upd_same: "rows tid = Some t \<Longrightarrow> saga_of t' = saga_of t \<Longrightarrow> sagas (rows(tid \<mapsto> t')) = sagas rows"
  by (simp add: sagas_def fun_eq_iff)

section \<open>What the service relies on\<close>

text \<open>
  A patch that fails leaves the rows alone, unless it names a nonce together with one
  of the four fields written before the nonce is checked.
\<close>

definition patch_atomic :: "transfer_patch \<Rightarrow> bool" where
  "patch_atomic p \<longleftrightarrow>
     p_message_nonce p = None \<or>
     (p_source_tx_hash p = None \<and> p_source_approval_tx_hash p = None \<and>
      p_destination_tx_hash p = None \<and> p_iris_message_hash p = None)"

lemma default_patch_simps [simp]:
  "p_source_tx_hash default_patch = None" "p_source_approval_tx_hash default_patch = None"
  "p_destination_tx_hash default_patch = None" "p_iris_message_hash default_patch = None"
  "p_message_nonce default_patch = None" "p_raw_message default_patch = None"
  "p_attestation default_patch = None" "p_mint_payload_hash default_patch = None"
  "\<not> p_clear_mint_payload default_patch" "\<not> p_increment_retry default_patch"
  "\<not> p_clear_terminal_at default_patch"
  by (simp_all add: default_patch_def)

text \<open>The outcome of an operation that moves row \<open>tid\<close> from \<open>t\<close> to \<open>t'\<close>.\<close>

definition moves ::
  "('s \<Rightarrow> uuid \<Rightarrow> cctp_transfer option) \<Rightarrow> uuid \<Rightarrow> 's \<Rightarrow> 's \<Rightarrow> cctp_transfer \<Rightarrow> cctp_transfer \<Rightarrow> bool" where
  "moves rows tid s s' t t' \<longleftrightarrow> rows s tid = Some t \<and> rows s' = (rows s)(tid \<mapsto> t')"

locale transfer_store_laws =
  fixes S :: "'s transfer_store"
    and rows :: "'s \<Rightarrow> uuid \<Rightarrow> cctp_transfer option"
    and ok :: "'s \<Rightarrow> bool"
  assumes keyed: "ok s \<Longrightarrow> rows s tid = Some t \<Longrightarrow> transfer_id t = tid"
    and get_law: "wp (ts_get S tid s) (\<lambda>r s'. r = rows s tid \<and> s' = s) (\<lambda>e s'. s' = s)"
    and insert_law: "ok s \<Longrightarrow> source_tx_hash t = None \<Longrightarrow> message_nonce t = None \<Longrightarrow>
      wp (ts_insert S t s)
        (\<lambda>_ s'. ok s' \<and> rows s (transfer_id t) = None \<and> rows s' = (rows s)(transfer_id t \<mapsto> t))
        (\<lambda>_ s'. s' = s)"
    and poll_law: "ok s \<Longrightarrow>
      wp (ts_try_acquire_poll_lease S clk tid a b s)
        (\<lambda>r s'. ok s' \<and> sagas (rows s') = sagas (rows s) \<and>
           (\<forall>t. r = Some (t, Acquired) \<longrightarrow> rows s' tid = Some t \<and> updated_at t = clk 0))
        (\<lambda>_ s'. s' = s)"
    and claim_law: "ok s \<Longrightarrow>
      wp (ts_claim_reattest_lease S clk tid w a n s)
        (\<lambda>r s'. ok s' \<and> sagas (rows s') = sagas (rows s) \<and>
           (\<forall>t. r = Some (t, Claimed) \<longrightarrow> rows s' tid = Some t \<and> status t = AttestationFailed))
        (\<lambda>_ s'. s' = s)"
    and reattest_ok_law: "ok s \<Longrightarrow>
      wp (ts_finalize_reattest_success S clk tid w s)
        (\<lambda>r s'. ok s' \<and>
           (case r of None \<Rightarrow> s' = s
            | Some t' \<Rightarrow> \<exists>t. moves rows tid s s' t t' \<and> status t = AttestationFailed \<and>
                saga_of t' = (saga_of t)\<lparr>sg_status := AwaitingAttestation\<rparr>))
        (\<lambda>_ s'. s' = s)"
    and reattest_fail_law: "ok s \<Longrightarrow>
      wp (ts_finalize_reattest_failure S clk tid w c d a s)
        (\<lambda>_ s'. ok s' \<and> sagas (rows s') = sagas (rows s)) (\<lambda>_ s'. s' = s)"
    and transition_law: "ok s \<Longrightarrow> patch_atomic p \<Longrightarrow>
      wp (ts_transition S clk tid v st p s)
        (\<lambda>t' s'. ok s' \<and> (\<exists>t. moves rows tid s s' t t' \<and> version t = v \<and>
           is_allowed_transition (status t) st \<and> saga_of t' = patch_saga st p (saga_of t)))
        (\<lambda>_ s'. ok s' \<and> rows s' = rows s)"
    and approval_law: "ok s \<Longrightarrow>
      wp (ts_record_approval_submission S clk tid v h i s)
        (\<lambda>_ s'. ok s' \<and> sagas (rows s') = sagas (rows s)) (\<lambda>_ s'. s' = s)"
    and burn_law: "ok s \<Longrightarrow>
      wp (ts_record_verified_burn S clk tid v h s)
        (\<lambda>t' s'. ok s' \<and> (\<exists>t. moves rows tid s s' t t' \<and> version t = v \<and> status t = BurnPrepared \<and>
           saga_of t' = (saga_of t)\<lparr>sg_status := AwaitingAttestation, sg_source_tx := Some h\<rparr>))
        (\<lambda>_ s'. ok s' \<and> rows s' = rows s)"
    and mint_prepared_law: "ok s \<Longrightarrow>
      wp (ts_record_mint_prepared S clk tid v h x m s)
        (\<lambda>t' s'. ok s' \<and> (\<exists>t. moves rows tid s s' t t' \<and> version t = v \<and>
           is_allowed_transition (status t) MintPrepared \<and>
           saga_of t' = (saga_of t)\<lparr>sg_status := MintPrepared, sg_mint_payload := Some h\<rparr>))
        (\<lambda>_ s'. ok s' \<and> rows s' = rows s)"
    and mint_submission_law: "ok s \<Longrightarrow>
      wp (ts_record_mint_submission S clk tid v h s)
        (\<lambda>t' s'. ok s' \<and> (\<exists>t. moves rows tid s s' t t' \<and> version t = v \<and>
           is_allowed_transition (status t) MintSubmitted \<and>
           saga_of t' = (saga_of t)\<lparr>sg_status := MintSubmitted, sg_destination_tx := Some h\<rparr>))
        (\<lambda>_ s'. ok s' \<and> rows s' = rows s)"
    and mint_completed_law: "ok s \<Longrightarrow>
      wp (ts_record_mint_completed S clk tid v s)
        (\<lambda>t' s'. ok s' \<and> (\<exists>t. moves rows tid s s' t t' \<and> version t = v \<and>
           is_allowed_transition (status t) Completed \<and>
           saga_of t' = (saga_of t)\<lparr>sg_status := Completed\<rparr>))
        (\<lambda>_ s'. ok s' \<and> rows s' = rows s)"

section \<open>The in-memory store keeps its indices\<close>

text \<open>
  Every row is stored under its own id, and the source hash and the nonce of a row are
  registered for it. Two rows then never share either.
\<close>

definition mem_ok :: "mem_store \<Rightarrow> bool" where
  "mem_ok s \<longleftrightarrow>
     (\<forall>tid t. transfers s tid = Some t \<longrightarrow>
        transfer_id t = tid \<and>
        (\<forall>h. source_tx_hash t = Some h \<longrightarrow> source_tx_hashes s h = Some tid) \<and>
        (\<forall>n. message_nonce t = Some n \<longrightarrow> message_nonces s (source_chain_id t, n) = Some tid))"

lemma mem_ok_row:
  assumes "mem_ok s" "transfers s tid = Some t"
  shows "transfer_id t = tid"
    and "source_tx_hash t = Some h \<Longrightarrow> source_tx_hashes s h = Some tid"
    and "message_nonce t = Some n \<Longrightarrow> message_nonces s (source_chain_id t, n) = Some tid"
  using assms by (auto simp: mem_ok_def)

lemma mem_ok_put:
  assumes "mem_ok s" "transfer_id t = tid"
    and "\<And>h. source_tx_hash t = Some h \<Longrightarrow> source_tx_hashes s h = Some tid"
    and "\<And>n. message_nonce t = Some n \<Longrightarrow> message_nonces s (source_chain_id t, n) = Some tid"
  shows "mem_ok (put tid t s)"
  using assms by (auto simp: mem_ok_def put_def)

text \<open>Changing fields other than the id, the chain and the two indexed ones.\<close>

lemma mem_ok_put_same:
  assumes "mem_ok s" "transfers s tid = Some t"
    and "transfer_id t' = transfer_id t" "source_chain_id t' = source_chain_id t"
    and "source_tx_hash t' = source_tx_hash t" "message_nonce t' = message_nonce t"
  shows "mem_ok (put tid t' s)"
  using assms mem_ok_row [OF assms(1,2)] by (intro mem_ok_put) auto

lemma transfers_put [simp]: "transfers (put tid t s) = (transfers s)(tid \<mapsto> t)"
  by (simp add: put_def)

lemma mem_ok_index:
  assumes "mem_ok s" "transfers s' = transfers s"
    and "\<And>k u. source_tx_hashes s k = Some u \<Longrightarrow> source_tx_hashes s' k = Some u"
    and "\<And>k u. message_nonces s k = Some u \<Longrightarrow> message_nonces s' k = Some u"
  shows "mem_ok s'"
  using assms unfolding mem_ok_def by simp

lemma bind_source_hash_wp:
  assumes "mem_ok s"
  shows "wp (bind_source_hash tid h s)
    (\<lambda>_ s'. mem_ok s' \<and> transfers s' = transfers s \<and> source_tx_hashes s' h = Some tid)
    (\<lambda>_ s'. s' = s)"
proof (cases "source_tx_hashes s h")
  case None
  then have "mem_ok (s\<lparr>source_tx_hashes := (source_tx_hashes s)(h \<mapsto> tid)\<rparr>)"
    by (intro mem_ok_index [OF assms]) auto
  with None show ?thesis
    by (simp add: bind_source_hash_def wp_simps)
qed (simp add: bind_source_hash_def wp_simps assms)

lemma bind_message_nonce_wp:
  assumes "mem_ok s" "transfers s tid = Some t\<^sub>0" "transfer_id t = tid"
    and "source_chain_id t = source_chain_id t\<^sub>0" "message_nonce t = message_nonce t\<^sub>0"
    and "\<And>h. source_tx_hash t = Some h \<Longrightarrow> source_tx_hashes s h = Some tid"
  shows "wp (bind_message_nonce tid p t s)
    (\<lambda>t' s'. t' = t\<lparr>message_nonce := or_keep (p_message_nonce p) (message_nonce t)\<rparr> \<and>
       mem_ok s' \<and> transfers s' = transfers s \<and> source_tx_hashes s' = source_tx_hashes s \<and>
       (\<forall>n. message_nonce t' = Some n \<longrightarrow> message_nonces s' (source_chain_id t', n) = Some tid))
    (\<lambda>e s'. s' = put tid t s \<and> mem_ok s' \<and> p_message_nonce p \<noteq> None)"
proof (cases "p_message_nonce p")
  case None
  then show ?thesis
    using assms(1,4,5) mem_ok_row(3) [OF assms(1,2)] by (simp add: bind_message_nonce_def wp_simps)
next
  case (Some n)
  let ?key = "(source_chain_id t, n)"
  have put: "mem_ok (put tid t s)"
    using assms mem_ok_row(3) [OF assms(1,2)] by (intro mem_ok_put) auto
  have "mem_ok (s\<lparr>message_nonces := (message_nonces s)(?key \<mapsto> tid)\<rparr>)" if "message_nonces s ?key = None"
    using that by (intro mem_ok_index [OF assms(1)]) auto
  then show ?thesis
    using Some assms(1) put
    by (cases "message_nonces s ?key") (simp_all add: bind_message_nonce_def wp_simps Let_def)
qed

lemma patch_first_keeps [simp]:
  "transfer_id (patch_first p t) = transfer_id t"
  "source_chain_id (patch_first p t) = source_chain_id t"
  "message_nonce (patch_first p t) = message_nonce t"
  "source_tx_hash (patch_first p t) = or_keep (p_source_tx_hash p) (source_tx_hash t)"
  "version (patch_first p t) = version t"
  by (simp_all add: patch_first_def)

lemma patch_rest_keeps [simp]:
  "transfer_id (patch_rest clk st p r v t) = transfer_id t"
  "source_chain_id (patch_rest clk st p r v t) = source_chain_id t"
  "message_nonce (patch_rest clk st p r v t) = message_nonce t"
  "source_tx_hash (patch_rest clk st p r v t) = source_tx_hash t"
  "version (patch_rest clk st p r v t) = v"
  by (simp_all add: patch_rest_def)

lemma patch_rest_saga:
  "saga_of (patch_rest clk st p r v
     ((patch_first p t)\<lparr>message_nonce := or_keep (p_message_nonce p) (message_nonce t)\<rparr>)) =
   patch_saga st p (saga_of t)"
  by (simp add: saga_of_def patch_saga_def patch_rest_def patch_first_def)

text \<open>The transition as a whole: guards, the two indices, the patched row.\<close>

lemma bind_patch_source_wp:
  assumes "mem_ok s" "transfers s tid = Some t"
  shows "wp (bind_patch_source tid p s)
    (\<lambda>_ s'. mem_ok s' \<and> transfers s' = transfers s \<and>
       (\<forall>h. source_tx_hash (patch_first p t) = Some h \<longrightarrow> source_tx_hashes s' h = Some tid))
    (\<lambda>_ s'. s' = s)"
proof (cases "p_source_tx_hash p")
  case None
  then show ?thesis
    using assms mem_ok_row [OF assms] by (simp add: wp_simps bind_patch_source_def)
next
  case (Some h)
  show ?thesis
    unfolding bind_patch_source_def Some option.case
    by (rule wp_mono [OF bind_source_hash_wp [OF assms(1)]]) (auto simp: Some)
qed

lemma mem_transition_Ok:
  assumes "mem_transition checks clk tid v st p s = Ok t' s'"
  obtains t s\<^sub>1 t\<^sub>1 s\<^sub>2 r v' where "transfers s tid = Some t" "version t = v"
    and "is_allowed_transition (status t) st" "bind_patch_source tid p s = Ok () s\<^sub>1"
    and "bind_message_nonce tid p (patch_first p t) s\<^sub>1 = Ok t\<^sub>1 s\<^sub>2"
    and "plain_add_i32 checks (version t\<^sub>1) 1 = Some v'"
    and "t' = patch_rest clk st p r v' t\<^sub>1" "s' = put tid t' s\<^sub>2"
  using assms unfolding mem_transition_def Let_def ok_or_Ok guard_Ok andThen_Ok unwrap_Ok map_err_Ok
  by auto

lemma mem_transition_Err:
  assumes "mem_transition checks clk tid v st p s = Err e s'"
  shows "s' = s \<or> (\<exists>t. transfers s tid = Some t \<and> bind_patch_source tid p s = Err e s') \<or>
    (\<exists>t s\<^sub>1. transfers s tid = Some t \<and> bind_patch_source tid p s = Ok () s\<^sub>1 \<and>
       bind_message_nonce tid p (patch_first p t) s\<^sub>1 = Err e s')"
proof (cases "transfers s tid")
  case None
  then show ?thesis
    using assms by (simp add: mem_transition_def)
next
  case (Some t)
  then show ?thesis
    using assms
    by (cases "bind_patch_source tid p s"; cases "validate_patch p")
      (auto simp: mem_transition_def andThen_Err unwrap_def Let_def split: if_splits option.splits)
qed

lemma mem_transition_post:
  assumes "mem_ok s" "mem_transition checks clk tid v st p s = Ok t' s'"
  shows "mem_ok s' \<and> (\<exists>t r v'. transfers s tid = Some t \<and> transfers s' = (transfers s)(tid \<mapsto> t') \<and>
       version t = v \<and> is_allowed_transition (status t) st \<and> plain_add_i32 checks v 1 = Some v' \<and>
       t' = patch_rest clk st p r v'
         ((patch_first p t)\<lparr>message_nonce := or_keep (p_message_nonce p) (message_nonce t)\<rparr>))"
proof -
  obtain t s\<^sub>1 t\<^sub>1 s\<^sub>2 r v' where t: "transfers s tid = Some t" and guards: "version t = v"
      "is_allowed_transition (status t) st" and src: "bind_patch_source tid p s = Ok () s\<^sub>1"
    and non: "bind_message_nonce tid p (patch_first p t) s\<^sub>1 = Ok t\<^sub>1 s\<^sub>2"
    and v': "plain_add_i32 checks (version t\<^sub>1) 1 = Some v'"
    and t': "t' = patch_rest clk st p r v' t\<^sub>1" and s': "s' = put tid t' s\<^sub>2"
    by (rule mem_transition_Ok [OF assms(2)])
  note s1 = wp_Ok [OF bind_patch_source_wp [OF assms(1) t] src]
  note t1 = wp_Ok [OF bind_message_nonce_wp [of s\<^sub>1 tid t "patch_first p t" p] non]
  have "t\<^sub>1 = (patch_first p t)\<lparr>message_nonce := or_keep (p_message_nonce p) (message_nonce t)\<rparr>"
    and "mem_ok s\<^sub>2" "transfers s\<^sub>2 = transfers s" "source_tx_hashes s\<^sub>2 = source_tx_hashes s\<^sub>1"
    and "\<forall>n. message_nonce t\<^sub>1 = Some n \<longrightarrow> message_nonces s\<^sub>2 (source_chain_id t\<^sub>1, n) = Some tid"
    using t1 s1 t mem_ok_row(1) [OF assms(1) t] by auto
  then show ?thesis
    using s1 t guards v' t' s' mem_ok_row(1) [OF assms(1) t] by (auto intro!: mem_ok_put)
qed

lemma mem_transition_err:
  assumes "mem_ok s" "mem_transition checks clk tid v st p s = Err e s'"
  shows "mem_ok s' \<and> (transfers s' = transfers s \<or>
    (\<exists>t. transfers s tid = Some t \<and> transfers s' = (transfers s)(tid \<mapsto> patch_first p t) \<and>
       p_message_nonce p \<noteq> None))"
  using mem_transition_Err [OF assms(2)]
proof (elim disjE exE conjE)
  fix t assume "transfers s tid = Some t" "bind_patch_source tid p s = Err e s'"
  then show ?thesis
    using wp_Err [OF bind_patch_source_wp [OF assms(1)]] assms(1) by blast
next
  fix t s\<^sub>1
  assume t: "transfers s tid = Some t" and src: "bind_patch_source tid p s = Ok () s\<^sub>1"
    and non: "bind_message_nonce tid p (patch_first p t) s\<^sub>1 = Err e s'"
  note s1 = wp_Ok [OF bind_patch_source_wp [OF assms(1) t] src]
  show ?thesis
    using wp_Err [OF bind_message_nonce_wp [of s\<^sub>1 tid t "patch_first p t" p] non] s1 t
      mem_ok_row(1) [OF assms(1) t] by auto
qed (use assms in auto)

lemma patch_first_atomic: "patch_atomic p \<Longrightarrow> p_message_nonce p \<noteq> None \<Longrightarrow> patch_first p t = t"
  by (simp add: patch_atomic_def patch_first_def)

lemma mem_transition_law:
  assumes "mem_ok s" "patch_atomic p"
  shows "wp (mem_transition checks clk tid v st p s)
    (\<lambda>t' s'. mem_ok s' \<and> (\<exists>t. moves transfers tid s s' t t' \<and> version t = v \<and>
       is_allowed_transition (status t) st \<and> saga_of t' = patch_saga st p (saga_of t)))
    (\<lambda>_ s'. mem_ok s' \<and> transfers s' = transfers s)"
proof (rule wpI)
  fix t' s' assume "mem_transition checks clk tid v st p s = Ok t' s'"
  from mem_transition_post [OF assms(1) this] patch_rest_saga
  show "mem_ok s' \<and> (\<exists>t. moves transfers tid s s' t t' \<and> version t = v \<and>
       is_allowed_transition (status t) st \<and> saga_of t' = patch_saga st p (saga_of t))"
    unfolding moves_def by blast
next
  fix e s' assume "mem_transition checks clk tid v st p s = Err e s'"
  from mem_transition_err [OF assms(1) this] patch_first_atomic [OF assms(2)]
  show "mem_ok s' \<and> transfers s' = transfers s"
    by fastforce
qed

lemma mem_poll_law:
  assumes "mem_ok s"
  shows "wp (mem_try_acquire_poll_lease clk tid a b s)
    (\<lambda>r s'. mem_ok s' \<and> sagas (transfers s') = sagas (transfers s) \<and>
       (\<forall>t. r = Some (t, Acquired) \<longrightarrow> transfers s' tid = Some t \<and> updated_at t = clk 0))
    (\<lambda>_ s'. s' = s)"
  using assms
  by (cases "transfers s tid")
    (auto simp: mem_try_acquire_poll_lease_def wp_simps Let_def sagas_upd_same saga_of_def
      intro!: mem_ok_put_same)

lemma mem_claim_law:
  assumes "mem_ok s"
  shows "wp (mem_claim_reattest_lease clk tid w a n s)
    (\<lambda>r s'. mem_ok s' \<and> sagas (transfers s') = sagas (transfers s) \<and>
       (\<forall>t. r = Some (t, Claimed) \<longrightarrow> transfers s' tid = Some t \<and> status t = AttestationFailed))
    (\<lambda>_ s'. s' = s)"
  using assms
  by (cases "transfers s tid")
    (auto simp: mem_claim_reattest_lease_def wp_simps Let_def sagas_upd_same saga_of_def
      intro!: mem_ok_put_same)

lemma mem_reattest_ok_law:
  assumes "mem_ok s"
  shows "wp (mem_finalize_reattest_success checks clk tid w s)
    (\<lambda>r s'. mem_ok s' \<and>
       (case r of None \<Rightarrow> s' = s
        | Some t' \<Rightarrow> \<exists>t. moves transfers tid s s' t t' \<and> status t = AttestationFailed \<and>
            saga_of t' = (saga_of t)\<lparr>sg_status := AwaitingAttestation\<rparr>))
    (\<lambda>_ s'. s' = s)"
  using assms
  by (cases "transfers s tid")
    (auto simp: mem_finalize_reattest_success_def wp_simps Let_def saga_of_def moves_def
      intro!: mem_ok_put_same)

lemma mem_reattest_fail_law:
  assumes "mem_ok s"
  shows "wp (mem_finalize_reattest_failure checks clk tid w c d a s)
    (\<lambda>_ s'. mem_ok s' \<and> sagas (transfers s') = sagas (transfers s)) (\<lambda>_ s'. s' = s)"
  using assms
  by (cases "transfers s tid")
    (auto simp: mem_finalize_reattest_failure_def wp_simps Let_def sagas_upd_same saga_of_def
      intro!: mem_ok_put_same)

lemma mem_approval_law:
  assumes "mem_ok s"
  shows "wp (mem_record_approval_submission checks clk tid v h i s)
    (\<lambda>_ s'. mem_ok s' \<and> sagas (transfers s') = sagas (transfers s)) (\<lambda>_ s'. s' = s)"
  using assms
  by (cases "transfers s tid"; cases "source_approval_tx_hash (the (transfers s tid))")
    (auto simp: mem_record_approval_submission_def wp_simps Let_def sagas_upd_same saga_of_def
      intro!: mem_ok_put_same)

lemma mem_burn_law:
  assumes "mem_ok s"
  shows "wp (mem_record_verified_burn checks clk tid v h s)
    (\<lambda>t' s'. mem_ok s' \<and> (\<exists>t. moves transfers tid s s' t t' \<and> version t = v \<and> status t = BurnPrepared \<and>
       saga_of t' = (saga_of t)\<lparr>sg_status := AwaitingAttestation, sg_source_tx := Some h\<rparr>))
    (\<lambda>_ s'. mem_ok s' \<and> transfers s' = transfers s)"
proof (cases "transfers s tid")
  case None
  then show ?thesis
    using assms by (simp add: mem_record_verified_burn_def wp_simps)
next
  case (Some t)
  have "mem_ok (put tid (t\<lparr>source_tx_hash := Some h, status := st, version := x, updated_at := y\<rparr>) s')"
    if "mem_ok s'" "transfers s' = transfers s" "source_tx_hashes s' h = Some tid" for s' st x y
    using that Some mem_ok_row [of s' tid t] by (intro mem_ok_put) auto
  then show ?thesis
    using assms Some
    by (auto simp: mem_record_verified_burn_def wp_simps Let_def moves_def saga_of_def
        intro!: wp_mono [OF bind_source_hash_wp [OF assms]])
qed

lemma mem_insert_law:
  assumes "mem_ok s" "source_tx_hash t = None" "message_nonce t = None"
  shows "wp (mem_insert t s)
    (\<lambda>_ s'. mem_ok s' \<and> transfers s (transfer_id t) = None \<and>
       transfers s' = (transfers s)(transfer_id t \<mapsto> t))
    (\<lambda>_ s'. s' = s)"
  using assms by (auto simp: mem_insert_def wp_simps intro!: mem_ok_put)

lemma patch_saga_mint [simp]:
  "patch_saga st default_patch g = g\<lparr>sg_status := st\<rparr>"
  by (simp add: patch_saga_def)

lemma mem_mint_laws:
  assumes "mem_ok s"
  shows "wp (mem_record_mint_prepared checks clk tid v h x m s)
      (\<lambda>t' s'. mem_ok s' \<and> (\<exists>t. moves transfers tid s s' t t' \<and> version t = v \<and>
         is_allowed_transition (status t) MintPrepared \<and>
         saga_of t' = (saga_of t)\<lparr>sg_status := MintPrepared, sg_mint_payload := Some h\<rparr>))
      (\<lambda>_ s'. mem_ok s' \<and> transfers s' = transfers s)"
    and "wp (mem_record_mint_submission checks clk tid v h s)
      (\<lambda>t' s'. mem_ok s' \<and> (\<exists>t. moves transfers tid s s' t t' \<and> version t = v \<and>
         is_allowed_transition (status t) MintSubmitted \<and>
         saga_of t' = (saga_of t)\<lparr>sg_status := MintSubmitted, sg_destination_tx := Some h\<rparr>))
      (\<lambda>_ s'. mem_ok s' \<and> transfers s' = transfers s)"
    and "wp (mem_record_mint_completed checks clk tid v s)
      (\<lambda>t' s'. mem_ok s' \<and> (\<exists>t. moves transfers tid s s' t t' \<and> version t = v \<and>
         is_allowed_transition (status t) Completed \<and> saga_of t' = (saga_of t)\<lparr>sg_status := Completed\<rparr>))
      (\<lambda>_ s'. mem_ok s' \<and> transfers s' = transfers s)"
  unfolding mem_record_mint_prepared_def mem_record_mint_submission_def mem_record_mint_completed_def
  by (rule wp_mono [OF mem_transition_law [OF assms]]; fastforce simp: patch_atomic_def patch_saga_def)+

interpretation mem: transfer_store_laws "mem_ops checks" transfers mem_ok for checks
  by unfold_locales
    (simp_all add: mem_ops_def mem_ok_row(1) mem_insert_law mem_poll_law mem_claim_law
      mem_reattest_ok_law mem_reattest_fail_law mem_transition_law mem_approval_law mem_burn_law
      mem_mint_laws, simp add: mem_get_def wp_simps)

section \<open>Versions\<close>

text \<open>The row without its leases and its time of change, which do not count as versions.\<close>

definition settled :: "cctp_transfer \<Rightarrow> cctp_transfer" where
  "settled t = t\<lparr>updated_at := 0, last_polled_at := None, poll_lease_until := None,
                 reattest_lease_owner_hash := None, reattest_lease_until := None\<rparr>"

inductive mem_step :: "mem_store \<Rightarrow> mem_store \<Rightarrow> bool" where
  insert: "source_tx_hash t = None \<Longrightarrow> message_nonce t = None \<Longrightarrow> leaves (mem_insert t s) s' \<Longrightarrow> mem_step s s'"
| poll: "leaves (mem_try_acquire_poll_lease clk tid a b s) s' \<Longrightarrow> mem_step s s'"
| claim: "leaves (mem_claim_reattest_lease clk tid w a n s) s' \<Longrightarrow> mem_step s s'"
| reattested: "leaves (mem_finalize_reattest_success True clk tid w s) s' \<Longrightarrow> mem_step s s'"
| reattest_failed: "leaves (mem_finalize_reattest_failure True clk tid w c d a s) s' \<Longrightarrow> mem_step s s'"
| transition: "patch_atomic p \<Longrightarrow> leaves (mem_transition True clk tid v st p s) s' \<Longrightarrow> mem_step s s'"
| approval: "leaves (mem_record_approval_submission True clk tid v h i s) s' \<Longrightarrow> mem_step s s'"
| burn: "leaves (mem_record_verified_burn True clk tid v h s) s' \<Longrightarrow> mem_step s s'"
| mint_prepared: "leaves (mem_record_mint_prepared True clk tid v h x m s) s' \<Longrightarrow> mem_step s s'"
| mint_submitted: "leaves (mem_record_mint_submission True clk tid v h s) s' \<Longrightarrow> mem_step s s'"
| mint_completed: "leaves (mem_record_mint_completed True clk tid v s) s' \<Longrightarrow> mem_step s s'"

text \<open>A row either keeps its version and its settled content, or its version grows.\<close>

definition row_evolves :: "cctp_transfer \<Rightarrow> cctp_transfer \<Rightarrow> bool" where
  "row_evolves t t' \<longleftrightarrow> version t < version t' \<or> (version t' = version t \<and> settled t' = settled t)"

definition rows_evolve :: "mem_store \<Rightarrow> mem_store \<Rightarrow> bool" where
  "rows_evolve s s' \<longleftrightarrow>
     (\<forall>tid t. transfers s tid = Some t \<longrightarrow> (\<exists>t'. transfers s' tid = Some t' \<and> row_evolves t t'))"

lemma row_evolves_refl [simp]: "row_evolves t t"
  by (simp add: row_evolves_def)

lemma row_evolves_trans: "row_evolves a b \<Longrightarrow> row_evolves b c \<Longrightarrow> row_evolves a c"
  by (auto simp: row_evolves_def)

lemma rows_evolve_refl: "transfers s' = transfers s \<Longrightarrow> rows_evolve s s'"
  by (simp add: rows_evolve_def)

lemma rows_evolve_same [simp]: "rows_evolve s s"
  by (simp add: rows_evolve_def)

lemma rows_evolve_put:
  "transfers s tid = Some t \<Longrightarrow> transfers s' = (transfers s)(tid \<mapsto> t') \<Longrightarrow> row_evolves t t' \<Longrightarrow> rows_evolve s s'"
  by (auto simp: rows_evolve_def)

lemma plain_add_i32_True: "plain_add_i32 True v 1 = Some v' \<Longrightarrow> v < v'"
  by (auto simp: plain_add_i32_def split: if_splits)

lemma transition_evolves:
  assumes "patch_atomic p" "leaves (mem_transition True clk tid v st p s) s'" "mem_ok s"
  shows "rows_evolve s s'"
proof (cases "mem_transition True clk tid v st p s")
  case (Ok t' u)
  then show ?thesis
    using assms mem_transition_post [OF assms(3) Ok]
    by (auto simp: leaves_def row_evolves_def intro!: rows_evolve_put dest!: plain_add_i32_True)
next
  case (Err e u)
  then show ?thesis
    using assms wp_Err [OF mem_transition_law Err]
    by (auto simp: leaves_def intro: rows_evolve_refl)
qed (use assms in \<open>simp add: leaves_def\<close>)

lemma mem_step_evolves: "mem_step s s' \<Longrightarrow> mem_ok s \<Longrightarrow> rows_evolve s s'"
proof (induction rule: mem_step.induct)
  case (insert t s s')
  then show ?case
    by (auto simp: mem_insert_def leaves_def rows_evolve_def split: if_splits)
next
  case (poll clk tid a b s s')
  then show ?case
    by (cases "transfers s tid")
      (auto simp: mem_try_acquire_poll_lease_def leaves_def Let_def row_evolves_def settled_def
        split: if_splits intro: rows_evolve_refl rows_evolve_put)
next
  case (claim clk tid w a n s s')
  then show ?case
    by (cases "transfers s tid")
      (auto simp: mem_claim_reattest_lease_def leaves_def Let_def row_evolves_def settled_def
        split: if_splits intro: rows_evolve_refl rows_evolve_put)
next
  case (reattested clk tid w s s')
  then show ?case
    by (cases "transfers s tid")
      (auto simp: mem_finalize_reattest_success_def leaves_def Let_def row_evolves_def unwrap_def
        split: if_splits option.splits intro: rows_evolve_refl
        intro!: rows_evolve_put dest!: plain_add_i32_True)
next
  case (reattest_failed clk tid w c d a s s')
  then show ?case
    by (cases "transfers s tid")
      (auto simp: mem_finalize_reattest_failure_def leaves_def Let_def row_evolves_def unwrap_def
        split: if_splits option.splits intro: rows_evolve_refl
        intro!: rows_evolve_put dest!: plain_add_i32_True)
next
  case (transition p clk tid v st s s')
  then show ?case
    by (rule transition_evolves)
next
  case (approval clk tid v h i s s')
  then show ?case
    by (cases "transfers s tid"; cases "source_approval_tx_hash (the (transfers s tid))")
      (auto simp: mem_record_approval_submission_def leaves_def Let_def row_evolves_def unwrap_def
        split: if_splits option.splits intro: rows_evolve_refl
        intro!: rows_evolve_put dest!: plain_add_i32_True)
next
  case (burn clk tid v h s s')
  show ?case
  proof (cases "transfers s tid")
    case None
    then show ?thesis
      using burn by (auto simp: mem_record_verified_burn_def leaves_def split: if_splits intro: rows_evolve_refl)
  next
    case (Some t)
    then show ?thesis
      using burn bind_source_hash_wp [OF burn.prems, of tid h]
      by (cases "bind_source_hash tid h s")
        (auto simp: mem_record_verified_burn_def leaves_def Let_def row_evolves_def unwrap_def wp_simps
          split: if_splits option.splits intro: rows_evolve_refl
          intro!: rows_evolve_put dest!: plain_add_i32_True)
  qed
next
  case (mint_prepared clk tid v h x m s s')
  then show ?case
    unfolding mem_record_mint_prepared_def by (intro transition_evolves) (simp_all add: patch_atomic_def)
next
  case (mint_submitted clk tid v h s s')
  then show ?case
    unfolding mem_record_mint_submission_def by (intro transition_evolves) (simp_all add: patch_atomic_def)
next
  case (mint_completed clk tid v s s')
  then show ?case
    unfolding mem_record_mint_completed_def by (intro transition_evolves) (simp_all add: patch_atomic_def)
qed

lemma mem_step_ok: "mem_step s s' \<Longrightarrow> mem_ok s \<Longrightarrow> mem_ok s'"
proof (induction rule: mem_step.induct)
  case (insert t s s')
  then show ?case
    using wp_leaves [OF mem_insert_law] by blast
next
  case (mint_prepared clk tid v h x m s s')
  then show ?case
    using wp_leaves [OF mem_mint_laws(1)] by blast
next
  case (mint_submitted clk tid v h s s')
  then show ?case
    using wp_leaves [OF mem_mint_laws(2)] by blast
next
  case (mint_completed clk tid v s s')
  then show ?case
    using wp_leaves [OF mem_mint_laws(3)] by blast
qed (blast elim: wp_leaves [OF mem_poll_law] wp_leaves [OF mem_claim_law] wp_leaves [OF mem_reattest_ok_law]
       wp_leaves [OF mem_reattest_fail_law] wp_leaves [OF mem_transition_law] wp_leaves [OF mem_approval_law]
       wp_leaves [OF mem_burn_law])+

lemma mem_steps_evolve: "mem_step\<^sup>*\<^sup>* s s' \<Longrightarrow> mem_ok s \<Longrightarrow> mem_ok s' \<and> rows_evolve s s'"
proof (induction rule: rtranclp_induct)
  case (step u s')
  then have "mem_ok s'" "rows_evolve u s'" "rows_evolve s u"
    by (auto intro: mem_step_ok mem_step_evolves)
  then show ?case
    unfolding rows_evolve_def by (meson row_evolves_trans)
qed simp

end
