(* ===== verification/Cctp_Lock.thy ===== *)
theory Cctp_Lock
  imports Cctp_Types
begin

text \<open>
  The prepare locks of \<open>cctp/prepare_lock.rs\<close>: one live unsigned prepare per source
  account. The interface \<open>CctpPrepareLockStore\<close> is a record of operations, the
  in-memory store a map from source accounts to reservations. The iteration order of
  the hash map, which decides which of two reservations of one transfer is found, is
  an argument.
\<close>

section \<open>Reservations\<close>

definition MAX_PAYLOAD_HASH_LEN :: nat where "MAX_PAYLOAD_HASH_LEN = 128"
definition MAX_PREPARED_PAYLOAD_LEN :: nat where "MAX_PREPARED_PAYLOAD_LEN = 131072"

datatype cctp_prepare_kind = KindApproval | KindBurn | KindMint

fun kind_as_str :: "cctp_prepare_kind \<Rightarrow> string" where
  "kind_as_str KindApproval = ''approval''"
| "kind_as_str KindBurn = ''burn''"
| "kind_as_str KindMint = ''mint''"

definition parse_kind :: "string \<Rightarrow> cctp_prepare_kind option" where
  "parse_kind s =
     (if s = ''approval'' then Some KindApproval else if s = ''burn'' then Some KindBurn
      else if s = ''mint'' then Some KindMint else None)"

lemma parse_kind_as_str [simp]: "parse_kind (kind_as_str k) = Some k"
  by (cases k) (simp_all add: parse_kind_def)

record cctp_active_prepare =
  ap_source_account :: string
  ap_transfer_id :: uuid
  ap_kind :: cctp_prepare_kind
  ap_payload_hash :: string
  ap_prepared_payload :: "string option"
  ap_expires_at :: instant
  ap_updated_at :: instant

datatype prepare_acquire_result =
    PrepareAcquired | Idempotent cctp_active_prepare | ConflictOtherTransfer uuid

datatype cctp_prepare_lock_error =
    Lock_ActivePrepareExists | Lock_PayloadHashMismatch | Lock_PayloadTooLarge | Lock_Database string

definition validate_reservation :: "cctp_active_prepare \<Rightarrow> (unit, cctp_prepare_lock_error) pure" where
  "validate_reservation r =
     (if ap_payload_hash r = [] \<or> length (ap_payload_hash r) > MAX_PAYLOAD_HASH_LEN
      then Err Lock_PayloadTooLarge ()
      else
        (case ap_prepared_payload r of
           Some payload \<Rightarrow>
             if payload = [] \<or> length payload > MAX_PREPARED_PAYLOAD_LEN
             then Err Lock_PayloadTooLarge () else Ok () ()
         | None \<Rightarrow> Ok () ()))"

record 'l prepare_lock_store =
  ls_expire_stale_for_source ::
    "(nat \<Rightarrow> instant) \<Rightarrow> string \<Rightarrow> 'l \<Rightarrow> (nat, cctp_prepare_lock_error, 'l) outcome"
  ls_try_acquire ::
    "(nat \<Rightarrow> instant) \<Rightarrow> cctp_active_prepare \<Rightarrow> 'l \<Rightarrow>
       (prepare_acquire_result, cctp_prepare_lock_error, 'l) outcome"
  ls_release :: "string \<Rightarrow> uuid \<Rightarrow> 'l \<Rightarrow> (bool, cctp_prepare_lock_error, 'l) outcome"
  ls_get_active ::
    "(nat \<Rightarrow> instant) \<Rightarrow> string \<Rightarrow> 'l \<Rightarrow>
       (cctp_active_prepare option, cctp_prepare_lock_error, 'l) outcome"
  ls_get_for_transfer ::
    "(nat \<Rightarrow> instant) \<Rightarrow> uuid \<Rightarrow> 'l \<Rightarrow>
       (cctp_active_prepare option, cctp_prepare_lock_error, 'l) outcome"

section \<open>The in-memory lock store\<close>

type_synonym locks = "string \<Rightarrow> cctp_active_prepare option"

definition purge_expired :: "instant \<Rightarrow> locks \<Rightarrow> string \<Rightarrow> nat \<times> locks" where
  "purge_expired now l source =
     (case l source of
        Some v \<Rightarrow> if ap_expires_at v \<le> now then (1, l(source := None)) else (0, l)
      | None \<Rightarrow> (0, l))"

definition mem_expire_stale_for_source ::
  "(nat \<Rightarrow> instant) \<Rightarrow> string \<Rightarrow> locks \<Rightarrow> (nat, cctp_prepare_lock_error, locks) outcome" where
  "mem_expire_stale_for_source clk source l = (case purge_expired (clk 0) l source of (n, l') \<Rightarrow> Ok n l')"

definition mem_try_acquire ::
  "(nat \<Rightarrow> instant) \<Rightarrow> cctp_active_prepare \<Rightarrow> locks \<Rightarrow>
     (prepare_acquire_result, cctp_prepare_lock_error, locks) outcome" where
  "mem_try_acquire clk r l =
     andThen (map_err id (validate_reservation r) l) (\<lambda>_ l.
       let source = ap_source_account r; l = snd (purge_expired (clk 0) l source)
       in case l source of
            Some existing \<Rightarrow>
              if ap_expires_at existing > clk 1 then
                if ap_transfer_id existing = ap_transfer_id r then
                  if ap_payload_hash existing = ap_payload_hash r then Ok (Idempotent existing) l
                  else Ok PrepareAcquired (l(source \<mapsto> r\<lparr>ap_updated_at := clk 2\<rparr>))
                else Ok (ConflictOtherTransfer (ap_transfer_id existing)) l
              else Ok PrepareAcquired ((l(source := None))(source \<mapsto> r\<lparr>ap_updated_at := clk 2\<rparr>))
          | None \<Rightarrow> Ok PrepareAcquired (l(source \<mapsto> r\<lparr>ap_updated_at := clk 2\<rparr>)))"

definition mem_release ::
  "string \<Rightarrow> uuid \<Rightarrow> locks \<Rightarrow> (bool, cctp_prepare_lock_error, locks) outcome" where
  "mem_release source tid l =
     (case l source of
        Some existing \<Rightarrow>
          if ap_transfer_id existing = tid then Ok True (l(source := None)) else Ok False l
      | None \<Rightarrow> Ok False l)"

definition mem_get_active ::
  "(nat \<Rightarrow> instant) \<Rightarrow> string \<Rightarrow> locks \<Rightarrow>
     (cctp_active_prepare option, cctp_prepare_lock_error, locks) outcome" where
  "mem_get_active clk source l = (let l = snd (purge_expired (clk 0) l source) in Ok (l source) l)"

definition mem_get_for_transfer ::
  "string list \<Rightarrow> (nat \<Rightarrow> instant) \<Rightarrow> uuid \<Rightarrow> locks \<Rightarrow>
     (cctp_active_prepare option, cctp_prepare_lock_error, locks) outcome" where
  "mem_get_for_transfer order clk tid l =
     (let l = (\<lambda>k. case l k of Some v \<Rightarrow> if ap_expires_at v > clk 0 then Some v else None | None \<Rightarrow> None)
      in Ok (List.find (\<lambda>v. ap_transfer_id v = tid) (List.map_filter l order)) l)"

definition mem_lock_ops :: "string list \<Rightarrow> locks prepare_lock_store" where
  "mem_lock_ops order =
     \<lparr>ls_expire_stale_for_source = mem_expire_stale_for_source, ls_try_acquire = mem_try_acquire,
      ls_release = mem_release, ls_get_active = mem_get_active,
      ls_get_for_transfer = mem_get_for_transfer order\<rparr>"

section \<open>Operations as steps\<close>

datatype lock_op =
    LExpire string | LAcquire cctp_active_prepare | LRelease string uuid
  | LActive string | LForTransfer "string list" uuid

text \<open>The state an operation leaves.\<close>

fun lock_apply :: "lock_op \<Rightarrow> (nat \<Rightarrow> instant) \<Rightarrow> locks \<Rightarrow> locks" where
  "lock_apply (LExpire src) clk l = (case mem_expire_stale_for_source clk src l of Ok _ l' \<Rightarrow> l' | _ \<Rightarrow> l)"
| "lock_apply (LAcquire r) clk l = (case mem_try_acquire clk r l of Ok _ l' \<Rightarrow> l' | Err _ l' \<Rightarrow> l' | Panic \<Rightarrow> l)"
| "lock_apply (LRelease src tid) clk l = (case mem_release src tid l of Ok _ l' \<Rightarrow> l' | _ \<Rightarrow> l)"
| "lock_apply (LActive src) clk l = (case mem_get_active clk src l of Ok _ l' \<Rightarrow> l' | _ \<Rightarrow> l)"
| "lock_apply (LForTransfer order tid) clk l =
     (case mem_get_for_transfer order clk tid l of Ok _ l' \<Rightarrow> l' | _ \<Rightarrow> l)"

fun lock_run :: "(lock_op \<times> (nat \<Rightarrow> instant)) list \<Rightarrow> locks \<Rightarrow> locks" where
  "lock_run [] l = l"
| "lock_run ((op, clk) # ops) l = lock_run ops (lock_apply op clk l)"

text \<open>An operation by which the holder of a source itself gives up or renews its reservation.\<close>

fun holder_op :: "string \<Rightarrow> uuid \<Rightarrow> lock_op \<Rightarrow> bool" where
  "holder_op src tid (LAcquire r) \<longleftrightarrow> ap_source_account r = src \<and> ap_transfer_id r = tid"
| "holder_op src tid (LRelease s t) \<longleftrightarrow> s = src \<and> t = tid"
| "holder_op src tid _ \<longleftrightarrow> False"

lemma purge_live:
  "l src = Some r \<Longrightarrow> now < ap_expires_at r \<Longrightarrow> snd (purge_expired now l src') src = Some r"
  by (auto simp: purge_expired_def split: option.splits)

lemma purge_other: "k \<noteq> src \<Longrightarrow> snd (purge_expired now l src) k = l k"
  by (simp add: purge_expired_def split: option.splits)

lemma validate_reservation_cases:
  "validate_reservation r = Ok () () \<or> validate_reservation r = Err Lock_PayloadTooLarge ()"
  by (simp add: validate_reservation_def split: option.splits)

text \<open>Another transfer's request on a live reservation is refused, naming the holder.\<close>

lemma acquire_conflict:
  assumes "l src = Some held" "ap_source_account r = src" "ap_transfer_id held \<noteq> ap_transfer_id r"
    and "clk 0 < ap_expires_at held" "clk 1 < ap_expires_at held"
    and "validate_reservation r = Ok () ()"
  shows "mem_try_acquire clk r l = Ok (ConflictOtherTransfer (ap_transfer_id held)) l"
  using assms
  by (simp add: mem_try_acquire_def Let_def purge_expired_def)

lemma acquire_other_source:
  assumes "ap_source_account r \<noteq> src"
  shows "mem_try_acquire clk r l = Ok v l' \<Longrightarrow> l' src = l src"
    and "mem_try_acquire clk r l = Err e l' \<Longrightarrow> l' src = l src"
  using assms validate_reservation_cases [of r]
  by (auto simp: mem_try_acquire_def Let_def purge_other split: option.splits if_splits)

lemma lock_apply_live:
  assumes "l src = Some held" "\<And>i. clk i < ap_expires_at held" "\<not> holder_op src (ap_transfer_id held) op"
  shows "lock_apply op clk l src = Some held"
proof (cases op)
  case (LAcquire r)
  show ?thesis
  proof (cases "ap_source_account r = src")
    case True
    then show ?thesis
      using assms LAcquire acquire_conflict [of l src held r clk] validate_reservation_cases [of r]
      by (auto simp: mem_try_acquire_def)
  next
    case False
    then show ?thesis
      using assms LAcquire acquire_other_source [OF False, of clk l]
      by (auto split: outcome.splits)
  qed
next
  case (LForTransfer order tid)
  then show ?thesis
    using assms by (simp add: mem_get_for_transfer_def Let_def)
qed (use assms purge_live [of l src held "clk 0"] assms(2) [of 0] in
    \<open>auto simp: mem_expire_stale_for_source_def mem_release_def mem_get_active_def Let_def
       case_prod_beta split: option.splits\<close>)

lemma lock_run_live:
  assumes "l src = Some held"
    and "\<And>op clk i. (op, clk) \<in> set ops \<Longrightarrow>
           clk i < ap_expires_at held \<and> \<not> holder_op src (ap_transfer_id held) op"
  shows "lock_run ops l src = Some held"
  using assms
proof (induction ops l rule: lock_run.induct)
  case (2 op clk ops l)
  have "lock_apply op clk l src = Some held"
    using "2.prems" by (intro lock_apply_live) auto
  then have "lock_run ops (lock_apply op clk l) src = Some held"
    using "2.prems"(2) by (intro "2.IH") auto
  then show ?case
    by simp
qed simp

text \<open>A successful acquisition leaves the reservation of the caller's transfer on the source.\<close>

lemma acquired_holds:
  assumes "mem_try_acquire clk r l = Ok v l'" "v = PrepareAcquired \<or> v = Idempotent a"
  shows "\<exists>held. l' (ap_source_account r) = Some held \<and> ap_transfer_id held = ap_transfer_id r \<and>
    ap_payload_hash held = ap_payload_hash r"
  using assms validate_reservation_cases [of r]
  by (auto simp: mem_try_acquire_def Let_def split: option.splits if_splits)

lemma acquired_new:
  assumes "mem_try_acquire clk r l = Ok PrepareAcquired l'"
  shows "l' (ap_source_account r) = Some (r\<lparr>ap_updated_at := clk 2\<rparr>)"
  using assms validate_reservation_cases [of r]
  by (auto simp: mem_try_acquire_def Let_def split: option.splits if_splits)

end
