(* ===== verification/Cctp_Corridor.thy ===== *)
theory Cctp_Corridor
  imports Cctp_Store Cctp_Lock
begin

text \<open>
  What the bridge service is built from: its errors, the records of its collaborators,
  the payload cache (\<open>cctp/prepare_payload_cache.rs\<close>), the corridor expectations
  (\<open>cctp/expectations.rs\<close>) and the comparison of burn facts (\<open>cctp/verifiers.rs\<close>).

  The struct \<open>CctpService\<close> is the record \<open>cctp_service\<close>. Its trait objects are
  records of functions: the transfer store and the lock store with their state types,
  the Iris client, the verifiers and the builders with the reply they give to one
  call. The crates that print, hash and encode are the record \<open>libs\<close>.
\<close>

section \<open>Errors\<close>

datatype verifier_error = Ver_NotReady | Ver_Transient string | Ver_TxNotFound | Ver_Failed string

datatype builder_error =
    Bld_NotReady | Bld_QuoteExpired | Bld_FeeExpired | Bld_Validation string
  | Bld_SimulationFailed string | Bld_Encoding string | Bld_AccountLookup string

datatype iris_error =
    Iris_Http string | Iris_Timeout | Iris_Malformed string | Iris_RedirectBlocked
  | Iris_HostNotAllowlisted | Iris_ResponseTooLarge

fun iris_error_string :: "iris_error \<Rightarrow> string" where
  "iris_error_string (Iris_Http m) = ''HTTP error: '' @ m"
| "iris_error_string Iris_Timeout = ''timeout''"
| "iris_error_string (Iris_Malformed m) = ''malformed response: '' @ m"
| "iris_error_string Iris_RedirectBlocked = ''redirect blocked''"
| "iris_error_string Iris_HostNotAllowlisted = ''host not allowlisted''"
| "iris_error_string Iris_ResponseTooLarge = ''response too large''"

datatype cctp_service_error =
    Svc_NotEnabled | Svc_ProviderKilled | Svc_Validation cctp_validation_error
  | Svc_FeeQuoteUnavailable | Svc_Store cctp_store_error | Svc_Iris string
  | Svc_Verifier verifier_error | Svc_Attestation string | Svc_Builder builder_error
  | Svc_VerifiersNotReady | Svc_InvalidMessage string | Svc_AmountExceedsCap
  | Svc_FastNotSupported | Svc_NotFound | Svc_InvalidState | Svc_AttestationTimeout
  | Svc_IrisTxHashMismatch | Svc_MissingAttestation | Svc_QuoteExpired | Svc_FeeExpired
  | Svc_MintPayloadExpired | Svc_MintPayloadHashMismatch | Svc_MintRetryable
  | Svc_ActivePrepareExists | Svc_StellarRemainder

section \<open>Collaborators\<close>

datatype prepared_wallet_payload =
    StellarXdr string string "string option"
  | EvmTransaction string string string string

datatype burn_prepare_step = StepApproval | StepBurn
datatype mint_prepare_step = StepTrustline | StepMint

record prepared_burn_bundle =
  bb_step :: burn_prepare_step
  bb_approval_required :: bool
  bb_primary :: prepared_wallet_payload
  bb_required_approvals :: "prepared_wallet_payload list"
  bb_required_prior_payloads :: "prepared_wallet_payload list"
  bb_expires_at :: i64
  bb_approval_expiration_ledger :: "u32 option"

record burn_bundle_cache =
  bc_step :: string
  bc_approval_required :: bool
  bc_primary :: prepared_wallet_payload
  bc_required_approvals :: "prepared_wallet_payload list"
  bc_required_prior_payloads :: "prepared_wallet_payload list"
  bc_expires_at :: i64
  bc_approval_expiration_ledger :: "u32 option"

record prepared_mint_bundle =
  mb_step :: mint_prepare_step
  mb_trustline_required :: bool
  mb_primary :: prepared_wallet_payload
  mb_expires_at :: i64
  mb_payload_hash :: string

record verified_burn_facts =
  bf_tx_hash :: string
  bf_source_chain_id :: string
  bf_source_domain :: u32
  bf_destination_domain :: u32
  bf_sender :: string
  bf_amount_cctp_subunits :: u128
  bf_burn_token_bytes32 :: bytes32
  bf_mint_recipient_bytes32 :: bytes32
  bf_destination_caller_bytes32 :: bytes32
  bf_min_finality_threshold :: u32
  bf_hook_data :: "bytes option"
  bf_token_messenger_bytes32 :: bytes32
  bf_block_or_ledger :: "string option"

datatype mint_verify_outcome =
    MintPending | MintSucceeded | MintFailed string | ReconciliationNonceConsumed

record verified_mint_facts =
  mf_tx_hash :: string
  mf_destination_chain_id :: string
  mf_contract_address :: string
  mf_function_selector :: string
  mf_message_hash :: bytes32
  mf_attestation_hash :: bytes32
  mf_nonce :: string
  mf_payload_hash :: string
  mf_outcome :: mint_verify_outcome
  mf_recipient_evidence :: "string option"

definition submission_ok :: "verified_mint_facts \<Rightarrow> bool" where
  "submission_ok facts \<longleftrightarrow>
     mf_payload_hash facts \<noteq> [] \<and> (mf_outcome facts = MintPending \<or> mf_outcome facts = MintSucceeded)"

record iris_fee_quote =
  standard_fee :: string
  fast_fee :: "string option"

datatype iris_message_status = IrisPending | IrisComplete

record iris_message =
  im_message_hex :: string
  im_attestation_hex :: "string option"
  im_cctp_version :: u32
  im_status :: iris_message_status
  im_event_nonce :: string
  im_source_tx_hash :: "string option"

datatype iris_poll_outcome =
    PollPending | PollComplete iris_message | PollRateLimited u64 | PollNotFound

record iris_client =
  fetch_burn_fees :: "u32 \<Rightarrow> u32 \<Rightarrow> (iris_fee_quote, iris_error) pure"
  poll_messages_by_tx :: "u32 \<Rightarrow> string \<Rightarrow> (iris_poll_outcome, iris_error) pure"
  iris_reattest :: "string \<Rightarrow> (unit, iris_error) pure"

text \<open>
  The verifiers and builders. \<open>stellar_invoke\<close> is the Stellar RPC client's reply for
  a finalised transaction: whether it succeeded, and the function its envelope invokes.
\<close>

record cctp_runtime =
  stellar_burn_ready :: bool
  evm_burn_ready :: bool
  attestation_ready :: bool
  stellar_mint_ready :: bool
  evm_mint_ready :: bool
  stellar_approval_ready :: bool
  evm_approval_ready :: bool
  stellar_burn_builder_ready :: bool
  evm_burn_builder_ready :: bool
  stellar_mint_builder_ready :: bool
  evm_mint_builder_ready :: bool
  stellar_verify_burn :: "string \<Rightarrow> (verified_burn_facts, verifier_error) pure"
  evm_verify_burn :: "string \<Rightarrow> (verified_burn_facts, verifier_error) pure"
  verify_attestation :: "bytes \<Rightarrow> bytes \<Rightarrow> (unit, string) pure"
  evm_verify_mint_submission ::
    "string \<Rightarrow> bytes \<Rightarrow> bytes \<Rightarrow> string \<Rightarrow> string \<Rightarrow> (verified_mint_facts, verifier_error) pure"
  stellar_verify_mint_submission ::
    "string \<Rightarrow> bytes \<Rightarrow> bytes \<Rightarrow> string \<Rightarrow> string \<Rightarrow> string option \<Rightarrow>
       (verified_mint_facts, verifier_error) pure"
  evm_verify_mint_completion ::
    "string \<Rightarrow> bytes \<Rightarrow> string \<Rightarrow> string \<Rightarrow> cctp_finality \<Rightarrow> (mint_verify_outcome, verifier_error) pure"
  stellar_verify_mint_completion ::
    "string \<Rightarrow> bytes \<Rightarrow> string \<Rightarrow> string \<Rightarrow> cctp_finality \<Rightarrow> (mint_verify_outcome, verifier_error) pure"
  stellar_verify_approval :: "cctp_transfer \<Rightarrow> string \<Rightarrow> i128 \<Rightarrow> (unit, verifier_error) pure"
  evm_verify_approval :: "cctp_transfer \<Rightarrow> string \<Rightarrow> u128 \<Rightarrow> (unit, verifier_error) pure"
  stellar_prepare_burn :: "cctp_transfer \<Rightarrow> cctp_config \<Rightarrow> (prepared_burn_bundle, builder_error) pure"
  evm_prepare_burn :: "cctp_transfer \<Rightarrow> cctp_config \<Rightarrow> (prepared_burn_bundle, builder_error) pure"
  stellar_prepare_mint :: "cctp_transfer \<Rightarrow> cctp_config \<Rightarrow> (prepared_mint_bundle, builder_error) pure"
  evm_prepare_mint :: "cctp_transfer \<Rightarrow> cctp_config \<Rightarrow> (prepared_mint_bundle, builder_error) pure"
  stellar_invoke :: "string \<Rightarrow> (bool \<times> string, verifier_error) pure"

text \<open>The crates \<open>serde_json\<close>, \<open>sha2\<close>, \<open>stellar_xdr\<close>, \<open>chrono\<close> and \<open>uuid\<close>.\<close>

record libs =
  burn_cache_to_json :: "burn_bundle_cache \<Rightarrow> (string, string) pure"
  burn_cache_from_json :: "string \<Rightarrow> (burn_bundle_cache, string) pure"
  mint_bundle_to_json :: "prepared_mint_bundle \<Rightarrow> (string, string) pure"
  mint_bundle_from_json :: "string \<Rightarrow> (prepared_mint_bundle, string) pure"
  payload_to_json :: "prepared_wallet_payload \<Rightarrow> (string, string) pure"
  sha256_hex :: "string \<Rightarrow> string"
  envelope_payload_hash :: "string \<Rightarrow> cctp_config \<Rightarrow> (string, verifier_error) pure"
  from_timestamp :: "i64 \<Rightarrow> instant option"
  uuid_string :: "uuid \<Rightarrow> string"

record ('s, 'l) cctp_service =
  config :: cctp_config
  is_production :: bool
  store :: "'s transfer_store"
  prepare_lock :: "'l prepare_lock_store"
  iris :: iris_client
  kill_switch :: "string \<Rightarrow> override_directive option"
  runtime :: cctp_runtime
  crates_of :: crates
  libs_of :: libs

text \<open>The state behind the two stores.\<close>

record ('s, 'l) svc_state =
  db :: 's
  lk :: 'l

definition on_store ::
  "('s \<Rightarrow> ('a, cctp_store_error, 's) outcome) \<Rightarrow> ('s, 'l) svc_state \<Rightarrow>
     ('a, cctp_service_error, ('s, 'l) svc_state) outcome" where
  "on_store op \<sigma> =
     (case op (db \<sigma>) of
        Ok v s \<Rightarrow> Ok v (\<sigma>\<lparr>db := s\<rparr>) | Err e s \<Rightarrow> Err (Svc_Store e) (\<sigma>\<lparr>db := s\<rparr>) | Panic \<Rightarrow> Panic)"

text \<open>\<open>let _ = self.store.op(..).await;\<close>\<close>

definition on_store_ignored ::
  "('s \<Rightarrow> ('a, cctp_store_error, 's) outcome) \<Rightarrow> ('s, 'l) svc_state \<Rightarrow>
     (unit, cctp_service_error, ('s, 'l) svc_state) outcome" where
  "on_store_ignored op \<sigma> =
     (case op (db \<sigma>) of
        Ok v s \<Rightarrow> Ok () (\<sigma>\<lparr>db := s\<rparr>) | Err e s \<Rightarrow> Ok () (\<sigma>\<lparr>db := s\<rparr>) | Panic \<Rightarrow> Panic)"

fun map_prepare_lock_error :: "cctp_prepare_lock_error \<Rightarrow> cctp_service_error" where
  "map_prepare_lock_error Lock_PayloadHashMismatch = Svc_ActivePrepareExists"
| "map_prepare_lock_error Lock_ActivePrepareExists = Svc_ActivePrepareExists"
| "map_prepare_lock_error Lock_PayloadTooLarge = Svc_Store Store_PayloadTooLarge"
| "map_prepare_lock_error (Lock_Database msg) = Svc_Store (Store_Database msg)"

definition on_lock ::
  "('l \<Rightarrow> ('a, cctp_prepare_lock_error, 'l) outcome) \<Rightarrow> ('s, 'l) svc_state \<Rightarrow>
     ('a, cctp_service_error, ('s, 'l) svc_state) outcome" where
  "on_lock op \<sigma> =
     (case op (lk \<sigma>) of
        Ok v l \<Rightarrow> Ok v (\<sigma>\<lparr>lk := l\<rparr>)
      | Err e l \<Rightarrow> Err (map_prepare_lock_error e) (\<sigma>\<lparr>lk := l\<rparr>) | Panic \<Rightarrow> Panic)"

definition on_lock_ignored ::
  "('l \<Rightarrow> ('a, cctp_prepare_lock_error, 'l) outcome) \<Rightarrow> ('s, 'l) svc_state \<Rightarrow>
     (unit, cctp_service_error, ('s, 'l) svc_state) outcome" where
  "on_lock_ignored op \<sigma> =
     (case op (lk \<sigma>) of
        Ok v l \<Rightarrow> Ok () (\<sigma>\<lparr>lk := l\<rparr>) | Err e l \<Rightarrow> Ok () (\<sigma>\<lparr>lk := l\<rparr>) | Panic \<Rightarrow> Panic)"

lemma wp_on_store [wp_simps]:
  "wp (on_store op \<sigma>) P Q =
     wp (op (db \<sigma>)) (\<lambda>v s. P v (\<sigma>\<lparr>db := s\<rparr>)) (\<lambda>e s. Q (Svc_Store e) (\<sigma>\<lparr>db := s\<rparr>))"
  "wp (on_store_ignored op \<sigma>) P' Q' =
     wp (op (db \<sigma>)) (\<lambda>_ s. P' () (\<sigma>\<lparr>db := s\<rparr>)) (\<lambda>_ s. P' () (\<sigma>\<lparr>db := s\<rparr>))"
  by (cases "op (db \<sigma>)"; simp add: wp_simps on_store_def on_store_ignored_def)+

lemma wp_on_lock [wp_simps]:
  "wp (on_lock op \<sigma>) P Q =
     wp (op (lk \<sigma>)) (\<lambda>v l. P v (\<sigma>\<lparr>lk := l\<rparr>)) (\<lambda>e l. Q (map_prepare_lock_error e) (\<sigma>\<lparr>lk := l\<rparr>))"
  "wp (on_lock_ignored op \<sigma>) P' Q' =
     wp (op (lk \<sigma>)) (\<lambda>_ l. P' () (\<sigma>\<lparr>lk := l\<rparr>)) (\<lambda>_ l. P' () (\<sigma>\<lparr>lk := l\<rparr>))"
  by (cases "op (lk \<sigma>)"; simp add: wp_simps on_lock_def on_lock_ignored_def)+

text \<open>The clock from its \<open>k\<close>-th reading on.\<close>

definition after :: "nat \<Rightarrow> clock \<Rightarrow> clock" where
  "after k clk = (\<lambda>i. clk (k + i))"

section \<open>Payload cache\<close>

datatype prepare_payload_cache_error = Cache_Serialization string | Cache_TooLarge

fun map_payload_cache_error :: "prepare_payload_cache_error \<Rightarrow> cctp_service_error" where
  "map_payload_cache_error Cache_TooLarge = Svc_Store Store_PayloadTooLarge"
| "map_payload_cache_error (Cache_Serialization msg) =
     Svc_Verifier (Ver_Failed (''prepare payload cache: '' @ msg))"

definition serialize_burn_bundle ::
  "libs \<Rightarrow> prepared_burn_bundle \<Rightarrow> (string, prepare_payload_cache_error) pure" where
  "serialize_burn_bundle L bundle =
     (let cache = \<lparr>bc_step = (case bb_step bundle of StepApproval \<Rightarrow> ''approval'' | StepBurn \<Rightarrow> ''burn''),
                   bc_approval_required = bb_approval_required bundle,
                   bc_primary = bb_primary bundle,
                   bc_required_approvals = bb_required_approvals bundle,
                   bc_required_prior_payloads = bb_required_prior_payloads bundle,
                   bc_expires_at = bb_expires_at bundle,
                   bc_approval_expiration_ledger = bb_approval_expiration_ledger bundle\<rparr>
      in andThen (map_err Cache_Serialization (burn_cache_to_json L cache) ()) (\<lambda>json _.
           if length json > MAX_PREPARED_PAYLOAD_LEN then Err Cache_TooLarge () else Ok json ()))"

definition deserialize_burn_bundle ::
  "libs \<Rightarrow> string \<Rightarrow> (prepared_burn_bundle, prepare_payload_cache_error) pure" where
  "deserialize_burn_bundle L json =
     andThen (map_err Cache_Serialization (burn_cache_from_json L json) ()) (\<lambda>cache _.
       let bundle = \<lambda>step. Ok \<lparr>bb_step = step, bb_approval_required = bc_approval_required cache,
                              bb_primary = bc_primary cache,
                              bb_required_approvals = bc_required_approvals cache,
                              bb_required_prior_payloads = bc_required_prior_payloads cache,
                              bb_expires_at = bc_expires_at cache,
                              bb_approval_expiration_ledger = bc_approval_expiration_ledger cache\<rparr> ()
       in if bc_step cache = ''approval'' then bundle StepApproval
          else if bc_step cache = ''burn'' then bundle StepBurn
          else Err (Cache_Serialization (''unknown burn step: '' @ bc_step cache)) ())"

definition serialize_mint_bundle ::
  "libs \<Rightarrow> prepared_mint_bundle \<Rightarrow> (string, prepare_payload_cache_error) pure" where
  "serialize_mint_bundle L bundle =
     andThen (map_err Cache_Serialization (mint_bundle_to_json L bundle) ()) (\<lambda>json _.
       if length json > MAX_PREPARED_PAYLOAD_LEN then Err Cache_TooLarge () else Ok json ())"

definition deserialize_mint_bundle ::
  "libs \<Rightarrow> string \<Rightarrow> (prepared_mint_bundle, prepare_payload_cache_error) pure" where
  "deserialize_mint_bundle L json = map_err Cache_Serialization (mint_bundle_from_json L json) ()"

definition wallet_payload_hash ::
  "libs \<Rightarrow> prepared_wallet_payload \<Rightarrow> cctp_config \<Rightarrow> (string, verifier_error) pure" where
  "wallet_payload_hash L payload cfg =
     (case payload of
        StellarXdr _ xdr_envelope _ \<Rightarrow> envelope_payload_hash L xdr_envelope cfg
      | EvmTransaction _ _ _ _ \<Rightarrow>
          andThen (map_err Ver_Failed (payload_to_json L payload) ()) (\<lambda>json _. Ok (sha256_hex L json) ()))"

section \<open>Expectations of a transfer\<close>

text \<open>The service never reads the text an encoding error is wrapped in, so it is the error itself.\<close>

definition amount_cctp_subunits :: "cctp_transfer \<Rightarrow> (u128, encoding_error) pure" where
  "amount_cctp_subunits t =
     (case direction t of
        StellarToEvm \<Rightarrow> andThen (stellar_outbound_cctp_amount (amount t)) (\<lambda>(amt, _) _. Ok amt ())
      | EvmToStellar \<Rightarrow> decimal_to_cctp_subunits (amount t))"

definition body_message_sender :: "crates \<Rightarrow> cctp_transfer \<Rightarrow> cctp_direction \<Rightarrow> (bytes32, encoding_error) pure" where
  "body_message_sender C t dir =
     (case dir of
        StellarToEvm \<Rightarrow>
          if sender t = [] then Ok (replicate 32 0) () else stellar_account_to_bytes32 C (sender t)
      | EvmToStellar \<Rightarrow>
          if sender t = [] then Ok (replicate 32 0) () else evm_address_to_bytes32 C (sender t))"

definition build_corridor_expectations ::
  "crates \<Rightarrow> cctp_transfer \<Rightarrow> cctp_config \<Rightarrow> (corridor_message_expectations, encoding_error) pure" where
  "build_corridor_expectations C t cfg =
     andThen (amount_cctp_subunits t) (\<lambda>amount_cctp _.
       case direction t of
         StellarToEvm \<Rightarrow>
           andThen (stellar_contract_to_bytes32 C (stellar_usdc (contracts cfg))) (\<lambda>burn_token _.
           andThen (evm_address_to_bytes32 C (recipient t)) (\<lambda>mint_recipient _.
           andThen (body_message_sender C t StellarToEvm) (\<lambda>body_sender _.
           andThen (evm_address_to_bytes32 C SEPOLIA_TOKEN_MESSENGER) (\<lambda>header_recipient _.
           andThen (stellar_contract_to_bytes32 C (stellar_token_messenger (contracts cfg))) (\<lambda>header_sender _.
             Ok \<lparr>e_source_domain = STELLAR_TESTNET_DOMAIN, e_destination_domain = SEPOLIA_DOMAIN,
                 e_header_recipient = header_recipient, e_header_sender = header_sender,
                 e_burn_token = burn_token, e_mint_recipient = mint_recipient,
                 e_destination_caller = replicate 32 0, e_amount_cctp_subunits = amount_cctp,
                 e_min_finality = corridor_min_finality (finality t),
                 e_body_message_sender = body_sender, e_hook_data = None,
                 e_hook_data_required_empty = True\<rparr> ())))))
       | EvmToStellar \<Rightarrow>
           andThen (evm_address_to_bytes32 C SEPOLIA_USDC) (\<lambda>burn_token _.
           andThen (stellar_contract_to_bytes32 C STELLAR_CCTP_FORWARDER) (\<lambda>forwarder _.
           andThen (build_forwarder_hook_data_recipient C (recipient t)) (\<lambda>hook _.
           andThen (body_message_sender C t EvmToStellar) (\<lambda>body_sender _.
           andThen (stellar_contract_to_bytes32 C (stellar_token_messenger (contracts cfg))) (\<lambda>header_recipient _.
           andThen (evm_address_to_bytes32 C SEPOLIA_TOKEN_MESSENGER) (\<lambda>header_sender _.
             Ok \<lparr>e_source_domain = SEPOLIA_DOMAIN, e_destination_domain = STELLAR_TESTNET_DOMAIN,
                 e_header_recipient = header_recipient, e_header_sender = header_sender,
                 e_burn_token = burn_token, e_mint_recipient = forwarder,
                 e_destination_caller = forwarder, e_amount_cctp_subunits = amount_cctp,
                 e_min_finality = corridor_min_finality (finality t),
                 e_body_message_sender = body_sender, e_hook_data = Some hook,
                 e_hook_data_required_empty = False\<rparr> ())))))))"

definition build_expected_burn_facts ::
  "crates \<Rightarrow> cctp_transfer \<Rightarrow> cctp_config \<Rightarrow> string \<Rightarrow> (verified_burn_facts, encoding_error) pure" where
  "build_expected_burn_facts C t cfg tx_hash =
     andThen (amount_cctp_subunits t) (\<lambda>amount_cctp _.
     andThen (build_corridor_expectations C t cfg) (\<lambda>e _.
       case (case direction t of
               StellarToEvm \<Rightarrow> (STELLAR_TESTNET_CHAIN_ID, STELLAR_TESTNET_DOMAIN, SEPOLIA_DOMAIN)
             | EvmToStellar \<Rightarrow> (SEPOLIA_CHAIN_ID, SEPOLIA_DOMAIN, STELLAR_TESTNET_DOMAIN)) of
         (source_chain, source_domain, dest_domain) \<Rightarrow>
           andThen (case direction t of
                      StellarToEvm \<Rightarrow>
                        stellar_contract_to_bytes32 C (stellar_token_messenger (contracts cfg))
                    | EvmToStellar \<Rightarrow> evm_address_to_bytes32 C SEPOLIA_TOKEN_MESSENGER) (\<lambda>messenger _.
             Ok \<lparr>bf_tx_hash = tx_hash, bf_source_chain_id = source_chain,
                 bf_source_domain = source_domain, bf_destination_domain = dest_domain,
                 bf_sender = sender t, bf_amount_cctp_subunits = amount_cctp,
                 bf_burn_token_bytes32 = e_burn_token e, bf_mint_recipient_bytes32 = e_mint_recipient e,
                 bf_destination_caller_bytes32 = e_destination_caller e,
                 bf_min_finality_threshold = corridor_min_finality (finality t),
                 bf_hook_data = e_hook_data e, bf_token_messenger_bytes32 = messenger,
                 bf_block_or_ledger = None\<rparr> ())))"

text \<open>Every field but the block is compared; the name of the first difference is not read.\<close>

definition facts_match :: "verified_burn_facts \<Rightarrow> verified_burn_facts \<Rightarrow> bool" where
  "facts_match expected actual \<longleftrightarrow>
     bf_tx_hash expected = bf_tx_hash actual \<and>
     bf_source_chain_id expected = bf_source_chain_id actual \<and>
     bf_source_domain expected = bf_source_domain actual \<and>
     bf_destination_domain expected = bf_destination_domain actual \<and>
     bf_amount_cctp_subunits expected = bf_amount_cctp_subunits actual \<and>
     bf_burn_token_bytes32 expected = bf_burn_token_bytes32 actual \<and>
     bf_mint_recipient_bytes32 expected = bf_mint_recipient_bytes32 actual \<and>
     bf_destination_caller_bytes32 expected = bf_destination_caller_bytes32 actual \<and>
     bf_min_finality_threshold expected = bf_min_finality_threshold actual \<and>
     bf_token_messenger_bytes32 expected = bf_token_messenger_bytes32 actual \<and>
     bf_sender expected = bf_sender actual \<and>
     bf_hook_data expected = bf_hook_data actual"

definition normalize_tx_hash :: "string \<Rightarrow> string" where
  "normalize_tx_hash hash =
     (let trimmed = trim hash
      in to_ascii_lowercase
           (case strip_prefix ''0x'' trimmed of
              Some h \<Rightarrow> h
            | None \<Rightarrow> unwrap_or (strip_prefix ''0X'' trimmed) trimmed))"

definition tx_hashes_equal :: "string \<Rightarrow> string \<Rightarrow> bool" where
  "tx_hashes_equal a b \<longleftrightarrow> normalize_tx_hash a = normalize_tx_hash b"

end
