(* ===== verification/Cctp_Service.thy ===== *)
theory Cctp_Service
  imports Cctp_Corridor
begin

text \<open>
  The handlers of the bridge service (\<open>cctp/service.rs\<close>), one definition each, over
  the state of the transfer store and of the lock store. A handler that fails keeps
  what its store operations have done before. The readings of the clock are numbered
  in the order of the source.
\<close>

section \<open>Guards\<close>

type_synonym ('a, 's, 'l) handler =
  "('s, 'l) svc_state \<Rightarrow> ('a, cctp_service_error, ('s, 'l) svc_state) outcome"

definition burn_verifier_ready :: "('s, 'l) cctp_service \<Rightarrow> cctp_direction \<Rightarrow> bool" where
  "burn_verifier_ready self dir =
     (case dir of
        StellarToEvm \<Rightarrow> stellar_burn_ready (runtime self)
      | EvmToStellar \<Rightarrow> evm_burn_ready (runtime self))"

definition ensure_burn_verifier_ready ::
  "('s, 'l) cctp_service \<Rightarrow> cctp_direction \<Rightarrow> (unit, 's, 'l) handler" where
  "ensure_burn_verifier_ready self dir \<sigma> =
     (if \<not> burn_verifier_ready self dir then Err Svc_VerifiersNotReady \<sigma> else Ok () \<sigma>)"

definition ensure_attestation_verifier_ready :: "('s, 'l) cctp_service \<Rightarrow> (unit, 's, 'l) handler" where
  "ensure_attestation_verifier_ready self \<sigma> =
     (if \<not> attestation_ready (runtime self) then Err Svc_VerifiersNotReady \<sigma> else Ok () \<sigma>)"

definition ensure_quote_not_expired :: "instant \<Rightarrow> cctp_transfer \<Rightarrow> (unit, 's, 'l) handler" where
  "ensure_quote_not_expired now t \<sigma> =
     (if now > quote_expires_at t then Err Svc_QuoteExpired \<sigma> else Ok () \<sigma>)"

definition ensure_mint_verifier_ready ::
  "('s, 'l) cctp_service \<Rightarrow> cctp_direction \<Rightarrow> (unit, 's, 'l) handler" where
  "ensure_mint_verifier_ready self dir \<sigma> =
     (let ready = (case dir of
                     StellarToEvm \<Rightarrow> evm_mint_ready (runtime self)
                   | EvmToStellar \<Rightarrow> stellar_mint_ready (runtime self))
      in if \<not> ready then Err Svc_VerifiersNotReady \<sigma> else Ok () \<sigma>)"

definition ensure_mint_payload_valid :: "instant \<Rightarrow> cctp_transfer \<Rightarrow> (unit, 's, 'l) handler" where
  "ensure_mint_payload_valid now t \<sigma> =
     (case mint_payload_expires_at t of
        Some e \<Rightarrow> if now > e then Err Svc_MintPayloadExpired \<sigma> else Ok () \<sigma>
      | None \<Rightarrow> Ok () \<sigma>)"

definition ensure_fee_not_expired :: "instant \<Rightarrow> cctp_transfer \<Rightarrow> (unit, 's, 'l) handler" where
  "ensure_fee_not_expired now t \<sigma> =
     (case fee_expires_at t of
        Some e \<Rightarrow> if now > e then Err Svc_FeeExpired \<sigma> else Ok () \<sigma>
      | None \<Rightarrow> Ok () \<sigma>)"

definition provider_killed :: "('s, 'l) cctp_service \<Rightarrow> bool" where
  "provider_killed self \<longleftrightarrow>
     \<not> is_provider_allowed (get_provider_policy (kill_switch self)) (Some CCTP_PROVIDER_ID)"

definition release_transfer_prepare_locks ::
  "('s, 'l) cctp_service \<Rightarrow> cctp_transfer \<Rightarrow> (unit, 's, 'l) handler" where
  "release_transfer_prepare_locks self t \<sigma> =
     andThen
       (if sender t \<noteq> []
        then on_lock_ignored (ls_release (prepare_lock self) (sender t) (transfer_id t)) \<sigma>
        else Ok () \<sigma>) (\<lambda>_ \<sigma>.
     case mint_submitter t of
       Some submitter \<Rightarrow> on_lock_ignored (ls_release (prepare_lock self) submitter (transfer_id t)) \<sigma>
     | None \<Rightarrow> Ok () \<sigma>)"

text \<open>\<open>self.store.get(id).await?.ok_or(NotFound)?\<close>\<close>

definition get_transfer :: "('s, 'l) cctp_service \<Rightarrow> uuid \<Rightarrow> (cctp_transfer, 's, 'l) handler" where
  "get_transfer self tid \<sigma> =
     andThen (on_store (ts_get (store self) tid) \<sigma>) (\<lambda>found \<sigma>.
       ok_or found Svc_NotFound \<sigma> (\<lambda>t. Ok t \<sigma>))"

definition active_mint_bundle_for_transfer ::
  "('s, 'l) cctp_service \<Rightarrow> clock \<Rightarrow> uuid \<Rightarrow> string \<Rightarrow> (prepared_mint_bundle option, 's, 'l) handler" where
  "active_mint_bundle_for_transfer self clk tid submitter \<sigma> =
     andThen (on_lock (ls_get_for_transfer (prepare_lock self) clk tid) \<sigma>) (\<lambda>found \<sigma>.
       case found of
         None \<Rightarrow> Ok None \<sigma>
       | Some active \<Rightarrow>
           if ap_source_account active \<noteq> submitter \<or> ap_expires_at active \<le> clk 1 then Ok None \<sigma>
           else
             (case ap_prepared_payload active of
                None \<Rightarrow> Ok None \<sigma>
              | Some payload \<Rightarrow>
                  andThen (map_err map_payload_cache_error
                             (deserialize_mint_bundle (libs_of self) payload) \<sigma>) (\<lambda>bundle \<sigma>.
                    if mb_trustline_required bundle \<or> mb_step bundle = StepTrustline then Ok None \<sigma>
                    else Ok (Some bundle) \<sigma>)))"

section \<open>Quotes\<close>

definition quote_amount :: "cctp_quote_request \<Rightarrow> (u128, cctp_service_error) pure" where
  "quote_amount r =
     (case r_direction r of
        StellarToEvm \<Rightarrow>
          map_err (\<lambda>_. Svc_StellarRemainder) (stellar_outbound_cctp_amount_strict (r_amount r)) ()
      | EvmToStellar \<Rightarrow>
          map_err (\<lambda>_. Svc_Validation InvalidAmount) (decimal_to_cctp_subunits (r_amount r)) ())"

definition new_transfer ::
  "('s, 'l) cctp_service \<Rightarrow> instant \<Rightarrow> cctp_quote_request \<Rightarrow> uuid \<Rightarrow> string \<Rightarrow> string \<Rightarrow> string \<Rightarrow> cctp_transfer" where
  "new_transfer self now r tid token_hash fee dest_amount =
     \<lparr>transfer_id = tid, support_reference_id = ''cctp-'' @ uuid_string (libs_of self) tid,
      corridor_id = r_corridor_id r, provider = r_provider r, direction = r_direction r,
      source_chain_id = r_source_chain_id r, destination_chain_id = r_destination_chain_id r,
      source_asset = asset_asset (r_source_asset r),
      source_asset_canonical = asset_canonical (r_source_asset r),
      destination_asset = asset_asset (r_destination_asset r),
      destination_asset_canonical = asset_canonical (r_destination_asset r),
      sender = unwrap_or (r_sender r) [], recipient = r_recipient r,
      mint_submitter = r_mint_submitter r, amount = r_amount r,
      destination_amount = dest_amount, finality = r_finality r,
      runtime_fee_quote = Some fee, max_fee = Some fee,
      fee_expires_at = Some (now + seconds (10 * 60)),
      quote_expires_at = now + seconds (as_i64 (quote_ttl_secs (config self))),
      status = Created, source_tx_hash = None, source_approval_tx_hash = None,
      source_approval_verified_at = None, destination_tx_hash = None, iris_message_hash = None,
      message_nonce = None, raw_message = None, attestation = None, retry_count = 0,
      last_provider_error = None, last_provider_code = None, version = 1,
      created_at = now, updated_at = now, terminal_at = None, mint_payload_hash = None,
      mint_payload_expires_at = None, approval_payload_hash = None,
      approval_expiration_ledger = None, burn_payload_hash = None, burn_prepare_step = None,
      access_token_hash = Some token_hash, last_polled_at = None, poll_lease_until = None,
      reattest_lease_owner_hash = None, reattest_lease_until = None,
      reattest_attempt_count = 0, reattest_cooldown_until = None\<rparr>"

definition build_quote_transfer ::
  "('s, 'l) cctp_service \<Rightarrow> clock \<Rightarrow> cctp_quote_request \<Rightarrow> uuid \<Rightarrow> string \<Rightarrow>
     (cctp_transfer, cctp_service_error) pure" where
  "build_quote_transfer self clk r tid token_hash =
     (if \<not> enabled (config self) then Err Svc_NotEnabled ()
      else if provider_killed self then Err Svc_ProviderKilled ()
      else
        andThen (map_err Svc_Validation (validate_request (crates_of self) r) ()) (\<lambda>_ _.
        andThen (quote_amount r) (\<lambda>cctp_amount _.
          if r_direction r = EvmToStellar \<and> r_mint_submitter r = None
          then Err (Svc_Validation InvalidMintSubmitter) ()
          else
            let cap = (case decimal_to_cctp_subunits (amount_cap (config self)) of
                         Ok c _ \<Rightarrow> c | _ \<Rightarrow> u128_max)
            in if cctp_amount > cap then Err Svc_AmountExceedsCap ()
            else
              (case (case r_direction r of
                       StellarToEvm \<Rightarrow> (STELLAR_TESTNET_DOMAIN, SEPOLIA_DOMAIN)
                     | EvmToStellar \<Rightarrow> (SEPOLIA_DOMAIN, STELLAR_TESTNET_DOMAIN)) of
                 (source_domain, dest_domain) \<Rightarrow>
                   andThen (map_err (\<lambda>e. Svc_Iris (iris_error_string e))
                              (fetch_burn_fees (iris self) source_domain dest_domain) ()) (\<lambda>fees _.
                   andThen (case r_finality r of
                              Standard \<Rightarrow> Ok (standard_fee fees) ()
                            | Fast \<Rightarrow> ok_or (fast_fee fees) Svc_FastNotSupported () (\<lambda>f. Ok f ())) (\<lambda>fee _.
                   andThen (case r_direction r of
                              StellarToEvm \<Rightarrow> Ok (r_amount r) ()
                            | EvmToStellar \<Rightarrow>
                                andThen (map_err (\<lambda>_. Svc_Validation InvalidAmount)
                                           (cctp_subunits_to_stellar_subunits cctp_amount) ()) (\<lambda>sub _.
                                  Ok (format_stellar_amount sub) ())) (\<lambda>dest_amount _.
                     Ok (new_transfer self (clk 0) r tid token_hash fee dest_amount) ())))))))"

definition quote_core ::
  "('s, 'l) cctp_service \<Rightarrow> clock \<Rightarrow> uuid \<Rightarrow> cctp_quote_request \<Rightarrow> string \<Rightarrow> (cctp_transfer, 's, 'l) handler" where
  "quote_core self clk new_id r token_hash \<sigma> =
     andThen (map_err id (build_quote_transfer self clk r new_id token_hash) \<sigma>) (\<lambda>t \<sigma>.
     andThen (on_store (ts_insert (store self) t) \<sigma>) (\<lambda>_ \<sigma>. Ok t \<sigma>))"

section \<open>Burning\<close>

definition prepare_burn ::
  "('s, 'l) cctp_service \<Rightarrow> clock \<Rightarrow> uuid \<Rightarrow> (cctp_transfer, 's, 'l) handler" where
  "prepare_burn self clk tid \<sigma> =
     (if \<not> enabled (config self) \<or> \<not> is_configured (crates_of self) (is_production self) (config self)
      then Err Svc_NotEnabled \<sigma>
      else if provider_killed self then Err Svc_ProviderKilled \<sigma>
      else
        andThen (get_transfer self tid \<sigma>) (\<lambda>t \<sigma>.
          if status t = BurnPrepared then Ok t \<sigma>
          else if status t \<noteq> Created then Err Svc_InvalidState \<sigma>
          else
            andThen (ensure_quote_not_expired (clk 0) t \<sigma>) (\<lambda>_ \<sigma>.
            andThen (ensure_fee_not_expired (clk 1) t \<sigma>) (\<lambda>_ \<sigma>.
            andThen (ensure_burn_verifier_ready self (direction t) \<sigma>) (\<lambda>_ \<sigma>.
              on_store (ts_transition (store self) (after 2 clk) tid (version t) BurnPrepared default_patch) \<sigma>)))))"

definition record_burn_submission ::
  "('s, 'l) cctp_service \<Rightarrow> clock \<Rightarrow> uuid \<Rightarrow> string \<Rightarrow> (cctp_transfer, 's, 'l) handler" where
  "record_burn_submission self clk tid tx_hash \<sigma> =
     andThen (get_transfer self tid \<sigma>) (\<lambda>t \<sigma>.
       if status t \<noteq> BurnPrepared then Err Svc_InvalidState \<sigma>
       else
         andThen (ensure_quote_not_expired (clk 0) t \<sigma>) (\<lambda>_ \<sigma>.
         andThen (ensure_fee_not_expired (clk 1) t \<sigma>) (\<lambda>_ \<sigma>.
         andThen (ensure_burn_verifier_ready self (direction t) \<sigma>) (\<lambda>_ \<sigma>.
         andThen (map_err Svc_Verifier
                    (case direction t of
                       StellarToEvm \<Rightarrow> stellar_verify_burn (runtime self) tx_hash
                     | EvmToStellar \<Rightarrow> evm_verify_burn (runtime self) tx_hash) \<sigma>) (\<lambda>facts \<sigma>.
         andThen (map_err (\<lambda>_. Svc_Verifier (Ver_Failed ''expectations''))
                    (build_expected_burn_facts (crates_of self) t (config self) tx_hash) \<sigma>) (\<lambda>expected \<sigma>.
           if \<not> facts_match expected facts
           then Err (Svc_Verifier (Ver_Failed ''burn facts mismatch'')) \<sigma>
           else
             andThen (on_store (ts_record_verified_burn (store self) (after 2 clk) tid (version t) tx_hash) \<sigma>)
               (\<lambda>awaiting \<sigma>.
             andThen (release_transfer_prepare_locks self t \<sigma>) (\<lambda>_ \<sigma>. Ok awaiting \<sigma>))))))))"

definition record_approval_submission ::
  "('s, 'l) cctp_service \<Rightarrow> clock \<Rightarrow> uuid \<Rightarrow> string \<Rightarrow> (cctp_transfer, 's, 'l) handler" where
  "record_approval_submission self clk tid tx_hash \<sigma> =
     andThen (get_transfer self tid \<sigma>) (\<lambda>t \<sigma>.
       if status t \<noteq> BurnPrepared then Err Svc_InvalidState \<sigma>
       else
         andThen (ensure_quote_not_expired (clk 0) t \<sigma>) (\<lambda>_ \<sigma>.
         andThen (ensure_fee_not_expired (clk 1) t \<sigma>) (\<lambda>_ \<sigma>.
           if (case source_approval_tx_hash t of
                 Some existing \<Rightarrow> \<not> tx_hashes_equal existing tx_hash | None \<Rightarrow> False)
           then Err (Svc_Verifier (Ver_Failed ''conflicting approval tx hash'')) \<sigma>
           else if source_approval_tx_hash t \<noteq> None \<and> source_approval_verified_at t \<noteq> None
           then Ok t \<sigma>
           else
             let verified_at = clk 2
             in andThen
                  (case direction t of
                     StellarToEvm \<Rightarrow>
                       if \<not> stellar_approval_ready (runtime self) then Err Svc_VerifiersNotReady \<sigma>
                       else
                         andThen (map_err (\<lambda>_. Svc_Verifier (Ver_Failed ''amount''))
                                    (stellar_outbound_cctp_amount_strict (amount t)) \<sigma>) (\<lambda>cctp \<sigma>.
                         andThen (map_err (\<lambda>_. Svc_Verifier (Ver_Failed ''amount''))
                                    (cctp_subunits_to_stellar_subunits cctp) \<sigma>) (\<lambda>required \<sigma>.
                           if int required > i128_max
                           then Err (Svc_Verifier (Ver_Failed ''amount'')) \<sigma>
                           else map_err Svc_Verifier
                                  (stellar_verify_approval (runtime self) t tx_hash (int required)) \<sigma>))
                   | EvmToStellar \<Rightarrow>
                       if \<not> evm_approval_ready (runtime self) then Err Svc_VerifiersNotReady \<sigma>
                       else
                         andThen (map_err (\<lambda>_. Svc_Verifier (Ver_Failed ''amount''))
                                    (decimal_to_cctp_subunits (amount t)) \<sigma>) (\<lambda>required \<sigma>.
                           map_err Svc_Verifier
                             (evm_verify_approval (runtime self) t tx_hash required) \<sigma>)) (\<lambda>_ \<sigma>.
                andThen (on_store (ts_record_approval_submission (store self) (after 3 clk) tid
                                     (version t) tx_hash verified_at) \<sigma>) (\<lambda>updated \<sigma>.
                  if sender t \<noteq> []
                  then andThen (release_transfer_prepare_locks self t \<sigma>) (\<lambda>_ \<sigma>. Ok updated \<sigma>)
                  else Ok updated \<sigma>)))))"

datatype stellar_source_submission_kind = SubmissionApproval | SubmissionBurn

definition classify_stellar_source_submission ::
  "('s, 'l) cctp_service \<Rightarrow> string \<Rightarrow> (stellar_source_submission_kind, verifier_error) pure" where
  "classify_stellar_source_submission self tx_hash =
     andThen (stellar_invoke (runtime self) tx_hash) (\<lambda>(success, invoked) _.
       if \<not> success then Err (Ver_Failed ''tx failed'') ()
       else if invoked = ''approve'' then Ok SubmissionApproval ()
       else if invoked = ''deposit_for_burn'' \<or> invoked = ''deposit_for_burn_with_hook''
       then Ok SubmissionBurn ()
       else Err (Ver_Failed (''unsupported stellar invoke: '' @ invoked)) ())"

definition record_source_submission ::
  "('s, 'l) cctp_service \<Rightarrow> clock \<Rightarrow> uuid \<Rightarrow> string \<Rightarrow> (cctp_transfer, 's, 'l) handler" where
  "record_source_submission self clk tid tx_hash \<sigma> =
     andThen (get_transfer self tid \<sigma>) (\<lambda>t \<sigma>.
       case direction t of
         StellarToEvm \<Rightarrow>
           andThen (map_err Svc_Verifier (classify_stellar_source_submission self tx_hash) \<sigma>) (\<lambda>kind \<sigma>.
             case kind of
               SubmissionApproval \<Rightarrow> record_approval_submission self clk tid tx_hash \<sigma>
             | SubmissionBurn \<Rightarrow>
                 (case record_burn_submission self clk tid tx_hash \<sigma> of
                    Err e \<sigma>' \<Rightarrow>
                      (case e of
                         Svc_Verifier (Ver_Failed msg) \<Rightarrow>
                           if contains_str ''wrong function'' msg
                           then record_approval_submission self (after 4 clk) tid tx_hash \<sigma>'
                           else Err e \<sigma>'
                       | _ \<Rightarrow> Err e \<sigma>')
                  | other \<Rightarrow> other))
       | EvmToStellar \<Rightarrow>
           if burn_prepare_step t = Some ''approval'' \<and> source_approval_verified_at t = None
           then record_approval_submission self clk tid tx_hash \<sigma>
           else record_burn_submission self clk tid tx_hash \<sigma>)"

definition burn_prepare_source :: "cctp_transfer \<Rightarrow> (string, 's, 'l) handler" where
  "burn_prepare_source t \<sigma> = (if sender t = [] then Err Svc_InvalidState \<sigma> else Ok (sender t) \<sigma>)"

text \<open>The transition into \<open>burn_prepared\<close>, or the checks of a repeated call.\<close>

definition enter_burn_prepared ::
  "('s, 'l) cctp_service \<Rightarrow> clock \<Rightarrow> cctp_transfer \<Rightarrow> uuid \<Rightarrow> (cctp_transfer, 's, 'l) handler" where
  "enter_burn_prepared self clk t tid \<sigma> =
     (if status t = Created then
        andThen (ensure_quote_not_expired (clk 0) t \<sigma>) (\<lambda>_ \<sigma>.
        andThen (ensure_fee_not_expired (clk 1) t \<sigma>) (\<lambda>_ \<sigma>.
        andThen (ensure_burn_verifier_ready self (direction t) \<sigma>) (\<lambda>_ \<sigma>.
        andThen (if direction t = StellarToEvm
                 then andThen (map_err (\<lambda>_. Svc_StellarRemainder)
                                 (stellar_outbound_cctp_amount_strict (amount t)) \<sigma>) (\<lambda>_ \<sigma>. Ok () \<sigma>)
                 else Ok () \<sigma>) (\<lambda>_ \<sigma>.
          on_store (ts_transition (store self) (after 2 clk) tid (version t) BurnPrepared default_patch) \<sigma>))))
      else if status t = BurnPrepared then
        andThen (ensure_quote_not_expired (clk 0) t \<sigma>) (\<lambda>_ \<sigma>.
        andThen (ensure_fee_not_expired (clk 1) t \<sigma>) (\<lambda>_ \<sigma>.
        andThen (ensure_burn_verifier_ready self (direction t) \<sigma>) (\<lambda>_ \<sigma>. Ok t \<sigma>)))
      else Err Svc_InvalidState \<sigma>)"

definition burn_patch :: "prepared_burn_bundle \<Rightarrow> string \<Rightarrow> transfer_patch" where
  "burn_patch bundle payload_hash =
     (let p = default_patch\<lparr>p_burn_prepare_step :=
                   Some (case bb_step bundle of StepApproval \<Rightarrow> ''approval'' | StepBurn \<Rightarrow> ''burn''),
                 p_burn_payload_hash := Some payload_hash\<rparr>
      in if bb_step bundle = StepApproval
         then
           let p = p\<lparr>p_approval_payload_hash := Some payload_hash\<rparr>
           in case bb_approval_expiration_ledger bundle of
                Some e \<Rightarrow> p\<lparr>p_approval_expiration_ledger := Some e\<rparr>
              | None \<Rightarrow> p
         else p)"

text \<open>Building the wallet payload, reserving the source and recording the payload.\<close>

definition reserve_burn_payload ::
  "('s, 'l) cctp_service \<Rightarrow> clock \<Rightarrow> cctp_transfer \<Rightarrow> uuid \<Rightarrow> (prepared_burn_bundle, 's, 'l) handler" where
  "reserve_burn_payload self clk t tid \<sigma> =
     andThen (burn_prepare_source t \<sigma>) (\<lambda>source \<sigma>.
     andThen (map_err Svc_Builder
                (case direction t of
                   StellarToEvm \<Rightarrow> stellar_prepare_burn (runtime self) t (config self)
                 | EvmToStellar \<Rightarrow> evm_prepare_burn (runtime self) t (config self)) \<sigma>) (\<lambda>bundle \<sigma>.
     andThen (map_err Svc_Verifier
                (wallet_payload_hash (libs_of self) (bb_primary bundle) (config self)) \<sigma>) (\<lambda>payload_hash \<sigma>.
     andThen (map_err map_payload_cache_error
                (serialize_burn_bundle (libs_of self) bundle) \<sigma>) (\<lambda>prepared_payload \<sigma>.
     andThen (on_lock (ls_try_acquire (prepare_lock self) (after 2 clk)
                \<lparr>ap_source_account = source, ap_transfer_id = tid,
                 ap_kind = (case bb_step bundle of StepApproval \<Rightarrow> KindApproval | StepBurn \<Rightarrow> KindBurn),
                 ap_payload_hash = payload_hash, ap_prepared_payload = Some prepared_payload,
                 ap_expires_at = unwrap_or (from_timestamp (libs_of self) (bb_expires_at bundle)) (clk 0),
                 ap_updated_at = clk 1\<rparr>) \<sigma>) (\<lambda>acquired \<sigma>.
       let write = \<lambda>\<sigma>.
             andThen (on_store (ts_transition (store self) (after 5 clk) tid (version t) BurnPrepared
                        (burn_patch bundle payload_hash)) \<sigma>) (\<lambda>_ \<sigma>. Ok bundle \<sigma>)
       in case acquired of
            PrepareAcquired \<Rightarrow> write \<sigma>
          | Idempotent active \<Rightarrow>
              (case ap_prepared_payload active of
                 Some payload \<Rightarrow>
                   map_err map_payload_cache_error (deserialize_burn_bundle (libs_of self) payload) \<sigma>
               | None \<Rightarrow> write \<sigma>)
          | ConflictOtherTransfer _ \<Rightarrow> Err Svc_ActivePrepareExists \<sigma>)))))"

definition prepare_burn_wallet ::
  "('s, 'l) cctp_service \<Rightarrow> clock \<Rightarrow> uuid \<Rightarrow> (prepared_burn_bundle, 's, 'l) handler" where
  "prepare_burn_wallet self clk tid \<sigma> =
     (if \<not> enabled (config self) \<or> \<not> is_configured (crates_of self) (is_production self) (config self)
      then Err Svc_NotEnabled \<sigma>
      else if provider_killed self then Err Svc_ProviderKilled \<sigma>
      else
        andThen (get_transfer self tid \<sigma>) (\<lambda>t \<sigma>.
        andThen (enter_burn_prepared self clk t tid \<sigma>) (\<lambda>t \<sigma>.
          reserve_burn_payload self (after 4 clk) t tid \<sigma>)))"

section \<open>Attestation\<close>

definition attestation_timed_out :: "('s, 'l) cctp_service \<Rightarrow> instant \<Rightarrow> cctp_transfer \<Rightarrow> bool" where
  "attestation_timed_out self now t \<longleftrightarrow>
     now > updated_at t + seconds (as_i64 (poll_timeout_secs (config self)))"

definition fail_attestation_timeout ::
  "('s, 'l) cctp_service \<Rightarrow> clock \<Rightarrow> cctp_transfer \<Rightarrow> (cctp_transfer, 's, 'l) handler" where
  "fail_attestation_timeout self clk t \<sigma> =
     andThen (on_store (ts_transition (store self) clk (transfer_id t) (version t) AttestationFailed
                (default_patch\<lparr>p_last_provider_error := Some ''attestation poll timeout'',
                               p_last_provider_code := Some ''poll_timeout''\<rparr>)) \<sigma>) (\<lambda>updated \<sigma>.
     andThen (release_transfer_prepare_locks self t \<sigma>) (\<lambda>_ \<sigma>. Ok updated \<sigma>))"

definition validate_and_mark_attestation_ready ::
  "('s, 'l) cctp_service \<Rightarrow> clock \<Rightarrow> cctp_transfer \<Rightarrow> iris_message \<Rightarrow> (cctp_transfer, 's, 'l) handler" where
  "validate_and_mark_attestation_ready self clk t msg \<sigma> =
     andThen (ensure_attestation_verifier_ready self \<sigma>) (\<lambda>_ \<sigma>.
       if im_status msg \<noteq> IrisComplete
       then Err (Svc_InvalidMessage ''iris status is not complete'') \<sigma>
       else
         ok_or (source_tx_hash t) Svc_InvalidState \<sigma> (\<lambda>persisted.
         ok_or (im_source_tx_hash msg) Svc_IrisTxHashMismatch \<sigma> (\<lambda>iris_hash.
           if \<not> tx_hashes_equal persisted iris_hash then Err Svc_IrisTxHashMismatch \<sigma>
           else
             ok_or (im_attestation_hex msg) Svc_MissingAttestation \<sigma> (\<lambda>attestation_hex.
               if attestation_hex = [] \<or> to_ascii_lowercase attestation_hex = ''pending''
               then Err Svc_MissingAttestation \<sigma>
               else
                 andThen (map_err (\<lambda>_. Svc_InvalidMessage ''corridor expectations'')
                            (build_corridor_expectations (crates_of self) t (config self)) \<sigma>) (\<lambda>e \<sigma>.
                 andThen (map_err (\<lambda>_. Svc_InvalidMessage ''corridor message'')
                            (validate_message_for_corridor (crates_of self) (im_message_hex msg) e) \<sigma>) (\<lambda>_ \<sigma>.
                 andThen (map_err (\<lambda>_. Svc_InvalidMessage ''message hex'')
                            (decode_hex_message (crates_of self) (im_message_hex msg)) \<sigma>) (\<lambda>raw \<sigma>.
                   if \<not> check_byte_len raw MAX_RAW_MESSAGE_BYTES
                   then Err (Svc_InvalidMessage ''raw message exceeds bound'') \<sigma>
                   else
                     andThen (map_err (\<lambda>_. Svc_InvalidMessage ''attestation hex'')
                                (decode_hex_message (crates_of self) attestation_hex) \<sigma>) (\<lambda>att \<sigma>.
                       if \<not> check_byte_len att MAX_ATTESTATION_BYTES
                       then Err (Svc_InvalidMessage ''attestation exceeds bound'') \<sigma>
                       else
                         andThen (map_err Svc_Attestation
                                    (verify_attestation (runtime self) raw att) \<sigma>) (\<lambda>_ \<sigma>.
                           if im_event_nonce msg = []
                           then Err (Svc_InvalidMessage ''iris event nonce empty'') \<sigma>
                           else
                             on_store (ts_transition (store self) clk (transfer_id t) (version t) AttestationReady
                               (default_patch\<lparr>p_raw_message := Some raw, p_attestation := Some att,
                                              p_message_nonce := Some (im_event_nonce msg)\<rparr>)) \<sigma>)))))))))"

section \<open>Minting\<close>

definition record_mint_reconciliation_hint ::
  "('s, 'l) cctp_service \<Rightarrow> clock \<Rightarrow> cctp_transfer \<Rightarrow> (cctp_transfer, 's, 'l) handler" where
  "record_mint_reconciliation_hint self clk t \<sigma> =
     (if last_provider_code t = Some ''mint_reconciliation_nonce'' then Ok t \<sigma>
      else
        on_store (ts_transition (store self) clk (transfer_id t) (version t) (status t)
          (default_patch\<lparr>p_last_provider_error :=
               Some ''nonce consumed on-chain without full mint delivery evidence; remains MintSubmitted'',
             p_last_provider_code := Some ''mint_reconciliation_nonce''\<rparr>)) \<sigma>)"

definition mint_retryable_patch :: "string \<Rightarrow> transfer_patch" where
  "mint_retryable_patch reason =
     default_patch\<lparr>p_last_provider_error := Some reason, p_last_provider_code := Some ''mint_retryable''\<rparr>"

text \<open>
  What both callers do with the outcome of the completion check. \<open>t\<close> is the transfer
  whose locks are released, \<open>submitted\<close> the row that is updated under \<open>tid\<close>.
\<close>

definition settle_mint_completion ::
  "('s, 'l) cctp_service \<Rightarrow> clock \<Rightarrow> uuid \<Rightarrow> cctp_transfer \<Rightarrow> cctp_transfer \<Rightarrow> mint_verify_outcome \<Rightarrow>
     (cctp_transfer, 's, 'l) handler" where
  "settle_mint_completion self clk tid t submitted completion \<sigma> =
     (case completion of
        MintSucceeded \<Rightarrow>
          andThen (on_store (ts_record_mint_completed (store self) clk (transfer_id submitted)
                               (version submitted)) \<sigma>) (\<lambda>completed \<sigma>.
          andThen (release_transfer_prepare_locks self t \<sigma>) (\<lambda>_ \<sigma>. Ok completed \<sigma>))
      | MintPending \<Rightarrow> Ok submitted \<sigma>
      | ReconciliationNonceConsumed \<Rightarrow> record_mint_reconciliation_hint self clk submitted \<sigma>
      | MintFailed reason \<Rightarrow>
          andThen (on_store (ts_transition (store self) clk tid (version submitted)
                               MintFailedRetryable (mint_retryable_patch reason)) \<sigma>) (\<lambda>retryable \<sigma>.
          andThen (release_transfer_prepare_locks self t \<sigma>) (\<lambda>_ \<sigma>. Ok retryable \<sigma>)))"

definition verify_mint_completion ::
  "('s, 'l) cctp_service \<Rightarrow> cctp_transfer \<Rightarrow> string \<Rightarrow> bytes \<Rightarrow> string \<Rightarrow>
     (mint_verify_outcome, verifier_error) pure" where
  "verify_mint_completion self t tx_hash msg nonce =
     (case direction t of
        StellarToEvm \<Rightarrow> evm_verify_mint_completion (runtime self) tx_hash msg nonce (recipient t) (finality t)
      | EvmToStellar \<Rightarrow>
          stellar_verify_mint_completion (runtime self) tx_hash msg nonce (recipient t) (finality t))"

definition poll_mint_completion ::
  "('s, 'l) cctp_service \<Rightarrow> clock \<Rightarrow> cctp_transfer \<Rightarrow> (cctp_transfer, 's, 'l) handler" where
  "poll_mint_completion self clk t \<sigma> =
     ok_or (destination_tx_hash t) Svc_InvalidState \<sigma> (\<lambda>tx_hash.
     ok_or (raw_message t) Svc_InvalidState \<sigma> (\<lambda>msg.
     ok_or (message_nonce t) Svc_InvalidState \<sigma> (\<lambda>nonce.
       andThen (map_err Svc_Verifier (verify_mint_completion self t tx_hash msg nonce) \<sigma>) (\<lambda>completion \<sigma>.
         settle_mint_completion self clk (transfer_id t) t t completion \<sigma>))))"

definition poll_one_transfer ::
  "('s, 'l) cctp_service \<Rightarrow> clock \<Rightarrow> uuid \<Rightarrow> (cctp_transfer, 's, 'l) handler" where
  "poll_one_transfer self clk tid \<sigma> =
     andThen (get_transfer self tid \<sigma>) (\<lambda>t \<sigma>.
       if status t = MintSubmitted then poll_mint_completion self clk t \<sigma>
       else if status t \<noteq> AwaitingAttestation then Ok t \<sigma>
       else if attestation_timed_out self (clk 0) t then fail_attestation_timeout self (after 1 clk) t \<sigma>
       else
         let source_domain = (case direction t of
                                StellarToEvm \<Rightarrow> STELLAR_TESTNET_DOMAIN | EvmToStellar \<Rightarrow> SEPOLIA_DOMAIN)
         in ok_or (source_tx_hash t) Svc_InvalidState \<sigma> (\<lambda>tx_hash.
              andThen (map_err (\<lambda>e. Svc_Iris (iris_error_string e))
                         (poll_messages_by_tx (iris self) source_domain tx_hash) \<sigma>) (\<lambda>polled \<sigma>.
                case polled of
                  PollPending \<Rightarrow> Ok t \<sigma>
                | PollNotFound \<Rightarrow> Ok t \<sigma>
                | PollRateLimited retry_after_secs \<Rightarrow>
                    andThen (on_store_ignored (ts_transition (store self) (after 1 clk) tid (version t)
                               AwaitingAttestation
                               (default_patch\<lparr>p_last_provider_error :=
                                    Some (''rate limited; retry after '' @ show_nat retry_after_secs @ ''s''),
                                  p_last_provider_code := Some ''429''\<rparr>)) \<sigma>) (\<lambda>_ \<sigma>. Ok t \<sigma>)
                | PollComplete msg \<Rightarrow> validate_and_mark_attestation_ready self (after 1 clk) t msg \<sigma>)))"

definition poll_one_transfer_with_lease ::
  "('s, 'l) cctp_service \<Rightarrow> clock \<Rightarrow> uuid \<Rightarrow> i64 \<Rightarrow> i64 \<Rightarrow> (cctp_transfer, 's, 'l) handler" where
  "poll_one_transfer_with_lease self clk tid lease_secs min_interval_secs \<sigma> =
     andThen (on_store (ts_try_acquire_poll_lease (store self) clk tid lease_secs min_interval_secs) \<sigma>)
       (\<lambda>found \<sigma>.
         case found of
           None \<Rightarrow> Err Svc_NotFound \<sigma>
         | Some (t, leased) \<Rightarrow>
             if leased = Skipped then Ok t \<sigma> else poll_one_transfer self (after 1 clk) tid \<sigma>)"

text \<open>\<open>lease_owner\<close> is the hash of the fresh nonce the source draws.\<close>

definition reattest_with_claim ::
  "('s, 'l) cctp_service \<Rightarrow> clock \<Rightarrow> string \<Rightarrow> uuid \<Rightarrow> u32 \<Rightarrow> i64 \<Rightarrow> i64 \<Rightarrow> (cctp_transfer, 's, 'l) handler" where
  "reattest_with_claim self clk lease_owner tid max_attempts cooldown_secs lease_secs \<sigma> =
     andThen (on_store (ts_claim_reattest_lease (store self) clk tid lease_owner lease_secs max_attempts) \<sigma>)
       (\<lambda>found \<sigma>.
         case found of
           None \<Rightarrow> Err Svc_NotFound \<sigma>
         | Some (t, claim) \<Rightarrow>
             if claim \<noteq> Claimed then Err Svc_InvalidState \<sigma>
             else
               let fail = \<lambda>code detail. on_store_ignored
                     (ts_finalize_reattest_failure (store self) (after 1 clk) tid lease_owner code detail
                        cooldown_secs);
                   settle = \<lambda>iris_result \<sigma>.
                     (case iris_result of
                        Ok _ _ \<Rightarrow>
                          andThen (on_store (ts_finalize_reattest_success (store self) (after 1 clk) tid
                                               lease_owner) \<sigma>) (\<lambda>found \<sigma>.
                            ok_or found Svc_InvalidState \<sigma> (\<lambda>updated. Ok updated \<sigma>))
                      | Err e _ \<Rightarrow>
                          let detail = iris_error_string e;
                              redacted = (if length detail \<le> 120 \<and> \<not> contains_str ''http'' detail
                                          then detail else ''Circle attestation reattest failed'')
                          in andThen (fail ''iris_reattest_failed'' redacted \<sigma>)
                               (\<lambda>_ \<sigma>. Err (Svc_Iris redacted) \<sigma>)
                      | Panic \<Rightarrow> Panic)
               in case message_nonce t of
                    Some nonce \<Rightarrow> settle (iris_reattest (iris self) nonce) \<sigma>
                  | None \<Rightarrow>
                      if source_tx_hash t \<noteq> None then settle (Ok () ()) \<sigma>
                      else
                        andThen (fail ''invalid_state'' ''reattest requires message nonce or source tx hash'' \<sigma>)
                          (\<lambda>_ \<sigma>. Err Svc_InvalidState \<sigma>))"

text \<open>Reserving the submitter where the mint is on Stellar, and recording the payload.\<close>

definition reserve_mint_payload ::
  "('s, 'l) cctp_service \<Rightarrow> clock \<Rightarrow> cctp_transfer \<Rightarrow> uuid \<Rightarrow> prepared_mint_bundle \<Rightarrow>
     (prepared_mint_bundle, 's, 'l) handler" where
  "reserve_mint_payload self clk t tid bundle \<sigma> =
     (let record_it = \<lambda>\<sigma>.
            andThen (on_store (ts_record_mint_prepared (store self) (after 6 clk) tid (version t)
                       (mb_payload_hash bundle)
                       (unwrap_or (from_timestamp (libs_of self) (mb_expires_at bundle)) (clk 5))
                       (mint_submitter t)) \<sigma>) (\<lambda>_ \<sigma>. Ok bundle \<sigma>)
      in if direction t = EvmToStellar
         then
           ok_or (mint_submitter t) Svc_InvalidState \<sigma> (\<lambda>submitter.
           andThen (map_err map_payload_cache_error
                      (serialize_mint_bundle (libs_of self) bundle) \<sigma>) (\<lambda>prepared_payload \<sigma>.
           andThen (on_lock (ls_try_acquire (prepare_lock self) (after 2 clk)
                      \<lparr>ap_source_account = submitter, ap_transfer_id = tid,
                       ap_kind = KindMint, ap_payload_hash = mb_payload_hash bundle,
                       ap_prepared_payload = Some prepared_payload,
                       ap_expires_at =
                         unwrap_or (from_timestamp (libs_of self) (mb_expires_at bundle)) (clk 0),
                       ap_updated_at = clk 1\<rparr>) \<sigma>) (\<lambda>acquired \<sigma>.
             case acquired of
               PrepareAcquired \<Rightarrow> record_it \<sigma>
             | Idempotent active \<Rightarrow>
                 (case ap_prepared_payload active of
                    Some payload \<Rightarrow>
                      map_err map_payload_cache_error (deserialize_mint_bundle (libs_of self) payload) \<sigma>
                  | None \<Rightarrow> record_it \<sigma>)
             | ConflictOtherTransfer _ \<Rightarrow> Err Svc_ActivePrepareExists \<sigma>)))
         else record_it \<sigma>)"

definition prepare_mint ::
  "('s, 'l) cctp_service \<Rightarrow> clock \<Rightarrow> uuid \<Rightarrow> (prepared_mint_bundle, 's, 'l) handler" where
  "prepare_mint self clk tid \<sigma> =
     (if \<not> enabled (config self) \<or> \<not> is_configured (crates_of self) (is_production self) (config self)
      then Err Svc_NotEnabled \<sigma>
      else
        andThen (get_transfer self tid \<sigma>) (\<lambda>t \<sigma>.
          if status t \<notin> set [AttestationReady, MintPrepared, MintFailedRetryable] then Err Svc_InvalidState \<sigma>
          else
            andThen (ensure_quote_not_expired (clk 0) t \<sigma>) (\<lambda>_ \<sigma>.
            andThen (if direction t = EvmToStellar
                     then ok_or (mint_submitter t) Svc_InvalidState \<sigma> (\<lambda>submitter.
                            active_mint_bundle_for_transfer self (after 1 clk) tid submitter \<sigma>)
                     else Ok None \<sigma>) (\<lambda>cached \<sigma>.
              case cached of
                Some bundle \<Rightarrow> Ok bundle \<sigma>
              | None \<Rightarrow>
                  if status t = MintPrepared then Err Svc_InvalidState \<sigma>
                  else
                    andThen (map_err Svc_Builder
                               (case direction t of
                                  StellarToEvm \<Rightarrow> evm_prepare_mint (runtime self) t (config self)
                                | EvmToStellar \<Rightarrow> stellar_prepare_mint (runtime self) t (config self)) \<sigma>) (\<lambda>bundle \<sigma>.
                      if mb_trustline_required bundle \<or> mb_step bundle = StepTrustline then Ok bundle \<sigma>
                      else reserve_mint_payload self (after 3 clk) t tid bundle \<sigma>)))))"

text \<open>A verified submission: recorded once, then checked for completion.\<close>

definition accept_mint_submission ::
  "('s, 'l) cctp_service \<Rightarrow> clock \<Rightarrow> cctp_transfer \<Rightarrow> uuid \<Rightarrow> string \<Rightarrow> bytes \<Rightarrow> string \<Rightarrow> (cctp_transfer, 's, 'l) handler" where
  "accept_mint_submission self clk t tid tx_hash msg nonce \<sigma> =
     (case destination_tx_hash t of
        Some existing \<Rightarrow>
          if existing \<noteq> tx_hash
          then Err (Svc_Verifier (Ver_Failed ''conflicting destination tx hash'')) \<sigma>
          else Ok t \<sigma>
      | None \<Rightarrow>
          andThen (on_store (ts_record_mint_submission (store self) clk tid (version t) tx_hash) \<sigma>) (\<lambda>submitted \<sigma>.
          andThen (map_err Svc_Verifier (verify_mint_completion self t tx_hash msg nonce) \<sigma>) (\<lambda>completion \<sigma>.
            settle_mint_completion self (after 2 clk) tid t submitted completion \<sigma>)))"

definition record_mint_submission ::
  "('s, 'l) cctp_service \<Rightarrow> clock \<Rightarrow> uuid \<Rightarrow> string \<Rightarrow> (cctp_transfer, 's, 'l) handler" where
  "record_mint_submission self clk tid tx_hash \<sigma> =
     andThen (get_transfer self tid \<sigma>) (\<lambda>t \<sigma>.
       if status t \<noteq> MintPrepared then Err Svc_InvalidState \<sigma>
       else
         andThen (ensure_mint_payload_valid (clk 0) t \<sigma>) (\<lambda>_ \<sigma>.
         andThen (ensure_mint_verifier_ready self (direction t) \<sigma>) (\<lambda>_ \<sigma>.
         ok_or (mint_payload_hash t) Svc_InvalidState \<sigma> (\<lambda>expected_hash.
         ok_or (raw_message t) Svc_InvalidState \<sigma> (\<lambda>msg.
         ok_or (attestation t) Svc_InvalidState \<sigma> (\<lambda>att.
         ok_or (message_nonce t) Svc_InvalidState \<sigma> (\<lambda>nonce.
         andThen (map_err Svc_Verifier
                    (case direction t of
                       StellarToEvm \<Rightarrow>
                         evm_verify_mint_submission (runtime self) tx_hash msg att nonce expected_hash
                     | EvmToStellar \<Rightarrow>
                         stellar_verify_mint_submission (runtime self) tx_hash msg att nonce expected_hash
                           (mint_submitter t)) \<sigma>) (\<lambda>facts \<sigma>.
           if mf_payload_hash facts \<noteq> expected_hash then Err Svc_MintPayloadHashMismatch \<sigma>
           else
             (case mf_outcome facts of
                MintFailed reason \<Rightarrow>
                  andThen (release_transfer_prepare_locks self t \<sigma>) (\<lambda>_ \<sigma>.
                    on_store (ts_transition (store self) (after 1 clk) tid (version t) MintFailedRetryable
                      (mint_retryable_patch reason)) \<sigma>)
              | _ \<Rightarrow>
                  if \<not> submission_ok facts
                  then Err (Svc_Verifier (Ver_Failed ''mint submission mismatch'')) \<sigma>
                  else accept_mint_submission self (after 1 clk) t tid tx_hash msg nonce \<sigma>)))))))))"

section \<open>Cancellation and ticks\<close>

definition cancel :: "('s, 'l) cctp_service \<Rightarrow> clock \<Rightarrow> uuid \<Rightarrow> (cctp_transfer, 's, 'l) handler" where
  "cancel self clk tid \<sigma> =
     andThen (get_transfer self tid \<sigma>) (\<lambda>t \<sigma>.
       if \<not> can_cancel (status t) then Err Svc_InvalidState \<sigma>
       else
         andThen (on_store (ts_transition (store self) clk tid (version t) Cancelled default_patch) \<sigma>) (\<lambda>updated \<sigma>.
         andThen (release_transfer_prepare_locks self t \<sigma>) (\<lambda>_ \<sigma>. Ok updated \<sigma>)))"

definition tick_transfer :: "('s, 'l) cctp_service \<Rightarrow> clock \<Rightarrow> uuid \<Rightarrow> (unit, 's, 'l) handler" where
  "tick_transfer self clk tid \<sigma> = andThen (poll_one_transfer self clk tid \<sigma>) (\<lambda>_ \<sigma>. Ok () \<sigma>)"

definition REATTEST_MAX_ATTEMPTS :: u32 where "REATTEST_MAX_ATTEMPTS = 5"
definition REATTEST_COOLDOWN_SECS :: i64 where "REATTEST_COOLDOWN_SECS = 60"
definition REATTEST_LEASE_SECS :: i64 where "REATTEST_LEASE_SECS = 30"
definition POLL_LEASE_SECS :: i64 where "POLL_LEASE_SECS = 15"

definition reattest ::
  "('s, 'l) cctp_service \<Rightarrow> clock \<Rightarrow> string \<Rightarrow> uuid \<Rightarrow> (cctp_transfer, 's, 'l) handler" where
  "reattest self clk lease_owner tid =
     reattest_with_claim self clk lease_owner tid REATTEST_MAX_ATTEMPTS REATTEST_COOLDOWN_SECS
       REATTEST_LEASE_SECS"

end
