(* ===== verification/Cctp_Saga.thy ===== *)
theory Cctp_Saga
  imports Cctp_Service
begin

text \<open>
  The protocol the bridge service promises, as a step relation on the sagas of the
  stored transfers, and the proof that every handler refines it, for every store that
  obeys \<open>transfer_store_laws\<close>.

  What the verifiers report is tied to the chains by the record \<open>chain\<close>: which burns
  happened, which messages are attested, which mints were delivered.
\<close>

section \<open>The chains\<close>

record chain =
  burned :: "string \<Rightarrow> verified_burn_facts \<Rightarrow> bool"
  attested :: "bytes \<Rightarrow> bytes \<Rightarrow> bool"
  minted :: "string \<Rightarrow> bytes \<Rightarrow> string \<Rightarrow> string \<Rightarrow> bool"

text \<open>A verifier reports only what is so.\<close>

definition truthful :: "chain \<Rightarrow> cctp_runtime \<Rightarrow> bool" where
  "truthful ch rt \<longleftrightarrow>
     (\<forall>h f. stellar_verify_burn rt h = Ok f () \<longrightarrow> burned ch h f) \<and>
     (\<forall>h f. evm_verify_burn rt h = Ok f () \<longrightarrow> burned ch h f) \<and>
     (\<forall>m a. verify_attestation rt m a = Ok () () \<longrightarrow> attested ch m a) \<and>
     (\<forall>tx m n r f. evm_verify_mint_completion rt tx m n r f = Ok MintSucceeded () \<longrightarrow> minted ch tx m n r) \<and>
     (\<forall>tx m n r f. stellar_verify_mint_completion rt tx m n r f = Ok MintSucceeded () \<longrightarrow> minted ch tx m n r)"

section \<open>The protocol\<close>

text \<open>
  What a step of the protocol may depend on: the deployment (crates, configuration),
  the chains, the clock readings of the call, and whether the wait for an attestation
  may be given up in it.
\<close>

record protocol =
  pr_crates :: crates
  pr_config :: cctp_config
  pr_chain :: chain
  pr_clock :: clock
  pr_timeouts :: bool

text \<open>The terms of the saga fix the burn and the message the bridge accepts for it.\<close>

definition has_terms :: "cctp_transfer \<Rightarrow> saga \<Rightarrow> bool" where
  "has_terms t g \<longleftrightarrow>
     direction t = sg_direction g \<and> sender t = sg_sender g \<and> recipient t = sg_recipient g \<and>
     amount t = sg_amount g \<and> finality t = sg_finality g"

definition burn_matches :: "protocol \<Rightarrow> saga \<Rightarrow> string \<Rightarrow> bool" where
  "burn_matches \<pi> g h \<longleftrightarrow>
     (\<exists>t expected facts. has_terms t g \<and>
        build_expected_burn_facts (pr_crates \<pi>) t (pr_config \<pi>) h = Ok expected () \<and>
        facts_match expected facts \<and> burned (pr_chain \<pi>) h facts)"

definition message_matches :: "protocol \<Rightarrow> saga \<Rightarrow> bytes \<Rightarrow> bool" where
  "message_matches \<pi> g raw \<longleftrightarrow>
     (\<exists>t e m. has_terms t g \<and> build_corridor_expectations (pr_crates \<pi>) t (pr_config \<pi>) = Ok e () \<and>
        length raw \<le> MAX_RAW_MESSAGE_BYTES \<and> parse_cctp_v2_message raw = Ok m () \<and> corridor_bound e m)"

definition fresh_saga :: "saga \<Rightarrow> bool" where
  "fresh_saga g \<longleftrightarrow>
     sg_status g = Created \<and> sg_source_tx g = None \<and> sg_destination_tx g = None \<and>
     sg_nonce g = None \<and> sg_raw_message g = None \<and> sg_attestation g = None \<and> sg_mint_payload g = None"

text \<open>Some reading of the clock is not after the quote's expiry.\<close>

definition in_time :: "protocol \<Rightarrow> saga \<Rightarrow> bool" where
  "in_time \<pi> g \<longleftrightarrow> (\<exists>i. pr_clock \<pi> i \<le> sg_quote_expires_at g)"

type_synonym saga_map = "uuid \<Rightarrow> saga option"

inductive saga_step :: "protocol \<Rightarrow> saga_map \<Rightarrow> saga_map \<Rightarrow> bool" for \<pi> where
  quote: "G tid = None \<Longrightarrow> fresh_saga g \<Longrightarrow> saga_step \<pi> G (G(tid \<mapsto> g))"
| prepare: "G tid = Some g \<Longrightarrow> sg_status g = Created \<Longrightarrow> in_time \<pi> g \<Longrightarrow>
    saga_step \<pi> G (G(tid \<mapsto> g\<lparr>sg_status := BurnPrepared\<rparr>))"
| cancel: "G tid = Some g \<Longrightarrow> can_cancel (sg_status g) \<Longrightarrow>
    saga_step \<pi> G (G(tid \<mapsto> g\<lparr>sg_status := Cancelled\<rparr>))"
| burn: "G tid = Some g \<Longrightarrow> sg_status g = BurnPrepared \<Longrightarrow> in_time \<pi> g \<Longrightarrow> burn_matches \<pi> g h \<Longrightarrow>
    saga_step \<pi> G (G(tid \<mapsto> g\<lparr>sg_status := AwaitingAttestation, sg_source_tx := Some h\<rparr>))"
| timeout: "G tid = Some g \<Longrightarrow> sg_status g = AwaitingAttestation \<Longrightarrow> pr_timeouts \<pi> \<Longrightarrow>
    saga_step \<pi> G (G(tid \<mapsto> g\<lparr>sg_status := AttestationFailed\<rparr>))"
| reattest: "G tid = Some g \<Longrightarrow> sg_status g = AttestationFailed \<Longrightarrow>
    saga_step \<pi> G (G(tid \<mapsto> g\<lparr>sg_status := AwaitingAttestation\<rparr>))"
| attest: "G tid = Some g \<Longrightarrow> sg_status g = AwaitingAttestation \<Longrightarrow> message_matches \<pi> g raw \<Longrightarrow>
    attested (pr_chain \<pi>) raw att \<Longrightarrow> nonce \<noteq> [] \<Longrightarrow>
    saga_step \<pi> G (G(tid \<mapsto> g\<lparr>sg_status := AttestationReady, sg_nonce := Some nonce,
      sg_raw_message := Some raw, sg_attestation := Some att\<rparr>))"
| prepare_mint: "G tid = Some g \<Longrightarrow> sg_status g = AttestationReady \<or> sg_status g = MintFailedRetryable \<Longrightarrow>
    in_time \<pi> g \<Longrightarrow>
    saga_step \<pi> G (G(tid \<mapsto> g\<lparr>sg_status := MintPrepared, sg_mint_payload := Some h\<rparr>))"
| submit_mint: "G tid = Some g \<Longrightarrow> sg_status g = MintPrepared \<Longrightarrow> sg_destination_tx g = None \<Longrightarrow>
    saga_step \<pi> G (G(tid \<mapsto> g\<lparr>sg_status := MintSubmitted, sg_destination_tx := Some h\<rparr>))"
| fail_mint: "G tid = Some g \<Longrightarrow> sg_status g = MintPrepared \<or> sg_status g = MintSubmitted \<Longrightarrow>
    saga_step \<pi> G (G(tid \<mapsto> g\<lparr>sg_status := MintFailedRetryable\<rparr>))"
| complete: "G tid = Some g \<Longrightarrow> sg_status g = MintSubmitted \<Longrightarrow>
    sg_destination_tx g = Some tx \<Longrightarrow> sg_raw_message g = Some m \<Longrightarrow> sg_nonce g = Some n \<Longrightarrow>
    minted (pr_chain \<pi>) tx m n (sg_recipient g) \<Longrightarrow>
    saga_step \<pi> G (G(tid \<mapsto> g\<lparr>sg_status := Completed\<rparr>))"

section \<open>Refinement\<close>

text \<open>The service runs on the store \<open>S\<close> in the deployment, and its verifiers are truthful.\<close>

definition service_for :: "'s transfer_store \<Rightarrow> protocol \<Rightarrow> ('s, 'l) cctp_service \<Rightarrow> bool" where
  "service_for S \<pi> self \<longleftrightarrow>
     store self = S \<and> crates_of self = pr_crates \<pi> \<and> config self = pr_config \<pi> \<and>
     truthful (pr_chain \<pi>) (runtime self)"

definition reads :: "protocol \<Rightarrow> clock \<Rightarrow> bool" where
  "reads \<pi> clk \<longleftrightarrow> (\<forall>i. \<exists>j. clk i = pr_clock \<pi> j)"

lemma service_for_simps:
  assumes "service_for S \<pi> self"
  shows "store self = S" "crates_of self = pr_crates \<pi>" "config self = pr_config \<pi>"
  using assms by (simp_all add: service_for_def)

lemma reads_after: "reads \<pi> clk \<Longrightarrow> reads \<pi> (after k clk)"
  by (simp add: reads_def after_def)

lemma in_timeI: "reads \<pi> clk \<Longrightarrow> clk i \<le> quote_expires_at t \<Longrightarrow> in_time \<pi> (saga_of t)"
  unfolding reads_def in_time_def by (metis saga_of_simps(7))

lemma has_terms_self: "has_terms t (saga_of t)"
  by (simp add: has_terms_def)

lemma wp_any: "(\<And>v s. P v s) \<Longrightarrow> (\<And>e s. Q e s) \<Longrightarrow> wp m P Q"
  by (cases m) (auto simp: wp_simps)

lemma build_quote_transfer_new:
  assumes "build_quote_transfer self clk r new_id token = Ok t ()"
  shows "\<exists>now fee amt. t = new_transfer self now r new_id token fee amt"
  using assms unfolding build_quote_transfer_def guard_Ok
  by (cases "r_finality r") (auto simp: Let_def guard_Ok split: cctp_direction.splits if_splits)

text \<open>Neither the guards nor the lock operations touch the transfers.\<close>

lemma wp_release:
  assumes "\<And>l. P () (\<sigma>\<lparr>lk := l\<rparr>)"
  shows "wp (release_transfer_prepare_locks self t \<sigma>) P Q"
  unfolding release_transfer_prepare_locks_def
  using assms
  by (auto simp: wp_simps intro!: wp_any) (use assms [of "lk \<sigma>"] in simp_all)

lemma wp_guards:
  "(now \<le> quote_expires_at t \<Longrightarrow> P () \<sigma>) \<Longrightarrow> (\<And>e. Q e \<sigma>) \<Longrightarrow> wp (ensure_quote_not_expired now t \<sigma>) P Q"
  "P () \<sigma> \<Longrightarrow> (\<And>e. Q e \<sigma>) \<Longrightarrow> wp (ensure_fee_not_expired now t \<sigma>) P Q"
  "P () \<sigma> \<Longrightarrow> (\<And>e. Q e \<sigma>) \<Longrightarrow> wp (ensure_mint_payload_valid now t \<sigma>) P Q"
  "P () \<sigma> \<Longrightarrow> (\<And>e. Q e \<sigma>) \<Longrightarrow> wp (ensure_burn_verifier_ready self d \<sigma>) P Q"
  "P () \<sigma> \<Longrightarrow> (\<And>e. Q e \<sigma>) \<Longrightarrow> wp (ensure_mint_verifier_ready self d \<sigma>) P Q"
  "P () \<sigma> \<Longrightarrow> (\<And>e. Q e \<sigma>) \<Longrightarrow> wp (ensure_attestation_verifier_ready self \<sigma>) P Q"
  "P' (sender t) \<sigma> \<Longrightarrow> (\<And>e. Q e \<sigma>) \<Longrightarrow> wp (burn_prepare_source t \<sigma>) P' Q"
  by (auto simp: wp_simps ensure_quote_not_expired_def ensure_fee_not_expired_def
      ensure_mint_payload_valid_def ensure_burn_verifier_ready_def ensure_mint_verifier_ready_def
      ensure_attestation_verifier_ready_def burn_prepare_source_def Let_def)

lemma wp_ls:
  "(\<And>v l. P v l) \<Longrightarrow> (\<And>e l. Q e l) \<Longrightarrow> wp (ls_try_acquire L clk r k) P Q"
  "(\<And>v l. P' v l) \<Longrightarrow> (\<And>e l. Q e l) \<Longrightarrow> wp (ls_get_for_transfer L clk tid k) P' Q"
  by (rule wp_any; blast)+

lemma wp_active_mint:
  assumes "\<And>r \<sigma>'. db \<sigma>' = db \<sigma> \<Longrightarrow> P r \<sigma>'" "\<And>e \<sigma>'. db \<sigma>' = db \<sigma> \<Longrightarrow> Q e \<sigma>'"
  shows "wp (active_mint_bundle_for_transfer self clk tid m \<sigma>) P Q"
  unfolding active_mint_bundle_for_transfer_def
  by (auto simp: wp_simps intro!: wp_ls assms)

context transfer_store_laws
begin

text \<open>From the rows of \<open>s\<close> the protocol leads to those of \<open>s'\<close>, and the store is still sound.\<close>

definition refines :: "protocol \<Rightarrow> 's \<Rightarrow> 's \<Rightarrow> bool" where
  "refines \<pi> s s' \<longleftrightarrow> ok s' \<and> (saga_step \<pi>)\<^sup>*\<^sup>* (sagas (rows s)) (sagas (rows s'))"

lemma refines_refl: "ok s \<Longrightarrow> refines \<pi> s s"
  by (simp add: refines_def)

lemma refines_same: "ok s' \<Longrightarrow> sagas (rows s') = sagas (rows s) \<Longrightarrow> refines \<pi> s s'"
  by (simp add: refines_def)

lemma refines_trans: "refines \<pi> a b \<Longrightarrow> refines \<pi> b c \<Longrightarrow> refines \<pi> a c"
  by (auto simp: refines_def)

lemma refines_ok: "refines \<pi> s s' \<Longrightarrow> ok s'"
  by (simp add: refines_def)

lemma sagas_row: "rows s tid = Some t \<Longrightarrow> sagas (rows s) tid = Some (saga_of t)"
  by (simp add: sagas_def)

lemma refines_move:
  assumes "ok s'" "moves rows tid s s' t t'"
    and "rows s tid = Some t \<Longrightarrow>
      (saga_step \<pi>)\<^sup>*\<^sup>* (sagas (rows s)) ((sagas (rows s))(tid \<mapsto> saga_of t'))"
  shows "refines \<pi> s s'"
  using assms by (simp add: refines_def moves_def sagas_upd)

text \<open>Preconditions of the store operations, in the form the handlers' proofs use.\<close>

lemma wp_get_transfer:
  assumes "store self = S"
    and "\<And>t. rows (db \<sigma>) tid = Some t \<Longrightarrow> P t \<sigma>" "\<And>e. Q e \<sigma>"
  shows "wp (get_transfer self tid \<sigma>) P Q"
  unfolding get_transfer_def assms(1) wp_simps
  by (rule wp_mono [OF get_law]) (use assms(2,3) in auto)

lemma wp_move:
  assumes "wp m (\<lambda>t' s'. ok s' \<and> (\<exists>t. moves rows tid s s' t t' \<and> A t t')) (\<lambda>_ s'. ok s' \<and> rows s' = rows s)"
    and step: "\<And>t t'. rows s tid = Some t \<Longrightarrow> A t t' \<Longrightarrow>
      (saga_step \<pi>)\<^sup>*\<^sup>* (sagas (rows s)) ((sagas (rows s))(tid \<mapsto> saga_of t'))"
    and P: "\<And>t t' s'. refines \<pi> s s' \<Longrightarrow> moves rows tid s s' t t' \<Longrightarrow> A t t' \<Longrightarrow> P t' s'"
    and Q: "\<And>e s'. refines \<pi> s s' \<Longrightarrow> Q e s'"
  shows "wp m P Q"
proof (rule wp_mono [OF assms(1)])
  fix t' s' assume "ok s' \<and> (\<exists>t. moves rows tid s s' t t' \<and> A t t')"
  then obtain t where t: "ok s'" "moves rows tid s s' t t'" "A t t'"
    by blast
  then have "refines \<pi> s s'"
    using step by (intro refines_move) auto
  then show "P t' s'"
    using t P by blast
qed (auto intro!: Q simp: refines_def)

lemma wp_transition:
  assumes "ok s" "patch_atomic p"
    and step: "\<And>t. rows s tid = Some t \<Longrightarrow> version t = v \<Longrightarrow> is_allowed_transition (status t) st \<Longrightarrow>
      (saga_step \<pi>)\<^sup>*\<^sup>* (sagas (rows s)) ((sagas (rows s))(tid \<mapsto> patch_saga st p (saga_of t)))"
    and "\<And>t t' s'. refines \<pi> s s' \<Longrightarrow> moves rows tid s s' t t' \<Longrightarrow>
      saga_of t' = patch_saga st p (saga_of t) \<Longrightarrow> P t' s'"
    and "\<And>e s'. refines \<pi> s s' \<Longrightarrow> Q e s'"
  shows "wp (ts_transition S clk tid v st p s) P Q"
  by (rule wp_move [OF transition_law [OF assms(1,2)], where \<pi> = \<pi>])
    (auto intro: assms(3-5))

text \<open>A patch that adds no evidence changes the status only.\<close>

definition evidence_free :: "transfer_patch \<Rightarrow> bool" where
  "evidence_free p \<longleftrightarrow> (\<forall>st g. patch_saga st p g = g\<lparr>sg_status := st\<rparr>)"

lemma evidence_freeI:
  assumes "p_source_tx_hash p = None" "p_destination_tx_hash p = None" "p_message_nonce p = None"
    "p_raw_message p = None" "p_attestation p = None" "p_mint_payload_hash p = None"
    "\<not> p_clear_mint_payload p"
  shows "evidence_free p" "patch_atomic p"
  using assms by (simp_all add: evidence_free_def patch_saga_def patch_atomic_def)

lemma move_status:
  assumes "rows s tid = Some t" "evidence_free p"
    and "status t = st \<or> saga_step \<pi> (sagas (rows s))
           ((sagas (rows s))(tid \<mapsto> (saga_of t)\<lparr>sg_status := st\<rparr>))"
  shows "(saga_step \<pi>)\<^sup>*\<^sup>* (sagas (rows s)) ((sagas (rows s))(tid \<mapsto> patch_saga st p (saga_of t)))"
proof -
  have "(sagas (rows s))(tid \<mapsto> (saga_of t)\<lparr>sg_status := st\<rparr>) = sagas (rows s)" if "status t = st"
    using that assms(1) by (auto simp: sagas_def saga_of_def fun_eq_iff)
  then show ?thesis
    using assms(2,3) by (auto simp: evidence_free_def)
qed

section \<open>Handlers before the burn\<close>

lemma cancel_refines:
  assumes svc: "service_for S \<pi> self" and ok: "ok (db \<sigma>)"
  shows "wp (cancel self clk tid \<sigma>) (\<lambda>_ \<sigma>'. refines \<pi> (db \<sigma>) (db \<sigma>'))
    (\<lambda>_ \<sigma>'. refines \<pi> (db \<sigma>) (db \<sigma>'))"
  unfolding cancel_def
  by (auto simp: wp_simps ok service_for_simps [OF svc] refines_refl evidence_freeI sagas_row
      intro!: wp_get_transfer wp_transition [where \<pi> = \<pi>] wp_release
        move_status saga_step.cancel [where g = "saga_of _"])

text \<open>Into \<open>burn_prepared\<close>, or a note on a row that is already there.\<close>

lemma wp_burn_prepared:
  assumes "ok s" "evidence_free p" "patch_atomic p"
    and "\<And>t. rows s tid = Some t \<Longrightarrow> status t = BurnPrepared \<or> in_time \<pi> (saga_of t)"
    and "\<And>t' s'. refines \<pi> s s' \<Longrightarrow> rows s' tid = Some t' \<Longrightarrow> status t' = BurnPrepared \<Longrightarrow> P t' s'"
    and "\<And>e s'. refines \<pi> s s' \<Longrightarrow> Q e s'"
  shows "wp (ts_transition S clk tid v BurnPrepared p s) P Q"
proof (rule wp_transition [where \<pi> = \<pi>, OF assms(1,3)])
  fix t assume t: "rows s tid = Some t" "is_allowed_transition (status t) BurnPrepared"
  then have "status t = BurnPrepared \<or> sg_status (saga_of t) = Created \<and> in_time \<pi> (saga_of t)"
    using assms(4) by (cases "status t") (auto simp: is_allowed_transition.simps)
  then show "(saga_step \<pi>)\<^sup>*\<^sup>* (sagas (rows s))
      ((sagas (rows s))(tid \<mapsto> patch_saga BurnPrepared p (saga_of t)))"
    using t(1) assms(2) by (blast intro: move_status saga_step.prepare sagas_row)
next
  fix t t' s' assume "refines \<pi> s s'" "moves rows tid s s' t t'"
    and "saga_of t' = patch_saga BurnPrepared p (saga_of t)"
  then show "P t' s'"
    using assms(2,5) saga_of_simps(1) [of t'] by (simp add: moves_def evidence_free_def)
qed (rule assms(6))

lemma prepare_burn_refines:
  assumes svc: "service_for S \<pi> self" and ok: "ok (db \<sigma>)"
    and rd: "reads \<pi> clk"
  shows "wp (prepare_burn self clk tid \<sigma>) (\<lambda>_ \<sigma>'. refines \<pi> (db \<sigma>) (db \<sigma>'))
    (\<lambda>_ \<sigma>'. refines \<pi> (db \<sigma>) (db \<sigma>'))"
  unfolding prepare_burn_def
  by (auto simp: wp_simps ok service_for_simps [OF svc] refines_refl evidence_freeI in_timeI [OF rd]
      intro!: wp_get_transfer wp_guards wp_burn_prepared [where \<pi> = \<pi>])

lemma quote_core_refines:
  assumes svc: "service_for S \<pi> self" and ok: "ok (db \<sigma>)"
  shows "wp (quote_core self clk new_id r token \<sigma>) (\<lambda>_ \<sigma>'. refines \<pi> (db \<sigma>) (db \<sigma>'))
    (\<lambda>_ \<sigma>'. refines \<pi> (db \<sigma>) (db \<sigma>'))"
proof -
  have "wp (ts_insert S t (db \<sigma>)) (\<lambda>_ s. refines \<pi> (db \<sigma>) s) (\<lambda>_ s. refines \<pi> (db \<sigma>) s)"
    if built: "build_quote_transfer self clk r new_id token = Ok t ()" for t
  proof -
    obtain now fee amt where t: "t = new_transfer self now r new_id token fee amt"
      using build_quote_transfer_new [OF built] by blast
    have fresh: "fresh_saga (saga_of t)" "source_tx_hash t = None" "message_nonce t = None"
      by (simp_all add: t new_transfer_def fresh_saga_def)
    show ?thesis
      by (rule wp_mono [OF insert_law [OF ok fresh(2,3)]])
        (auto simp: refines_def ok sagas_upd sagas_def intro!: r_into_rtranclp saga_step.quote fresh(1))
  qed
  then show ?thesis
    unfolding quote_core_def
    by (auto simp: wp_simps service_for_simps [OF svc] refines_refl ok)
qed

lemma enter_burn_prepared_refines:
  assumes svc: "service_for S \<pi> self" and ok: "ok (db \<sigma>)"
    and rd: "reads \<pi> clk" and t: "rows (db \<sigma>) tid = Some t"
  shows "wp (enter_burn_prepared self clk t tid \<sigma>)
    (\<lambda>t' \<sigma>'. refines \<pi> (db \<sigma>) (db \<sigma>') \<and> rows (db \<sigma>') tid = Some t' \<and> status t' = BurnPrepared)
    (\<lambda>_ \<sigma>'. refines \<pi> (db \<sigma>) (db \<sigma>'))"
  unfolding enter_burn_prepared_def
  by (auto simp: wp_simps ok t service_for_simps [OF svc] refines_refl evidence_freeI in_timeI [OF rd]
      intro!: wp_guards wp_burn_prepared [where \<pi> = \<pi>])

lemma burn_patch_facts: "evidence_free (burn_patch bundle h)" "patch_atomic (burn_patch bundle h)"
  by (rule evidence_freeI; simp add: burn_patch_def Let_def split: option.split)+

lemma reserve_burn_payload_refines:
  assumes svc: "service_for S \<pi> self" and ok: "ok (db \<sigma>)"
    and t: "rows (db \<sigma>) tid = Some t" "status t = BurnPrepared"
  shows "wp (reserve_burn_payload self clk t tid \<sigma>) (\<lambda>_ \<sigma>'. refines \<pi> (db \<sigma>) (db \<sigma>'))
    (\<lambda>_ \<sigma>'. refines \<pi> (db \<sigma>) (db \<sigma>'))"
  unfolding reserve_burn_payload_def
  using t
  by (auto simp: wp_simps ok service_for_simps [OF svc] refines_refl burn_patch_facts
      split: prepare_acquire_result.split
      intro!: wp_guards wp_ls wp_burn_prepared [where \<pi> = \<pi>])

text \<open>Two handlers in sequence.\<close>

lemma wp_then:
  assumes "wp m (\<lambda>v \<sigma>'. refines \<pi> s (db \<sigma>') \<and> R v \<sigma>') (\<lambda>_ \<sigma>'. refines \<pi> s (db \<sigma>'))"
    and "\<And>v \<sigma>'. ok (db \<sigma>') \<Longrightarrow> R v \<sigma>' \<Longrightarrow>
      wp (f v \<sigma>') (\<lambda>_ \<sigma>''. refines \<pi> (db \<sigma>') (db \<sigma>'')) (\<lambda>_ \<sigma>''. refines \<pi> (db \<sigma>') (db \<sigma>''))"
  shows "wp m (\<lambda>v \<sigma>'. wp (f v \<sigma>') (\<lambda>_ \<sigma>''. refines \<pi> s (db \<sigma>'')) (\<lambda>_ \<sigma>''. refines \<pi> s (db \<sigma>'')))
    (\<lambda>_ \<sigma>'. refines \<pi> s (db \<sigma>'))"
proof (rule wp_mono [OF assms(1)])
  fix v \<sigma>' assume "refines \<pi> s (db \<sigma>') \<and> R v \<sigma>'"
  then show "wp (f v \<sigma>') (\<lambda>_ \<sigma>''. refines \<pi> s (db \<sigma>'')) (\<lambda>_ \<sigma>''. refines \<pi> s (db \<sigma>''))"
    by (intro wp_mono [OF assms(2)]) (auto intro: refines_trans refines_ok)
qed

lemma prepare_burn_wallet_refines:
  assumes svc: "service_for S \<pi> self" and ok: "ok (db \<sigma>)"
    and rd: "reads \<pi> clk"
  shows "wp (prepare_burn_wallet self clk tid \<sigma>) (\<lambda>_ \<sigma>'. refines \<pi> (db \<sigma>) (db \<sigma>'))
    (\<lambda>_ \<sigma>'. refines \<pi> (db \<sigma>) (db \<sigma>'))"
  unfolding prepare_burn_wallet_def
  by (auto simp: wp_simps service_for_simps [OF svc] refines_refl ok
      intro!: wp_get_transfer wp_then [OF enter_burn_prepared_refines [OF svc ok rd]]
        reserve_burn_payload_refines [OF svc])

section \<open>The burn\<close>

lemma wp_burn:
  assumes "ok s" "rows s tid = Some t" "burn_matches \<pi> (saga_of t) h" "in_time \<pi> (saga_of t)"
    and "\<And>t' s'. refines \<pi> s s' \<Longrightarrow> P t' s'" "\<And>e s'. refines \<pi> s s' \<Longrightarrow> Q e s'"
  shows "wp (ts_record_verified_burn S clk tid v h s) P Q"
  by (rule wp_move [OF burn_law [OF assms(1)], where \<pi> = \<pi>])
    (use assms(2-4) in \<open>auto simp: sagas_row
       intro!: assms(5,6) r_into_rtranclp saga_step.burn [where g = "saga_of _"]\<close>)

lemma wp_approval:
  assumes "ok s"
    and "\<And>t' s'. refines \<pi> s s' \<Longrightarrow> P t' s'" "\<And>e s'. refines \<pi> s s' \<Longrightarrow> Q e s'"
  shows "wp (ts_record_approval_submission S clk tid v h i s) P Q"
  by (rule wp_mono [OF approval_law [OF assms(1)]])
    (use assms(1) in \<open>auto intro!: assms(2,3) simp: refines_same\<close>)

lemma record_burn_submission_refines:
  assumes svc: "service_for S \<pi> self" and ok: "ok (db \<sigma>)"
    and rd: "reads \<pi> clk"
  shows "wp (record_burn_submission self clk tid h \<sigma>) (\<lambda>_ \<sigma>'. refines \<pi> (db \<sigma>) (db \<sigma>'))
    (\<lambda>_ \<sigma>'. refines \<pi> (db \<sigma>) (db \<sigma>'))"
proof -
  have "burn_matches \<pi> (saga_of t) h"
    if "(case direction t of StellarToEvm \<Rightarrow> stellar_verify_burn (runtime self) h
         | EvmToStellar \<Rightarrow> evm_verify_burn (runtime self) h) = Ok facts ()"
      "build_expected_burn_facts (pr_crates \<pi>) t (pr_config \<pi>) h = Ok expected ()" "facts_match expected facts"
    for t facts expected
    using that svc has_terms_self [of t] unfolding burn_matches_def service_for_def truthful_def
    by (cases "direction t") fastforce+
  then show ?thesis
    unfolding record_burn_submission_def
    by (auto simp: wp_simps service_for_simps [OF svc] refines_refl ok in_timeI [OF rd]
        intro!: wp_get_transfer wp_guards wp_release wp_burn [where \<pi> = \<pi>])
qed

lemma record_approval_submission_refines:
  assumes svc: "service_for S \<pi> self" and ok: "ok (db \<sigma>)"
  shows "wp (record_approval_submission self clk tid h \<sigma>) (\<lambda>_ \<sigma>'. refines \<pi> (db \<sigma>) (db \<sigma>'))
    (\<lambda>_ \<sigma>'. refines \<pi> (db \<sigma>) (db \<sigma>'))"
  unfolding record_approval_submission_def
  by (auto simp: wp_simps service_for_simps [OF svc] refines_refl ok Let_def
      split: cctp_direction.split
      intro!: wp_get_transfer wp_guards wp_release wp_approval [where \<pi> = \<pi>])

lemma record_source_submission_refines:
  assumes svc: "service_for S \<pi> self" and ok: "ok (db \<sigma>)"
    and rd: "reads \<pi> clk"
  shows "wp (record_source_submission self clk tid h \<sigma>) (\<lambda>_ \<sigma>'. refines \<pi> (db \<sigma>) (db \<sigma>'))
    (\<lambda>_ \<sigma>'. refines \<pi> (db \<sigma>) (db \<sigma>'))"
proof -
  note burn = record_burn_submission_refines [OF svc ok rd, of tid h]
  have again: "wp (record_approval_submission self clk' tid h \<sigma>')
      (\<lambda>_ \<sigma>''. refines \<pi> (db \<sigma>) (db \<sigma>'')) (\<lambda>_ \<sigma>''. refines \<pi> (db \<sigma>) (db \<sigma>''))"
    if "refines \<pi> (db \<sigma>) (db \<sigma>')" for clk' \<sigma>'
    by (rule wp_mono [OF record_approval_submission_refines [OF svc refines_ok [OF that]]])
      (auto intro: refines_trans that)
  have "wp (case record_burn_submission self clk tid h \<sigma> of
        Err e \<sigma>' \<Rightarrow>
          (case e of
             Svc_Verifier (Ver_Failed msg) \<Rightarrow>
               if contains_str ''wrong function'' msg
               then record_approval_submission self (after 4 clk) tid h \<sigma>' else Err e \<sigma>'
           | _ \<Rightarrow> Err e \<sigma>')
      | other \<Rightarrow> other)
      (\<lambda>_ \<sigma>''. refines \<pi> (db \<sigma>) (db \<sigma>'')) (\<lambda>_ \<sigma>''. refines \<pi> (db \<sigma>) (db \<sigma>''))"
    using burn
    by (auto simp: wp_simps split: outcome.split cctp_service_error.split verifier_error.split
        intro!: again)
  then show ?thesis
    unfolding record_source_submission_def
    by (auto simp: wp_simps service_for_simps [OF svc] refines_refl ok
        split: cctp_direction.split stellar_source_submission_kind.split
        intro!: wp_get_transfer burn record_approval_submission_refines [OF svc ok])
qed

section \<open>Attestation and mint\<close>

lemma note_facts: "evidence_free (default_patch\<lparr>p_last_provider_error := a, p_last_provider_code := b\<rparr>)"
  "patch_atomic (default_patch\<lparr>p_last_provider_error := a, p_last_provider_code := b\<rparr>)"
  "evidence_free (mint_retryable_patch r)" "patch_atomic (mint_retryable_patch r)"
  by (rule evidence_freeI; simp add: mint_retryable_patch_def)+

lemma fail_attestation_timeout_refines:
  assumes svc: "service_for S \<pi> self" and ok: "ok (db \<sigma>)"
    and t: "rows (db \<sigma>) (transfer_id t) = Some t" "status t = AwaitingAttestation"
    and tmo: "pr_timeouts \<pi>"
  shows "wp (fail_attestation_timeout self clk t \<sigma>) (\<lambda>_ \<sigma>'. refines \<pi> (db \<sigma>) (db \<sigma>'))
    (\<lambda>_ \<sigma>'. refines \<pi> (db \<sigma>) (db \<sigma>'))"
  unfolding fail_attestation_timeout_def
  using t tmo
  by (auto simp: wp_simps service_for_simps [OF svc] refines_refl ok note_facts sagas_row
      intro!: wp_release wp_transition [where \<pi> = \<pi>]
        move_status saga_step.timeout [where g = "saga_of _"])

lemma validate_and_mark_refines:
  assumes svc: "service_for S \<pi> self" and ok: "ok (db \<sigma>)"
    and t: "rows (db \<sigma>) (transfer_id t) = Some t" "status t = AwaitingAttestation"
  shows "wp (validate_and_mark_attestation_ready self clk t msg \<sigma>)
    (\<lambda>_ \<sigma>'. refines \<pi> (db \<sigma>) (db \<sigma>')) (\<lambda>_ \<sigma>'. refines \<pi> (db \<sigma>) (db \<sigma>'))"
proof -
  have step: "(saga_step \<pi>)\<^sup>*\<^sup>* (sagas (rows (db \<sigma>)))
      ((sagas (rows (db \<sigma>)))(transfer_id t \<mapsto> patch_saga AttestationReady
        (default_patch\<lparr>p_raw_message := Some raw, p_attestation := Some att, p_message_nonce := Some n\<rparr>) (saga_of t)))"
    if "build_corridor_expectations (pr_crates \<pi>) t (pr_config \<pi>) = Ok e ()"
      "validate_message_for_corridor (pr_crates \<pi>) hex e = Ok m ()" "decode_hex_message (pr_crates \<pi>) hex = Ok raw ()"
      "verify_attestation (runtime self) raw att = Ok () ()" "n \<noteq> []" for e m hex raw att n
  proof -
    have "message_matches \<pi> (saga_of t) raw"
      using that(1-3) has_terms_self [of t] unfolding message_matches_def validate_accepts by auto
    moreover have "attested (pr_chain \<pi>) raw att"
      using that(4) svc by (simp add: service_for_def truthful_def)
    ultimately have "saga_step \<pi> (sagas (rows (db \<sigma>)))
      ((sagas (rows (db \<sigma>)))(transfer_id t \<mapsto> (saga_of t)\<lparr>sg_status := AttestationReady, sg_nonce := Some n,
        sg_raw_message := Some raw, sg_attestation := Some att\<rparr>))"
      using t that(5) by (intro saga_step.attest) (auto simp: sagas_row)
    moreover have "patch_saga AttestationReady
        (default_patch\<lparr>p_raw_message := Some raw, p_attestation := Some att, p_message_nonce := Some n\<rparr>)
        (saga_of t) =
      (saga_of t)\<lparr>sg_status := AttestationReady, sg_nonce := Some n,
        sg_raw_message := Some raw, sg_attestation := Some att\<rparr>"
      by (simp add: patch_saga_def saga_of_def)
    ultimately show ?thesis
      by (simp only: r_into_rtranclp)
  qed
  show ?thesis
    unfolding validate_and_mark_attestation_ready_def
    using t
    by (auto simp: wp_simps service_for_simps [OF svc] refines_refl ok patch_atomic_def
        intro!: wp_guards wp_transition [where \<pi> = \<pi>] step)
qed

text \<open>The completion check: the row is the submitted one.\<close>

lemma verify_mint_completion_true:
  assumes "service_for S \<pi> self" "verify_mint_completion self t tx m n = Ok MintSucceeded ()"
  shows "minted (pr_chain \<pi>) tx m n (recipient t)"
  using assms
  by (cases "direction t"; simp add: verify_mint_completion_def service_for_def truthful_def; blast)

lemma wp_mint_completed:
  assumes "ok s" "rows s tid = Some t" "status t = MintSubmitted"
    and "destination_tx_hash t = Some tx" "raw_message t = Some m" "message_nonce t = Some n"
    and "minted (pr_chain \<pi>) tx m n (recipient t)"
    and "\<And>t' s'. refines \<pi> s s' \<Longrightarrow> P t' s'" "\<And>e s'. refines \<pi> s s' \<Longrightarrow> Q e s'"
  shows "wp (ts_record_mint_completed S clk tid v s) P Q"
  by (rule wp_move [OF mint_completed_law [OF assms(1)], where \<pi> = \<pi>])
    (use assms(2-7) in \<open>auto simp: sagas_row
       intro!: assms(8,9) r_into_rtranclp saga_step.complete [where g = "saga_of _"]\<close>)

lemma settle_mint_completion_refines:
  assumes svc: "service_for S \<pi> self" and ok: "ok (db \<sigma>)"
    and row: "rows (db \<sigma>) tid = Some submitted" "status submitted = MintSubmitted"
    and ev: "destination_tx_hash submitted = Some tx" "raw_message submitted = Some m"
      "message_nonce submitted = Some n"
    and succ: "completion = MintSucceeded \<Longrightarrow> minted (pr_chain \<pi>) tx m n (recipient submitted)"
  shows "wp (settle_mint_completion self clk tid t submitted completion \<sigma>)
    (\<lambda>_ \<sigma>'. refines \<pi> (db \<sigma>) (db \<sigma>')) (\<lambda>_ \<sigma>'. refines \<pi> (db \<sigma>) (db \<sigma>'))"
proof -
  have id: "transfer_id submitted = tid"
    using keyed [OF ok row(1)] .
  show ?thesis
    unfolding settle_mint_completion_def record_mint_reconciliation_hint_def
    using row ev succ id
    by (auto simp: wp_simps service_for_simps [OF svc] refines_refl ok note_facts sagas_row
        split: mint_verify_outcome.split
        intro!: wp_release wp_mint_completed [where \<pi> = \<pi>]
          wp_transition [where \<pi> = \<pi>]
          move_status saga_step.fail_mint [where g = "saga_of _"])
qed

lemma poll_mint_completion_refines:
  assumes svc: "service_for S \<pi> self" and ok: "ok (db \<sigma>)"
    and t: "rows (db \<sigma>) (transfer_id t) = Some t" "status t = MintSubmitted"
  shows "wp (poll_mint_completion self clk t \<sigma>)
    (\<lambda>_ \<sigma>'. refines \<pi> (db \<sigma>) (db \<sigma>')) (\<lambda>_ \<sigma>'. refines \<pi> (db \<sigma>) (db \<sigma>'))"
  unfolding poll_mint_completion_def
  using t
  by (auto simp: wp_simps refines_refl ok
      intro!: settle_mint_completion_refines [OF svc ok] verify_mint_completion_true [OF svc])

lemma poll_one_transfer_refines:
  assumes svc: "service_for S \<pi> self" and ok: "ok (db \<sigma>)"
    and tmo: "\<And>t. rows (db \<sigma>) tid = Some t \<Longrightarrow> pr_timeouts \<pi> \<or> \<not> attestation_timed_out self (clk 0) t"
  shows "wp (poll_one_transfer self clk tid \<sigma>)
    (\<lambda>_ \<sigma>'. refines \<pi> (db \<sigma>) (db \<sigma>')) (\<lambda>_ \<sigma>'. refines \<pi> (db \<sigma>) (db \<sigma>'))"
proof -
  have id: "transfer_id t = tid" if "rows (db \<sigma>) tid = Some t" for t
    using keyed [OF ok that] .
  show ?thesis
    unfolding poll_one_transfer_def
    using tmo
    by (auto simp: wp_simps service_for_simps [OF svc] refines_refl ok note_facts Let_def id
        split: iris_poll_outcome.split
        intro!: wp_get_transfer poll_mint_completion_refines [OF svc ok]
          fail_attestation_timeout_refines [OF svc ok] validate_and_mark_refines [OF svc ok]
          wp_transition [where \<pi> = \<pi>] move_status)
qed

lemma poll_one_transfer_with_lease_refines:
  assumes svc: "service_for S \<pi> self" and ok: "ok (db \<sigma>)"
    and tmo: "pr_timeouts \<pi> \<or> clk 1 \<le> clk 0 + seconds (as_i64 (poll_timeout_secs (pr_config \<pi>)))"
  shows "wp (poll_one_transfer_with_lease self clk tid a b \<sigma>)
    (\<lambda>_ \<sigma>'. refines \<pi> (db \<sigma>) (db \<sigma>')) (\<lambda>_ \<sigma>'. refines \<pi> (db \<sigma>) (db \<sigma>'))"
proof -
  have poll: "wp (poll_one_transfer self (after (Suc 0) clk) tid (\<sigma>\<lparr>db := s\<rparr>))
      (\<lambda>_ \<sigma>'. refines \<pi> (db \<sigma>) (db \<sigma>')) (\<lambda>_ \<sigma>'. refines \<pi> (db \<sigma>) (db \<sigma>'))"
    if s: "ok s" "sagas (rows s) = sagas (rows (db \<sigma>))" "\<exists>t. rows s tid = Some t \<and> updated_at t = clk 0" for s
    by (rule wp_mono [OF poll_one_transfer_refines [OF svc]])
      (use s tmo in \<open>auto simp: attestation_timed_out_def after_def service_for_simps [OF svc]
         intro: refines_trans refines_same\<close>)
  have acquired: "(leased \<noteq> Skipped) = (leased = Acquired)" for leased
    by (cases leased) simp_all
  show ?thesis
    unfolding poll_one_transfer_with_lease_def wp_simps service_for_simps [OF svc]
    by (rule wp_mono [OF poll_law [OF ok]])
      (auto simp: wp_simps refines_refl refines_same ok acquired intro!: poll)
qed

lemma reattest_with_claim_refines:
  assumes svc: "service_for S \<pi> self" and ok: "ok (db \<sigma>)"
  shows "wp (reattest_with_claim self clk w tid n a b \<sigma>)
    (\<lambda>_ \<sigma>'. refines \<pi> (db \<sigma>) (db \<sigma>')) (\<lambda>_ \<sigma>'. refines \<pi> (db \<sigma>) (db \<sigma>'))"
proof -
  have fail: "wp (ts_finalize_reattest_failure S clk' tid w c d a s)
      (\<lambda>_ s'. refines \<pi> (db \<sigma>) s') (\<lambda>_ s'. refines \<pi> (db \<sigma>) s')"
    if "ok s" "sagas (rows s) = sagas (rows (db \<sigma>))" for clk' c d s
    by (rule wp_mono [OF reattest_fail_law [OF that(1)]]) (use that in \<open>auto intro: refines_same\<close>)
  have success: "wp (ts_finalize_reattest_success S clk' tid w s)
      (\<lambda>_ s'. refines \<pi> (db \<sigma>) s') (\<lambda>_ s'. refines \<pi> (db \<sigma>) s')"
    if s: "ok s" "sagas (rows s) = sagas (rows (db \<sigma>))" for clk' s
  proof (rule wp_mono [OF reattest_ok_law [OF s(1)]])
    fix r s'
    assume r: "ok s' \<and> (case r of None \<Rightarrow> s' = s
      | Some t' \<Rightarrow> \<exists>t. moves rows tid s s' t t' \<and> status t = AttestationFailed \<and>
          saga_of t' = (saga_of t)\<lparr>sg_status := AwaitingAttestation\<rparr>)"
    have "refines \<pi> s s'"
    proof (cases r)
      case (Some t')
      with r show ?thesis
        by (auto simp: sagas_row intro!: refines_move r_into_rtranclp saga_step.reattest [where g = "saga_of _"])
    qed (use r in \<open>auto intro: refines_refl\<close>)
    with s show "refines \<pi> (db \<sigma>) s'"
      by (auto simp: refines_def)
  qed (use s in \<open>auto intro: refines_same\<close>)
  show ?thesis
    unfolding reattest_with_claim_def wp_simps service_for_simps [OF svc]
    by (rule wp_mono [OF claim_law [OF ok]])
      (auto simp: wp_simps refines_refl refines_same ok Let_def split: outcome.split
        intro!: fail wp_mono [OF success])
qed

text \<open>Reading the cached mint payload leaves the transfers alone.\<close>

lemma wp_mint_prepared:
  assumes "ok s" "rows s tid = Some t" "status t = AttestationReady \<or> status t = MintFailedRetryable"
    and "in_time \<pi> (saga_of t)"
    and "\<And>t' s'. refines \<pi> s s' \<Longrightarrow> P t' s'" "\<And>e s'. refines \<pi> s s' \<Longrightarrow> Q e s'"
  shows "wp (ts_record_mint_prepared S clk tid v h x m s) P Q"
  by (rule wp_move [OF mint_prepared_law [OF assms(1)], where \<pi> = \<pi>])
    (use assms(2-4) in \<open>auto simp: sagas_row
       intro!: assms(5,6) r_into_rtranclp saga_step.prepare_mint [where g = "saga_of _"]\<close>)

lemma reserve_mint_payload_refines:
  assumes svc: "service_for S \<pi> self" and ok: "ok (db \<sigma>)"
    and t: "rows (db \<sigma>) tid = Some t" "status t = AttestationReady \<or> status t = MintFailedRetryable"
      "in_time \<pi> (saga_of t)"
  shows "wp (reserve_mint_payload self clk t tid bundle \<sigma>)
    (\<lambda>_ \<sigma>'. refines \<pi> (db \<sigma>) (db \<sigma>')) (\<lambda>_ \<sigma>'. refines \<pi> (db \<sigma>) (db \<sigma>'))"
  unfolding reserve_mint_payload_def
  using t
  by (auto simp: wp_simps service_for_simps [OF svc] refines_refl ok Let_def
      split: prepare_acquire_result.split
      intro!: wp_ls wp_mint_prepared [where \<pi> = \<pi>])

lemma prepare_mint_refines:
  assumes svc: "service_for S \<pi> self" and ok: "ok (db \<sigma>)"
    and rd: "reads \<pi> clk"
  shows "wp (prepare_mint self clk tid \<sigma>)
    (\<lambda>_ \<sigma>'. refines \<pi> (db \<sigma>) (db \<sigma>')) (\<lambda>_ \<sigma>'. refines \<pi> (db \<sigma>) (db \<sigma>'))"
proof -
  have reserve: "wp (reserve_mint_payload self clk' t tid bun \<sigma>')
      (\<lambda>_ \<sigma>''. refines \<pi> (db \<sigma>) (db \<sigma>'')) (\<lambda>_ \<sigma>''. refines \<pi> (db \<sigma>) (db \<sigma>''))"
    if "db \<sigma>' = db \<sigma>" "rows (db \<sigma>) tid = Some t" "status t = AttestationReady \<or> status t = MintFailedRetryable"
      "in_time \<pi> (saga_of t)"
    for clk' t bun \<sigma>'
    using reserve_mint_payload_refines [OF svc, of \<sigma>' tid t clk' bun] that ok by simp
  show ?thesis
    unfolding prepare_mint_def
    by (auto simp: wp_simps service_for_simps [OF svc] refines_refl ok in_timeI [OF rd]
        intro!: wp_get_transfer wp_guards wp_active_mint reserve)
qed

lemma wp_mint_submission:
  assumes "ok s" "rows s tid = Some t" "status t = MintPrepared" "destination_tx_hash t = None"
    and "\<And>t' s'. refines \<pi> s s' \<Longrightarrow> rows s' tid = Some t' \<Longrightarrow>
      saga_of t' = (saga_of t)\<lparr>sg_status := MintSubmitted, sg_destination_tx := Some h\<rparr> \<Longrightarrow> P t' s'"
    and "\<And>e s'. refines \<pi> s s' \<Longrightarrow> Q e s'"
  shows "wp (ts_record_mint_submission S clk tid v h s) P Q"
  by (rule wp_move [OF mint_submission_law [OF assms(1)], where \<pi> = \<pi>])
    (use assms(2-4) in \<open>auto simp: sagas_row moves_def
       intro!: assms(5,6) r_into_rtranclp saga_step.submit_mint [where g = "saga_of _"]\<close>)

lemma accept_mint_submission_refines:
  assumes svc: "service_for S \<pi> self" and ok: "ok (db \<sigma>)"
    and t: "rows (db \<sigma>) tid = Some t" "status t = MintPrepared"
      "raw_message t = Some m" "message_nonce t = Some n"
  shows "wp (accept_mint_submission self clk t tid h m n \<sigma>)
    (\<lambda>_ \<sigma>'. refines \<pi> (db \<sigma>) (db \<sigma>')) (\<lambda>_ \<sigma>'. refines \<pi> (db \<sigma>) (db \<sigma>'))"
proof -
  have settle: "wp (settle_mint_completion self clk' tid t t' completion (\<sigma>\<lparr>db := s\<rparr>))
      (\<lambda>_ \<sigma>'. refines \<pi> (db \<sigma>) (db \<sigma>')) (\<lambda>_ \<sigma>'. refines \<pi> (db \<sigma>) (db \<sigma>'))"
    if s: "refines \<pi> (db \<sigma>) s" "rows s tid = Some t'"
        "saga_of t' = (saga_of t)\<lparr>sg_status := MintSubmitted, sg_destination_tx := Some h\<rparr>"
      and v: "verify_mint_completion self t h m n = Ok completion ()" for clk' t' s completion
  proof -
    have "sg_status (saga_of t') = MintSubmitted" "sg_destination_tx (saga_of t') = Some h"
      "sg_raw_message (saga_of t') = Some m" "sg_nonce (saga_of t') = Some n"
      "sg_recipient (saga_of t') = recipient t"
      unfolding s(3) using t by simp_all
    then have "wp (settle_mint_completion self clk' tid t t' completion (\<sigma>\<lparr>db := s\<rparr>))
        (\<lambda>_ \<sigma>'. refines \<pi> s (db \<sigma>')) (\<lambda>_ \<sigma>'. refines \<pi> s (db \<sigma>'))"
      using settle_mint_completion_refines [OF svc, of "\<sigma>\<lparr>db := s\<rparr>" tid t' h m n completion clk' t]
        refines_ok [OF s(1)] s(2) verify_mint_completion_true [OF svc] v by simp
    then show ?thesis
      by (rule wp_mono) (auto intro: refines_trans s(1))
  qed
  show ?thesis
    unfolding accept_mint_submission_def
    using t
    by (auto simp: wp_simps service_for_simps [OF svc] refines_refl ok
        intro!: wp_mint_submission [where \<pi> = \<pi>] settle)
qed

lemma record_mint_submission_refines:
  assumes svc: "service_for S \<pi> self" and ok: "ok (db \<sigma>)"
  shows "wp (record_mint_submission self clk tid h \<sigma>)
    (\<lambda>_ \<sigma>'. refines \<pi> (db \<sigma>) (db \<sigma>')) (\<lambda>_ \<sigma>'. refines \<pi> (db \<sigma>) (db \<sigma>'))"
  unfolding record_mint_submission_def
  by (auto simp: wp_simps service_for_simps [OF svc] refines_refl ok note_facts sagas_row
      split: mint_verify_outcome.split
      intro!: wp_get_transfer wp_guards wp_release accept_mint_submission_refines [OF svc ok]
        wp_transition [where \<pi> = \<pi>] move_status
        saga_step.fail_mint [where g = "saga_of _"])

end

end
