(* ===== verification/Cctp_Runs.thy ===== *)
theory Cctp_Runs
  imports Cctp_Saga
begin

text \<open>
  Runs of the bridge service: any sequence of calls of its public methods, with any
  collaborators, clock readings and results of the other services in each call, on one
  transfer store. A call leaves its state whether it succeeds or fails. The handlers'
  refinement lemmas give the invariants of the reachable stores.
\<close>

section \<open>Calls\<close>

datatype svc_call =
    Quote uuid cctp_quote_request string
  | PrepareBurn uuid
  | PrepareBurnWallet uuid
  | SubmitBurn uuid string
  | SubmitApproval uuid string
  | SubmitSource uuid string
  | Poll uuid
  | PollWithLease uuid i64 i64
  | Reattest string uuid
  | PrepareMint uuid
  | SubmitMint uuid string
  | Cancel uuid
  | Lookup uuid

definition discard :: "('a, 'e, 's) outcome \<Rightarrow> (unit, 'e, 's) outcome" where
  "discard m = andThen m (\<lambda>_ s. Ok () s)"

fun svc_invoke :: "('s, 'l) cctp_service \<Rightarrow> clock \<Rightarrow> svc_call \<Rightarrow> (unit, 's, 'l) handler" where
  "svc_invoke self clk (Quote new_id r token_hash) \<sigma> = discard (quote_core self clk new_id r token_hash \<sigma>)"
| "svc_invoke self clk (PrepareBurn tid) \<sigma> = discard (prepare_burn self clk tid \<sigma>)"
| "svc_invoke self clk (PrepareBurnWallet tid) \<sigma> = discard (prepare_burn_wallet self clk tid \<sigma>)"
| "svc_invoke self clk (SubmitBurn tid h) \<sigma> = discard (record_burn_submission self clk tid h \<sigma>)"
| "svc_invoke self clk (SubmitApproval tid h) \<sigma> = discard (record_approval_submission self clk tid h \<sigma>)"
| "svc_invoke self clk (SubmitSource tid h) \<sigma> = discard (record_source_submission self clk tid h \<sigma>)"
| "svc_invoke self clk (Poll tid) \<sigma> = tick_transfer self clk tid \<sigma>"
| "svc_invoke self clk (PollWithLease tid a b) \<sigma> = discard (poll_one_transfer_with_lease self clk tid a b \<sigma>)"
| "svc_invoke self clk (Reattest w tid) \<sigma> = discard (reattest self clk w tid \<sigma>)"
| "svc_invoke self clk (PrepareMint tid) \<sigma> = discard (prepare_mint self clk tid \<sigma>)"
| "svc_invoke self clk (SubmitMint tid h) \<sigma> = discard (record_mint_submission self clk tid h \<sigma>)"
| "svc_invoke self clk (Cancel tid) \<sigma> = discard (cancel self clk tid \<sigma>)"
| "svc_invoke self clk (Lookup tid) \<sigma> = discard (get_transfer self tid \<sigma>)"

lemma wp_discard [simp]: "wp (discard m) P Q = wp m (\<lambda>_ s. P () s) Q"
  by (simp add: discard_def wp_simps)

text \<open>
  A call that never gives up an attestation: not the background worker's poll, and a
  leased poll whose second reading of the clock is within the timeout of its first.
\<close>

fun keeps_waiting :: "cctp_config \<Rightarrow> clock \<Rightarrow> svc_call \<Rightarrow> bool" where
  "keeps_waiting cfg clk (Poll _) \<longleftrightarrow> False"
| "keeps_waiting cfg clk (PollWithLease _ _ _) \<longleftrightarrow> clk 1 \<le> clk 0 + seconds (as_i64 (poll_timeout_secs cfg))"
| "keeps_waiting cfg clk _ \<longleftrightarrow> True"

context transfer_store_laws
begin

lemma get_transfer_refines:
  assumes "service_for S \<pi> self" "ok (db \<sigma>)"
  shows "wp (get_transfer self tid \<sigma>) (\<lambda>_ \<sigma>'. refines \<pi> (db \<sigma>) (db \<sigma>')) (\<lambda>_ \<sigma>'. refines \<pi> (db \<sigma>) (db \<sigma>'))"
  using assms(2) by (auto intro!: wp_get_transfer simp: service_for_simps [OF assms(1)] refines_refl)

lemma invoke_refines:
  assumes svc: "service_for S \<pi> self" and ok: "ok (db \<sigma>)" and rd: "reads \<pi> clk"
    and tmo: "pr_timeouts \<pi> \<or> keeps_waiting (pr_config \<pi>) clk call"
  shows "wp (svc_invoke self clk call \<sigma>) (\<lambda>_ \<sigma>'. refines \<pi> (db \<sigma>) (db \<sigma>')) (\<lambda>_ \<sigma>'. refines \<pi> (db \<sigma>) (db \<sigma>'))"
  using tmo
  by (cases call)
    (auto simp: wp_simps tick_transfer_def reattest_def
      intro!: quote_core_refines [OF svc ok] prepare_burn_refines [OF svc ok rd]
        prepare_burn_wallet_refines [OF svc ok rd] record_burn_submission_refines [OF svc ok rd]
        record_approval_submission_refines [OF svc ok] record_source_submission_refines [OF svc ok rd]
        poll_one_transfer_refines [OF svc ok] poll_one_transfer_with_lease_refines [OF svc ok]
        reattest_with_claim_refines [OF svc ok] prepare_mint_refines [OF svc ok rd]
        record_mint_submission_refines [OF svc ok] cancel_refines [OF svc ok] get_transfer_refines [OF svc ok])

lemma invoke_leaves:
  assumes "service_for S \<pi> self" "ok (db \<sigma>)" "reads \<pi> clk"
    and "pr_timeouts \<pi> \<or> keeps_waiting (pr_config \<pi>) clk call"
    and "leaves (svc_invoke self clk call \<sigma>) \<sigma>'"
  shows "refines \<pi> (db \<sigma>) (db \<sigma>')"
  using invoke_refines [OF assms(1-4)] assms(5)
  by (auto simp: leaves_def wp_def split: outcome.splits)

end
section \<open>Runs\<close>

text \<open>
  One call of a service on the deployment \<open>D\<close> (its crates, configuration and chains),
  with the store \<open>S\<close>; \<open>calls\<close> says which calls a run may contain.
\<close>

inductive svc_step ::
  "'s transfer_store \<Rightarrow> protocol \<Rightarrow> (clock \<Rightarrow> svc_call \<Rightarrow> bool) \<Rightarrow> ('s, 'l) svc_state \<Rightarrow> ('s, 'l) svc_state \<Rightarrow> bool"
  for S D calls where
  call: "service_for S D self \<Longrightarrow> calls clk call \<Longrightarrow> leaves (svc_invoke self clk call \<sigma>) \<sigma>' \<Longrightarrow>
    svc_step S D calls \<sigma> \<sigma>'"

abbreviation any_call :: "clock \<Rightarrow> svc_call \<Rightarrow> bool" where
  "any_call \<equiv> \<lambda>_ _. True"

abbreviation bridge_step ::
  "bool \<Rightarrow> protocol \<Rightarrow> (clock \<Rightarrow> svc_call \<Rightarrow> bool) \<Rightarrow> (mem_store, 'l) svc_state \<Rightarrow> (mem_store, 'l) svc_state \<Rightarrow> bool" where
  "bridge_step checks \<equiv> svc_step (mem_ops checks)"

abbreviation bridge_reachable ::
  "bool \<Rightarrow> protocol \<Rightarrow> (clock \<Rightarrow> svc_call \<Rightarrow> bool) \<Rightarrow> (mem_store, 'l) svc_state \<Rightarrow> bool" where
  "bridge_reachable checks D calls \<equiv> reachable_by (\<lambda>\<sigma>. db \<sigma> = mem_empty) (bridge_step checks D calls)"

text \<open>The protocol during one call: its clock readings, and whether it may give up waiting.\<close>

definition during :: "protocol \<Rightarrow> clock \<Rightarrow> svc_call \<Rightarrow> protocol" where
  "during D clk call = D\<lparr>pr_clock := clk, pr_timeouts := \<not> keeps_waiting (pr_config D) clk call\<rparr>"

lemma during_simps [simp]:
  "pr_crates (during D clk call) = pr_crates D" "pr_config (during D clk call) = pr_config D"
  "pr_chain (during D clk call) = pr_chain D" "pr_clock (during D clk call) = clk"
  "pr_timeouts (during D clk call) \<longleftrightarrow> \<not> keeps_waiting (pr_config D) clk call"
  by (simp_all add: during_def)

lemma matches_during [simp]:
  "burn_matches (during D clk call) = burn_matches D"
  "message_matches (during D clk call) = message_matches D"
  "service_for S (during D clk call) = service_for S D"
  by (simp_all add: fun_eq_iff burn_matches_def message_matches_def service_for_def)

lemma bridge_step_refines:
  assumes "svc_step (mem_ops checks) D calls \<sigma> \<sigma>'" "mem_ok (db \<sigma>)"
  shows "\<exists>clk call. calls clk call \<and> mem_ok (db \<sigma>') \<and>
    (saga_step (during D clk call))\<^sup>*\<^sup>* (sagas (transfers (db \<sigma>))) (sagas (transfers (db \<sigma>')))"
  using assms(1)
proof cases
  case (call self clk call)
  have "mem.refines (during D clk call) (db \<sigma>) (db \<sigma>')"
    using call assms(2) by (intro mem.invoke_leaves) (auto simp: reads_def)
  with call(2) show ?thesis
    by (auto simp: mem.refines_def)
qed

section \<open>Invariants of the sagas\<close>

lemma sagas_none: "sagas (\<lambda>_. None) = (\<lambda>_. None)"
  by (simp add: sagas_def fun_eq_iff)

text \<open>A property of the saga map that every step of the protocol keeps, during the calls allowed.\<close>

locale saga_invariant =
  fixes D :: protocol
    and calls :: "clock \<Rightarrow> svc_call \<Rightarrow> bool"
    and I :: "saga_map \<Rightarrow> bool"
  assumes keep: "calls clk call \<Longrightarrow> saga_step (during D clk call) G G' \<Longrightarrow> I G \<Longrightarrow> I G'"
begin

lemma keep_steps: "(saga_step (during D clk call))\<^sup>*\<^sup>* G G' \<Longrightarrow> calls clk call \<Longrightarrow> I G \<Longrightarrow> I G'"
  by (induction rule: rtranclp_induct) (auto intro: keep)

lemma kept: "bridge_step checks D calls \<sigma> \<sigma>' \<Longrightarrow> mem_ok (db \<sigma>) \<Longrightarrow> I (sagas (transfers (db \<sigma>))) \<Longrightarrow>
    mem_ok (db \<sigma>') \<and> I (sagas (transfers (db \<sigma>')))"
  by (blast dest: bridge_step_refines keep_steps)

lemma kept_run: "(bridge_step checks D calls)\<^sup>*\<^sup>* \<sigma> \<sigma>' \<Longrightarrow> mem_ok (db \<sigma>) \<Longrightarrow> I (sagas (transfers (db \<sigma>))) \<Longrightarrow>
    mem_ok (db \<sigma>') \<and> I (sagas (transfers (db \<sigma>')))"
  by (induction rule: rtranclp_induct) (auto dest: kept)

lemma reached:
  "bridge_reachable checks D calls \<sigma> \<Longrightarrow> I Map.empty \<Longrightarrow> mem_ok (db \<sigma>) \<and> I (sagas (transfers (db \<sigma>)))"
  by (induction rule: reachable_by.induct)
    (auto dest: kept simp: mem_empty_def mem_ok_def sagas_none)

end

subsection \<open>What backs a status\<close>

fun burn_recorded :: "cctp_transfer_status \<Rightarrow> bool" where
  "burn_recorded AwaitingAttestation = True"
| "burn_recorded AttestationFailed = True"
| "burn_recorded AttestationReady = True"
| "burn_recorded MintPrepared = True"
| "burn_recorded MintSubmitted = True"
| "burn_recorded MintFailedRetryable = True"
| "burn_recorded Completed = True"
| "burn_recorded _ = False"

fun attestation_held :: "cctp_transfer_status \<Rightarrow> bool" where
  "attestation_held AttestationReady = True"
| "attestation_held MintPrepared = True"
| "attestation_held MintSubmitted = True"
| "attestation_held MintFailedRetryable = True"
| "attestation_held Completed = True"
| "attestation_held _ = False"

definition backed :: "protocol \<Rightarrow> saga \<Rightarrow> bool" where
  "backed D g \<longleftrightarrow>
     (sg_status g \<in> {Created, BurnPrepared, Cancelled} \<longrightarrow> sg_source_tx g = None) \<and>
     (\<not> attestation_held (sg_status g) \<longrightarrow> sg_raw_message g = None \<and> sg_destination_tx g = None) \<and>
     (sg_status g = Created \<or> sg_status g = BurnPrepared \<or> sg_status g = Cancelled \<or> burn_recorded (sg_status g)) \<and>
     (burn_recorded (sg_status g) \<longrightarrow> (\<exists>h. sg_source_tx g = Some h \<and> burn_matches D g h)) \<and>
     (attestation_held (sg_status g) \<longrightarrow>
        (\<exists>raw att n. sg_raw_message g = Some raw \<and> sg_attestation g = Some att \<and> sg_nonce g = Some n \<and>
           message_matches D g raw \<and> attested (pr_chain D) raw att)) \<and>
     (sg_status g = MintSubmitted \<longrightarrow> sg_destination_tx g \<noteq> None) \<and>
     (sg_status g = Completed \<longrightarrow>
        (\<exists>tx raw n. sg_destination_tx g = Some tx \<and> sg_raw_message g = Some raw \<and> sg_nonce g = Some n \<and>
           minted (pr_chain D) tx raw n (sg_recipient g)))"

lemma matches_terms [simp]:
  "burn_matches D (g\<lparr>sg_status := st\<rparr>) = burn_matches D g"
  "burn_matches D (g\<lparr>sg_source_tx := x\<rparr>) = burn_matches D g"
  "burn_matches D (g\<lparr>sg_destination_tx := x\<rparr>) = burn_matches D g"
  "burn_matches D (g\<lparr>sg_nonce := x\<rparr>) = burn_matches D g"
  "burn_matches D (g\<lparr>sg_raw_message := y\<rparr>) = burn_matches D g"
  "burn_matches D (g\<lparr>sg_attestation := y\<rparr>) = burn_matches D g"
  "burn_matches D (g\<lparr>sg_mint_payload := x\<rparr>) = burn_matches D g"
  "message_matches D (g\<lparr>sg_status := st\<rparr>) = message_matches D g"
  "message_matches D (g\<lparr>sg_destination_tx := x\<rparr>) = message_matches D g"
  "message_matches D (g\<lparr>sg_nonce := x\<rparr>) = message_matches D g"
  "message_matches D (g\<lparr>sg_raw_message := y\<rparr>) = message_matches D g"
  "message_matches D (g\<lparr>sg_attestation := y\<rparr>) = message_matches D g"
  "message_matches D (g\<lparr>sg_mint_payload := x\<rparr>) = message_matches D g"
  by (simp_all add: fun_eq_iff burn_matches_def message_matches_def has_terms_def)

lemma can_cancel_cases: "can_cancel st \<Longrightarrow> st = Created \<or> st = BurnPrepared"
  by (cases st) (simp_all add: can_cancel.simps)

lemma all_sagas_upd:
  "\<forall>tid g. G tid = Some g \<longrightarrow> P g \<Longrightarrow> P x \<Longrightarrow> \<forall>tid g. (G(u \<mapsto> x)) tid = Some g \<longrightarrow> P g"
  by simp

lemma backed_before_burn:
  assumes "backed D g" "sg_status g = Created \<or> sg_status g = BurnPrepared"
  shows "backed D (g\<lparr>sg_status := BurnPrepared\<rparr>)" "backed D (g\<lparr>sg_status := Cancelled\<rparr>)"
    and "burn_matches D g h \<Longrightarrow> backed D (g\<lparr>sg_status := AwaitingAttestation, sg_source_tx := Some h\<rparr>)"
  using assms by (elim disjE; simp add: backed_def)+

lemma backed_waiting:
  assumes "backed D g" "sg_status g = AwaitingAttestation \<or> sg_status g = AttestationFailed"
  shows "backed D (g\<lparr>sg_status := AwaitingAttestation\<rparr>)" "backed D (g\<lparr>sg_status := AttestationFailed\<rparr>)"
    and "message_matches D g raw \<Longrightarrow> attested (pr_chain D) raw att \<Longrightarrow>
      backed D (g\<lparr>sg_status := AttestationReady, sg_nonce := Some n, sg_raw_message := Some raw, sg_attestation := Some att\<rparr>)"
  using assms by (elim disjE; simp add: backed_def)+

lemma backed_minting:
  assumes "backed D g" "attestation_held (sg_status g)"
  shows "backed D (g\<lparr>sg_status := MintPrepared, sg_mint_payload := Some h\<rparr>)"
    and "backed D (g\<lparr>sg_status := MintSubmitted, sg_destination_tx := Some h\<rparr>)"
    and "backed D (g\<lparr>sg_status := MintFailedRetryable\<rparr>)"
    and "sg_destination_tx g = Some tx \<Longrightarrow> sg_raw_message g = Some m \<Longrightarrow> sg_nonce g = Some k \<Longrightarrow>
      minted (pr_chain D) tx m k (sg_recipient g) \<Longrightarrow> backed D (g\<lparr>sg_status := Completed\<rparr>)"
  using assms by (cases "sg_status g"; simp add: backed_def)+

lemma backed_step:
  assumes "saga_step (during D clk call) G G'" "\<forall>tid g. G tid = Some g \<longrightarrow> backed D g"
  shows "\<forall>tid g. G' tid = Some g \<longrightarrow> backed D g"
  using assms
proof (induction rule: saga_step.induct)
  case (quote G tid g)
  then show ?case
    by (intro all_sagas_upd) (simp_all add: backed_def fresh_saga_def)
qed (intro all_sagas_upd backed_before_burn backed_waiting backed_minting;
     force simp: can_cancel.simps)+

interpretation sound: saga_invariant D any_call "\<lambda>G. \<forall>tid g. G tid = Some g \<longrightarrow> backed D g" for D
  by unfold_locales (rule backed_step)

subsection \<open>Closed statuses\<close>

text \<open>No step leaves a terminal status, nor the terms of a saga in it.\<close>

interpretation closed: saga_invariant D any_call
  "\<lambda>G. is_terminal (sg_status g) \<longrightarrow> G tid = Some g" for D tid g
  by unfold_locales
    (auto elim!: saga_step.cases simp: is_terminal.simps can_cancel.simps split: if_splits)

text \<open>No step changes the terms of a transfer.\<close>

definition saga_terms :: "saga \<Rightarrow> cctp_direction \<times> string \<times> string \<times> string \<times> cctp_finality" where
  "saga_terms g = (sg_direction g, sg_sender g, sg_recipient g, sg_amount g, sg_finality g)"

interpretation terms: saga_invariant D any_call "\<lambda>G. \<exists>g. G tid = Some g \<and> saga_terms g = w" for D tid w
  by unfold_locales (auto elim!: saga_step.cases simp: saga_terms_def split: if_splits)

text \<open>A failed mint that already has a destination transaction.\<close>

definition stuck_mint :: "saga \<Rightarrow> bool" where
  "stuck_mint g \<longleftrightarrow>
     sg_destination_tx g \<noteq> None \<and> (sg_status g = MintFailedRetryable \<or> sg_status g = MintPrepared)"

interpretation stuck: saga_invariant D any_call "\<lambda>G. \<exists>g. G tid = Some g \<and> stuck_mint g" for D tid
  by unfold_locales
    (auto elim!: saga_step.cases simp: stuck_mint_def can_cancel.simps split: if_splits)

text \<open>A burn whose quote has run out before its mint is prepared.\<close>

definition stranded :: "instant \<Rightarrow> saga \<Rightarrow> bool" where
  "stranded e g \<longleftrightarrow>
     sg_quote_expires_at g = e \<and> sg_status g \<in> {AwaitingAttestation, AttestationFailed, AttestationReady}"

lemma too_late: "\<forall>i. sg_quote_expires_at g < clk i \<Longrightarrow> \<not> in_time (during D clk call) g"
  by (simp add: in_time_def not_le)

interpretation strand: saga_invariant D "\<lambda>clk _. \<forall>i. e < clk i"
  "\<lambda>G. \<exists>g. G tid = Some g \<and> stranded e g" for D e tid
  by unfold_locales
    (auto elim!: saga_step.cases simp: stranded_def can_cancel.simps too_late split: if_splits)

text \<open>Runs in which no call gives up an attestation.\<close>

interpretation waiting: saga_invariant D "keeps_waiting (pr_config D)"
  "\<lambda>G. \<forall>tid g. G tid = Some g \<longrightarrow> sg_status g \<noteq> AttestationFailed" for D
  by unfold_locales
    (auto elim!: saga_step.cases simp: fresh_saga_def split: if_splits)

end
