(* ===== verification/Cctp_Progress.thy ===== *)
theory Cctp_Progress
  imports Cctp_Runs
begin

text \<open>
  Progress: with collaborators that cooperate, the calls of the bridge take a burned
  transfer to \<open>completed\<close>. Each lemma runs one handler on the in-memory stores to its
  successful end.
\<close>

section \<open>Successful store and lock operations\<close>

text \<open>The row a transition without a source hash writes.\<close>

definition moved :: "clock \<Rightarrow> cctp_transfer_status \<Rightarrow> transfer_patch \<Rightarrow> cctp_transfer \<Rightarrow> cctp_transfer" where
  "moved clk st p t = patch_rest clk st p (retry_count t) (version t + 1)
     ((patch_first p t)\<lparr>message_nonce := or_keep (p_message_nonce p) (message_nonce t)\<rparr>)"

lemma mem_transition_succeeds:
  assumes "transfers s tid = Some t" "is_allowed_transition (status t) st"
    and "validate_patch p = Ok () ()" "p_source_tx_hash p = None" "\<not> p_increment_retry p"
    and "\<And>n. p_message_nonce p = Some n \<Longrightarrow> message_nonces s (source_chain_id t, n) \<in> {None, Some tid}"
    and "0 \<le> version t" "version t < 2 ^ 31 - 1"
  obtains s' where "mem_transition checks clk tid (version t) st p s = Ok (moved clk st p t) s'"
    and "transfers s' = (transfers s)(tid \<mapsto> moved clk st p t)"
proof -
  have add: "plain_add_i32 checks (version t) 1 = Some (version t + 1)"
    using assms(7,8) by (simp add: plain_add_i32_def)
  have same: "source_chain_id (patch_first p t) = source_chain_id t" "retry_count (patch_first p t) = retry_count t"
    "version (patch_first p t) = version t" "message_nonce (patch_first p t) = message_nonce t"
    by (simp_all add: patch_first_def)
  have keep: "(patch_first p t)\<lparr>message_nonce := message_nonce t\<rparr> = patch_first p t"
    by (simp add: patch_first_def)
  have "\<exists>s'. mem_transition checks clk tid (version t) st p s = Ok (moved clk st p t) s' \<and>
      transfers s' = (transfers s)(tid \<mapsto> moved clk st p t)"
    using assms(1-6)
    by (cases "p_message_nonce p")
      (auto simp: mem_transition_def map_err_def bind_patch_source_def bind_message_nonce_def Let_def
        add same keep moved_def)
  then show ?thesis
    using that by blast
qed

lemma release_succeeds:
  "prepare_lock self = mem_lock_ops order \<Longrightarrow>
   \<exists>l. release_transfer_prepare_locks self t \<sigma> = Ok () (\<sigma>\<lparr>lk := l\<rparr>)"
  by (cases "mint_submitter t")
    (auto simp: release_transfer_prepare_locks_def on_lock_ignored_def mem_lock_ops_def mem_release_def
      split: option.splits intro: exI [of _ "lk \<sigma>"])

lemma get_transfer_succeeds:
  "store self = mem_ops checks \<Longrightarrow> transfers (db \<sigma>) tid = Some t \<Longrightarrow> get_transfer self tid \<sigma> = Ok t \<sigma>"
  by (simp add: get_transfer_def on_store_def mem_ops_def mem_get_def)

text \<open>The fields of the moved row.\<close>

lemma moved_simps [simp]:
  "transfer_id (moved clk st p t) = transfer_id t" "direction (moved clk st p t) = direction t"
  "recipient (moved clk st p t) = recipient t" "finality (moved clk st p t) = finality t"
  "quote_expires_at (moved clk st p t) = quote_expires_at t"
  "status (moved clk st p t) = st" "version (moved clk st p t) = version t + 1"
  "destination_tx_hash (moved clk st p t) = or_keep (p_destination_tx_hash p) (destination_tx_hash t)"
  "message_nonce (moved clk st p t) = or_keep (p_message_nonce p) (message_nonce t)"
  "raw_message (moved clk st p t) = or_keep (p_raw_message p) (raw_message t)"
  "attestation (moved clk st p t) = or_keep (p_attestation p) (attestation t)"
  "\<not> p_clear_mint_payload p \<Longrightarrow>
     mint_payload_hash (moved clk st p t) = or_keep (p_mint_payload_hash p) (mint_payload_hash t)"
  "\<not> p_clear_mint_payload p \<Longrightarrow>
     mint_payload_expires_at (moved clk st p t) = or_keep (p_mint_payload_expires_at p) (mint_payload_expires_at t)"
  by (simp_all add: moved_def patch_rest_def patch_first_def)

section \<open>The attestation\<close>

text \<open>Iris answers the poll of \<open>t\<close> with a complete message the corridor and the verifier accept.\<close>

definition iris_delivers ::
  "('s, 'l) cctp_service \<Rightarrow> cctp_transfer \<Rightarrow> bytes \<Rightarrow> bytes \<Rightarrow> string \<Rightarrow> bool" where
  "iris_delivers self t raw att nonce \<longleftrightarrow>
     (\<exists>h msg h' ah e m. source_tx_hash t = Some h \<and>
        poll_messages_by_tx (iris self)
          (case direction t of StellarToEvm \<Rightarrow> STELLAR_TESTNET_DOMAIN | EvmToStellar \<Rightarrow> SEPOLIA_DOMAIN) h =
          Ok (PollComplete msg) () \<and>
        im_status msg = IrisComplete \<and> im_source_tx_hash msg = Some h' \<and> tx_hashes_equal h h' \<and>
        im_attestation_hex msg = Some ah \<and> ah \<noteq> [] \<and> to_ascii_lowercase ah \<noteq> ''pending'' \<and>
        build_corridor_expectations (crates_of self) t (config self) = Ok e () \<and>
        validate_message_for_corridor (crates_of self) (im_message_hex msg) e = Ok m () \<and>
        decode_hex_message (crates_of self) (im_message_hex msg) = Ok raw () \<and>
        decode_hex_message (crates_of self) ah = Ok att () \<and> length att \<le> MAX_ATTESTATION_BYTES \<and>
        attestation_ready (runtime self) \<and> verify_attestation (runtime self) raw att = Ok () () \<and>
        im_event_nonce msg = nonce \<and> nonce \<noteq> [] \<and> length nonce \<le> MAX_MESSAGE_NONCE_LEN)"

lemma poll_succeeds:
  assumes "store self = mem_ops checks" "transfers (db \<sigma>) tid = Some t" "transfer_id t = tid"
    and "status t = AwaitingAttestation" "\<not> attestation_timed_out self (clk 0) t"
    and "iris_delivers self t raw att nonce"
    and "message_nonces (db \<sigma>) (source_chain_id t, nonce) \<in> {None, Some tid}"
    and "0 \<le> version t" "version t < 2 ^ 31 - 1"
  obtains s t' where "poll_one_transfer self clk tid \<sigma> = Ok t' (\<sigma>\<lparr>db := s\<rparr>)" "transfers s tid = Some t'"
    and "t' = moved (after 1 clk) AttestationReady (default_patch\<lparr>p_raw_message := Some raw,
           p_attestation := Some att, p_message_nonce := Some nonce\<rparr>) t"
proof -
  let ?p = "default_patch\<lparr>p_raw_message := Some raw, p_attestation := Some att, p_message_nonce := Some nonce\<rparr>"
  obtain h msg h' ah e parsed where m: "source_tx_hash t = Some h"
      "poll_messages_by_tx (iris self)
         (case direction t of StellarToEvm \<Rightarrow> STELLAR_TESTNET_DOMAIN | EvmToStellar \<Rightarrow> SEPOLIA_DOMAIN) h =
         Ok (PollComplete msg) ()"
      "im_status msg = IrisComplete" "im_source_tx_hash msg = Some h'" "tx_hashes_equal h h'"
      "im_attestation_hex msg = Some ah" "ah \<noteq> []" "to_ascii_lowercase ah \<noteq> ''pending''"
      "build_corridor_expectations (crates_of self) t (config self) = Ok e ()"
      "validate_message_for_corridor (crates_of self) (im_message_hex msg) e = Ok parsed ()"
      "decode_hex_message (crates_of self) (im_message_hex msg) = Ok raw ()"
      "decode_hex_message (crates_of self) ah = Ok att ()" "length att \<le> MAX_ATTESTATION_BYTES"
      "attestation_ready (runtime self)" "verify_attestation (runtime self) raw att = Ok () ()"
      "im_event_nonce msg = nonce" "nonce \<noteq> []" "length nonce \<le> MAX_MESSAGE_NONCE_LEN"
    using assms(6) unfolding iris_delivers_def by blast
  then have raw: "length raw \<le> MAX_RAW_MESSAGE_BYTES"
    using validate_accepts [of "crates_of self" "im_message_hex msg" e] by auto
  then have valid: "validate_patch ?p = Ok () ()"
    using m(13,18) by (simp add: validate_patch_def check_byte_len_def check_str_len_def)
  have allowed: "is_allowed_transition (status t) AttestationReady"
    using assms(4) by (simp add: is_allowed_transition.simps)
  obtain s where s: "mem_transition checks (after 1 clk) tid (version t) AttestationReady ?p (db \<sigma>) =
        Ok (moved (after 1 clk) AttestationReady ?p t) s"
      "transfers s = (transfers (db \<sigma>))(tid \<mapsto> moved (after 1 clk) AttestationReady ?p t)"
    by (rule mem_transition_succeeds [OF assms(2) allowed valid _ _ _ assms(8,9)])
      (use assms(7) in simp_all)
  have "poll_one_transfer self clk tid \<sigma> = Ok (moved (after 1 clk) AttestationReady ?p t) (\<sigma>\<lparr>db := s\<rparr>)"
    using assms(1,3-5) m raw s(1)
    by (simp add: poll_one_transfer_def get_transfer_succeeds [OF assms(1,2)] map_err_def Let_def
        validate_and_mark_attestation_ready_def ensure_attestation_verifier_ready_def check_byte_len_def
        on_store_def mem_ops_def)
  then show ?thesis
    using that s(2) by simp
qed

section \<open>The mint\<close>

text \<open>
  The builder makes a mint payload for the transfer, which stays valid until \<open>x\<close>; the
  verifiers accept the submission of \<open>tx\<close> and report \<open>out\<close> for its mint.
\<close>

definition mint_delivers ::
  "('s, 'l) cctp_service \<Rightarrow> cctp_transfer \<Rightarrow> bytes \<Rightarrow> bytes \<Rightarrow> string \<Rightarrow> string \<Rightarrow> mint_verify_outcome \<Rightarrow>
     instant \<Rightarrow> bool" where
  "mint_delivers self t raw att nonce tx out x \<longleftrightarrow>
     (\<exists>bundle facts.
        (\<forall>u. transfer_id u = transfer_id t \<longrightarrow> evm_prepare_mint (runtime self) u (config self) = Ok bundle ()) \<and>
        \<not> mb_trustline_required bundle \<and> mb_step bundle = StepMint \<and> mb_payload_hash bundle \<noteq> [] \<and>
        from_timestamp (libs_of self) (mb_expires_at bundle) = Some x \<and>
        evm_mint_ready (runtime self) \<and>
        evm_verify_mint_submission (runtime self) tx raw att nonce (mb_payload_hash bundle) = Ok facts () \<and>
        mf_payload_hash facts = mb_payload_hash bundle \<and>
        (mf_outcome facts = MintPending \<or> mf_outcome facts = MintSucceeded) \<and>
        evm_verify_mint_completion (runtime self) tx raw nonce (recipient t) (finality t) = Ok out ())"

lemma prepare_mint_succeeds:
  assumes "store self = mem_ops checks" "transfers (db \<sigma>) tid = Some t"
    and "enabled (config self)" "is_configured (crates_of self) (is_production self) (config self)"
    and "direction t = StellarToEvm" "status t = AttestationReady" "clk 0 \<le> quote_expires_at t"
    and "evm_prepare_mint (runtime self) t (config self) = Ok bundle ()"
    and "\<not> mb_trustline_required bundle" "mb_step bundle = StepMint"
    and "from_timestamp (libs_of self) (mb_expires_at bundle) = Some x"
    and "0 \<le> version t" "version t < 2 ^ 31 - 1"
  obtains s t' where "prepare_mint self clk tid \<sigma> = Ok bundle (\<sigma>\<lparr>db := s\<rparr>)" "transfers s tid = Some t'"
    and "t' = moved (after 6 (after 3 clk)) MintPrepared (default_patch\<lparr>p_mint_payload_hash := Some (mb_payload_hash bundle),
                      p_mint_payload_expires_at := Some x, p_mint_submitter := mint_submitter t\<rparr>) t"
proof -
  let ?p = "default_patch\<lparr>p_mint_payload_hash := Some (mb_payload_hash bundle),
    p_mint_payload_expires_at := Some x, p_mint_submitter := mint_submitter t\<rparr>"
  have valid: "validate_patch ?p = Ok () ()" and allowed: "is_allowed_transition (status t) MintPrepared"
    using assms(6) by (simp_all add: validate_patch_def is_allowed_transition.simps)
  obtain s where s: "mem_transition checks (after 6 (after 3 clk)) tid (version t) MintPrepared ?p (db \<sigma>) =
        Ok (moved (after 6 (after 3 clk)) MintPrepared ?p t) s"
      "transfers s = (transfers (db \<sigma>))(tid \<mapsto> moved (after 6 (after 3 clk)) MintPrepared ?p t)"
    by (rule mem_transition_succeeds [OF assms(2) allowed valid _ _ _ assms(12,13)]) simp_all
  have "prepare_mint self clk tid \<sigma> = Ok bundle (\<sigma>\<lparr>db := s\<rparr>)"
    using assms(1,3-11) s(1)
    by (simp add: prepare_mint_def get_transfer_succeeds [OF assms(1,2)] ensure_quote_not_expired_def
        map_err_def reserve_mint_payload_def Let_def on_store_def mem_ops_def mem_record_mint_prepared_def
        unwrap_or_def)
  then show ?thesis
    using that s(2) by simp
qed

text \<open>
  A row ready for the submission of its mint, and verifiers that accept the submission
  and then report \<open>out\<close> for the mint itself.
\<close>

definition submission_ready ::
  "(mem_store, locks) cctp_service \<Rightarrow> mem_store \<Rightarrow> uuid \<Rightarrow> cctp_transfer \<Rightarrow> string \<Rightarrow> mint_verify_outcome \<Rightarrow> instant \<Rightarrow> bool" where
  "submission_ready self s tid t tx out x \<longleftrightarrow>
     transfers s tid = Some t \<and> transfer_id t = tid \<and> direction t = StellarToEvm \<and> status t = MintPrepared \<and>
     destination_tx_hash t = None \<and> mint_payload_expires_at t = Some x \<and> evm_mint_ready (runtime self) \<and>
     0 \<le> version t \<and> version t < 2 ^ 31 - 2 \<and>
     (\<exists>ph raw att nonce facts. mint_payload_hash t = Some ph \<and> ph \<noteq> [] \<and> raw_message t = Some raw \<and>
        attestation t = Some att \<and> message_nonce t = Some nonce \<and>
        evm_verify_mint_submission (runtime self) tx raw att nonce ph = Ok facts () \<and>
        mf_payload_hash facts = ph \<and> (mf_outcome facts = MintPending \<or> mf_outcome facts = MintSucceeded) \<and>
        evm_verify_mint_completion (runtime self) tx raw nonce (recipient t) (finality t) = Ok out ())"

fun settled_status :: "mint_verify_outcome \<Rightarrow> cctp_transfer_status" where
  "settled_status MintSucceeded = Completed"
| "settled_status (MintFailed _) = MintFailedRetryable"
| "settled_status _ = MintSubmitted"

lemma mint_submission_settles:
  assumes st: "store self = mem_ops checks" and pl: "prepare_lock self = mem_lock_ops order"
    and ready: "submission_ready self (db \<sigma>) tid t tx out x" and x: "clk 0 \<le> x"
    and out: "out = MintSucceeded \<or> out = MintFailed r"
  obtains t' \<sigma>' where "record_mint_submission self clk tid tx \<sigma> = Ok t' \<sigma>'" "transfers (db \<sigma>') tid = Some t'"
    and "status t' = settled_status out" "destination_tx_hash t' = Some tx"
proof -
  let ?p = "default_patch\<lparr>p_destination_tx_hash := Some tx\<rparr>"
  let ?c = "after 1 clk" and ?c' = "after 2 (after 1 clk)"
  define q where "q = (if out = MintSucceeded then default_patch else mint_retryable_patch r)"
  define u where "u = moved ?c MintSubmitted ?p t"
  define w where "w = moved ?c' (settled_status out) q u"
  obtain ph raw att nonce facts where t: "transfers (db \<sigma>) tid = Some t" "transfer_id t = tid"
      "direction t = StellarToEvm" "status t = MintPrepared" "destination_tx_hash t = None"
      "mint_payload_expires_at t = Some x" "mint_payload_hash t = Some ph" "ph \<noteq> []" "raw_message t = Some raw"
      "attestation t = Some att" "message_nonce t = Some nonce"
    and rt: "evm_mint_ready (runtime self)"
      "evm_verify_mint_submission (runtime self) tx raw att nonce ph = Ok facts ()"
      "mf_payload_hash facts = ph" "mf_outcome facts = MintPending \<or> mf_outcome facts = MintSucceeded"
      "evm_verify_mint_completion (runtime self) tx raw nonce (recipient t) (finality t) = Ok out ()"
    and v: "0 \<le> version t" "version t < 2 ^ 31 - 2"
    using ready unfolding submission_ready_def by blast
  have q: "validate_patch q = Ok () ()" "p_source_tx_hash q = None" "\<not> p_increment_retry q"
    "p_message_nonce q = None" "p_destination_tx_hash q = None" "p_clear_mint_payload q = False"
    by (simp_all add: q_def validate_patch_def mint_retryable_patch_def)
  have valid: "validate_patch ?p = Ok () ()"
    and allowed: "is_allowed_transition (status t) MintSubmitted" "is_allowed_transition (status u) (settled_status out)"
    using t(4) out by (auto simp: u_def validate_patch_def is_allowed_transition.simps)
  obtain s where s: "mem_transition checks ?c tid (version t) MintSubmitted ?p (db \<sigma>) = Ok u s"
      "transfers s = (transfers (db \<sigma>))(tid \<mapsto> u)"
    unfolding u_def
    by (rule mem_transition_succeeds [OF t(1) allowed(1) valid _ _ _ v(1)]) (use v in simp_all)
  obtain s' where s': "mem_transition checks ?c' tid (version u) (settled_status out) q s = Ok w s'"
      "transfers s' = (transfers s)(tid \<mapsto> w)"
    unfolding w_def
    by (rule mem_transition_succeeds [of s tid u, OF _ allowed(2) q(1-3)]) (use v s(2) q in \<open>simp_all add: u_def\<close>)
  obtain l where l: "release_transfer_prepare_locks self t (\<sigma>\<lparr>db := s'\<rparr>) = Ok () (\<sigma>\<lparr>db := s', lk := l\<rparr>)"
    using release_succeeds [OF pl] by blast
  have u: "transfer_id u = tid"
    using t(2) by (simp add: u_def)
  have accept: "accept_mint_submission self ?c t tid tx raw nonce \<sigma> = Ok w (\<sigma>\<lparr>db := s', lk := l\<rparr>)"
    using st t rt(5) s(1) s'(1) l u out
    by (auto simp: accept_mint_submission_def verify_mint_completion_def map_err_def settle_mint_completion_def
        on_store_def mem_ops_def mem_record_mint_submission_def mem_record_mint_completed_def q_def)
  have "record_mint_submission self clk tid tx \<sigma> = Ok w (\<sigma>\<lparr>db := s', lk := l\<rparr>)"
    using accept st x t rt(1-4)
    by (auto simp: record_mint_submission_def get_transfer_succeeds ensure_mint_payload_valid_def
        ensure_mint_verifier_ready_def map_err_def submission_ok_def Let_def)
  then show ?thesis
    using that s'(2) q by (simp add: u_def w_def)
qed

section \<open>The three calls\<close>

text \<open>A burned transfer whose attestation is polled and whose mint is prepared in time.\<close>

definition burned_ready ::
  "(mem_store, locks) cctp_service \<Rightarrow> mem_store \<Rightarrow> uuid \<Rightarrow> cctp_transfer \<Rightarrow> clock \<Rightarrow> clock \<Rightarrow> string \<Rightarrow> mint_verify_outcome \<Rightarrow> instant \<Rightarrow> bool" where
  "burned_ready self s tid t clk clk' tx out x \<longleftrightarrow>
     enabled (config self) \<and> is_configured (crates_of self) (is_production self) (config self) \<and>
     transfers s tid = Some t \<and> transfer_id t = tid \<and> direction t = StellarToEvm \<and>
     status t = AwaitingAttestation \<and> destination_tx_hash t = None \<and>
     0 \<le> version t \<and> version t < 2 ^ 31 - 4 \<and>
     \<not> attestation_timed_out self (clk 0) t \<and> clk' 0 \<le> quote_expires_at t \<and>
     (\<exists>raw att nonce. iris_delivers self t raw att nonce \<and>
        message_nonces s (source_chain_id t, nonce) \<in> {None, Some tid} \<and>
        mint_delivers self t raw att nonce tx out x)"

lemma bridge_prepares:
  assumes st: "store self = mem_ops checks" and ready: "burned_ready self (db \<sigma>) tid t clk\<^sub>1 clk\<^sub>2 tx out x"
  obtains \<sigma>\<^sub>1 \<sigma>\<^sub>2 t' where "svc_invoke self clk\<^sub>1 (Poll tid) \<sigma> = Ok () \<sigma>\<^sub>1"
    and "svc_invoke self clk\<^sub>2 (PrepareMint tid) \<sigma>\<^sub>1 = Ok () \<sigma>\<^sub>2" "submission_ready self (db \<sigma>\<^sub>2) tid t' tx out x"
proof -
  obtain raw att nonce where t: "enabled (config self)" "is_configured (crates_of self) (is_production self) (config self)"
      "transfers (db \<sigma>) tid = Some t" "transfer_id t = tid" "direction t = StellarToEvm"
      "status t = AwaitingAttestation" "destination_tx_hash t = None" "0 \<le> version t" "version t < 2 ^ 31 - 4"
      "\<not> attestation_timed_out self (clk\<^sub>1 0) t" "clk\<^sub>2 0 \<le> quote_expires_at t"
      "iris_delivers self t raw att nonce" "message_nonces (db \<sigma>) (source_chain_id t, nonce) \<in> {None, Some tid}"
      "mint_delivers self t raw att nonce tx out x"
    using ready unfolding burned_ready_def by blast
  obtain bun facts where b: "\<And>u. transfer_id u = tid \<Longrightarrow> evm_prepare_mint (runtime self) u (config self) = Ok bun ()"
      "\<not> mb_trustline_required bun" "mb_step bun = StepMint" "mb_payload_hash bun \<noteq> []"
      "from_timestamp (libs_of self) (mb_expires_at bun) = Some x" "evm_mint_ready (runtime self)"
      "evm_verify_mint_submission (runtime self) tx raw att nonce (mb_payload_hash bun) = Ok facts ()"
      "mf_payload_hash facts = mb_payload_hash bun"
      "mf_outcome facts = MintPending \<or> mf_outcome facts = MintSucceeded"
      "evm_verify_mint_completion (runtime self) tx raw nonce (recipient t) (finality t) = Ok out ()"
    using t(4,14) unfolding mint_delivers_def by blast
  obtain s\<^sub>1 t\<^sub>1 where p: "poll_one_transfer self clk\<^sub>1 tid \<sigma> = Ok t\<^sub>1 (\<sigma>\<lparr>db := s\<^sub>1\<rparr>)" "transfers s\<^sub>1 tid = Some t\<^sub>1"
      "t\<^sub>1 = moved (after 1 clk\<^sub>1) AttestationReady (default_patch\<lparr>p_raw_message := Some raw,
         p_attestation := Some att, p_message_nonce := Some nonce\<rparr>) t"
    by (rule poll_succeeds [OF st t(3,4,6), of clk\<^sub>1 raw att nonce]) (use t in simp_all)
  obtain s\<^sub>2 t\<^sub>2 where m: "prepare_mint self clk\<^sub>2 tid (\<sigma>\<lparr>db := s\<^sub>1\<rparr>) = Ok bun (\<sigma>\<lparr>db := s\<^sub>2\<rparr>)" "transfers s\<^sub>2 tid = Some t\<^sub>2"
      "t\<^sub>2 = moved (after 6 (after 3 clk\<^sub>2)) MintPrepared (default_patch\<lparr>p_mint_payload_hash := Some (mb_payload_hash bun),
         p_mint_payload_expires_at := Some x, p_mint_submitter := mint_submitter t\<^sub>1\<rparr>) t\<^sub>1"
    by (rule prepare_mint_succeeds [of self checks "\<sigma>\<lparr>db := s\<^sub>1\<rparr>" tid t\<^sub>1 clk\<^sub>2 bun x])
      (use st t b(1-5) p in simp_all)
  have "submission_ready self s\<^sub>2 tid t\<^sub>2 tx out x"
    using t b p(3) m(2,3) by (auto simp: submission_ready_def)
  then show ?thesis
    using that [of "\<sigma>\<lparr>db := s\<^sub>1\<rparr>" "\<sigma>\<lparr>db := s\<^sub>2\<rparr>" t\<^sub>2] p(1) m(1) by (simp add: tick_transfer_def discard_def)
qed

lemma bridge_settles:
  assumes "store self = mem_ops checks" "prepare_lock self = mem_lock_ops order"
    and "burned_ready self (db \<sigma>) tid t clk\<^sub>1 clk\<^sub>2 tx out x" "clk\<^sub>3 0 \<le> x"
    and "out = MintSucceeded \<or> out = MintFailed r"
  obtains \<sigma>\<^sub>1 \<sigma>\<^sub>2 \<sigma>\<^sub>3 t' where "svc_invoke self clk\<^sub>1 (Poll tid) \<sigma> = Ok () \<sigma>\<^sub>1"
    and "svc_invoke self clk\<^sub>2 (PrepareMint tid) \<sigma>\<^sub>1 = Ok () \<sigma>\<^sub>2"
    and "svc_invoke self clk\<^sub>3 (SubmitMint tid tx) \<sigma>\<^sub>2 = Ok () \<sigma>\<^sub>3"
    and "transfers (db \<sigma>\<^sub>3) tid = Some t'" "status t' = settled_status out" "destination_tx_hash t' = Some tx"
proof -
  obtain \<sigma>\<^sub>1 \<sigma>\<^sub>2 t\<^sub>2 where two: "svc_invoke self clk\<^sub>1 (Poll tid) \<sigma> = Ok () \<sigma>\<^sub>1"
      "svc_invoke self clk\<^sub>2 (PrepareMint tid) \<sigma>\<^sub>1 = Ok () \<sigma>\<^sub>2" "submission_ready self (db \<sigma>\<^sub>2) tid t\<^sub>2 tx out x"
    by (rule bridge_prepares [OF assms(1,3)])
  obtain t' \<sigma>\<^sub>3 where "record_mint_submission self clk\<^sub>3 tid tx \<sigma>\<^sub>2 = Ok t' \<sigma>\<^sub>3" "transfers (db \<sigma>\<^sub>3) tid = Some t'"
      "status t' = settled_status out" "destination_tx_hash t' = Some tx"
    by (rule mint_submission_settles [where clk = clk\<^sub>3, OF assms(1,2) two(3) assms(4,5)])
  then show ?thesis
    using that [OF two(1,2)] by (simp add: discard_def)
qed

end
