(* ===== verification/Cctp_Demo.thy ===== *)
theory Cctp_Demo
  imports Cctp_Progress
begin

text \<open>
  A concrete deployment of the bridge, for the inputs at which its properties are shown
  to apply: the hexadecimal codec, one Stellar account, the testnet configuration, and
  one transfer from Stellar to the EVM chain with its burn, its message and its mint.
\<close>

section \<open>Crates\<close>

definition hex_digit :: "nat \<Rightarrow> char" where
  "hex_digit n = ''0123456789abcdef'' ! n"

definition hex_value :: "char \<Rightarrow> nat" where
  "hex_value c =
     (let n = of_char c in if n \<le> 57 then n - 48 else if n \<le> 70 then n - 55 else n - 87)"

definition demo_hex_encode :: "bytes \<Rightarrow> string" where
  "demo_hex_encode b = concat (map (\<lambda>x. [hex_digit (unat x div 16), hex_digit (unat x mod 16)]) b)"

fun demo_hex_decode :: "string \<Rightarrow> bytes option" where
  "demo_hex_decode [] = Some []"
| "demo_hex_decode [_] = None"
| "demo_hex_decode (a # b # s) =
     (if is_ascii_hexdigit a \<and> is_ascii_hexdigit b
      then map_option (Cons (word_of_nat (16 * hex_value a + hex_value b))) (demo_hex_decode s)
      else None)"

lemma hex_digit_facts: "n < 16 \<Longrightarrow> hex_value (hex_digit n) = n \<and> is_ascii_hexdigit (hex_digit n)"
proof -
  have "list_all (\<lambda>n. hex_value (hex_digit n) = n \<and> is_ascii_hexdigit (hex_digit n)) [0..<16]"
    by (simp add: upt_conv_Cons hex_value_def hex_digit_def is_ascii_hexdigit_def is_ascii_digit_def)
  then show "n < 16 \<Longrightarrow> ?thesis"
    by (simp add: list_all_iff)
qed

lemma byte_nibbles: "unat (x :: 8 word) div 16 < 16" "unat x mod 16 < 16"
  using unsigned_less [of x, where ?'a = nat] by simp_all

lemma demo_hex_roundtrip:
  "demo_hex_decode (demo_hex_encode b) = Some b" "list_all is_ascii_hexdigit (demo_hex_encode b)"
  by (induction b)
    (simp_all add: demo_hex_encode_def hex_digit_facts byte_nibbles)

definition demo_account :: string where
  "demo_account = ''GBZXN7PIRZGNMHGA7MUUUF4GWPY5AYPV6LY4UV2GL6VJGIQRXFDNMADI''"

definition demo_crates :: crates where
  "demo_crates =
     \<lparr>pk_from_string = (\<lambda>s. if s = demo_account then Some (replicate 32 7) else None),
      muxed_from_string = (\<lambda>_. None),
      contract_from_string = (\<lambda>s. if starts_with ''C'' s then Some (replicate 32 9) else None),
      pk_to_string = (\<lambda>_. demo_account), muxed_to_string = (\<lambda>_. []), contract_to_string = (\<lambda>_. ''C''),
      hex_decode = demo_hex_decode, hex_encode = demo_hex_encode\<rparr>"

lemma demo_hex_codec: "hex_codec demo_crates"
  by (simp add: hex_codec_def demo_crates_def demo_hex_roundtrip)

section \<open>Configuration\<close>

definition demo_config :: cctp_config where
  "demo_config = default_testnet\<lparr>enabled := True, sepolia_rpc_url := ''https://rpc.sepolia.org''\<rparr>"

lemmas text_eval = trim_def is_whitespace_def starts_with_def is_ascii_hexdigit_def is_ascii_digit_def

lemma demo_contracts: "validate_contracts demo_crates (contracts demo_config) = Ok () ()"
  by (simp add: validate_contracts_def demo_config_def default_testnet_def validate_stellar_contract_def
      validate_evm_address_def demo_crates_def text_eval Let_def STELLAR_TOKEN_MESSENGER_def
      STELLAR_MESSAGE_TRANSMITTER_def STELLAR_CCTP_FORWARDER_def STELLAR_USDC_CONTRACT_def
      SEPOLIA_TOKEN_MESSENGER_def SEPOLIA_MESSAGE_TRANSMITTER_def SEPOLIA_USDC_def cong: eval_congs)

lemmas url_eval = parse_service_url_def text_eval to_ascii_lowercase_def to_ascii_lower_def
  rsplit_once_def Let_def

lemma demo_urls:
  "validate_iris_url (iris_base_url demo_config) = Ok () ()"
  "validate_https_url False (stellar_rpc_url demo_config) = Ok () ()"
  "validate_https_url False (stellar_horizon_url demo_config) = Ok () ()"
  "validate_https_url False (sepolia_rpc_url demo_config) = Ok () ()"
  by (simp_all add: validate_iris_url_def validate_https_url_def demo_config_def default_testnet_def
      DEFAULT_IRIS_SANDBOX_URL_def DEFAULT_STELLAR_TESTNET_RPC_def IRIS_SANDBOX_HOST_def url_eval
      cong: eval_congs)

lemma demo_configured: "is_configured demo_crates False demo_config"
proof -
  have "\<not> contains_str ''Public Global Stellar Network'' STELLAR_TESTNET_PASSPHRASE"
    by (simp add: STELLAR_TESTNET_PASSPHRASE_def starts_with_def)
  then have "validate_config demo_crates False demo_config = Ok () ()"
    using demo_contracts demo_urls
    by (simp add: validate_config_def demo_config_def default_testnet_def trim_def is_whitespace_def)
  then show ?thesis
    by (simp add: is_configured_def)
qed

section \<open>The transfer\<close>

definition demo_recipient :: string where
  "demo_recipient = ''0x00000000000000000000000000000000000000aa''"

definition demo_request :: cctp_quote_request where
  "demo_request =
     \<lparr>r_corridor_id = CCTP_TESTNET_CORRIDOR_ID, r_provider = CCTP_PROVIDER_ID, r_direction = StellarToEvm,
      r_source_chain_id = STELLAR_TESTNET_CHAIN_ID, r_destination_chain_id = SEPOLIA_CHAIN_ID,
      r_source_asset = \<lparr>asset_chain_id = STELLAR_TESTNET_CHAIN_ID, asset_asset = STELLAR_TESTNET_USDC_ASSET,
        asset_canonical = STELLAR_TESTNET_USDC_CANONICAL, asset_symbol = Some ''USDC''\<rparr>,
      r_destination_asset = \<lparr>asset_chain_id = SEPOLIA_CHAIN_ID, asset_asset = SEPOLIA_USDC_ASSET,
        asset_canonical = SEPOLIA_USDC_CANONICAL, asset_symbol = Some ''USDC''\<rparr>,
      r_amount = ''12.5'', r_recipient = demo_recipient, r_sender = Some demo_account,
      r_mint_submitter = None, r_finality = Standard\<rparr>"

lemma demo_request_valid: "validate_request demo_crates demo_request = Ok () ()"
  by (simp add: validate_request_def demo_request_def asset_matches_frozen_def validate_parties_def
      is_valid_positive_decimal_amount_def is_valid_evm_address_def is_valid_stellar_account_def
      demo_crates_def demo_account_def demo_recipient_def text_eval Let_def cong: eval_congs)

lemma replicate_unfold: "replicate (numeral k) x = x # replicate (pred_numeral k) x"
  by (simp add: numeral_eq_Suc)

lemmas amount_eval = stellar_outbound_cctp_amount_strict_def stellar_outbound_cctp_amount_def
  decimal_to_cctp_subunits_def parse_decimal_to_subunits_def split_decimal_def pad_fraction_def
  parse_unsigned_def u128_max_def is_ascii_digit_def digits_value_def digit_value_def
  replicate_unfold Let_def

lemma demo_quote_amount: "quote_amount demo_request = Ok 12500000 ()"
  "decimal_to_cctp_subunits (amount_cap demo_config) = Ok 100000000000 ()"
  by (simp_all add: quote_amount_def demo_request_def demo_config_def default_testnet_def amount_eval
      cong: eval_congs)

definition demo_expectations :: corridor_message_expectations where
  "demo_expectations =
     \<lparr>e_source_domain = 27, e_destination_domain = 0,
      e_header_recipient = replicate 12 0 @ [0x8F, 0xE6, 0xB9, 0x99, 0xDC, 0x68, 0x0C, 0xCF, 0xDD, 0x5B,
        0xF7, 0xEB, 0x09, 0x74, 0x21, 0x8B, 0xE2, 0x54, 0x2D, 0xAA],
      e_header_sender = replicate 32 9, e_burn_token = replicate 32 9,
      e_mint_recipient = replicate 31 0 @ [0xAA], e_destination_caller = replicate 32 0,
      e_amount_cctp_subunits = 12500000, e_min_finality = 2000,
      e_body_message_sender = replicate 32 7, e_hook_data = None, e_hook_data_required_empty = True\<rparr>"

definition demo_terms :: "cctp_transfer \<Rightarrow> bool" where
  "demo_terms t \<longleftrightarrow> direction t = StellarToEvm \<and> sender t = demo_account \<and> recipient t = demo_recipient \<and>
     amount t = ''12.5'' \<and> finality t = Standard"

lemma demo_amounts:
  "stellar_outbound_cctp_amount ''12.5'' = Ok (12500000, None) ()"
  by (simp add: amount_eval cong: eval_congs)

lemma demo_addresses:
  "evm_address_to_bytes32 demo_crates demo_recipient = Ok (e_mint_recipient demo_expectations) ()"
  "evm_address_to_bytes32 demo_crates SEPOLIA_TOKEN_MESSENGER = Ok (e_header_recipient demo_expectations) ()"
  "stellar_account_to_bytes32 demo_crates demo_account = Ok (replicate 32 7) ()"
  "stellar_contract_to_bytes32 demo_crates (stellar_usdc (contracts demo_config)) = Ok (replicate 32 9) ()"
  "stellar_contract_to_bytes32 demo_crates (stellar_token_messenger (contracts demo_config)) = Ok (replicate 32 9) ()"
  by (simp_all add: evm_address_to_bytes32_def stellar_account_to_bytes32_def stellar_contract_to_bytes32_def
      is_valid_evm_address_def demo_crates_def demo_account_def demo_recipient_def demo_expectations_def
      demo_config_def default_testnet_def SEPOLIA_TOKEN_MESSENGER_def STELLAR_TOKEN_MESSENGER_def
      STELLAR_USDC_CONTRACT_def text_eval hex_value_def replicate_unfold Let_def cong: eval_congs)

lemma demo_expected:
  "demo_terms t \<Longrightarrow> build_corridor_expectations demo_crates t demo_config = Ok demo_expectations ()"
  by (simp add: demo_terms_def build_corridor_expectations_def amount_cctp_subunits_def demo_amounts
      demo_addresses body_message_sender_def demo_account_def [THEN arg_cong, of "\<lambda>x. x = []"]
      STELLAR_TESTNET_DOMAIN_def SEPOLIA_DOMAIN_def FINALITY_STANDARD_def)
    (simp add: demo_expectations_def)

lemma demo_expectations_sized: "expectations_sized demo_expectations"
  by (simp add: expectations_sized_def demo_expectations_def u32_max_def u128_max_def)

section \<open>The deployment\<close>

definition demo_raw :: bytes where
  "demo_raw = build_synthetic_cctp_message demo_expectations"

definition demo_attestation :: bytes where
  "demo_attestation = replicate 65 1"

definition demo_burn_facts :: verified_burn_facts where
  "demo_burn_facts =
     \<lparr>bf_tx_hash = ''burn'', bf_source_chain_id = STELLAR_TESTNET_CHAIN_ID, bf_source_domain = 27,
      bf_destination_domain = 0, bf_sender = demo_account, bf_amount_cctp_subunits = 12500000,
      bf_burn_token_bytes32 = replicate 32 9,
      bf_mint_recipient_bytes32 = e_mint_recipient demo_expectations,
      bf_destination_caller_bytes32 = replicate 32 0, bf_min_finality_threshold = 2000,
      bf_hook_data = None, bf_token_messenger_bytes32 = replicate 32 9, bf_block_or_ledger = Some ''4711''\<rparr>"

definition demo_chain :: chain where
  "demo_chain =
     \<lparr>burned = (\<lambda>h f. h = ''burn'' \<and> f = demo_burn_facts),
      attested = (\<lambda>m a. m = demo_raw \<and> a = demo_attestation),
      minted = (\<lambda>tx m n r. tx = ''mint'' \<and> m = demo_raw \<and> n = ''nonce'' \<and> r = demo_recipient)\<rparr>"

definition demo_message :: iris_message where
  "demo_message =
     \<lparr>im_message_hex = encode_message_hex demo_crates demo_raw,
      im_attestation_hex = Some (encode_message_hex demo_crates demo_attestation),
      im_cctp_version = 2, im_status = IrisComplete, im_event_nonce = ''nonce'',
      im_source_tx_hash = Some ''0xburn''\<rparr>"

definition demo_payload :: prepared_wallet_payload where
  "demo_payload = EvmTransaction ''eip155:11155111'' SEPOLIA_MESSAGE_TRANSMITTER ''0x'' ''0x0''"

definition demo_mint_bundle :: prepared_mint_bundle where
  "demo_mint_bundle =
     \<lparr>mb_step = StepMint, mb_trustline_required = False, mb_primary = demo_payload,
      mb_expires_at = 600, mb_payload_hash = ''payload''\<rparr>"

definition demo_burn_bundle :: prepared_burn_bundle where
  "demo_burn_bundle =
     \<lparr>bb_step = StepBurn, bb_approval_required = False, bb_primary = demo_payload,
      bb_required_approvals = [], bb_required_prior_payloads = [], bb_expires_at = 600,
      bb_approval_expiration_ledger = None\<rparr>"

definition demo_mint_facts :: "mint_verify_outcome \<Rightarrow> verified_mint_facts" where
  "demo_mint_facts out =
     \<lparr>mf_tx_hash = ''mint'', mf_destination_chain_id = SEPOLIA_CHAIN_ID,
      mf_contract_address = SEPOLIA_MESSAGE_TRANSMITTER, mf_function_selector = ''57ecfd28'',
      mf_message_hash = replicate 32 0, mf_attestation_hash = replicate 32 0, mf_nonce = ''nonce'',
      mf_payload_hash = ''payload'', mf_outcome = out, mf_recipient_evidence = Some demo_recipient\<rparr>"

text \<open>Verifiers that confirm what is on the chains; \<open>out\<close> is what they see of the mint.\<close>

definition demo_runtime :: "mint_verify_outcome \<Rightarrow> cctp_runtime" where
  "demo_runtime out =
     \<lparr>stellar_burn_ready = True, evm_burn_ready = True, attestation_ready = True,
      stellar_mint_ready = True, evm_mint_ready = True, stellar_approval_ready = True,
      evm_approval_ready = True, stellar_burn_builder_ready = True, evm_burn_builder_ready = True,
      stellar_mint_builder_ready = True, evm_mint_builder_ready = True,
      stellar_verify_burn = (\<lambda>h. if h = ''burn'' then Ok demo_burn_facts () else Err Ver_TxNotFound ()),
      evm_verify_burn = (\<lambda>_. Err Ver_TxNotFound ()),
      verify_attestation =
        (\<lambda>m a. if m = demo_raw \<and> a = demo_attestation then Ok () () else Err ''attestation'' ()),
      evm_verify_mint_submission = (\<lambda>_ _ _ _ _. Ok (demo_mint_facts MintPending) ()),
      stellar_verify_mint_submission = (\<lambda>_ _ _ _ _ _. Err Ver_TxNotFound ()),
      evm_verify_mint_completion =
        (\<lambda>tx m n r f. if minted demo_chain tx m n r then Ok out () else Ok MintPending ()),
      stellar_verify_mint_completion = (\<lambda>_ _ _ _ _. Ok MintPending ()),
      stellar_verify_approval = (\<lambda>_ _ _. Ok () ()), evm_verify_approval = (\<lambda>_ _ _. Ok () ()),
      stellar_prepare_burn = (\<lambda>_ _. Ok demo_burn_bundle ()),
      evm_prepare_burn = (\<lambda>_ _. Ok demo_burn_bundle ()),
      stellar_prepare_mint = (\<lambda>_ _. Ok demo_mint_bundle ()),
      evm_prepare_mint = (\<lambda>_ _. Ok demo_mint_bundle ()),
      stellar_invoke = (\<lambda>_. Ok (True, ''deposit_for_burn'') ())\<rparr>"

definition demo_libs :: libs where
  "demo_libs =
     \<lparr>burn_cache_to_json = (\<lambda>_. Ok ''burn'' ()), burn_cache_from_json = (\<lambda>s. Err s ()),
      mint_bundle_to_json = (\<lambda>_. Ok ''mint'' ()), mint_bundle_from_json = (\<lambda>_. Ok demo_mint_bundle ()),
      payload_to_json = (\<lambda>_. Ok ''payload'' ()), sha256_hex = id,
      envelope_payload_hash = (\<lambda>s _. Ok s ()), from_timestamp = Some, uuid_string = show_nat\<rparr>"

definition demo_service :: "mint_verify_outcome \<Rightarrow> (mem_store, locks) cctp_service" where
  "demo_service out =
     \<lparr>config = demo_config, is_production = False, store = mem_ops True,
      prepare_lock = mem_lock_ops [], iris =
        \<lparr>fetch_burn_fees = (\<lambda>_ _. Ok \<lparr>standard_fee = ''0'', fast_fee = None\<rparr> ()),
         poll_messages_by_tx = (\<lambda>_ h. if h = ''burn'' then Ok (PollComplete demo_message) () else Ok PollNotFound ()),
         iris_reattest = (\<lambda>_. Ok () ())\<rparr>,
      kill_switch = (\<lambda>_. None), runtime = demo_runtime out, crates_of = demo_crates, libs_of = demo_libs\<rparr>"

definition demo_protocol :: protocol where
  "demo_protocol = \<lparr>pr_crates = demo_crates, pr_config = demo_config, pr_chain = demo_chain,
     pr_clock = (\<lambda>_. 0), pr_timeouts = True\<rparr>"

lemma demo_service_simps [simp]:
  "config (demo_service out) = demo_config" "is_production (demo_service out) = False"
  "store (demo_service out) = mem_ops True" "prepare_lock (demo_service out) = mem_lock_ops []"
  "runtime (demo_service out) = demo_runtime out" "crates_of (demo_service out) = demo_crates"
  "libs_of (demo_service out) = demo_libs" "kill_switch (demo_service out) = (\<lambda>_. None)"
  by (simp_all add: demo_service_def)

lemma demo_service_for: "service_for (mem_ops True) demo_protocol (demo_service out)"
  by (simp add: service_for_def demo_protocol_def truthful_def demo_runtime_def demo_chain_def
      split: if_splits)

section \<open>A run up to the burn\<close>

type_synonym demo_state = "(mem_store, locks) svc_state"

abbreviation still :: clock where
  "still \<equiv> \<lambda>_. 0"

definition demo_empty :: demo_state where
  "demo_empty = \<lparr>db = mem_empty, lk = (\<lambda>_. None)\<rparr>"

definition demo_quoted :: cctp_transfer where
  "demo_quoted = new_transfer (demo_service MintPending) 0 demo_request 1 ''token'' ''0'' ''12.5''"

definition demo_prepared :: cctp_transfer where
  "demo_prepared = patch_rest still BurnPrepared default_patch 0 2 (patch_first default_patch demo_quoted)"

definition demo_burned :: cctp_transfer where
  "demo_burned = demo_prepared\<lparr>source_tx_hash := Some ''burn'', status := AwaitingAttestation,
     version := 3, updated_at := 0\<rparr>"

definition demo_store :: "cctp_transfer \<Rightarrow> mem_store" where
  "demo_store t = \<lparr>transfers = [1 \<mapsto> t], source_tx_hashes = (\<lambda>_. None), message_nonces = (\<lambda>_. None)\<rparr>"

definition demo_after_burn :: demo_state where
  "demo_after_burn = demo_empty\<lparr>db := (demo_store demo_burned)\<lparr>source_tx_hashes := [''burn'' \<mapsto> 1]\<rparr>\<rparr>"

lemma demo_store_row [simp]: "transfers (demo_store t) (Suc 0) = Some t"
  by (simp add: demo_store_def)

lemma after_still [simp]: "after k still = still"
  by (simp add: after_def)

lemma demo_not_killed [simp]: "\<not> provider_killed (demo_service out)"
  by (simp add: provider_killed_def provider_allowed_iff)

lemma demo_enabled [simp]: "enabled demo_config"
  by (simp add: demo_config_def)

lemma demo_ttl: "quote_ttl_secs demo_config = 300" "poll_timeout_secs demo_config = 1800"
  by (simp_all add: demo_config_def default_testnet_def)

definition demo_row :: "uuid \<Rightarrow> cctp_transfer" where
  "demo_row tid = new_transfer (demo_service MintPending) 0 demo_request tid ''token'' ''0'' ''12.5''"

lemma demo_built: "build_quote_transfer (demo_service out) still demo_request tid ''token'' = Ok (demo_row tid) ()"
  by (simp add: build_quote_transfer_def demo_request_valid demo_quote_amount map_err_def)
    (simp add: demo_request_def demo_service_def demo_row_def new_transfer_def)

lemma demo_quote_call:
  assumes "transfers (db \<sigma>) tid = None"
  shows "svc_invoke (demo_service out) still (Quote tid demo_request ''token'') \<sigma> =
    Ok () (\<sigma>\<lparr>db := put tid (demo_row tid) (db \<sigma>)\<rparr>)"
  using assms
  by (simp add: quote_core_def demo_built map_err_def on_store_def mem_ops_def mem_insert_def discard_def
      demo_row_def new_transfer_def)

lemma demo_first_quote:
  "svc_invoke (demo_service out) still (Quote 1 demo_request ''token'') demo_empty =
     Ok () (demo_empty\<lparr>db := demo_store demo_quoted\<rparr>)"
  using demo_quote_call [of demo_empty 1 out]
  by (simp add: demo_empty_def mem_empty_def put_def demo_store_def demo_quoted_def demo_row_def)

lemma demo_fields [simp]:
  "transfer_id demo_quoted = 1" "direction demo_quoted = StellarToEvm" "sender demo_quoted = demo_account"
  "recipient demo_quoted = demo_recipient" "amount demo_quoted = ''12.5''" "finality demo_quoted = Standard"
  "status demo_quoted = Created" "version demo_quoted = 1" "quote_expires_at demo_quoted = seconds 300"
  "fee_expires_at demo_quoted = Some (seconds 600)" "updated_at demo_quoted = 0"
  "source_tx_hash demo_quoted = None" "destination_tx_hash demo_quoted = None" "message_nonce demo_quoted = None"
  "mint_submitter demo_quoted = None" "retry_count demo_quoted = 0" "source_chain_id demo_quoted = STELLAR_TESTNET_CHAIN_ID"
  by (simp_all add: demo_quoted_def new_transfer_def demo_request_def demo_ttl as_i64_def unwrap_or_def)

lemma demo_prepare_call:
  "svc_invoke (demo_service out) still (PrepareBurn 1) (demo_empty\<lparr>db := demo_store demo_quoted\<rparr>) =
     Ok () (demo_empty\<lparr>db := demo_store demo_prepared\<rparr>)"
proof -
  have "mem_transition True still 1 1 BurnPrepared default_patch (demo_store demo_quoted) =
      Ok demo_prepared (demo_store demo_prepared)"
    by (simp add: mem_transition_def demo_store_def is_allowed_transition.simps map_err_def
        validate_patch_def bind_patch_source_def bind_message_nonce_def plain_add_i32_def Let_def put_def
        demo_prepared_def patch_first_def)
  then show ?thesis
    by (simp add: prepare_burn_def demo_configured get_transfer_def on_store_def mem_ops_def mem_get_def
        ensure_quote_not_expired_def ensure_fee_not_expired_def ensure_burn_verifier_ready_def
        burn_verifier_ready_def demo_runtime_def discard_def seconds_def)
qed

lemma demo_prepared_fields [simp]:
  "transfer_id demo_prepared = 1" "direction demo_prepared = StellarToEvm" "sender demo_prepared = demo_account"
  "recipient demo_prepared = demo_recipient" "amount demo_prepared = ''12.5''" "finality demo_prepared = Standard"
  "status demo_prepared = BurnPrepared" "version demo_prepared = 2" "quote_expires_at demo_prepared = seconds 300"
  "fee_expires_at demo_prepared = Some (seconds 600)" "destination_tx_hash demo_prepared = None"
  "mint_submitter demo_prepared = None" "source_chain_id demo_prepared = STELLAR_TESTNET_CHAIN_ID"
  by (simp_all add: demo_prepared_def patch_rest_def patch_first_def default_patch_def)

lemma demo_burn_call:
  "svc_invoke (demo_service out) still (SubmitBurn 1 ''burn'') (demo_empty\<lparr>db := demo_store demo_prepared\<rparr>) =
     Ok () demo_after_burn"
proof -
  have terms: "demo_terms demo_prepared"
    by (simp add: demo_terms_def)
  have expected: "build_expected_burn_facts demo_crates demo_prepared demo_config ''burn'' =
      Ok (demo_burn_facts\<lparr>bf_block_or_ledger := None\<rparr>) ()"
    by (simp add: build_expected_burn_facts_def amount_cctp_subunits_def demo_amounts demo_expected [OF terms]
        demo_addresses demo_burn_facts_def demo_expectations_def STELLAR_TESTNET_DOMAIN_def SEPOLIA_DOMAIN_def
        FINALITY_STANDARD_def)
  have "mem_record_verified_burn True still 1 2 ''burn'' (demo_store demo_prepared) =
      Ok demo_burned (db demo_after_burn)"
    by (simp add: mem_record_verified_burn_def demo_store_def check_str_len_def MAX_TX_HASH_LEN_def
        bind_source_hash_def plain_add_i32_def Let_def put_def demo_burned_def demo_after_burn_def)
  then show ?thesis
    by (simp add: record_burn_submission_def get_transfer_def on_store_def mem_ops_def mem_get_def
        ensure_quote_not_expired_def ensure_fee_not_expired_def ensure_burn_verifier_ready_def
        burn_verifier_ready_def demo_runtime_def discard_def seconds_def expected map_err_def facts_match_def demo_account_def
        release_transfer_prepare_locks_def on_lock_ignored_def mem_lock_ops_def mem_release_def)
      (simp add: demo_after_burn_def demo_empty_def)
qed

section \<open>The attestation and the mint\<close>

lemma demo_burned_fields [simp]:
  "transfer_id demo_burned = 1" "direction demo_burned = StellarToEvm" "recipient demo_burned = demo_recipient"
  "finality demo_burned = Standard" "status demo_burned = AwaitingAttestation" "version demo_burned = 3"
  "quote_expires_at demo_burned = seconds 300" "destination_tx_hash demo_burned = None"
  "source_tx_hash demo_burned = Some ''burn''" "updated_at demo_burned = 0"
  "source_chain_id demo_burned = STELLAR_TESTNET_CHAIN_ID" "demo_terms demo_burned"
  by (simp_all add: demo_burned_def demo_terms_def)

lemma encoded_nonempty: "to_ascii_lowercase (encode_message_hex C b) \<noteq> ''pending''" "encode_message_hex C b \<noteq> []"
  by (simp_all add: encode_message_hex_def to_ascii_lowercase_def to_ascii_lower_def)

lemma demo_validates:
  "validate_message_for_corridor demo_crates (encode_message_hex demo_crates demo_raw) demo_expectations =
     Ok (synthetic_parsed demo_expectations) ()"
proof -
  have "length demo_raw = 376"
    using build_synthetic_shape(1) [OF demo_expectations_sized]
    by (simp add: demo_raw_def demo_expectations_def unwrap_or_def)
  moreover have "corridor_bound demo_expectations (synthetic_parsed demo_expectations)"
    by (simp add: corridor_bound_def synthetic_parsed_def hook_check_def demo_expectations_def unwrap_or_def
        normalize_finality_def FINALITY_STANDARD_def FINALITY_FAST_def)
  ultimately show ?thesis
    using parse_synthetic [OF demo_expectations_sized]
    by (simp add: validate_accepts decode_encode_hex [OF demo_hex_codec] demo_raw_def MAX_RAW_MESSAGE_BYTES_def)
qed

lemma demo_delivers: "iris_delivers (demo_service out) demo_burned demo_raw demo_attestation ''nonce''"
proof -
  have "tx_hashes_equal ''burn'' ''0xburn''"
    by (simp add: tx_hashes_equal_def normalize_tx_hash_def text_eval Let_def to_ascii_lowercase_def
        to_ascii_lower_def unwrap_or_def)
  then show ?thesis
    unfolding iris_delivers_def
    by (intro exI [of _ "''burn''"] exI [of _ demo_message] exI [of _ "''0xburn''"]
        exI [of _ "encode_message_hex demo_crates demo_attestation"] exI [of _ demo_expectations]
        exI [of _ "synthetic_parsed demo_expectations"])
      (simp add: demo_service_def demo_message_def encoded_nonempty demo_expected demo_validates
        decode_encode_hex [OF demo_hex_codec] demo_attestation_def MAX_ATTESTATION_BYTES_def demo_runtime_def
        MAX_MESSAGE_NONCE_LEN_def)
qed

lemma demo_mints:
  "mint_delivers (demo_service out) demo_burned demo_raw demo_attestation ''nonce'' ''mint'' out 600"
  unfolding mint_delivers_def
  by (intro exI [of _ demo_mint_bundle] exI [of _ "demo_mint_facts MintPending"])
    (simp add: demo_runtime_def demo_mint_bundle_def demo_mint_facts_def demo_libs_def demo_chain_def)

lemma demo_ready:
  "burned_ready (demo_service out) (db demo_after_burn) 1 demo_burned still still ''mint'' out 600"
  unfolding burned_ready_def
  using demo_delivers [of out] demo_mints [of out]
  by (auto simp: demo_configured demo_after_burn_def demo_store_def attestation_timed_out_def demo_ttl
      seconds_def as_i64_def)

section \<open>Reachable states\<close>

lemma demo_step:
  assumes call: "svc_invoke (demo_service out) still c \<sigma> = Ok () \<sigma>'" and "calls still c"
  shows "bridge_step True demo_protocol calls \<sigma> \<sigma>'"
proof (rule svc_step.call [where calls = calls, OF demo_service_for [of out] assms(2)])
  show "leaves (svc_invoke (demo_service out) still c \<sigma>) \<sigma>'"
    unfolding call by (simp add: leaves_def)
qed

lemma demo_reach:
  assumes "bridge_reachable True demo_protocol calls \<sigma>" "svc_invoke (demo_service out) still c \<sigma> = Ok () \<sigma>'"
    and "calls still c"
  shows "bridge_reachable True demo_protocol calls \<sigma>'"
  using assms by (blast intro: reachable_by.step demo_step)

lemma demo_burn_reachable:
  assumes "\<And>c. (\<forall>tid. c \<noteq> Poll tid) \<Longrightarrow> (\<forall>tid a b. c \<noteq> PollWithLease tid a b) \<Longrightarrow> calls still c"
  shows "bridge_reachable True demo_protocol calls demo_after_burn"
proof -
  have "bridge_reachable True demo_protocol calls demo_empty"
    by (rule reachable_by.start) (simp add: demo_empty_def)
  from demo_reach [OF this demo_first_quote]
  have "bridge_reachable True demo_protocol calls (demo_empty\<lparr>db := demo_store demo_quoted\<rparr>)" by (simp add: assms)
  from demo_reach [OF this demo_prepare_call]
  have "bridge_reachable True demo_protocol calls (demo_empty\<lparr>db := demo_store demo_prepared\<rparr>)" by (simp add: assms)
  from demo_reach [OF this demo_burn_call] show ?thesis by (simp add: assms)
qed

text \<open>The run goes on to a completed transfer, or to a failed mint, as the verifiers report.\<close>

lemma demo_settled:
  assumes "out = MintSucceeded \<or> out = MintFailed r"
  obtains \<sigma> t where "bridge_reachable True demo_protocol any_call (\<sigma> :: demo_state)"
    and "(bridge_step True demo_protocol any_call)\<^sup>*\<^sup>* demo_after_burn \<sigma>"
    and "transfers (db \<sigma>) 1 = Some t" "status t = settled_status out" "destination_tx_hash t = Some ''mint''"
proof -
  obtain \<sigma>\<^sub>1 \<sigma>\<^sub>2 \<sigma>\<^sub>3 t where run: "svc_invoke (demo_service out) still (Poll 1) demo_after_burn = Ok () \<sigma>\<^sub>1"
      "svc_invoke (demo_service out) still (PrepareMint 1) \<sigma>\<^sub>1 = Ok () \<sigma>\<^sub>2"
      "svc_invoke (demo_service out) still (SubmitMint 1 ''mint'') \<sigma>\<^sub>2 = Ok () \<sigma>\<^sub>3"
    and t: "transfers (db \<sigma>\<^sub>3) 1 = Some t" "status t = settled_status out" "destination_tx_hash t = Some ''mint''"
    by (rule bridge_settles [where checks = True and order = "[]" and clk\<^sub>3 = still, OF _ _ demo_ready _ assms]) simp_all
  have "bridge_reachable True demo_protocol any_call \<sigma>\<^sub>3"
    by (rule demo_reach [OF demo_reach [OF demo_reach [OF demo_burn_reachable run(1)] run(2)] run(3)]) simp_all
  moreover have "(bridge_step True demo_protocol any_call)\<^sup>*\<^sup>* demo_after_burn \<sigma>\<^sub>3"
    using run by (blast intro: demo_step rtranclp.rtrancl_into_rtrancl)
  ultimately show ?thesis
    using that t by blast
qed

lemma demo_burn_leaves:
  "leaves (svc_invoke (demo_service out) still (SubmitBurn 1 ''burn'') (demo_empty\<lparr>db := demo_store demo_prepared\<rparr>))
     demo_after_burn"
  unfolding demo_burn_call by (simp add: leaves_def)

lemma demo_after_burn_row: "transfers (db demo_after_burn) 1 = Some demo_burned"
  by (simp add: demo_after_burn_def)

text \<open>The store with a second transfer quoted after the burn of the first.\<close>

definition demo_two :: demo_state where
  "demo_two = demo_after_burn\<lparr>db := put 2 (demo_row 2) (db demo_after_burn)\<rparr>"

lemma demo_two_reachable: "bridge_reachable True demo_protocol any_call demo_two"
  unfolding demo_two_def
  by (rule demo_reach [OF demo_burn_reachable demo_quote_call]) (simp_all add: demo_after_burn_def demo_store_def)

lemma demo_two_rows: "transfers (db demo_two) 1 = Some demo_burned" "transfers (db demo_two) 2 = Some (demo_row 2)"
  by (simp_all add: demo_two_def put_def demo_after_burn_def)

section \<open>Single calls\<close>

lemma lookup_step:
  assumes "calls still (Lookup tid)" "transfers (db \<sigma>) tid = Some t"
  shows "bridge_step True demo_protocol calls \<sigma> (\<sigma> :: demo_state)"
  by (rule demo_step [where calls = calls and out = MintPending, OF _ assms(1)])
    (simp add: get_transfer_succeeds [of "demo_service MintPending" True \<sigma> tid, OF _ assms(2)] discard_def)

text \<open>A poll after the quote of the burned transfer has run out.\<close>

definition late :: clock where
  "late = (\<lambda>_. seconds 301)"

lemma demo_late_poll:
  obtains \<sigma> t where "bridge_step True demo_protocol (\<lambda>clk _. \<forall>i. seconds 300 < clk i) demo_after_burn (\<sigma> :: demo_state)"
    and "transfers (db \<sigma>) 1 = Some t" "status t = AttestationReady"
proof -
  have "\<not> attestation_timed_out (demo_service MintSucceeded) (late 0) demo_burned"
    by (simp add: attestation_timed_out_def late_def demo_ttl seconds_def as_i64_def)
  then obtain t s where p: "poll_one_transfer (demo_service MintSucceeded) late 1 demo_after_burn = Ok t (demo_after_burn\<lparr>db := s\<rparr>)"
      "transfers s 1 = Some t" "t = moved (after 1 late) AttestationReady (default_patch\<lparr>p_raw_message := Some demo_raw,
        p_attestation := Some demo_attestation, p_message_nonce := Some ''nonce''\<rparr>) demo_burned"
    using demo_delivers [of MintSucceeded]
    by - (rule poll_succeeds [of "demo_service MintSucceeded" True demo_after_burn 1 demo_burned late
          demo_raw demo_attestation "''nonce''"], auto simp: demo_after_burn_def demo_store_def)
  then have "leaves (svc_invoke (demo_service MintSucceeded) late (Poll 1) demo_after_burn) (demo_after_burn\<lparr>db := s\<rparr>)"
    by (simp add: tick_transfer_def leaves_def)
  then have "bridge_step True demo_protocol (\<lambda>clk _. \<forall>i. seconds 300 < clk i) demo_after_burn (demo_after_burn\<lparr>db := s\<rparr>)"
    by (rule svc_step.call [OF demo_service_for, rotated]) (simp add: late_def seconds_def)
  then show ?thesis
    using that p by simp
qed

end
