(* ===== verification/Bridge_Guarantees.thy ===== *)
theory Bridge_Guarantees
  imports Cctp_Demo
begin

text \<open>
  What the bridge service guarantees over its runs on the in-memory store, and three
  places where a transfer can no longer reach its end. Each property is followed by its
  application at the demonstration deployment.
\<close>

section \<open>Safety\<close>

text \<open>
  C14. Refinement. Whatever public method of the service is called, with whatever
  answers of the other services and whatever clock readings, and whether it succeeds or
  fails, the store keeps its indices consistent and the stored transfers move by steps
  of the bridge protocol only: burns enter with a matching burn on chain, attestations
  with a matching attested message, completions with a delivered mint.
\<close>

theorem service_refines_protocol:
  assumes "service_for (mem_ops checks) D self" "mem_ok (db \<sigma>)"
    and "leaves (svc_invoke self clk call \<sigma>) \<sigma>'"
  shows "mem_ok (db \<sigma>') \<and>
    (saga_step (during D clk call))\<^sup>*\<^sup>* (sagas (transfers (db \<sigma>))) (sagas (transfers (db \<sigma>')))"
proof -
  have "mem.refines (during D clk call) (db \<sigma>) (db \<sigma>')"
    using assms by (intro mem.invoke_leaves) (auto simp: reads_def)
  then show ?thesis
    by (simp add: mem.refines_def)
qed

lemma demo_mem_ok: "mem_ok (demo_store demo_prepared)" "mem_ok (db demo_after_burn)"
  by (simp_all add: mem_ok_def demo_store_def demo_after_burn_def demo_prepared_def patch_rest_def
      patch_first_def demo_burned_def)

theorem service_refines_protocol_witness:
  "mem_ok (db demo_after_burn) \<and>
   (saga_step (during demo_protocol still (SubmitBurn 1 ''burn'')))\<^sup>*\<^sup>*
     (sagas (transfers (demo_store demo_prepared))) (sagas (transfers (db demo_after_burn)))"
  using service_refines_protocol [OF demo_service_for _ demo_burn_leaves [of MintSucceeded]] demo_mem_ok(1)
  by simp

text \<open>
  C15. Every reachable transfer is backed by what happened on the chains: with a mint
  prepared, submitted, failed or completed its recorded source transaction is a burn
  with the transfer's terms and its message and attestation are an attested message
  bound to those terms; completed, its destination transaction delivered that message
  to the transfer's recipient; cancelled, nothing was burned for it.
\<close>

theorem reachable_transfers_backed:
  assumes "bridge_reachable checks D any_call \<sigma>" "transfers (db \<sigma>) tid = Some t"
  shows
    "(status t \<in> {MintPrepared, MintSubmitted, MintFailedRetryable, Completed} \<longrightarrow>
       (\<exists>h raw att. source_tx_hash t = Some h \<and> burn_matches D (saga_of t) h \<and>
          raw_message t = Some raw \<and> attestation t = Some att \<and>
          message_matches D (saga_of t) raw \<and> attested (pr_chain D) raw att)) \<and>
     (status t = Completed \<longrightarrow>
       (\<exists>tx raw n. destination_tx_hash t = Some tx \<and> raw_message t = Some raw \<and> message_nonce t = Some n \<and>
          minted (pr_chain D) tx raw n (recipient t))) \<and>
     (status t = Cancelled \<longrightarrow> source_tx_hash t = None)"
proof -
  have "backed D (saga_of t)"
    using sound.reached [OF assms(1)] assms(2) by (auto simp: sagas_def)
  then show ?thesis
    by (cases "status t") (auto simp: backed_def)
qed

theorem reachable_transfers_backed_witness:
  "\<exists>(\<sigma> :: demo_state) t tx raw n. bridge_reachable True demo_protocol any_call \<sigma> \<and> transfers (db \<sigma>) 1 = Some t \<and>
     status t = Completed \<and> destination_tx_hash t = Some tx \<and> raw_message t = Some raw \<and>
     message_nonce t = Some n \<and> minted demo_chain tx raw n (recipient t)"
proof -
  obtain \<sigma> :: demo_state and t where d: "bridge_reachable True demo_protocol any_call \<sigma>"
    "transfers (db \<sigma>) 1 = Some t" "status t = settled_status MintSucceeded"
    using demo_settled [of MintSucceeded] by metis
  then show ?thesis
    using reachable_transfers_backed [OF d(1,2)] by (auto simp: demo_protocol_def)
qed

text \<open>
  C16. In every reachable store no two transfers claim the same burn: two different rows
  never have the same source transaction hash, nor the same message nonce on the same
  source chain.
\<close>

theorem no_double_claim:
  assumes "bridge_reachable checks D any_call \<sigma>" "a \<noteq> b"
    and "transfers (db \<sigma>) a = Some t" "transfers (db \<sigma>) b = Some u"
  shows "\<not> (source_tx_hash t = Some h \<and> source_tx_hash u = Some h) \<and>
    \<not> (source_chain_id t = source_chain_id u \<and> message_nonce t = Some n \<and> message_nonce u = Some n)"
  using sound.reached [OF assms(1)] mem_ok_row [OF _ assms(3)] mem_ok_row [OF _ assms(4)] assms(2)
  by auto

theorem no_double_claim_witness:
  "source_tx_hash demo_burned = Some ''burn'' \<and> source_tx_hash (demo_row 2) \<noteq> Some ''burn''"
  using no_double_claim [OF demo_two_reachable _ demo_two_rows] by simp



section \<open>Progress\<close>



section \<open>Dead ends\<close>

text \<open>
  C19. A mint that fails after its submission is recorded as retryable, but no run of
  calls ever completes it: the destination hash is never cleared, and a submission is
  only recorded for a row without one. The row moves between the retryable failure and
  a newly prepared mint for ever.
\<close>

theorem failed_mint_never_completes:
  assumes "(bridge_step checks D any_call)\<^sup>*\<^sup>* \<sigma> \<sigma>'" "mem_ok (db \<sigma>)"
    and "transfers (db \<sigma>) tid = Some t" "status t = MintFailedRetryable" "destination_tx_hash t \<noteq> None"
  shows "\<exists>t'. transfers (db \<sigma>') tid = Some t' \<and> status t' \<in> {MintFailedRetryable, MintPrepared} \<and>
    destination_tx_hash t' \<noteq> None"
proof -
  have "\<exists>g. sagas (transfers (db \<sigma>)) tid = Some g \<and> stuck_mint g"
    using assms(3-5) by (simp add: sagas_def stuck_mint_def)
  then show ?thesis
    using stuck.kept_run [OF assms(1,2), of tid] by (auto simp: sagas_def stuck_mint_def)
qed

theorem failed_mint_never_completes_witness:
  "\<exists>(\<sigma> :: demo_state) t. bridge_reachable True demo_protocol any_call \<sigma> \<and> transfers (db \<sigma>) 1 = Some t \<and>
     status t = MintFailedRetryable \<and> bridge_step True demo_protocol any_call \<sigma> \<sigma> \<and>
     (\<exists>t'. transfers (db \<sigma>) 1 = Some t' \<and> status t' \<in> {MintFailedRetryable, MintPrepared})"
proof -
  obtain \<sigma> :: demo_state and t where d: "bridge_reachable True demo_protocol any_call \<sigma>"
    "transfers (db \<sigma>) 1 = Some t" "status t = settled_status (MintFailed ''reverted'')"
    "destination_tx_hash t = Some ''mint''"
    using demo_settled [of "MintFailed ''reverted''"] by metis
  have step: "bridge_step True demo_protocol any_call \<sigma> \<sigma>"
    by (rule lookup_step [OF _ d(2)]) simp
  then have run: "(bridge_step True demo_protocol any_call)\<^sup>*\<^sup>* \<sigma> \<sigma>"
    by simp
  show ?thesis
    using failed_mint_never_completes [OF run _ d(2)] sound.reached [OF d(1)] d step
    by (auto simp: backed_def)
qed

text \<open>
  C20. A burned transfer whose quote has run out is never minted: over any calls made
  after the expiry it stays among the statuses between burn and mint, because the
  preparation of the mint refuses an expired quote. The quote lives 300 seconds by
  default, a standard attestation takes several minutes.
\<close>

theorem expired_quote_strands_burn:
  assumes "(bridge_step checks D (\<lambda>clk _. \<forall>i. e < clk i))\<^sup>*\<^sup>* \<sigma> \<sigma>'" "mem_ok (db \<sigma>)"
    and "transfers (db \<sigma>) tid = Some t" "quote_expires_at t = e"
    and "status t \<in> {AwaitingAttestation, AttestationFailed, AttestationReady}"
  shows "\<exists>t'. transfers (db \<sigma>') tid = Some t' \<and> quote_expires_at t' = e \<and>
    status t' \<in> {AwaitingAttestation, AttestationFailed, AttestationReady}"
proof -
  have "\<exists>g. sagas (transfers (db \<sigma>)) tid = Some g \<and> stranded e g"
    using assms(3-5) by (simp add: sagas_def stranded_def)
  then show ?thesis
    using strand.kept_run [OF assms(1,2), of tid] by (auto simp: sagas_def stranded_def)
qed

theorem expired_quote_strands_burn_witness:
  "\<exists>(\<sigma> :: demo_state) t. bridge_step True demo_protocol (\<lambda>clk _. \<forall>i. seconds 300 < clk i) demo_after_burn \<sigma> \<and>
     transfers (db \<sigma>) 1 = Some t \<and> status t = AttestationReady \<and>
     status t \<in> {AwaitingAttestation, AttestationFailed, AttestationReady} \<and> quote_expires_at t = seconds 300"
proof -
  obtain \<sigma> :: demo_state and t where d: "bridge_step True demo_protocol (\<lambda>clk _. \<forall>i. seconds 300 < clk i) demo_after_burn \<sigma>"
      "transfers (db \<sigma>) 1 = Some t" "status t = AttestationReady"
    by (rule demo_late_poll)
  moreover have "(bridge_step True demo_protocol (\<lambda>clk _. \<forall>i. seconds 300 < clk i))\<^sup>*\<^sup>* demo_after_burn \<sigma>"
    using d(1) by (rule r_into_rtranclp)
  ultimately show ?thesis
    using expired_quote_strands_burn [OF _ demo_mem_ok(2) demo_after_burn_row, of True demo_protocol "seconds 300" \<sigma>]
    by auto
qed

text \<open>
  C21. While the service is polled through its leased route only, and each such poll
  reads the clock twice within the poll timeout, no attestation ever times out, however
  long it has been awaited: the lease sets the time of change from which the timeout is
  counted. No reachable transfer is then ever failed, nor open to a new attestation.
\<close>

theorem leased_polls_never_time_out:
  assumes "bridge_reachable checks D (keeps_waiting (pr_config D)) \<sigma>" "transfers (db \<sigma>) tid = Some t"
  shows "status t \<noteq> AttestationFailed"
proof -
  have "sagas (transfers (db \<sigma>)) tid = Some (saga_of t)"
    using assms(2) by (simp add: sagas_def)
  then have "sg_status (saga_of t) \<noteq> AttestationFailed"
    using waiting.reached [OF assms(1)] by blast
  then show ?thesis
    by simp
qed

theorem leased_polls_never_time_out_witness:
  "bridge_reachable True demo_protocol (keeps_waiting (pr_config demo_protocol)) demo_after_burn \<and>
   transfers (db demo_after_burn) 1 = Some demo_burned \<and> status demo_burned \<noteq> AttestationFailed"
proof -
  have "keeps_waiting cfg still c" if "\<forall>tid. c \<noteq> Poll tid" "\<forall>tid a b. c \<noteq> PollWithLease tid a b" for cfg c
    using that by (cases c) auto
  then have r: "bridge_reachable True demo_protocol (keeps_waiting (pr_config demo_protocol)) demo_after_burn"
    by (rule demo_burn_reachable)
  then show ?thesis
    using leased_polls_never_time_out [OF r demo_after_burn_row] demo_after_burn_row by blast
qed

end
