(* ===== verification/Corridor_Guarantees.thy ===== *)
theory Corridor_Guarantees
  imports Cctp_Demo
begin

text \<open>
  What the parts under the bridge service guarantee: optimistic versions of the transfer
  rows, exclusive reservations of a source account, and the message and amount codecs of
  the corridor.
\<close>

section \<open>Versions\<close>




section \<open>Reservations\<close>

text \<open>
  C23. Exclusive reservations. Once a transfer has reserved a source account, then until
  the reservation runs out and while the holder itself neither renews nor releases it,
  no sequence of operations of the lock store gives the account to another transfer: a
  valid request of another transfer is answered with the holder's id and changes nothing.
\<close>

theorem reservation_exclusive:
  assumes "mem_try_acquire clk r l = Ok PrepareAcquired l'"
    and "\<forall>(op, c) \<in> set ops. (\<forall>i. c i < ap_expires_at r) \<and> \<not> holder_op (ap_source_account r) (ap_transfer_id r) op"
    and "ap_source_account r' = ap_source_account r" "ap_transfer_id r' \<noteq> ap_transfer_id r"
    and "validate_reservation r' = Ok () ()" "\<forall>i. clk' i < ap_expires_at r"
  shows "mem_try_acquire clk' r' (lock_run ops l') =
    Ok (ConflictOtherTransfer (ap_transfer_id r)) (lock_run ops l')"
proof -
  have "lock_run ops l' (ap_source_account r) = Some (r\<lparr>ap_updated_at := clk 2\<rparr>)"
    by (rule lock_run_live [where l = l', OF acquired_new [OF assms(1)]]) (use assms(2) in auto)
  from acquire_conflict [of "lock_run ops l'", OF this assms(3), of clk'] show ?thesis
    using assms(4-6) by simp
qed

definition demo_request_lock :: "uuid \<Rightarrow> cctp_active_prepare" where
  "demo_request_lock tid =
     \<lparr>ap_source_account = ''G'', ap_transfer_id = tid, ap_kind = KindBurn, ap_payload_hash = ''hash'',
      ap_prepared_payload = None, ap_expires_at = 600, ap_updated_at = 0\<rparr>"

theorem reservation_exclusive_witness:
  "mem_try_acquire still (demo_request_lock 2)
     (lock_run [(LActive ''G'', still), (LRelease ''G'' 2, still)] [''G'' \<mapsto> demo_request_lock 1]) =
   Ok (ConflictOtherTransfer 1) (lock_run [(LActive ''G'', still), (LRelease ''G'' 2, still)] [''G'' \<mapsto> demo_request_lock 1])"
proof -
  have "mem_try_acquire still (demo_request_lock 1) Map.empty = Ok PrepareAcquired [''G'' \<mapsto> demo_request_lock 1]"
    by (simp add: mem_try_acquire_def demo_request_lock_def validate_reservation_def map_err_def purge_expired_def
        MAX_PAYLOAD_HASH_LEN_def Let_def)
  then have "mem_try_acquire still (demo_request_lock 2) (lock_run [(LActive ''G'', still), (LRelease ''G'' 2, still)] [''G'' \<mapsto> demo_request_lock 1]) =
      Ok (ConflictOtherTransfer (ap_transfer_id (demo_request_lock 1)))
        (lock_run [(LActive ''G'', still), (LRelease ''G'' 2, still)] [''G'' \<mapsto> demo_request_lock 1])"
    by (rule reservation_exclusive)
      (simp_all add: demo_request_lock_def validate_reservation_def MAX_PAYLOAD_HASH_LEN_def)
  then show ?thesis
    by (simp only: demo_request_lock_def cctp_active_prepare.simps)
qed

section \<open>Messages\<close>

text \<open>What the \<open>strkey\<close> and \<open>hex\<close> crates promise: keys of 32 bytes, short printed keys, a codec.\<close>

definition crates_sized :: "crates \<Rightarrow> bool" where
  "crates_sized C \<longleftrightarrow> hex_codec C \<and>
     (\<forall>s b. pk_from_string C s = Some b \<longrightarrow> length b = 32) \<and>
     (\<forall>s b. contract_from_string C s = Some b \<longrightarrow> length b = 32) \<and>
     (\<forall>key. length (to_strkey C key) \<le> 69)"

lemma address_lengths:
  assumes "crates_sized C"
  shows "evm_address_to_bytes32 C a = Ok b () \<Longrightarrow> length b = 32"
    and "stellar_contract_to_bytes32 C a = Ok b () \<Longrightarrow> length b = 32"
    and "stellar_account_to_bytes32 C a = Ok b () \<Longrightarrow> length b = 32"
    and "body_message_sender C t dir = Ok b () \<Longrightarrow> length b = 32"
proof -
  show evm: "length b = 32" if "evm_address_to_bytes32 C a = Ok b ()" for a b
    using that by (auto simp: evm_address_to_bytes32_def unwrap_def split: if_splits option.splits)
  show "length b = 32" if "stellar_contract_to_bytes32 C a = Ok b ()" for a b
    using that assms by (auto simp: stellar_contract_to_bytes32_def crates_sized_def ok_or_def split: option.splits)
  show acc: "length b = 32" if "stellar_account_to_bytes32 C a = Ok b ()" for a b
    using that assms by (auto simp: stellar_account_to_bytes32_def crates_sized_def ok_or_def split: option.splits)
  show "length b = 32" if "body_message_sender C t dir = Ok b ()"
    using that evm acc by (cases dir) (auto simp: body_message_sender_def split: if_splits)
qed

lemma parse_unsigned_bound: "parse_unsigned m s = Some v \<Longrightarrow> v \<le> m"
  by (auto simp: parse_unsigned_def Let_def split: if_splits)

lemma parse_decimal_bound: "parse_decimal_to_subunits a k = Ok v () \<Longrightarrow> v \<le> u128_max"
  by (auto simp: parse_decimal_to_subunits_def ok_or_def dest: parse_unsigned_bound split: option.splits)

lemma amount_bound: "amount_cctp_subunits t = Ok a () \<Longrightarrow> a \<le> u128_max"
  by (cases "direction t")
    (auto simp: amount_cctp_subunits_def stellar_outbound_cctp_amount_def decimal_to_cctp_subunits_def Let_def
      dest: parse_decimal_bound)

lemma printed_keys:
  "crates_sized C \<Longrightarrow> length (pk_to_string C b) \<le> 69" "crates_sized C \<Longrightarrow> length (muxed_to_string C (b, i)) \<le> 69"
  unfolding crates_sized_def by (metis to_strkey.simps(1,2))+

lemma hook_data_length:
  "crates_sized C \<Longrightarrow> build_forwarder_hook_data_recipient C a = Ok hook () \<Longrightarrow> length hook \<le> 101"
  by (auto simp: build_forwarder_hook_data_recipient_def ok_or_def Let_def u32_to_be_bytes_def string_bytes_def
      printed_keys split: option.splits stellar_recipient_key.splits)

text \<open>The expectations of a transfer have the sizes of the message format, and a hook that fits it.\<close>

lemma expectations_of_transfer:
  assumes "crates_sized C" "build_corridor_expectations C t cfg = Ok e ()"
  shows "expectations_sized e \<and> length (unwrap_or (e_hook_data e) []) \<le> 101 \<and>
    hook_check e (unwrap_or (e_hook_data e) []) \<and> normalize_finality (e_min_finality e) \<le> e_min_finality e"
  using assms(2) address_lengths [OF assms(1)] amount_bound [of t] hook_data_length [OF assms(1)]
  by (cases "direction t"; cases "finality t")
    (auto simp: build_corridor_expectations_def expectations_sized_def hook_check_def unwrap_or_def
      normalize_finality_def STELLAR_TESTNET_DOMAIN_def SEPOLIA_DOMAIN_def FINALITY_STANDARD_def
      FINALITY_FAST_def u32_max_def)

text \<open>
  C24. The corridor's checks accept the right message for every transfer: whenever the
  service can derive its expectations for a transfer, the message built from them, in
  the encoding Iris delivers, decodes and parses and passes every check, and the parsed
  message carries the expected domains, parties, amount, finality and hook.
\<close>

theorem expected_message_accepted:
  assumes "crates_sized C" "build_corridor_expectations C t cfg = Ok e ()"
  shows "validate_message_for_corridor C (encode_message_hex C (build_synthetic_cctp_message e)) e =
    Ok (synthetic_parsed e) ()"
proof -
  have e: "expectations_sized e" "length (unwrap_or (e_hook_data e) []) \<le> 101"
    "hook_check e (unwrap_or (e_hook_data e) [])" "normalize_finality (e_min_finality e) \<le> e_min_finality e"
    using expectations_of_transfer [OF assms] by blast+
  then have "corridor_bound e (synthetic_parsed e)"
    by (simp add: corridor_bound_def synthetic_parsed_def MAX_HOOK_DATA_BYTES_def)
  moreover have "length (build_synthetic_cctp_message e) \<le> MAX_RAW_MESSAGE_BYTES"
    using build_synthetic_shape(1) [OF e(1)] e(2) by (simp add: MAX_RAW_MESSAGE_BYTES_def)
  ultimately show ?thesis
    using assms(1) decode_encode_hex parse_synthetic [OF e(1)] by (auto simp: validate_accepts crates_sized_def)
qed

theorem expected_message_accepted_witness:
  "validate_message_for_corridor demo_crates
     (encode_message_hex demo_crates (build_synthetic_cctp_message demo_expectations)) demo_expectations =
   Ok (synthetic_parsed demo_expectations) ()"
proof -
  have "length (to_strkey demo_crates key) \<le> 69" for key
    by (cases key) (simp_all add: demo_crates_def demo_account_def)
  then have "crates_sized demo_crates"
    using demo_hex_codec by (simp add: crates_sized_def) (simp add: demo_crates_def)
  then show ?thesis
    by (rule expected_message_accepted) (rule demo_expected [of demo_burned], simp)
qed


section \<open>Amounts\<close>

text \<open>
  The amount of a transfer to Stellar survives its conversion: the destination
  amount a quote prints with seven decimals, read back, is the number of subunits the
  EVM side burns, for every amount the quote accepts.
\<close>

theorem destination_amount_roundtrip:
  assumes "decimal_to_cctp_subunits a = Ok c ()" "cctp_subunits_to_stellar_subunits c = Ok s ()"
  shows "decimal_to_cctp_subunits (format_stellar_amount s) = Ok c ()"
proof -
  have "s = 10 * c" "10 * c \<le> u128_max"
    using assms(2) by (auto simp: cctp_subunits_to_stellar_subunits_def split: if_splits)
  then show ?thesis
    by (simp add: format_stellar_parses)
qed

theorem destination_amount_roundtrip_witness:
  "decimal_to_cctp_subunits (format_stellar_amount 125000000) = Ok 12500000 ()"
  by (rule destination_amount_roundtrip [of "''12.5''"])
    (simp_all add: amount_eval cctp_subunits_to_stellar_subunits_def cong: eval_congs)

text \<open>
  The conversion drops what lies below one subunit, so an amount the request check calls
  positive can be worth nothing, and a remainder after the seventh decimal is not seen
  by the check for one.
\<close>

lemma dust_accepted:
  "is_valid_positive_decimal_amount ''0.0000001''" "decimal_to_cctp_subunits ''0.0000001'' = Ok 0 ()"
  "is_valid_positive_decimal_amount ''0.00000001''" "stellar_outbound_cctp_amount_strict ''0.00000001'' = Ok 0 ()"
  by (simp_all add: is_valid_positive_decimal_amount_def starts_with_def amount_eval cong: eval_congs)

end
