(* ===== verification/Cctp_Attestation.thy ===== *)
theory Cctp_Attestation
  imports Cctp_Message "HOL-Library.List_Lexorder"
begin

text \<open>
  The signatures of an attestation (\<open>cctp/attestation_crypto.rs\<close>) and the attester
  sets they are checked against (\<open>cctp/attester_set.rs\<close>). An address is its list of
  20 bytes, compared as Rust compares arrays, lexicographically. Keccak, SHA-256 and the
  elliptic curve are crates, here the record \<open>signing\<close>. The width of \<open>usize\<close> is 64.
\<close>

section \<open>Bounds\<close>

definition MAX_ENABLED_ATTESTERS :: nat where "MAX_ENABLED_ATTESTERS = 256"
definition MAX_SIGNATURE_THRESHOLD :: u32 where "MAX_SIGNATURE_THRESHOLD = 64"
definition MAX_IRIS_PUBLIC_KEYS :: nat where "MAX_IRIS_PUBLIC_KEYS = 256"

lemmas attestation_bounds =
  MAX_ENABLED_ATTESTERS_def MAX_SIGNATURE_THRESHOLD_def MAX_IRIS_PUBLIC_KEYS_def

section \<open>Signatures\<close>

record signing =
  keccak :: "bytes \<Rightarrow> bytes"
  sha256_digest :: "bytes \<Rightarrow> bytes"
  valid_recovery_id :: "8 word \<Rightarrow> bool"
  valid_signature :: "bytes \<Rightarrow> bool"
  recover_point :: "bytes \<Rightarrow> bytes \<Rightarrow> 8 word \<Rightarrow> bytes option"

definition SIGNATURE_LENGTH :: nat where "SIGNATURE_LENGTH = 65"

definition SECP256K1_HALF_N :: bytes where
  "SECP256K1_HALF_N =
     [0x7f, 0xff, 0xff, 0xff, 0xff, 0xff, 0xff, 0xff, 0xff, 0xff, 0xff, 0xff, 0xff, 0xff, 0xff, 0xff,
      0x5d, 0x57, 0x6e, 0x73, 0x57, 0xa4, 0x50, 0x1d, 0xdf, 0xe9, 0x2f, 0x46, 0x68, 0x1b, 0x20, 0xa0]"

datatype attestation_crypto_error =
    EmptyMessage | EmptyAttestation | MessageTooLarge | AttestationTooLarge
  | InvalidAttestationLength | InvalidSignatureComponent | HighS | InvalidRecoveryId
  | RecoveryFailed | InvalidSignatureOrder | UnknownSigner | ThresholdZero
  | ThresholdOverflow | ExtraSignatures

fun reason_label :: "attestation_crypto_error \<Rightarrow> string" where
  "reason_label EmptyMessage = ''empty_message''"
| "reason_label EmptyAttestation = ''empty_attestation''"
| "reason_label MessageTooLarge = ''message_too_large''"
| "reason_label AttestationTooLarge = ''attestation_too_large''"
| "reason_label InvalidAttestationLength = ''invalid_length''"
| "reason_label InvalidSignatureComponent = ''invalid_rs''"
| "reason_label HighS = ''high_s''"
| "reason_label InvalidRecoveryId = ''invalid_v''"
| "reason_label RecoveryFailed = ''recovery_failed''"
| "reason_label InvalidSignatureOrder = ''invalid_order''"
| "reason_label UnknownSigner = ''unknown_signer''"
| "reason_label ThresholdZero = ''threshold_zero''"
| "reason_label ThresholdOverflow = ''threshold_overflow''"
| "reason_label ExtraSignatures = ''extra_signatures''"

definition eth_address_from_pubkey_xy :: "signing \<Rightarrow> bytes \<Rightarrow> bytes" where
  "eth_address_from_pubkey_xy K xy = take 20 (drop 12 (keccak K xy))"

definition normalize_recovery_id :: "8 word \<Rightarrow> (8 word, attestation_crypto_error) pure" where
  "normalize_recovery_id v =
     (if v = 27 \<or> v = 28 then Ok (v - 27) ()
      else if v = 0 \<or> v = 1 then Ok v ()
      else Err InvalidRecoveryId ())"

definition is_high_s :: "bytes \<Rightarrow> bool" where
  "is_high_s s \<longleftrightarrow> s > SECP256K1_HALF_N"

definition parse_signature_component ::
  "bytes \<Rightarrow> (bytes \<times> bytes \<times> 8 word, attestation_crypto_error) pure" where
  "parse_signature_component b =
     (if length b \<noteq> SIGNATURE_LENGTH then Err InvalidSignatureComponent ()
      else
        let r = take 32 b; s = take 32 (drop 32 b); v = b ! 64
        in if r = replicate 32 0 \<or> s = replicate 32 0 then Err InvalidSignatureComponent ()
           else if is_high_s s then Err HighS ()
           else Ok (r, s, v) ())"

definition recover_signer_address ::
  "signing \<Rightarrow> bytes \<Rightarrow> bytes \<Rightarrow> (bytes, attestation_crypto_error) pure" where
  "recover_signer_address K digest signature =
     andThen (parse_signature_component signature) (\<lambda>(r, s, v) _.
     andThen (normalize_recovery_id v) (\<lambda>rid _.
       if \<not> valid_recovery_id K rid then Err InvalidRecoveryId ()
       else if \<not> valid_signature K (r @ s) then Err InvalidSignatureComponent ()
       else ok_or (recover_point K digest (r @ s) rid) RecoveryFailed () (\<lambda>point.
         if length point < 65 then Panic
         else Ok (eth_address_from_pubkey_xy K (take 64 (drop 1 point))) ())))"

text \<open>
  \<open>slice::binary_search\<close>, whose result on a sorted slice says whether the element
  occurs in it.
\<close>

function search_between :: "'a :: linorder list \<Rightarrow> 'a \<Rightarrow> nat \<Rightarrow> nat \<Rightarrow> bool" where
  "search_between xs x lo hi =
     (if hi \<le> lo then False
      else let mid = (lo + hi) div 2
           in if xs ! mid = x then True
              else if xs ! mid < x then search_between xs x (Suc mid) hi
              else search_between xs x lo mid)"
  by pat_completeness auto

termination search_between
  by (relation "measure (\<lambda>(xs, x, lo, hi). hi - lo)") auto

declare search_between.simps [simp del]

definition binary_search :: "'a :: linorder list \<Rightarrow> 'a \<Rightarrow> bool" where
  "binary_search xs x = search_between xs x 0 (length xs)"

text \<open>The loop over the signatures: each signer enabled and greater than the one before.\<close>

fun recover_signers ::
  "signing \<Rightarrow> bytes \<Rightarrow> bytes \<Rightarrow> bytes list \<Rightarrow> nat list \<Rightarrow> bytes \<Rightarrow> bytes list \<Rightarrow>
     (bytes list, attestation_crypto_error) pure" where
  "recover_signers K digest att enabled_sorted [] latest recovered = Ok recovered ()"
| "recover_signers K digest att enabled_sorted (i # is) latest recovered =
     (let start = i * SIGNATURE_LENGTH
      in if length att < start + SIGNATURE_LENGTH then Panic
         else
           andThen (recover_signer_address K digest (take SIGNATURE_LENGTH (drop start att))) (\<lambda>addr _.
             if addr \<le> latest then Err InvalidSignatureOrder ()
             else if \<not> binary_search enabled_sorted addr then Err UnknownSigner ()
             else recover_signers K digest att enabled_sorted is addr (recovered @ [addr])))"

definition verify_attestation_signatures ::
  "signing \<Rightarrow> bytes \<Rightarrow> bytes \<Rightarrow> u32 \<Rightarrow> bytes list \<Rightarrow> (bytes list, attestation_crypto_error) pure" where
  "verify_attestation_signatures K msg att signature_threshold enabled_sorted =
     (if msg = [] then Err EmptyMessage ()
      else if att = [] then Err EmptyAttestation ()
      else if \<not> check_byte_len msg MAX_RAW_MESSAGE_BYTES then Err MessageTooLarge ()
      else if \<not> check_byte_len att MAX_ATTESTATION_BYTES then Err AttestationTooLarge ()
      else if signature_threshold = 0 then Err ThresholdZero ()
      else if signature_threshold * SIGNATURE_LENGTH > u64_max then Err ThresholdOverflow ()
      else if length att \<noteq> signature_threshold * SIGNATURE_LENGTH then Err InvalidAttestationLength ()
      else recover_signers K (keccak K msg) att enabled_sorted [0..<signature_threshold]
             (replicate 20 0) [])"

section \<open>Attester sets\<close>

datatype attester_destination = Sepolia | StellarTestnet

record raw_on_chain_attester_set =
  oc_signature_threshold :: u32
  oc_enabled_addresses :: "bytes list"
  oc_block_or_ledger :: "string option"

record attester_set_snapshot =
  as_destination :: attester_destination
  as_signature_threshold :: u32
  as_enabled_addresses :: "bytes list"
  as_iris_set_hash :: bytes32
  as_on_chain_set_hash :: bytes32
  as_enabled_count :: u32
  as_verified_at :: instant
  as_block_or_ledger :: "string option"
  as_source :: string
  as_generation :: u64

datatype attester_set_error =
    Set_NotReady | Set_Transient string | Set_ThresholdZero | Set_ThresholdExceedsEnabled
  | Set_InsufficientEnabled | Set_OnChainNotInIris | Set_EmptySet | Set_Stale
  | Set_IrisSetHashMismatch | Set_EnabledCountMismatch | Set_EnumerationCapExceeded
  | Set_ThresholdCapExceeded

definition iris_candidate_hash :: "signing \<Rightarrow> bytes list \<Rightarrow> bytes32" where
  "iris_candidate_hash K addresses = keccak K (concat addresses)"

definition on_chain_set_hash :: "signing \<Rightarrow> bytes list \<Rightarrow> bytes32" where
  "on_chain_set_hash K addresses = sha256_digest K (concat (sort addresses))"

definition validate_attester_set_parity ::
  "signing \<Rightarrow> attester_destination \<Rightarrow> raw_on_chain_attester_set \<Rightarrow> bytes list \<Rightarrow> bytes32 \<Rightarrow> u64 \<Rightarrow>
     instant \<Rightarrow> string \<Rightarrow> (attester_set_snapshot, attester_set_error) pure" where
  "validate_attester_set_parity K dest on_chain iris_addresses iris_hash gen verified_at source =
     (if iris_candidate_hash K iris_addresses \<noteq> iris_hash then Err Set_IrisSetHashMismatch ()
      else if oc_signature_threshold on_chain = 0 then Err Set_ThresholdZero ()
      else if oc_signature_threshold on_chain > MAX_SIGNATURE_THRESHOLD then Err Set_ThresholdCapExceeded ()
      else if oc_enabled_addresses on_chain = [] then Err Set_EmptySet ()
      else if length (oc_enabled_addresses on_chain) > MAX_ENABLED_ATTESTERS
      then Err Set_EnumerationCapExceeded ()
      else
        let enabled = remdups_adj (sort (oc_enabled_addresses on_chain))
        in if length enabled \<noteq> length (oc_enabled_addresses on_chain) then Err Set_EnabledCountMismatch ()
           else if length enabled > u32_max then Err Set_EnumerationCapExceeded ()
           else if oc_signature_threshold on_chain > length enabled then Err Set_ThresholdExceedsEnabled ()
           else if \<not> list_all (\<lambda>addr. addr \<in> set iris_addresses) enabled then Err Set_OnChainNotInIris ()
           else Ok \<lparr>as_destination = dest, as_signature_threshold = oc_signature_threshold on_chain,
                    as_enabled_addresses = enabled, as_iris_set_hash = iris_hash,
                    as_on_chain_set_hash = on_chain_set_hash K enabled,
                    as_enabled_count = length enabled, as_verified_at = verified_at,
                    as_block_or_ledger = oc_block_or_ledger on_chain, as_source = source,
                    as_generation = gen\<rparr> ())"

definition destination_for_message :: "u32 \<Rightarrow> u32 \<Rightarrow> attester_destination option" where
  "destination_for_message source_domain destination_domain =
     (if source_domain = STELLAR_TESTNET_DOMAIN \<and> destination_domain = SEPOLIA_DOMAIN then Some Sepolia
      else if source_domain = SEPOLIA_DOMAIN \<and> destination_domain = STELLAR_TESTNET_DOMAIN
      then Some StellarTestnet
      else None)"

section \<open>What an accepted attestation shows\<close>

lemma search_between_iff:
  assumes "sorted xs" "hi \<le> length xs"
  shows "search_between xs x lo hi \<longleftrightarrow> (\<exists>i. lo \<le> i \<and> i < hi \<and> xs ! i = x)"
  using assms
proof (induction xs x lo hi rule: search_between.induct)
  case (1 xs x lo hi)
  define mid where "mid = (lo + hi) div 2"
  note IH = "1.IH" [OF _ mid_def] and sorted = \<open>sorted xs\<close> and len = \<open>hi \<le> length xs\<close>
  show ?case
  proof (cases "hi \<le> lo \<or> xs ! mid = x")
    case True
    then show ?thesis
      by (subst search_between.simps) (auto simp: Let_def mid_def intro!: exI [of _ mid])
  next
    case False
    then have mid: "lo \<le> mid" "mid < hi"
      by (auto simp: mid_def)
    have le: "i \<le> j \<Longrightarrow> j < hi \<Longrightarrow> xs ! i \<le> xs ! j" for i j
      using sorted_nth_mono [OF sorted] len by simp
    show ?thesis
    proof (cases "xs ! mid < x")
      case True
      then have "search_between xs x lo hi = search_between xs x (Suc mid) hi"
        using False by (subst search_between.simps) (simp add: Let_def mid_def)
      also have "\<dots> \<longleftrightarrow> (\<exists>i. Suc mid \<le> i \<and> i < hi \<and> xs ! i = x)"
        using IH(1) False True sorted len by simp
      also have "\<dots> \<longleftrightarrow> (\<exists>i. lo \<le> i \<and> i < hi \<and> xs ! i = x)"
      proof -
        have "Suc mid \<le> i" if "xs ! i = x" for i
          using le [of i mid] mid(2) True that by (simp add: Suc_le_eq) (meson not_le)
        then show ?thesis
          using mid(1) by (metis Suc_leD le_trans)
      qed
      finally show ?thesis .
    next
      case ge: False
      then have "search_between xs x lo hi = search_between xs x lo mid"
        using False by (subst search_between.simps) (simp add: Let_def mid_def)
      also have "\<dots> \<longleftrightarrow> (\<exists>i. lo \<le> i \<and> i < mid \<and> xs ! i = x)"
        using IH(2) False ge sorted len mid by simp
      also have "\<dots> \<longleftrightarrow> (\<exists>i. lo \<le> i \<and> i < hi \<and> xs ! i = x)"
      proof -
        have "i < mid" if "xs ! i = x" "i < hi" for i
          using le [of mid i] False ge that by (metis not_le order_antisym)
        then show ?thesis
          using mid(2) by (metis less_trans)
      qed
      finally show ?thesis .
    qed
  qed
qed

lemma binary_search_iff: "sorted xs \<Longrightarrow> binary_search xs x \<longleftrightarrow> x \<in> set xs"
  by (auto simp: binary_search_def search_between_iff in_set_conv_nth)

definition signature_at :: "bytes \<Rightarrow> nat \<Rightarrow> bytes" where
  "signature_at att i = take SIGNATURE_LENGTH (drop (i * SIGNATURE_LENGTH) att)"

lemma recover_signers_Cons:
  "recover_signers K digest att attesters (i # is) latest acc = Ok r () \<longleftrightarrow>
     i * SIGNATURE_LENGTH + SIGNATURE_LENGTH \<le> length att \<and>
     (\<exists>a. recover_signer_address K digest (signature_at att i) = Ok a () \<and> latest < a \<and>
        binary_search attesters a \<and> recover_signers K digest att attesters is a (acc @ [a]) = Ok r ())"
proof -
  have less: "latest < a \<longleftrightarrow> \<not> a \<le> latest" for a
    by (rule not_le [symmetric])
  show ?thesis
    by (cases "recover_signer_address K digest (signature_at att i)")
      (simp_all add: Let_def signature_at_def less not_less)
qed

lemma recover_signers_Ok:
  "recover_signers K digest att attesters is latest acc = Ok r () \<longleftrightarrow>
     (\<exists>addrs. r = acc @ addrs \<and> sorted_wrt (<) (latest # addrs) \<and>
        list_all2 (\<lambda>i a. i * SIGNATURE_LENGTH + SIGNATURE_LENGTH \<le> length att \<and>
          recover_signer_address K digest (signature_at att i) = Ok a ()) is addrs \<and>
        (\<forall>a \<in> set addrs. binary_search attesters a))"
proof (induction "is" arbitrary: latest acc)
  case Nil
  show ?case
    by auto
next
  case (Cons i "is")
  have chain: "sorted_wrt (<) (latest # a # addrs) \<longleftrightarrow> latest < a \<and> sorted_wrt (<) (a # addrs)"
    for a addrs by (rule sorted_wrt2) (rule transp_on_less)
  have ex_Cons: "(\<exists>xs. Q xs \<and> S xs \<and> (\<exists>z zs. xs = z # zs \<and> T z zs) \<and> U xs) \<longleftrightarrow>
      (\<exists>z zs. Q (z # zs) \<and> S (z # zs) \<and> T z zs \<and> U (z # zs))" for Q S T U
    by blast
  show ?case
    unfolding recover_signers_Cons Cons.IH list_all2_Cons1
    by (simp del: sorted_wrt.simps add: chain ex_Cons) blast
qed

text \<open>
  The signers an attestation carries for a message: one per signature, in strictly
  ascending order, so all different.
\<close>

definition signed_by :: "signing \<Rightarrow> bytes \<Rightarrow> bytes \<Rightarrow> bytes list \<Rightarrow> bool" where
  "signed_by K msg att signers \<longleftrightarrow>
     length att = length signers * SIGNATURE_LENGTH \<and>
     sorted_wrt (<) (replicate 20 0 # signers) \<and>
     (\<forall>i < length signers.
        recover_signer_address K (keccak K msg) (signature_at att i) = Ok (signers ! i) ())"

lemma signed_by_distinct: "signed_by K msg att signers \<Longrightarrow> distinct signers"
  by (simp add: signed_by_def strict_sorted_iff)

lemma recover_signers_signed_by:
  assumes "length att = n * SIGNATURE_LENGTH" "sorted attesters"
  shows "recover_signers K (keccak K msg) att attesters [0..<n] (replicate 20 0) [] = Ok signers () \<longleftrightarrow>
    length signers = n \<and> signed_by K msg att signers \<and> set signers \<subseteq> set attesters"
proof -
  let ?rec = "\<lambda>i. recover_signer_address K (keccak K msg) (signature_at att i)"
  have "i * SIGNATURE_LENGTH + SIGNATURE_LENGTH \<le> length att" if "i < n" for i
    using that unfolding assms(1) by (metis Suc_leI add.commute mult_Suc mult_le_mono1)
  then have "list_all2 (\<lambda>i a. i * SIGNATURE_LENGTH + SIGNATURE_LENGTH \<le> length att \<and> ?rec i = Ok a ())
      [0..<n] signers \<longleftrightarrow> length signers = n \<and> (\<forall>i < n. ?rec i = Ok (signers ! i) ())"
    by (simp add: list_all2_conv_all_nth) metis
  moreover have "(\<forall>a \<in> set signers. binary_search attesters a) \<longleftrightarrow> set signers \<subseteq> set attesters"
    by (auto simp: binary_search_iff [OF assms(2)])
  ultimately show ?thesis
    using assms(1)
    by (simp add: recover_signers_Ok signed_by_def del: sorted_wrt.simps replicate.simps) metis
qed

lemma signatures_Ok:
  assumes "sorted attesters"
  shows "verify_attestation_signatures K msg att n attesters = Ok signers () \<longleftrightarrow>
    msg \<noteq> [] \<and> length msg \<le> MAX_RAW_MESSAGE_BYTES \<and> length att \<le> MAX_ATTESTATION_BYTES \<and>
    0 < n \<and> length signers = n \<and> signed_by K msg att signers \<and> set signers \<subseteq> set attesters"
proof (cases "0 < n \<and> length att = n * SIGNATURE_LENGTH \<and> length att \<le> MAX_ATTESTATION_BYTES")
  case True
  then have "n * SIGNATURE_LENGTH \<le> u64_max" "att \<noteq> []"
    by (auto simp: u64_max_def MAX_ATTESTATION_BYTES_def SIGNATURE_LENGTH_def)
  then show ?thesis
    using True recover_signers_signed_by [OF _ assms, of att n K msg signers]
    by (simp add: verify_attestation_signatures_def check_byte_len_def not_less not_le)
next
  case False
  then show ?thesis
    by (auto simp: verify_attestation_signatures_def check_byte_len_def signed_by_def
        simp del: sorted_wrt.simps)
qed

lemma distinct_remdups_sorted: "sorted xs \<Longrightarrow> distinct (remdups_adj xs)"
  by (induction xs rule: remdups_adj.induct) (auto simp: order_le_less)

text \<open>What a validated attester set promises, against the Iris keys of its generation.\<close>

definition set_wf :: "signing \<Rightarrow> bytes list \<Rightarrow> attester_set_snapshot \<Rightarrow> bool" where
  "set_wf K iris snap \<longleftrightarrow>
     0 < as_signature_threshold snap \<and> as_signature_threshold snap \<le> MAX_SIGNATURE_THRESHOLD \<and>
     as_signature_threshold snap \<le> length (as_enabled_addresses snap) \<and>
     sorted (as_enabled_addresses snap) \<and> distinct (as_enabled_addresses snap) \<and>
     set (as_enabled_addresses snap) \<subseteq> set iris \<and>
     as_iris_set_hash snap = iris_candidate_hash K iris"

lemma parity_Ok:
  assumes "validate_attester_set_parity K dest oc iris h gen now src = Ok snap ()"
  shows "set_wf K iris snap \<and> as_destination snap = dest \<and> as_iris_set_hash snap = h \<and>
    as_verified_at snap = now \<and> set (as_enabled_addresses snap) = set (oc_enabled_addresses oc) \<and>
    as_signature_threshold snap = oc_signature_threshold oc"
  using assms
  by (auto simp: validate_attester_set_parity_def Let_def set_wf_def list_all_iff sorted_remdups_adj
      distinct_remdups_sorted [OF sorted_sort] split: if_splits)

end
