(* ===== verification/Cctp_Trust.thy ===== *)
theory Cctp_Trust
  imports Cctp_Corridor Cctp_Attestation
begin

text \<open>
  The trust the attestation verifier keeps (\<open>cctp/attestation_trust.rs\<close>): one generation
  of Iris keys with the attester sets of both destinations, rebuilt as a whole. On it,
  the production verifier (\<open>cctp/attestation.rs\<close>). What Iris and the chains answer is a
  parameter of each refresh; the readings of the clock are numbered as in the service.
\<close>

section \<open>Generations\<close>

record iris_trust_snapshot =
  it_addresses :: "bytes list"
  it_set_hash :: bytes32

record trust_generation =
  tg_generation :: u64
  tg_refreshed_at :: instant
  tg_iris :: iris_trust_snapshot
  tg_sepolia :: attester_set_snapshot
  tg_stellar :: attester_set_snapshot

datatype attestation_trust_error =
    Trust_NotReady | Trust_Stale | Trust_RefreshFailed | Trust_AttesterSet string | Trust_Iris string

fun attester_set_error_string :: "attester_set_error \<Rightarrow> string" where
  "attester_set_error_string Set_NotReady = ''not ready''"
| "attester_set_error_string (Set_Transient s) = ''transient: '' @ s"
| "attester_set_error_string Set_ThresholdZero = ''threshold zero''"
| "attester_set_error_string Set_ThresholdExceedsEnabled = ''threshold exceeds enabled attesters''"
| "attester_set_error_string Set_InsufficientEnabled = ''insufficient enabled attesters''"
| "attester_set_error_string Set_OnChainNotInIris = ''on-chain attester not represented in Iris v2 keys''"
| "attester_set_error_string Set_EmptySet = ''empty enabled set''"
| "attester_set_error_string Set_Stale = ''stale snapshot''"
| "attester_set_error_string Set_IrisSetHashMismatch = ''iris set hash mismatch''"
| "attester_set_error_string Set_EnabledCountMismatch = ''enabled count mismatch''"
| "attester_set_error_string Set_EnumerationCapExceeded = ''enumeration cap exceeded''"
| "attester_set_error_string Set_ThresholdCapExceeded = ''threshold cap exceeded''"

text \<open>
  The constants of a cache (with the crates and the overflow checks of the build), its
  state, and what the sources answer to one refresh.
\<close>

record trust_cache =
  tc_signing :: signing
  tc_checks :: bool
  tc_ttl :: instant
  tc_stale_max :: instant

record trust_state =
  tr_generation :: "trust_generation option"
  tr_counter :: u64
  tr_builds :: nat

record refresh_deps =
  fetch_public_keys :: "(bytes list, string) pure"
  readers :: "(attester_destination \<times> (raw_on_chain_attester_set, attester_set_error) pure) list"

definition trust_new :: trust_state where
  "trust_new = \<lparr>tr_generation = None, tr_counter = 0, tr_builds = 0\<rparr>"

text \<open>\<open>Instant::duration_since\<close>, zero for an instant that is not earlier\<close>

definition duration_since :: "instant \<Rightarrow> instant \<Rightarrow> instant" where
  "duration_since now earlier = max 0 (now - earlier)"

definition trust_is_fresh :: "trust_cache \<Rightarrow> instant \<Rightarrow> trust_generation \<Rightarrow> bool" where
  "trust_is_fresh V now g \<longleftrightarrow> duration_since now (tg_refreshed_at g) \<le> tc_ttl V"

definition trust_is_stale_beyond :: "trust_cache \<Rightarrow> instant \<Rightarrow> trust_generation \<Rightarrow> bool" where
  "trust_is_stale_beyond V now g \<longleftrightarrow> duration_since now (tg_refreshed_at g) > tc_stale_max V"

definition trust_is_ready :: "trust_cache \<Rightarrow> instant \<Rightarrow> trust_state \<Rightarrow> bool" where
  "trust_is_ready V now \<tau> \<longleftrightarrow>
     (case tr_generation \<tau> of Some g \<Rightarrow> \<not> trust_is_stale_beyond V now g | None \<Rightarrow> False)"

definition snapshot_for ::
  "trust_cache \<Rightarrow> instant \<Rightarrow> attester_destination \<Rightarrow> trust_state \<Rightarrow> attester_set_snapshot option" where
  "snapshot_for V now dest \<tau> =
     (case tr_generation \<tau> of
        None \<Rightarrow> None
      | Some g \<Rightarrow>
          if trust_is_stale_beyond V now g then None
          else (case dest of Sepolia \<Rightarrow> Some (tg_sepolia g) | StellarTestnet \<Rightarrow> Some (tg_stellar g)))"

section \<open>Refresh\<close>

fun attester_source :: "attester_destination \<Rightarrow> string" where
  "attester_source Sepolia = ''evm_message_transmitter_v2''"
| "attester_source StellarTestnet = ''stellar_message_transmitter_v2''"

text \<open>The loop over the readers; a later reader of the same destination replaces an earlier one.\<close>

fun read_sets ::
  "signing \<Rightarrow> bytes list \<Rightarrow> bytes32 \<Rightarrow> u64 \<Rightarrow> instant \<Rightarrow>
     (attester_destination \<times> (raw_on_chain_attester_set, attester_set_error) pure) list \<Rightarrow>
     attester_set_snapshot option \<Rightarrow> attester_set_snapshot option \<Rightarrow>
     (attester_set_snapshot option \<times> attester_set_snapshot option, attestation_trust_error) pure" where
  "read_sets K keys h gen now [] sepolia stellar = Ok (sepolia, stellar) ()"
| "read_sets K keys h gen now ((dest, reply) # rs) sepolia stellar =
     andThen (map_err (Trust_AttesterSet \<circ> attester_set_error_string) reply ()) (\<lambda>on_chain _.
     andThen (map_err (Trust_AttesterSet \<circ> attester_set_error_string)
                (validate_attester_set_parity K dest on_chain keys h gen now (attester_source dest)) ())
       (\<lambda>snap _.
         case dest of
           Sepolia \<Rightarrow> read_sets K keys h gen now rs (Some snap) stellar
         | StellarTestnet \<Rightarrow> read_sets K keys h gen now rs sepolia (Some snap)))"

definition build_generation ::
  "trust_cache \<Rightarrow> instant \<Rightarrow> refresh_deps \<Rightarrow> trust_state \<Rightarrow>
     (trust_generation, attestation_trust_error, trust_state) outcome" where
  "build_generation V now deps \<tau> =
     andThen (map_err Trust_Iris (fetch_public_keys deps) \<tau>) (\<lambda>iris_addresses \<tau>.
       if iris_addresses = [] then Err (Trust_Iris ''empty'') \<tau>
       else if length iris_addresses > MAX_IRIS_PUBLIC_KEYS then Err (Trust_Iris ''too many keys'') \<tau>
       else
         let sorted_iris = remdups_adj (sort iris_addresses);
             iris_hash = iris_candidate_hash (tc_signing V) sorted_iris
         in unwrap (plain_add_u64 (tc_checks V) (tr_counter \<tau>) 1) (\<lambda>generation.
            let \<tau> = \<tau>\<lparr>tr_counter := (tr_counter \<tau> + 1) mod 2 ^ 64\<rparr>
            in andThen (map_err id (read_sets (tc_signing V) sorted_iris iris_hash generation now
                                      (readers deps) None None) \<tau>) (\<lambda>(sepolia_snap, stellar_snap) \<tau>.
               ok_or sepolia_snap (Trust_AttesterSet ''missing sepolia reader'') \<tau> (\<lambda>sepolia.
               ok_or stellar_snap (Trust_AttesterSet ''missing stellar reader'') \<tau> (\<lambda>stellar.
                 Ok \<lparr>tg_generation = generation, tg_refreshed_at = now,
                     tg_iris = \<lparr>it_addresses = sorted_iris, it_set_hash = iris_hash\<rparr>,
                     tg_sepolia = sepolia, tg_stellar = stellar\<rparr> \<tau>)))))"

definition full_refresh_inner ::
  "trust_cache \<Rightarrow> clock \<Rightarrow> refresh_deps \<Rightarrow> bool \<Rightarrow> trust_state \<Rightarrow>
     (unit, attestation_trust_error, trust_state) outcome" where
  "full_refresh_inner V clk deps force \<tau> =
     (let rebuild =
        andThen (build_generation V (clk 2) deps \<tau>) (\<lambda>g \<tau>.
          Ok () (\<tau>\<lparr>tr_generation := Some g, tr_builds := (tr_builds \<tau> + 1) mod 2 ^ 64\<rparr>))
      in case tr_generation \<tau> of
           None \<Rightarrow> rebuild
         | Some g \<Rightarrow>
             if \<not> force \<and> trust_is_fresh V (clk 0) g then Ok () \<tau>
             else if trust_is_stale_beyond V (clk 1) g then Err Trust_Stale \<tau>
             else rebuild)"

definition full_refresh ::
  "trust_cache \<Rightarrow> clock \<Rightarrow> refresh_deps \<Rightarrow> trust_state \<Rightarrow>
     (unit, attestation_trust_error, trust_state) outcome" where
  "full_refresh V clk deps \<tau> = full_refresh_inner V clk deps False \<tau>"

definition force_full_refresh ::
  "trust_cache \<Rightarrow> clock \<Rightarrow> refresh_deps \<Rightarrow> trust_state \<Rightarrow>
     (unit, attestation_trust_error, trust_state) outcome" where
  "force_full_refresh V clk deps \<tau> = full_refresh_inner V clk deps True \<tau>"

definition ensure_fresh ::
  "trust_cache \<Rightarrow> clock \<Rightarrow> refresh_deps \<Rightarrow> trust_state \<Rightarrow>
     (unit, attestation_trust_error, trust_state) outcome" where
  "ensure_fresh V clk deps \<tau> =
     (case tr_generation \<tau> of
        Some g \<Rightarrow>
          if trust_is_fresh V (clk 0) g then Ok () \<tau>
          else if trust_is_stale_beyond V (clk 1) g then Err Trust_Stale \<tau>
          else full_refresh V (after 2 clk) deps \<tau>
      | None \<Rightarrow> full_refresh V (after 2 clk) deps \<tau>)"

text \<open>One round of the background task; the result of the refresh is dropped.\<close>

definition background_refresh ::
  "trust_cache \<Rightarrow> clock \<Rightarrow> refresh_deps \<Rightarrow> trust_state \<Rightarrow>
     (unit, attestation_trust_error, trust_state) outcome" where
  "background_refresh V clk deps \<tau> =
     (if trust_is_ready V (clk 0) \<tau> \<and>
         (case tr_generation \<tau> of Some g \<Rightarrow> trust_is_fresh V (clk 1) g | None \<Rightarrow> False)
      then Ok () \<tau>
      else case full_refresh V (after 2 clk) deps \<tau> of
             Ok _ \<tau> \<Rightarrow> Ok () \<tau> | Err _ \<tau> \<Rightarrow> Ok () \<tau> | Panic \<Rightarrow> Panic)"

section \<open>The verifier\<close>

datatype attestation_verify_error =
    Att_NotReady | Att_Empty | Att_EmptyMessage | Att_WrongCorridor | Att_Invalid string

definition with_error :: "('d \<Rightarrow> 'e) \<Rightarrow> ('a, 'd, 's) outcome \<Rightarrow> ('a, 'e, 's) outcome" where
  "with_error f m = (case m of Ok v s \<Rightarrow> Ok v s | Err e s \<Rightarrow> Err (f e) s | Panic \<Rightarrow> Panic)"

definition verify_with_snapshot ::
  "signing \<Rightarrow> bytes \<Rightarrow> bytes \<Rightarrow> attester_set_snapshot \<Rightarrow> bytes32 \<Rightarrow> (unit, attestation_verify_error) pure" where
  "verify_with_snapshot K raw att snap iris_hash =
     (if as_iris_set_hash snap \<noteq> iris_hash then Err Att_NotReady ()
      else andThen (map_err (Att_Invalid \<circ> reason_label)
                      (verify_attestation_signatures K raw att (as_signature_threshold snap)
                         (as_enabled_addresses snap)) ()) (\<lambda>_ _. Ok () ()))"

definition bootstrap ::
  "trust_cache \<Rightarrow> clock \<Rightarrow> refresh_deps \<Rightarrow> trust_state \<Rightarrow>
     (unit, attestation_verify_error, trust_state) outcome" where
  "bootstrap V clk deps \<tau> =
     andThen (with_error (\<lambda>_. Att_NotReady) (full_refresh V clk deps \<tau>)) (\<lambda>_ \<tau>.
       if \<not> trust_is_ready V (clk 3) \<tau> then Err Att_NotReady \<tau> else Ok () \<tau>)"

text \<open>A check against the current generation.\<close>

definition verify_current ::
  "trust_cache \<Rightarrow> instant \<Rightarrow> attester_destination \<Rightarrow> bytes \<Rightarrow> bytes \<Rightarrow> trust_state \<Rightarrow>
     (unit, attestation_verify_error, trust_state) outcome" where
  "verify_current V now dest raw att \<tau> =
     ok_or (tr_generation \<tau>) Att_NotReady \<tau> (\<lambda>g.
     ok_or (snapshot_for V now dest \<tau>) Att_NotReady \<tau> (\<lambda>snap.
       map_err id (verify_with_snapshot (tc_signing V) raw att snap (it_set_hash (tg_iris g))) \<tau>))"

definition circle_verify_attestation ::
  "trust_cache \<Rightarrow> clock \<Rightarrow> (nat \<Rightarrow> refresh_deps) \<Rightarrow> bytes \<Rightarrow> bytes \<Rightarrow> trust_state \<Rightarrow>
     (unit, attestation_verify_error, trust_state) outcome" where
  "circle_verify_attestation V clk deps raw att \<tau> =
     (if raw = [] then Err Att_EmptyMessage \<tau>
      else if att = [] then Err Att_Empty \<tau>
      else
        andThen (with_error (\<lambda>_. Att_NotReady) (ensure_fresh V clk (deps 0) \<tau>)) (\<lambda>_ \<tau>.
        andThen (map_err (\<lambda>_. Att_Invalid ''parse'') (parse_cctp_v2_message raw) \<tau>) (\<lambda>m \<tau>.
        ok_or (destination_for_message (m_source_domain m) (m_destination_domain m)) Att_WrongCorridor \<tau> (\<lambda>dest.
          if \<not> (m_source_domain m = STELLAR_TESTNET_DOMAIN \<and> m_destination_domain m = SEPOLIA_DOMAIN \<or>
                m_source_domain m = SEPOLIA_DOMAIN \<and> m_destination_domain m = STELLAR_TESTNET_DOMAIN)
          then Err Att_WrongCorridor \<tau>
          else
            case verify_current V (clk 5) dest raw att \<tau> of
              Err (Att_Invalid reason) \<tau> \<Rightarrow>
                if reason = reason_label UnknownSigner then
                  andThen (with_error (\<lambda>_. Att_NotReady) (force_full_refresh V (after 6 clk) (deps 1) \<tau>))
                    (\<lambda>_ \<tau>. verify_current V (clk 9) dest raw att \<tau>)
                else Err (Att_Invalid reason) \<tau>
            | other \<Rightarrow> other))))"

section \<open>Runs of the verifier\<close>

text \<open>
  Where trust comes from: the key lists Iris has published, and the attester sets the
  message transmitter of each destination has had. A refresh may fail in any way, but
  what its sources report is so.
\<close>

record trust_sources =
  published :: "bytes list \<Rightarrow> bool"
  enabled_at :: "attester_destination \<Rightarrow> raw_on_chain_attester_set \<Rightarrow> bool"

definition reports :: "trust_sources \<Rightarrow> refresh_deps \<Rightarrow> bool" where
  "reports W deps \<longleftrightarrow>
     (\<forall>keys. fetch_public_keys deps = Ok keys () \<longrightarrow> published W keys) \<and>
     (\<forall>dest reply oc. (dest, reply) \<in> set (readers deps) \<longrightarrow> reply = Ok oc () \<longrightarrow> enabled_at W dest oc)"

text \<open>
  What can happen to the trust of a running verifier: it is started, its background
  task runs, attestations are verified, in any order; \<open>clocks\<close> restricts the readings of
  the clock.
\<close>

inductive trust_step ::
  "trust_cache \<Rightarrow> trust_sources \<Rightarrow> (clock \<Rightarrow> bool) \<Rightarrow> trust_state \<Rightarrow> trust_state \<Rightarrow> bool"
  for V W clocks where
  start: "clocks clk \<Longrightarrow> reports W deps \<Longrightarrow> leaves (bootstrap V clk deps \<tau>) \<tau>' \<Longrightarrow>
    trust_step V W clocks \<tau> \<tau>'"
| tick: "clocks clk \<Longrightarrow> reports W deps \<Longrightarrow> leaves (background_refresh V clk deps \<tau>) \<tau>' \<Longrightarrow>
    trust_step V W clocks \<tau> \<tau>'"
| verify: "clocks clk \<Longrightarrow> \<forall>k. reports W (answers k) \<Longrightarrow>
    leaves (circle_verify_attestation V clk answers raw att \<tau>) \<tau>' \<Longrightarrow> trust_step V W clocks \<tau> \<tau>'"

abbreviation trust_reachable :: "trust_cache \<Rightarrow> trust_sources \<Rightarrow> trust_state \<Rightarrow> bool" where
  "trust_reachable V W \<equiv> reachable_by (\<lambda>\<tau>. \<tau> = trust_new) (trust_step V W (\<lambda>_. True))"

text \<open>A snapshot is well formed against the keys, and is a set its destination has had.\<close>

definition snapshot_wf ::
  "signing \<Rightarrow> trust_sources \<Rightarrow> bytes list \<Rightarrow> attester_destination \<Rightarrow> attester_set_snapshot \<Rightarrow> bool" where
  "snapshot_wf K W keys dest snap \<longleftrightarrow>
     set_wf K keys snap \<and> as_destination snap = dest \<and>
     (\<exists>oc. enabled_at W dest oc \<and> set (as_enabled_addresses snap) = set (oc_enabled_addresses oc) \<and>
        as_signature_threshold snap = oc_signature_threshold oc)"

definition generation_wf :: "signing \<Rightarrow> trust_sources \<Rightarrow> trust_generation \<Rightarrow> bool" where
  "generation_wf K W g \<longleftrightarrow>
     it_set_hash (tg_iris g) = iris_candidate_hash K (it_addresses (tg_iris g)) \<and>
     (\<exists>keys. published W keys \<and> set (it_addresses (tg_iris g)) = set keys) \<and>
     snapshot_wf K W (it_addresses (tg_iris g)) Sepolia (tg_sepolia g) \<and>
     snapshot_wf K W (it_addresses (tg_iris g)) StellarTestnet (tg_stellar g)"

definition trust_wf :: "trust_cache \<Rightarrow> trust_sources \<Rightarrow> trust_state \<Rightarrow> bool" where
  "trust_wf V W \<tau> \<longleftrightarrow> (\<forall>g. tr_generation \<tau> = Some g \<longrightarrow> generation_wf (tc_signing V) W g)"

lemma leaves_wp: "wp m (\<lambda>_. I) (\<lambda>_. I) \<Longrightarrow> leaves m \<tau>' \<Longrightarrow> I \<tau>'"
  by (cases m) (auto simp: wp_simps leaves_def)

lemma wp_with_error [wp_simps]: "wp (with_error f m) P Q = wp m P (\<lambda>e s. Q (f e) s)"
  by (cases m) (simp_all add: with_error_def wp_simps)

lemma with_error_Ok [simp]: "with_error f m = Ok v s \<longleftrightarrow> m = Ok v s"
  by (cases m) (simp_all add: with_error_def)

lemma read_sets_wf:
  assumes "read_sets K keys h gen now rs sepolia stellar = Ok (sepolia', stellar') ()"
    and "\<And>dest oc. (dest, Ok oc ()) \<in> set rs \<Longrightarrow> enabled_at W dest oc"
    and "\<And>x. sepolia = Some x \<Longrightarrow> snapshot_wf K W keys Sepolia x"
    and "\<And>x. stellar = Some x \<Longrightarrow> snapshot_wf K W keys StellarTestnet x"
  shows "(\<forall>x. sepolia' = Some x \<longrightarrow> snapshot_wf K W keys Sepolia x) \<and>
    (\<forall>x. stellar' = Some x \<longrightarrow> snapshot_wf K W keys StellarTestnet x)"
  using assms
proof (induction rs arbitrary: sepolia stellar)
  case (Cons r rs)
  obtain dest reply where r: "r = (dest, reply)"
    by (cases r)
  obtain oc snap where reply: "reply = Ok oc ()" and
    snap: "validate_attester_set_parity K dest oc keys h gen now (attester_source dest) = Ok snap ()" and
    rest: "(case dest of Sepolia \<Rightarrow> read_sets K keys h gen now rs (Some snap) stellar
      | StellarTestnet \<Rightarrow> read_sets K keys h gen now rs sepolia (Some snap)) = Ok (sepolia', stellar') ()"
    using Cons.prems(1) by (simp only: r read_sets.simps andThen_Ok map_err_Ok) blast
  have wf: "snapshot_wf K W keys dest snap"
    using parity_Ok [OF snap] Cons.prems(2) [of dest oc] unfolding snapshot_wf_def r reply by auto
  show ?case
  proof (cases dest)
    case Sepolia
    with rest wf Cons.prems(2-4) show ?thesis
      by (intro Cons.IH [of "Some snap" stellar]) simp_all
  next
    case StellarTestnet
    with rest wf Cons.prems(2-4) show ?thesis
      by (intro Cons.IH [of sepolia "Some snap"]) simp_all
  qed
qed simp

lemma trust_wf_counter [simp]:
  "trust_wf V W (\<tau>\<lparr>tr_counter := n\<rparr>) = trust_wf V W \<tau>" "trust_wf V W (\<tau>\<lparr>tr_builds := n\<rparr>) = trust_wf V W \<tau>"
  by (simp_all add: trust_wf_def)

lemma build_generation_wf:
  assumes "trust_wf V W \<tau>" "reports W deps"
  shows "wp (build_generation V now deps \<tau>)
    (\<lambda>g \<tau>'. generation_wf (tc_signing V) W g \<and> trust_wf V W \<tau>' \<and> tg_refreshed_at g = now) (\<lambda>_. trust_wf V W)"
proof -
  have "\<And>dest oc. (dest, Ok oc ()) \<in> set (readers deps) \<Longrightarrow> enabled_at W dest oc"
    and keys: "\<And>keys. fetch_public_keys deps = Ok keys () \<Longrightarrow> published W keys"
    using assms(2) by (simp_all add: reports_def)
  from read_sets_wf [OF _ this(1)]
  have "snapshot_wf K W keys Sepolia a \<and> snapshot_wf K W keys StellarTestnet b"
    if "read_sets K keys h gen now (readers deps) None None = Ok (Some a, Some b) ()" for K keys h gen a b
    using that by blast
  then show ?thesis
    unfolding build_generation_def
    by (simp add: wp_simps assms(1) Let_def split del: if_split)
      (auto simp: generation_wf_def dest: keys)
qed

lemma full_refresh_inner_wf:
  assumes "trust_wf V W \<tau>" "reports W deps"
  shows "wp (full_refresh_inner V clk deps force \<tau>) (\<lambda>_. trust_wf V W) (\<lambda>_. trust_wf V W)"
proof -
  have "wp (andThen (build_generation V (clk 2) deps \<tau>) (\<lambda>g \<tau>.
      Ok () (\<tau>\<lparr>tr_generation := Some g, tr_builds := (tr_builds \<tau> + 1) mod 2 ^ 64\<rparr>)))
      (\<lambda>_. trust_wf V W) (\<lambda>_. trust_wf V W)"
    unfolding wp_andThen
    by (rule wp_mono [OF build_generation_wf [OF assms]]) (simp_all add: wp_simps trust_wf_def)
  then show ?thesis
    using assms(1) by (simp add: full_refresh_inner_def wp_simps Let_def del: One_nat_def)
qed

lemma ensure_fresh_wf:
  "trust_wf V W \<tau> \<Longrightarrow> reports W deps \<Longrightarrow> wp (ensure_fresh V clk deps \<tau>) (\<lambda>_. trust_wf V W) (\<lambda>_. trust_wf V W)"
  by (simp add: ensure_fresh_def full_refresh_def wp_simps full_refresh_inner_wf)

lemma verify_current_keeps: "leaves (verify_current V now dest raw att \<tau>) \<tau>' \<Longrightarrow> \<tau>' = \<tau>"
  by (cases "verify_current V now dest raw att \<tau>")
    (auto simp: verify_current_def leaves_def ok_or_def map_err_def split: option.splits outcome.splits)

lemma verify_current_cases:
  obtains "verify_current V now dest raw att \<tau> = Ok () \<tau>"
  | e where "verify_current V now dest raw att \<tau> = Err e \<tau>"
  | "verify_current V now dest raw att \<tau> = Panic"
  using verify_current_keeps [of V now dest raw att \<tau>]
  by (cases "verify_current V now dest raw att \<tau>") (auto simp: leaves_def)

text \<open>
  An attestation that is accepted is accepted against the trust the verifier ends with,
  through a message of the corridor.
\<close>

lemma circle_verify_wp:
  assumes "trust_wf V W \<tau>" "\<forall>k. reports W (answers k)"
  shows "wp (circle_verify_attestation V clk answers raw att \<tau>)
    (\<lambda>_ \<tau>'. trust_wf V W \<tau>' \<and> (\<exists>m dest i. parse_cctp_v2_message raw = Ok m () \<and>
       destination_for_message (m_source_domain m) (m_destination_domain m) = Some dest \<and>
       verify_current V (clk i) dest raw att \<tau>' = Ok () \<tau>'))
    (\<lambda>_ \<tau>'. trust_wf V W \<tau>')"
proof -
  let ?P = "\<lambda>dest \<tau>'. trust_wf V W \<tau>' \<and> (\<exists>i. verify_current V (clk i) dest raw att \<tau>' = Ok () \<tau>')"
  have final: "wp (verify_current V (clk i) dest raw att \<tau>') (\<lambda>_. ?P dest) (\<lambda>_. trust_wf V W)"
    if "trust_wf V W \<tau>'" for i dest \<tau>'
    by (rule verify_current_cases [of V "clk i" dest raw att \<tau>']) (use that in \<open>auto simp: wp_simps\<close>)
  have retry: "wp (case verify_current V (clk 5) dest raw att \<tau>' of
      Err (Att_Invalid reason) \<tau> \<Rightarrow>
        if reason = reason_label UnknownSigner then
          andThen (with_error (\<lambda>_. Att_NotReady) (force_full_refresh V (after 6 clk) (answers 1) \<tau>))
            (\<lambda>_ \<tau>. verify_current V (clk 9) dest raw att \<tau>)
        else Err (Att_Invalid reason) \<tau>
      | other \<Rightarrow> other) (\<lambda>_. ?P dest) (\<lambda>_. trust_wf V W)"
    if wf: "trust_wf V W \<tau>'" for dest \<tau>'
  proof (rule verify_current_cases [of V "clk 5" dest raw att \<tau>'])
    fix e
    assume "verify_current V (clk 5) dest raw att \<tau>' = Err e \<tau>'"
    moreover have "wp (force_full_refresh V (after 6 clk) (answers 1) \<tau>')
        (\<lambda>_ \<tau>. wp (verify_current V (clk 9) dest raw att \<tau>) (\<lambda>_. ?P dest) (\<lambda>_. trust_wf V W)) (\<lambda>_. trust_wf V W)"
      unfolding force_full_refresh_def
      by (rule wp_mono [OF full_refresh_inner_wf [OF wf]]) (use assms(2) in \<open>auto intro: final\<close>)
    ultimately show ?thesis
      using wf by (cases e) (simp_all add: wp_simps)
  qed (use wf in \<open>auto simp: wp_simps\<close>)
  show ?thesis
    unfolding circle_verify_attestation_def wp_if wp_andThen wp_with_error
    by (intro conjI impI wp_mono [OF ensure_fresh_wf [OF assms(1)]];
        (simp add: wp_simps assms; fail)?)
      (auto simp: wp_simps intro!: wp_mono [OF retry])
qed

lemma trust_step_wf: "trust_step V W clocks \<tau> \<tau>' \<Longrightarrow> trust_wf V W \<tau> \<Longrightarrow> trust_wf V W \<tau>'"
proof (induction rule: trust_step.induct)
  case (start clk deps \<tau> \<tau>')
  then show ?case
    by (elim leaves_wp [rotated])
      (auto simp: bootstrap_def full_refresh_def wp_simps intro!: wp_mono [OF full_refresh_inner_wf])
next
  case (tick clk deps \<tau> \<tau>')
  have "wp (full_refresh V (after 2 clk) deps \<tau>) (\<lambda>_. trust_wf V W) (\<lambda>_. trust_wf V W)"
    unfolding full_refresh_def by (rule full_refresh_inner_wf) (rule tick)+
  then have "wp (background_refresh V clk deps \<tau>) (\<lambda>_. trust_wf V W) (\<lambda>_. trust_wf V W)"
    using tick.prems by (auto simp: background_refresh_def wp_def split: outcome.splits)
  then show ?case
    using tick.hyps(3) by (rule leaves_wp)
next
  case (verify clk answers raw att \<tau> \<tau>')
  then show ?case
    by (elim leaves_wp [rotated]) (rule wp_mono [OF circle_verify_wp], auto)
qed

interpretation trust: step_invariant "\<lambda>\<tau>. \<tau> = trust_new" "trust_step V W clocks" "trust_wf V W" for V W clocks
  by unfold_locales (simp add: trust_wf_def trust_new_def, rule trust_step_wf)

text \<open>
  A quorum of attesters for a message: as many different signers as the destination's
  contract asks for, all of them enabled there and among the keys Iris publishes.
\<close>

definition quorum_signed :: "signing \<Rightarrow> trust_sources \<Rightarrow> bytes \<Rightarrow> bytes \<Rightarrow> bool" where
  "quorum_signed K W raw att \<longleftrightarrow>
     (\<exists>m dest oc keys signers. parse_cctp_v2_message raw = Ok m () \<and>
        destination_for_message (m_source_domain m) (m_destination_domain m) = Some dest \<and>
        enabled_at W dest oc \<and> published W keys \<and> set (oc_enabled_addresses oc) \<subseteq> set keys \<and>
        signed_by K raw att signers \<and> distinct signers \<and> set signers \<subseteq> set (oc_enabled_addresses oc) \<and>
        length signers = oc_signature_threshold oc \<and> 0 < oc_signature_threshold oc)"

lemma verify_current_Ok:
  assumes "verify_current V now dest raw att \<tau> = Ok () \<tau>" "trust_wf V W \<tau>"
  shows "\<exists>g snap signers. tr_generation \<tau> = Some g \<and> \<not> trust_is_stale_beyond V now g \<and>
    snapshot_wf (tc_signing V) W (it_addresses (tg_iris g)) dest snap \<and>
    generation_wf (tc_signing V) W g \<and>
    verify_attestation_signatures (tc_signing V) raw att (as_signature_threshold snap)
      (as_enabled_addresses snap) = Ok signers ()"
  using assms
  by (cases dest) (auto simp: verify_current_def snapshot_for_def verify_with_snapshot_def trust_wf_def
      generation_wf_def split: if_splits)

lemma circle_verify_Ok:
  assumes "circle_verify_attestation V clk answers raw att \<tau> = Ok () \<tau>'" "trust_wf V W \<tau>"
    and "\<forall>k. reports W (answers k)"
  shows "(\<exists>g i. tr_generation \<tau>' = Some g \<and> \<not> trust_is_stale_beyond V (clk i) g) \<and>
    quorum_signed (tc_signing V) W raw att"
proof -
  obtain m dest i where m: "parse_cctp_v2_message raw = Ok m ()"
      "destination_for_message (m_source_domain m) (m_destination_domain m) = Some dest"
    and cur: "verify_current V (clk i) dest raw att \<tau>' = Ok () \<tau>'" and wf: "trust_wf V W \<tau>'"
    using wp_Ok [OF circle_verify_wp [OF assms(2,3)] assms(1)] by blast
  obtain g snap signers where g: "tr_generation \<tau>' = Some g" "\<not> trust_is_stale_beyond V (clk i) g"
    and snap: "snapshot_wf (tc_signing V) W (it_addresses (tg_iris g)) dest snap"
    and gen: "generation_wf (tc_signing V) W g"
    and sigs: "verify_attestation_signatures (tc_signing V) raw att (as_signature_threshold snap)
      (as_enabled_addresses snap) = Ok signers ()"
    using verify_current_Ok [OF cur wf] by blast
  obtain oc where oc: "enabled_at W dest oc" "set (as_enabled_addresses snap) = set (oc_enabled_addresses oc)"
      "as_signature_threshold snap = oc_signature_threshold oc"
    using snap by (auto simp: snapshot_wf_def)
  obtain keys where keys: "published W keys" "set (it_addresses (tg_iris g)) = set keys"
    using gen by (auto simp: generation_wf_def)
  have "sorted (as_enabled_addresses snap)" "set (as_enabled_addresses snap) \<subseteq> set keys"
    using snap keys by (auto simp: snapshot_wf_def set_wf_def)
  moreover from this have "signed_by (tc_signing V) raw att signers" "length signers = oc_signature_threshold oc"
      "set signers \<subseteq> set (oc_enabled_addresses oc)" "0 < oc_signature_threshold oc"
    using sigs oc by (simp_all add: signatures_Ok)
  ultimately have "quorum_signed (tc_signing V) W raw att"
    using m oc keys signed_by_distinct [of "tc_signing V" raw att signers]
    unfolding quorum_signed_def by metis
  then show ?thesis
    using g by blast
qed

section \<open>Stale trust\<close>

text \<open>Trust is past recovery when every reading of the clock finds it stale beyond the policy.\<close>

definition stale_from :: "trust_cache \<Rightarrow> instant \<Rightarrow> trust_state \<Rightarrow> bool" where
  "stale_from V x \<tau> \<longleftrightarrow> (\<exists>g. tr_generation \<tau> = Some g \<and> trust_is_stale_beyond V x g)"

lemma stale_later: "trust_is_stale_beyond V x g \<Longrightarrow> x \<le> y \<Longrightarrow> trust_is_stale_beyond V y g"
  by (auto simp: trust_is_stale_beyond_def duration_since_def)

lemma stale_refresh:
  assumes "stale_from V x \<tau>" "\<forall>i. x \<le> clk i"
  shows "full_refresh_inner V clk deps force \<tau> \<in> {Ok () \<tau>, Err Trust_Stale \<tau>}"
    and "ensure_fresh V clk deps \<tau> \<in> {Ok () \<tau>, Err Trust_Stale \<tau>}"
    and "\<not> trust_is_ready V (clk i) \<tau>" "snapshot_for V (clk i) dest \<tau> = None"
proof -
  obtain g where "tr_generation \<tau> = Some g" "\<forall>i. trust_is_stale_beyond V (clk i) g"
    using assms stale_later by (auto simp: stale_from_def)
  then show "full_refresh_inner V clk deps force \<tau> \<in> {Ok () \<tau>, Err Trust_Stale \<tau>}"
    "ensure_fresh V clk deps \<tau> \<in> {Ok () \<tau>, Err Trust_Stale \<tau>}"
    "\<not> trust_is_ready V (clk i) \<tau>" "snapshot_for V (clk i) dest \<tau> = None"
    by (simp_all add: full_refresh_inner_def ensure_fresh_def trust_is_ready_def snapshot_for_def Let_def)
qed

lemma andThen_Panic: "andThen m f = Panic \<longleftrightarrow> m = Panic \<or> (\<exists>v s. m = Ok v s \<and> f v s = Panic)"
  by (cases m) auto

lemma parse_not_panic: "parse_cctp_v2_message b \<noteq> Panic"
proof -
  have "read_u32_be b k \<noteq> Panic" "read_bytes32 b k \<noteq> Panic" "read_u256 b k \<noteq> Panic" for b k
    by (simp_all add: read_u32_be_def read_bytes32_def read_u256_def ok_or_def split: option.splits)
  then show ?thesis
    by (simp add: parse_cctp_v2_message_def parse_burn_message_body_def andThen_Panic)
qed

lemma stale_verify:
  assumes "stale_from V x \<tau>" "\<forall>i. x \<le> clk i"
  shows "\<exists>e. circle_verify_attestation V clk answers raw att \<tau> = Err e \<tau>"
proof -
  have "verify_current V (clk i) dest raw att \<tau> = Err Att_NotReady \<tau>" for i dest
    by (cases "tr_generation \<tau>") (simp_all add: verify_current_def stale_refresh [OF assms])
  then show ?thesis
    using stale_refresh(2) [OF assms, of "answers 0"] parse_not_panic [of raw]
    by (cases "parse_cctp_v2_message raw")
      (auto simp: circle_verify_attestation_def with_error_def ok_or_def split: option.splits)
qed

lemma stale_step:
  assumes "trust_step V W (\<lambda>clk. \<forall>i. x \<le> clk i) \<tau> \<tau>'" "stale_from V x \<tau>"
  shows "\<tau>' = \<tau>"
  using assms(1)
proof cases
  case (start clk deps)
  then show ?thesis
    using stale_refresh(1) [OF assms(2) start(1), of deps False]
    by (auto simp: bootstrap_def full_refresh_def with_error_def leaves_def split: if_splits)
next
  case (tick clk deps)
  then have later: "\<forall>i. x \<le> after 2 clk i"
    by (simp add: after_def)
  show ?thesis
    using stale_refresh(1) [OF assms(2) later, of deps False] tick(3)
    by (auto simp: background_refresh_def full_refresh_def leaves_def split: if_splits)
next
  case (verify clk answers raw att)
  then show ?thesis
    using stale_verify [OF assms(2) verify(1), of answers raw att] by (auto simp: leaves_def)
qed

end
