(* ===== verification/Attestation_Guarantees.thy ===== *)
theory Attestation_Guarantees
  imports Bridge_Guarantees Cctp_Trust
begin

text \<open>
  What an accepted attestation shows about its signers, what that means for the
  transfers of the bridge, and how the verifier's trust can be lost for good.
\<close>

section \<open>A demonstration verifier\<close>

text \<open>
  A scheme in which the first half of a signature is the public key and a key's bytes
  are its hash, one attester, and a source that reports it.
\<close>

definition demo_signing :: signing where
  "demo_signing =
     \<lparr>keccak = (\<lambda>b. take 32 (b @ replicate 32 0)), sha256_digest = (\<lambda>b. take 32 (b @ replicate 32 0)),
      valid_recovery_id = (\<lambda>v. v \<le> 3), valid_signature = (\<lambda>_. True),
      recover_point = (\<lambda>digest sig rid. Some (4 # sig))\<rparr>"

definition demo_cache :: trust_cache where
  "demo_cache = \<lparr>tc_signing = demo_signing, tc_checks = True, tc_ttl = seconds 900, tc_stale_max = seconds 3600\<rparr>"

definition demo_attester :: bytes where
  "demo_attester = replicate 20 1"

definition demo_set :: raw_on_chain_attester_set where
  "demo_set = \<lparr>oc_signature_threshold = 1, oc_enabled_addresses = [demo_attester], oc_block_or_ledger = None\<rparr>"

definition demo_deps :: refresh_deps where
  "demo_deps = \<lparr>fetch_public_keys = Ok [demo_attester] (),
     readers = [(Sepolia, Ok demo_set ()), (StellarTestnet, Ok demo_set ())]\<rparr>"

definition demo_sources :: trust_sources where
  "demo_sources = \<lparr>published = (\<lambda>keys. keys = [demo_attester]), enabled_at = (\<lambda>_ oc. oc = demo_set)\<rparr>"

definition demo_snapshot :: "attester_destination \<Rightarrow> attester_set_snapshot" where
  "demo_snapshot dest =
     \<lparr>as_destination = dest, as_signature_threshold = 1, as_enabled_addresses = [demo_attester],
      as_iris_set_hash = iris_candidate_hash demo_signing [demo_attester],
      as_on_chain_set_hash = on_chain_set_hash demo_signing [demo_attester], as_enabled_count = 1,
      as_verified_at = 0, as_block_or_ledger = None, as_source = attester_source dest, as_generation = 1\<rparr>"

definition demo_generation :: trust_generation where
  "demo_generation =
     \<lparr>tg_generation = 1, tg_refreshed_at = 0,
      tg_iris = \<lparr>it_addresses = [demo_attester], it_set_hash = iris_candidate_hash demo_signing [demo_attester]\<rparr>,
      tg_sepolia = demo_snapshot Sepolia, tg_stellar = demo_snapshot StellarTestnet\<rparr>"

definition demo_trust :: trust_state where
  "demo_trust = \<lparr>tr_generation = Some demo_generation, tr_counter = 1, tr_builds = 1\<rparr>"

lemma demo_reports: "reports demo_sources demo_deps"
  by (auto simp: reports_def demo_sources_def demo_deps_def)

lemma demo_refresh: "full_refresh demo_cache still demo_deps trust_new = Ok () demo_trust"
proof -
  have "validate_attester_set_parity demo_signing dest demo_set [demo_attester]
      (iris_candidate_hash demo_signing [demo_attester]) 1 0 (attester_source dest) = Ok (demo_snapshot dest) ()" for dest
    by (simp add: validate_attester_set_parity_def demo_set_def demo_snapshot_def attestation_bounds
        u32_max_def Let_def)
  from this [of Sepolia] this [of StellarTestnet] show ?thesis
    by (simp add: full_refresh_def full_refresh_inner_def build_generation_def trust_new_def demo_deps_def
        demo_cache_def attestation_bounds plain_add_u64_def u64_max_def demo_trust_def demo_generation_def
        Let_def del: andThen_Ok)
qed

lemma demo_trust_reachable: "trust_reachable demo_cache demo_sources demo_trust"
proof -
  have "bootstrap demo_cache still demo_deps trust_new = Ok () demo_trust"
    by (simp add: bootstrap_def demo_refresh with_error_def trust_is_ready_def demo_trust_def
        trust_is_stale_beyond_def duration_since_def demo_generation_def seconds_def
        del: andThen_Ok) (simp add: demo_cache_def seconds_def)
  then have "trust_step demo_cache demo_sources (\<lambda>_. True) trust_new demo_trust"
    by (intro trust_step.start [of _ still _ demo_deps]) (simp_all add: demo_reports leaves_def)
  then show ?thesis
    using reachable_by.start [of "\<lambda>\<tau>. \<tau> = trust_new"] by (rule reachable_by.step [rotated]) simp
qed

lemma demo_recovers:
  "recover_signer_address demo_signing digest demo_attestation = Ok demo_attester ()"
  by (simp add: recover_signer_address_def parse_signature_component_def demo_attestation_def
      SIGNATURE_LENGTH_def is_high_s_def SECP256K1_HALF_N_def normalize_recovery_id_def demo_signing_def
      eth_address_from_pubkey_xy_def demo_attester_def replicate_unfold Let_def del: andThen_Ok)

lemma demo_signed_by: "signed_by demo_signing msg demo_attestation [demo_attester]"
proof -
  have att: "take SIGNATURE_LENGTH demo_attestation = demo_attestation" "length demo_attestation = SIGNATURE_LENGTH"
    by (simp_all add: demo_attestation_def SIGNATURE_LENGTH_def)
  have "replicate 20 0 < demo_attester"
    by (simp add: demo_attester_def replicate_unfold)
  then show ?thesis
    by (simp add: signed_by_def signature_at_def att demo_recovers)
qed

lemma demo_parses:
  "\<exists>m. parse_cctp_v2_message demo_raw = Ok m () \<and> m_source_domain m = 27 \<and> m_destination_domain m = 0"
  unfolding demo_raw_def parse_synthetic [OF demo_expectations_sized]
  by (simp add: synthetic_parsed_def demo_expectations_def)

lemma demo_raw_size: "demo_raw \<noteq> []" "length demo_raw \<le> MAX_RAW_MESSAGE_BYTES"
proof -
  have "length demo_raw = 376"
    unfolding demo_raw_def using build_synthetic_shape(1) [OF demo_expectations_sized]
    by (simp add: demo_expectations_def)
  then show "demo_raw \<noteq> []" "length demo_raw \<le> MAX_RAW_MESSAGE_BYTES"
    by (auto simp: MAX_RAW_MESSAGE_BYTES_def)
qed

lemma demo_verifies:
  "circle_verify_attestation demo_cache still (\<lambda>_. demo_deps) demo_raw demo_attestation demo_trust = Ok () demo_trust"
proof -
  obtain m where m: "parse_cctp_v2_message demo_raw = Ok m ()" "m_source_domain m = 27" "m_destination_domain m = 0"
    using demo_parses by blast
  have "verify_attestation_signatures demo_signing demo_raw demo_attestation 1 [demo_attester] = Ok [demo_attester] ()"
    using demo_raw_size demo_signed_by
    by (subst signatures_Ok) (auto simp: demo_attestation_def MAX_ATTESTATION_BYTES_def)
  moreover have "\<not> trust_is_stale_beyond demo_cache 0 demo_generation" "trust_is_fresh demo_cache 0 demo_generation"
    by (simp_all add: trust_is_stale_beyond_def trust_is_fresh_def duration_since_def demo_generation_def
        demo_cache_def seconds_def)
  ultimately have "verify_current demo_cache 0 Sepolia demo_raw demo_attestation demo_trust = Ok () demo_trust"
    "ensure_fresh demo_cache still demo_deps demo_trust = Ok () demo_trust"
    by (simp_all add: verify_current_def snapshot_for_def verify_with_snapshot_def demo_trust_def ensure_fresh_def)
      (simp_all add: demo_generation_def demo_snapshot_def demo_cache_def)
  then show ?thesis
    using m demo_raw_size(1)
    by (simp add: circle_verify_attestation_def with_error_def destination_for_message_def
        STELLAR_TESTNET_DOMAIN_def SEPOLIA_DOMAIN_def demo_attestation_def del: andThen_Ok)
qed

section \<open>Signers\<close>

text \<open>
  C28. Equivalence. Against a sorted list of enabled attesters the signature check
  accepts an attestation, returning the signers, exactly when message and attestation
  are within their bounds, the attestation is one 65-byte signature per required signer,
  each signature recovers over the hash of the message to its signer, the signers are
  strictly ascending, and all of them are enabled.
\<close>

theorem signatures_accepted_iff:
  assumes "sorted attesters"
  shows "verify_attestation_signatures K msg att n attesters = Ok signers () \<longleftrightarrow>
    msg \<noteq> [] \<and> length msg \<le> MAX_RAW_MESSAGE_BYTES \<and> length att \<le> MAX_ATTESTATION_BYTES \<and>
    0 < n \<and> length signers = n \<and> length att = n * SIGNATURE_LENGTH \<and>
    (\<forall>i < n. recover_signer_address K (keccak K msg) (signature_at att i) = Ok (signers ! i) ()) \<and>
    sorted_wrt (<) (replicate 20 0 # signers) \<and> set signers \<subseteq> set attesters"
  using signatures_Ok [OF assms, of K msg att n signers] unfolding signed_by_def by blast

theorem signatures_accepted_iff_witness:
  "verify_attestation_signatures demo_signing demo_raw demo_attestation 1 [demo_attester] = Ok [demo_attester] () \<and>
   verify_attestation_signatures demo_signing demo_raw demo_attestation 1 [demo_attester] \<noteq> Ok [] ()"
proof -
  have "length demo_attestation \<le> MAX_ATTESTATION_BYTES" "signed_by demo_signing demo_raw demo_attestation [demo_attester]"
    by (simp add: demo_attestation_def MAX_ATTESTATION_BYTES_def) (rule demo_signed_by)
  then show ?thesis
    using demo_raw_size
      signatures_accepted_iff [of "[demo_attester]" demo_signing demo_raw demo_attestation 1 "[demo_attester]"]
      signatures_accepted_iff [of "[demo_attester]" demo_signing demo_raw demo_attestation 1 "[]"]
    by (simp add: signed_by_def)
qed

text \<open>
  C26. Whatever the verifier accepts, in any state it can reach and whatever its
  refreshes meet, is a message of the corridor signed by a quorum: as many different
  signers as the message transmitter of the destination asked for, every one of them
  enabled there and every enabled attester a key Iris has published. The trust it was
  checked against is not stale beyond the policy.
\<close>

theorem attestation_needs_quorum:
  assumes "trust_reachable V W \<tau>" "\<forall>k. reports W (answers k)"
    and "circle_verify_attestation V clk answers raw att \<tau> = Ok () \<tau>'"
  shows "(\<exists>m dest oc keys signers. parse_cctp_v2_message raw = Ok m () \<and>
      destination_for_message (m_source_domain m) (m_destination_domain m) = Some dest \<and>
      enabled_at W dest oc \<and> published W keys \<and> set (oc_enabled_addresses oc) \<subseteq> set keys \<and>
      0 < oc_signature_threshold oc \<and> length signers = oc_signature_threshold oc \<and> distinct signers \<and>
      set signers \<subseteq> set (oc_enabled_addresses oc) \<and> signed_by (tc_signing V) raw att signers) \<and>
    (\<exists>g i. tr_generation \<tau>' = Some g \<and> clk i - tg_refreshed_at g \<le> tc_stale_max V)"
proof -
  note ok = circle_verify_Ok [OF assms(3) trust.inv_reachable [OF assms(1)] assms(2)]
  have "clk i - tg_refreshed_at g \<le> tc_stale_max V" if "\<not> trust_is_stale_beyond V (clk i) g" for g i
    using that by (simp add: trust_is_stale_beyond_def duration_since_def)
  then have "\<exists>g i. tr_generation \<tau>' = Some g \<and> clk i - tg_refreshed_at g \<le> tc_stale_max V"
    using ok by blast
  with ok show ?thesis
    unfolding quorum_signed_def by blast
qed

theorem attestation_needs_quorum_witness:
  "\<exists>signers. signers \<noteq> [] \<and> distinct signers \<and> set signers \<subseteq> {demo_attester} \<and>
     signed_by demo_signing demo_raw demo_attestation signers"
proof -
  have sources: "enabled_at demo_sources dest oc \<longleftrightarrow> oc = demo_set" for dest oc
    by (simp add: demo_sources_def)
  have "tc_signing demo_cache = demo_signing"
    by (simp add: demo_cache_def)
  then obtain oc signers where "oc = demo_set" "0 < oc_signature_threshold oc"
    "length signers = oc_signature_threshold oc" "distinct signers" "set signers \<subseteq> set (oc_enabled_addresses oc)"
    "signed_by demo_signing demo_raw demo_attestation signers"
    using attestation_needs_quorum [OF demo_trust_reachable _ demo_verifies] demo_reports sources by metis
  then show ?thesis
    by (intro exI [of _ signers]) (auto simp: demo_set_def)
qed

definition circle_accepts :: "trust_cache \<Rightarrow> trust_sources \<Rightarrow> bytes \<Rightarrow> bytes \<Rightarrow> bool" where
  "circle_accepts V W raw att \<longleftrightarrow>
     (\<exists>clk answers \<tau> \<tau>'. trust_reachable V W \<tau> \<and> (\<forall>k. reports W (answers k)) \<and>
        circle_verify_attestation V clk answers raw att \<tau> = Ok () \<tau>')"

text \<open>
  C27. In a bridge whose services accept only what this verifier has accepted, every
  reachable transfer with an attestation holds a message bound to its terms and signed
  by a quorum of the attesters of its destination.
\<close>

theorem quorum_backs_mints:
  assumes "bridge_reachable checks D any_call \<sigma>" "\<forall>raw att. attested (pr_chain D) raw att \<longrightarrow> circle_accepts V W raw att"
    and "transfers (db \<sigma>) tid = Some t"
    and "status t \<in> {AttestationReady, MintPrepared, MintSubmitted, MintFailedRetryable, Completed}"
  shows "\<exists>raw att. raw_message t = Some raw \<and> attestation t = Some att \<and>
    message_matches D (saga_of t) raw \<and> quorum_signed (tc_signing V) W raw att"
proof -
  have "backed D (saga_of t)"
    using sound.reached [OF assms(1)] assms(3) by (auto simp: sagas_def)
  moreover have "attestation_held (status t)"
    using assms(4) by auto
  ultimately have "\<exists>raw att n. raw_message t = Some raw \<and> attestation t = Some att \<and> message_nonce t = Some n \<and>
      message_matches D (saga_of t) raw \<and> attested (pr_chain D) raw att"
    by (simp add: backed_def)
  then obtain raw att where row: "raw_message t = Some raw" "attestation t = Some att"
      "message_matches D (saga_of t) raw" and att: "attested (pr_chain D) raw att"
    by blast
  from att obtain clk answers \<tau> \<tau>' where "trust_reachable V W \<tau>" "\<forall>k. reports W (answers k)"
      "circle_verify_attestation V clk answers raw att \<tau> = Ok () \<tau>'"
    using assms(2) unfolding circle_accepts_def by blast
  then have "quorum_signed (tc_signing V) W raw att"
    using circle_verify_Ok trust.inv_reachable by blast
  with row show ?thesis
    by blast
qed

theorem quorum_backs_mints_witness:
  "\<exists>(\<sigma> :: demo_state) t raw att. bridge_reachable True demo_protocol any_call \<sigma> \<and> transfers (db \<sigma>) 1 = Some t \<and>
     status t = Completed \<and> raw_message t = Some raw \<and> attestation t = Some att \<and>
     quorum_signed demo_signing demo_sources raw att"
proof -
  obtain \<sigma> :: demo_state and t where d: "bridge_reachable True demo_protocol any_call \<sigma>"
    "transfers (db \<sigma>) 1 = Some t" "status t = settled_status MintSucceeded"
    using demo_settled [of MintSucceeded] by metis
  have "circle_accepts demo_cache demo_sources demo_raw demo_attestation"
    unfolding circle_accepts_def
    by (intro exI [of _ still] exI [of _ "\<lambda>_. demo_deps"] exI [of _ demo_trust])
      (simp add: demo_trust_reachable demo_reports demo_verifies)
  then have "\<forall>raw att. attested (pr_chain demo_protocol) raw att \<longrightarrow> circle_accepts demo_cache demo_sources raw att"
    by (simp add: demo_protocol_def demo_chain_def)
  then have "\<exists>raw att. raw_message t = Some raw \<and> attestation t = Some att \<and>
      message_matches demo_protocol (saga_of t) raw \<and> quorum_signed (tc_signing demo_cache) demo_sources raw att"
    by (rule quorum_backs_mints [OF d(1) _ d(2)]) (simp add: d(3))
  then show ?thesis
    using d by (auto simp: demo_cache_def)
qed

section \<open>Stale trust\<close>

text \<open>
  C29. Once the trust of a running verifier is older than the stale limit, it is lost for
  good: with a clock that does not go back, no start, no round of the background task
  and no verification replaces it, whatever Iris and the chains answer, and every
  verification fails. A refresh refuses to replace trust that is too old.
\<close>

theorem stale_trust_never_recovers:
  assumes "(trust_step V W (\<lambda>clk. \<forall>i. x \<le> clk i))\<^sup>*\<^sup>* \<tau> \<tau>'"
    and "tr_generation \<tau> = Some g" "tc_stale_max V < x - tg_refreshed_at g" "0 \<le> tc_stale_max V"
    and "\<forall>i. x \<le> clk i"
  shows "\<tau>' = \<tau> \<and> \<not> trust_is_ready V (clk i) \<tau>' \<and>
    (\<exists>e. circle_verify_attestation V clk answers raw att \<tau>' = Err e \<tau>')"
proof -
  have stale: "stale_from V x \<tau>"
    using assms(2-4) by (auto simp: stale_from_def trust_is_stale_beyond_def duration_since_def)
  have "\<tau>' = \<tau>"
    using assms(1)
  proof (induction rule: rtranclp_induct)
    case (step \<tau>\<^sub>1 \<tau>\<^sub>2)
    then show ?case
      using stale_step [OF step(2)] stale by simp
  qed simp
  then show ?thesis
    using stale_refresh(3) [OF stale assms(5)] stale_verify [OF stale assms(5)] by simp
qed

theorem stale_trust_never_recovers_witness:
  "trust_reachable demo_cache demo_sources demo_trust \<and> \<not> trust_is_ready demo_cache (seconds 3601) demo_trust \<and>
   (\<exists>e. circle_verify_attestation demo_cache (\<lambda>_. seconds 3601) (\<lambda>_. demo_deps) demo_raw demo_attestation demo_trust =
      Err e demo_trust)"
proof -
  have "\<not> trust_is_ready demo_cache ((\<lambda>_. seconds 3601) 0) demo_trust \<and>
      (\<exists>e. circle_verify_attestation demo_cache (\<lambda>_. seconds 3601) (\<lambda>_. demo_deps) demo_raw demo_attestation demo_trust =
        Err e demo_trust)"
    using stale_trust_never_recovers [of demo_cache demo_sources "seconds 3601" demo_trust demo_trust demo_generation
        "\<lambda>_. seconds 3601" 0 "\<lambda>_. demo_deps" demo_raw demo_attestation]
    by (simp add: demo_trust_def demo_cache_def demo_generation_def seconds_def)
  then show ?thesis
    using demo_trust_reachable by simp
qed

end
