(* ===== verification/Cctp_Access.thy ===== *)
theory Cctp_Access
  imports Cctp_Service
begin

unbundle bit_operations_syntax

text \<open>
  What the bridge's HTTP routes keep beside the transfers: the capability tokens of
  \<open>cctp/access.rs\<close>, of which only a hash is stored, and the idempotency keys of quotes
  (\<open>cctp/idempotency.rs\<close>) with the in-memory store. The MAC, the base64 alphabet, the
  bytes of a \<open>Uuid\<close> and the JSON of a request are those of the crates and are parameters;
  random draws are arguments.
\<close>

section \<open>Access tokens\<close>

definition TRANSFER_ACCESS_HEADER :: string where "TRANSFER_ACCESS_HEADER = ''x-cctp-transfer-access''"
definition MIN_HMAC_KEY_BYTES :: nat where "MIN_HMAC_KEY_BYTES = 32"
definition MAX_PREVIOUS_HMAC_KEYS :: nat where "MAX_PREVIOUS_HMAC_KEYS = 2"
definition MAX_ACCESS_TOKEN_LEN :: nat where "MAX_ACCESS_TOKEN_LEN = 128"

record token_crates =
  hmac_sha256 :: "bytes \<Rightarrow> bytes \<Rightarrow> bytes"
  base64url :: "bytes \<Rightarrow> string"
  uuid_bytes :: "uuid \<Rightarrow> bytes"
  parse_uuid :: "string \<Rightarrow> uuid option"
  request_json :: "cctp_quote_request \<Rightarrow> string option"

definition as_bytes :: "string \<Rightarrow> bytes" where
  "as_bytes s = map (\<lambda>c. word_of_nat (of_char c)) s"

definition hash_access_token :: "libs \<Rightarrow> string \<Rightarrow> string" where
  "hash_access_token L token = sha256_hex L (trim token)"

text \<open>Whether the format is accepted; the callers drop the text of the error.\<close>

definition validate_access_token_format :: "string \<Rightarrow> bool" where
  "validate_access_token_format token \<longleftrightarrow>
     (let trimmed = trim token in check_str_len trimmed MAX_ACCESS_TOKEN_LEN \<and> trimmed \<noteq> [])"

definition constant_time_eq :: "bytes \<Rightarrow> bytes \<Rightarrow> bool" where
  "constant_time_eq a b \<longleftrightarrow>
     (if length a \<noteq> length b then False
      else foldl (\<lambda>diff (x, y). diff OR (x XOR y)) 0 (zip a b) = 0)"

definition access_tokens_match :: "libs \<Rightarrow> string \<Rightarrow> string \<Rightarrow> bool" where
  "access_tokens_match L persisted_hash presented \<longleftrightarrow>
     validate_access_token_format presented \<and>
     constant_time_eq (as_bytes persisted_hash) (as_bytes (hash_access_token L presented))"

definition generate_ephemeral_access_token :: "libs \<Rightarrow> token_crates \<Rightarrow> bytes \<Rightarrow> string \<times> string" where
  "generate_ephemeral_access_token L T raw =
     (let token = base64url T raw in (token, hash_access_token L token))"

definition hash_lease_owner :: "libs \<Rightarrow> string \<Rightarrow> string" where
  "hash_lease_owner L owner_nonce = hash_access_token L owner_nonce"

section \<open>The key ring\<close>

record access_key_ring =
  kr_current :: bytes
  kr_previous :: "bytes list"

definition from_single_key :: "bytes \<Rightarrow> access_key_ring option" where
  "from_single_key k =
     (if length k \<ge> MIN_HMAC_KEY_BYTES then Some \<lparr>kr_current = k, kr_previous = []\<rparr> else None)"

definition with_previous :: "access_key_ring \<Rightarrow> bytes list \<Rightarrow> access_key_ring" where
  "with_previous ring previous = ring\<lparr>kr_previous := take MAX_PREVIOUS_HMAC_KEYS previous\<rparr>"

definition derive_idempotent_token_with_key ::
  "token_crates \<Rightarrow> bytes \<Rightarrow> string \<Rightarrow> string \<Rightarrow> uuid \<Rightarrow> string" where
  "derive_idempotent_token_with_key T k idempotency_key request_hash tid =
     base64url T (hmac_sha256 T k
       (as_bytes ''cctp-transfer-access-v1'' @ [0] @ as_bytes idempotency_key @ [0] @
        as_bytes request_hash @ [0] @ uuid_bytes T tid))"

definition derive_idempotent_token ::
  "token_crates \<Rightarrow> access_key_ring \<Rightarrow> string \<Rightarrow> string \<Rightarrow> uuid \<Rightarrow> string" where
  "derive_idempotent_token T ring = derive_idempotent_token_with_key T (kr_current ring)"

definition recover_idempotent_token ::
  "libs \<Rightarrow> token_crates \<Rightarrow> access_key_ring \<Rightarrow> string \<Rightarrow> string \<Rightarrow> uuid \<Rightarrow> string \<Rightarrow> string option" where
  "recover_idempotent_token L T ring idempotency_key request_hash tid stored_hash =
     find (access_tokens_match L stored_hash)
       (map (\<lambda>k. derive_idempotent_token_with_key T k idempotency_key request_hash tid)
          (kr_current ring # kr_previous ring))"

section \<open>Idempotency keys\<close>

definition IDEMPOTENCY_HEADER :: string where "IDEMPOTENCY_HEADER = ''idempotency-key''"
definition MAX_IDEMPOTENCY_KEY_LEN :: nat where "MAX_IDEMPOTENCY_KEY_LEN = 128"
definition MAX_QUOTE_REQUEST_BYTES :: nat where "MAX_QUOTE_REQUEST_BYTES = 8192"
definition IDEMPOTENCY_LEASE_SECS :: i64 where "IDEMPOTENCY_LEASE_SECS = 30"

datatype cctp_idempotency_error =
    Idem_Database | Idem_Store cctp_store_error | KeyTooLong | RequestTooLarge | Idem_Conflict | PendingInProgress

datatype idempotency_state = Idem_Pending | Idem_Completed

record idempotency_claim =
  ic_transfer_id :: uuid
  ic_state :: idempotency_state
  ic_is_owner :: bool
  ic_request_hash :: string

definition hash_quote_request :: "libs \<Rightarrow> string \<Rightarrow> (string, cctp_idempotency_error) pure" where
  "hash_quote_request L body =
     (if length body > MAX_QUOTE_REQUEST_BYTES then Err RequestTooLarge () else Ok (sha256_hex L body) ())"

definition canonical_quote_request_hash ::
  "libs \<Rightarrow> token_crates \<Rightarrow> cctp_quote_request \<Rightarrow> (string, cctp_idempotency_error) pure" where
  "canonical_quote_request_hash L T r =
     ok_or (request_json T r) Idem_Database () (hash_quote_request L)"

definition normalize_idempotency_key :: "string \<Rightarrow> (string, cctp_idempotency_error) pure" where
  "normalize_idempotency_key k =
     (let trimmed = trim k
      in if \<not> check_str_len trimmed MAX_IDEMPOTENCY_KEY_LEN then Err KeyTooLong ()
         else if trimmed = [] then Err KeyTooLong () else Ok trimmed ())"

text \<open>
  The interface. Claiming draws the id of a new transfer; finalizing also writes to the
  transfer store, \<open>'s\<close>. Cleaning up visits the keys in an order of the store's own, an
  argument here.
\<close>

record ('i, 's) quote_idempotency_store =
  qi_claim_quote :: "clock \<Rightarrow> uuid \<Rightarrow> string \<Rightarrow> string \<Rightarrow> string \<Rightarrow> instant \<Rightarrow> 'i \<Rightarrow>
    (idempotency_claim, cctp_idempotency_error, 'i) outcome"
  qi_finalize_quote :: "string \<Rightarrow> string \<Rightarrow> cctp_transfer \<Rightarrow> 'i \<times> 's \<Rightarrow>
    (unit, cctp_idempotency_error, 'i \<times> 's) outcome"
  qi_cleanup_expired :: "clock \<Rightarrow> string list \<Rightarrow> u32 \<Rightarrow> 'i \<Rightarrow> (u64, cctp_idempotency_error, 'i) outcome"

record idempotency_entry =
  ie_request_hash :: string
  ie_transfer_id :: uuid
  ie_state :: idempotency_state
  ie_lease_owner_hash :: "string option"
  ie_lease_expires_at :: "instant option"
  ie_expires_at :: instant

type_synonym idem_entries = "string \<Rightarrow> idempotency_entry option"

definition mem_claim_quote ::
  "clock \<Rightarrow> uuid \<Rightarrow> string \<Rightarrow> string \<Rightarrow> string \<Rightarrow> instant \<Rightarrow> idem_entries \<Rightarrow>
     (idempotency_claim, cctp_idempotency_error, idem_entries) outcome" where
  "mem_claim_quote clk new_id k request_hash lease_owner_hash expires_at entries =
     (let now = clk 0;
          entries = (case entries k of
                       Some entry \<Rightarrow> if ie_expires_at entry \<le> now then entries(k := None) else entries
                     | None \<Rightarrow> entries);
          lease_until = now + seconds IDEMPOTENCY_LEASE_SECS
      in case entries k of
           Some entry \<Rightarrow>
             if ie_request_hash entry \<noteq> request_hash then Err Idem_Conflict entries
             else if ie_state entry = Idem_Completed then
               Ok \<lparr>ic_transfer_id = ie_transfer_id entry, ic_state = Idem_Completed, ic_is_owner = True,
                   ic_request_hash = ie_request_hash entry\<rparr> entries
             else
               let lease_active = later_than (ie_lease_expires_at entry) now;
                   is_owner = ie_lease_owner_hash entry = Some lease_owner_hash
               in if lease_active \<and> \<not> is_owner then Err PendingInProgress entries
                  else
                    let entry = entry\<lparr>ie_lease_owner_hash := Some lease_owner_hash,
                                      ie_lease_expires_at := Some lease_until\<rparr>
                    in Ok \<lparr>ic_transfer_id = ie_transfer_id entry, ic_state = Idem_Pending, ic_is_owner = True,
                           ic_request_hash = ie_request_hash entry\<rparr> (entries(k \<mapsto> entry))
         | None \<Rightarrow>
             Ok \<lparr>ic_transfer_id = new_id, ic_state = Idem_Pending, ic_is_owner = True,
                 ic_request_hash = request_hash\<rparr>
               (entries(k \<mapsto> \<lparr>ie_request_hash = request_hash, ie_transfer_id = new_id,
                   ie_state = Idem_Pending, ie_lease_owner_hash = Some lease_owner_hash,
                   ie_lease_expires_at = Some lease_until, ie_expires_at = expires_at\<rparr>)))"

text \<open>The store bound to the idempotency store is missing until \<open>bind_transfer_store\<close>.\<close>

definition mem_finalize_quote ::
  "'s transfer_store option \<Rightarrow> string \<Rightarrow> string \<Rightarrow> cctp_transfer \<Rightarrow> idem_entries \<times> 's \<Rightarrow>
     (unit, cctp_idempotency_error, idem_entries \<times> 's) outcome" where
  "mem_finalize_quote bound k lease_owner_hash t = (\<lambda>(entries, s).
     ok_or (entries k) PendingInProgress (entries, s) (\<lambda>entry.
       if ie_state entry = Idem_Completed then Ok () (entries, s)
       else if ie_transfer_id entry \<noteq> transfer_id t then Err Idem_Conflict (entries, s)
       else if ie_lease_owner_hash entry \<noteq> Some lease_owner_hash then Err PendingInProgress (entries, s)
       else
         ok_or bound (Idem_Store Store_NotFound) (entries, s) (\<lambda>S.
           case ts_insert S t s of
             Err e s \<Rightarrow> Err (Idem_Store e) (entries, s)
           | Panic \<Rightarrow> Panic
           | Ok _ s \<Rightarrow>
               Ok () (entries(k \<mapsto> entry\<lparr>ie_state := Idem_Completed, ie_lease_owner_hash := None,
                                          ie_lease_expires_at := None\<rparr>), s))))"

definition mem_cleanup_expired ::
  "clock \<Rightarrow> string list \<Rightarrow> u32 \<Rightarrow> idem_entries \<Rightarrow> (u64, cctp_idempotency_error, idem_entries) outcome" where
  "mem_cleanup_expired clk iteration limit entries =
     (let now = clk 0;
          expired = take limit (filter (\<lambda>k. case entries k of Some e \<Rightarrow> ie_expires_at e \<le> now | None \<Rightarrow> False)
                                  iteration)
      in Ok (length expired) (\<lambda>k. if k \<in> set expired then None else entries k))"

definition mem_idempotency :: "'s transfer_store option \<Rightarrow> (idem_entries, 's) quote_idempotency_store" where
  "mem_idempotency bound =
     \<lparr>qi_claim_quote = mem_claim_quote, qi_finalize_quote = mem_finalize_quote bound,
      qi_cleanup_expired = mem_cleanup_expired\<rparr>"

section \<open>What the routes rely on\<close>

lemma fold_diff_zero: "foldl (\<lambda>diff (x, y). diff OR (x XOR y)) d ps = (0 :: 8 word) \<longleftrightarrow> d = 0 \<and> (\<forall>(x, y) \<in> set ps. x = y)"
proof (induction ps arbitrary: d)
  case (Cons p ps)
  have "a XOR b = 0 \<longleftrightarrow> a = b" for a b :: "8 word"
    by (auto simp: bit_eq_iff bit_simps)
  then show ?case
    by (auto simp: Cons.IH or_eq_0_iff split: prod.splits)
qed simp

lemma constant_time_eq_iff: "constant_time_eq a b \<longleftrightarrow> a = b"
  by (auto simp: constant_time_eq_def fold_diff_zero list_eq_iff_zip_eq)

lemma as_bytes_inject [simp]: "as_bytes a = as_bytes b \<longleftrightarrow> a = b"
proof -
  have "unat (word_of_nat (of_char c) :: 8 word) = of_char c" for c
    using nat_of_char_less_256 [of c] by (simp add: unat_of_nat)
  then have "inj (\<lambda>c. word_of_nat (of_char c) :: 8 word)"
    by (intro injI) (metis of_char_eq_iff)
  then show ?thesis
    by (simp add: as_bytes_def inj_map_eq_map)
qed

lemma access_tokens_match_iff:
  "access_tokens_match L h token \<longleftrightarrow> validate_access_token_format token \<and> h = hash_access_token L token"
  by (simp add: access_tokens_match_def constant_time_eq_iff)

lemma recover_derived:
  assumes "validate_access_token_format (derive_idempotent_token T ring k h tid)"
  shows "recover_idempotent_token L T ring k h tid (hash_access_token L (derive_idempotent_token T ring k h tid)) =
    Some (derive_idempotent_token T ring k h tid)"
  using assms by (simp add: recover_idempotent_token_def derive_idempotent_token_def access_tokens_match_iff)

text \<open>
  A completed entry stands until it expires: it answers every claim under its key, with
  a conflict when the request differs, and no operation changes it. Finalizing is what
  completes an entry, and it writes to the transfers by inserting the new one only.
\<close>

definition completed_until :: "idem_entries \<Rightarrow> string \<Rightarrow> string \<Rightarrow> uuid \<Rightarrow> instant \<Rightarrow> bool" where
  "completed_until entries k h tid x \<longleftrightarrow>
     (\<exists>e. entries k = Some e \<and> ie_state e = Idem_Completed \<and> ie_request_hash e = h \<and>
          ie_transfer_id e = tid \<and> ie_expires_at e = x)"

definition pending_until :: "idem_entries \<Rightarrow> string \<Rightarrow> string \<Rightarrow> uuid \<Rightarrow> instant \<Rightarrow> bool" where
  "pending_until entries k h tid x \<longleftrightarrow>
     (\<exists>e. entries k = Some e \<and> ie_state e = Idem_Pending \<and> ie_request_hash e = h \<and>
          ie_transfer_id e = tid \<and> ie_expires_at e = x)"

locale quote_idempotency_laws =
  fixes Q :: "('i, 's) quote_idempotency_store"
    and S :: "'s transfer_store"
    and entries_of :: "'i \<Rightarrow> idem_entries"
  assumes claim_completed: "completed_until (entries_of i) k h tid x \<Longrightarrow> clk 0 < x \<Longrightarrow>
      wp (qi_claim_quote Q clk n k h' w y i)
        (\<lambda>c _. h' = h \<and> ic_state c = Idem_Completed \<and> ic_transfer_id c = tid) (\<lambda>e _. h' \<noteq> h \<longrightarrow> e = Idem_Conflict)"
    and claim_records: "wp (qi_claim_quote Q clk n k h w y i)
        (\<lambda>c i'. \<exists>x. if ic_state c = Idem_Completed then completed_until (entries_of i') k h (ic_transfer_id c) x
           else pending_until (entries_of i') k h (ic_transfer_id c) x) (\<lambda>_ _. True)"
    and claim_keeps: "completed_until (entries_of i) k h tid x \<Longrightarrow> clk 0 < x \<Longrightarrow>
      wp (qi_claim_quote Q clk n k' h' w y i) (\<lambda>_ i'. completed_until (entries_of i') k h tid x)
        (\<lambda>_ i'. completed_until (entries_of i') k h tid x)"
    and cleanup_keeps: "completed_until (entries_of i) k h tid x \<Longrightarrow> clk 0 < x \<Longrightarrow>
      wp (qi_cleanup_expired Q clk ks n i) (\<lambda>_ i'. completed_until (entries_of i') k h tid x)
        (\<lambda>_ i'. completed_until (entries_of i') k h tid x)"
    and finalize_keeps: "completed_until (entries_of i) k h tid x \<Longrightarrow>
      wp (qi_finalize_quote Q k' w t (i, s)) (\<lambda>_ (i', _). completed_until (entries_of i') k h tid x)
        (\<lambda>_ (i', _). completed_until (entries_of i') k h tid x)"
    and finalize_completes: "pending_until (entries_of i) k h tid x \<Longrightarrow>
      wp (qi_finalize_quote Q k w t (i, s))
        (\<lambda>_ (i', s'). completed_until (entries_of i') k h tid x \<and> transfer_id t = tid \<and> ts_insert S t s = Ok () s')
        (\<lambda>_ _. True)"
    and finalize_rows: "wp (qi_finalize_quote Q k w t (i, s)) (\<lambda>_ (_, s'). s' = s \<or> leaves (ts_insert S t s) s')
        (\<lambda>_ (_, s'). s' = s \<or> leaves (ts_insert S t s) s')"

lemma not_completed [simp]: "st \<noteq> Idem_Completed \<longleftrightarrow> st = Idem_Pending"
  by (cases st) simp_all

lemmas mem_idem_defs = mem_idempotency_def mem_claim_quote_def mem_finalize_quote_def mem_cleanup_expired_def

interpretation mem_idem: quote_idempotency_laws "mem_idempotency (Some S)" S id for S
proof (unfold_locales, goal_cases)
  case (1 i k h tid x clk n h' w y)
  then show ?case
    by (auto simp: mem_idem_defs completed_until_def wp_simps Let_def)
next
  case (2 clk n k h w y i)
  then show ?case
    by (auto simp: mem_idem_defs completed_until_def pending_until_def wp_simps Let_def split: option.splits)
next
  case (3 i k h tid x clk n k' h' w y)
  then show ?case
    by (cases "k' = k") (auto simp: mem_idem_defs completed_until_def wp_simps Let_def split: option.splits)
next
  case (4 i k h tid x clk ks n)
  then show ?case
    by (auto simp: mem_idem_defs completed_until_def wp_simps Let_def dest!: in_set_takeD)
next
  case (5 i k h tid x k' w t s)
  then show ?case
    by (cases "k' = k")
      (auto simp: mem_idem_defs completed_until_def wp_simps Let_def split: option.splits outcome.splits)
next
  case (6 i k h tid x w t s)
  then show ?case
    by (auto simp: mem_idem_defs completed_until_def pending_until_def wp_simps Let_def split: outcome.splits)
next
  case (7 k w t i s)
  show ?case
    by (auto simp: mem_idem_defs wp_simps Let_def leaves_def split: outcome.splits)
qed

end
