(* ===== verification/Api_Errors.thy ===== *)
theory Api_Errors
  imports Prelude
begin

text \<open>
  The errors of the API (\<open>error.rs\<close>) and what the client is sent for each of them: the
  status, the machine-readable code (\<open>models/response.rs\<close>), the message and the details.
  The payloads of the internal and the database error never reach the client and have no
  model.
\<close>

section \<open>Errors and codes\<close>

datatype api_error =
    Api_Internal | Api_BadRequest string | Api_NotFound string | Api_Database | Api_Validation string
  | Api_RateLimitExceeded | Api_Overloaded string | Api_DependencyUnavailable string
  | Api_Unauthorized string | Api_InvalidAsset string | Api_InvalidAmount string
  | Api_InvalidSlippage string | Api_InvalidAssetFormat string | Api_NoRouteFound
  | Api_NotExecutable string | Api_StaleMarketData nat nat u64 u64 | Api_NotImplemented string
  | Api_QuoteNotFound string | Api_QuoteExpired string | Api_Conflict string string string string
  | Api_TooEarly string | Api_UnsupportedExecutionMode string | Api_UnsupportedRoute string
  | Api_CctpNotEnabled string | Api_UnsupportedCorridor | Api_InvalidFinality | Api_InvalidRecipient
  | Api_FeeQuoteUnavailable string | Api_AttestationPending string | Api_AttestationExpired string
  | Api_MintRetryable string | Api_TransferNotFound string | Api_ProviderKilled string

datatype api_error_code =
    Code_InternalError | Code_BadRequest | Code_NotFound | Code_ValidationError
  | Code_RateLimitExceeded | Code_Overloaded | Code_DependencyUnavailable | Code_Unauthorized
  | Code_InvalidAsset | Code_InvalidAmount | Code_InvalidSlippage | Code_InvalidAssetFormat
  | Code_NoRoute | Code_NotExecutable | Code_StaleMarketData | Code_NotImplemented
  | Code_QuoteNotFound | Code_QuoteExpired | Code_Conflict | Code_UnsupportedExecutionMode
  | Code_UnsupportedRoute | Code_CctpNotEnabled | Code_UnsupportedCorridor
  | Code_InvalidFinality | Code_InvalidRecipient | Code_FeeQuoteUnavailable
  | Code_AttestationPending | Code_AttestationExpired | Code_MintRetryable
  | Code_TransferNotFound | Code_ProviderKilled

text \<open>\<open>ApiErrorCode::ALL\<close>, the list the clients are checked against.\<close>

definition ALL_ERROR_CODES :: "api_error_code list" where
  "ALL_ERROR_CODES =
     [Code_InternalError, Code_BadRequest, Code_NotFound, Code_ValidationError,
      Code_RateLimitExceeded, Code_Overloaded, Code_Unauthorized, Code_InvalidAsset,
      Code_InvalidAmount, Code_InvalidSlippage, Code_InvalidAssetFormat, Code_NoRoute,
      Code_NotExecutable, Code_StaleMarketData, Code_NotImplemented, Code_QuoteNotFound,
      Code_QuoteExpired, Code_Conflict, Code_UnsupportedExecutionMode, Code_UnsupportedRoute,
      Code_CctpNotEnabled, Code_UnsupportedCorridor, Code_InvalidFinality,
      Code_InvalidRecipient, Code_FeeQuoteUnavailable, Code_AttestationPending,
      Code_AttestationExpired, Code_MintRetryable, Code_TransferNotFound, Code_ProviderKilled]"

fun code_as_str :: "api_error_code \<Rightarrow> string" where
  "code_as_str Code_InternalError = ''internal_error''"
| "code_as_str Code_BadRequest = ''bad_request''"
| "code_as_str Code_NotFound = ''not_found''"
| "code_as_str Code_ValidationError = ''validation_error''"
| "code_as_str Code_RateLimitExceeded = ''rate_limit_exceeded''"
| "code_as_str Code_Overloaded = ''overloaded''"
| "code_as_str Code_DependencyUnavailable = ''dependency_unavailable''"
| "code_as_str Code_Unauthorized = ''unauthorized''"
| "code_as_str Code_InvalidAsset = ''invalid_asset''"
| "code_as_str Code_InvalidAmount = ''invalid_amount''"
| "code_as_str Code_InvalidSlippage = ''invalid_slippage''"
| "code_as_str Code_InvalidAssetFormat = ''invalid_asset_format''"
| "code_as_str Code_NoRoute = ''no_route''"
| "code_as_str Code_NotExecutable = ''not_executable''"
| "code_as_str Code_StaleMarketData = ''stale_market_data''"
| "code_as_str Code_NotImplemented = ''not_implemented''"
| "code_as_str Code_QuoteNotFound = ''quote_not_found''"
| "code_as_str Code_QuoteExpired = ''quote_expired''"
| "code_as_str Code_Conflict = ''duplicate_quote''"
| "code_as_str Code_UnsupportedExecutionMode = ''unsupported_execution_mode''"
| "code_as_str Code_UnsupportedRoute = ''unsupported_route''"
| "code_as_str Code_CctpNotEnabled = ''cctp_not_enabled''"
| "code_as_str Code_UnsupportedCorridor = ''unsupported_corridor''"
| "code_as_str Code_InvalidFinality = ''invalid_finality''"
| "code_as_str Code_InvalidRecipient = ''invalid_recipient''"
| "code_as_str Code_FeeQuoteUnavailable = ''fee_quote_unavailable''"
| "code_as_str Code_AttestationPending = ''attestation_pending''"
| "code_as_str Code_AttestationExpired = ''attestation_expired''"
| "code_as_str Code_MintRetryable = ''mint_retryable''"
| "code_as_str Code_TransferNotFound = ''transfer_not_found''"
| "code_as_str Code_ProviderKilled = ''provider_killed''"

section \<open>Responses\<close>

datatype json_value = Json_String string | Json_Number nat | Json_Bool bool

record error_response =
  er_status :: nat
  er_error :: api_error_code
  er_message :: string
  er_details :: "(string \<times> json_value) list option"

definition answer ::
  "nat \<Rightarrow> api_error_code \<Rightarrow> string \<Rightarrow> (string \<times> json_value) list option \<Rightarrow> error_response" where
  "answer code error message details =
     \<lparr>er_status = code, er_error = error, er_message = message, er_details = details\<rparr>"

fun into_response :: "api_error \<Rightarrow> error_response" where
  "into_response (Api_BadRequest msg) = answer 400 Code_BadRequest msg None"
| "into_response (Api_NotFound msg) = answer 404 Code_NotFound msg None"
| "into_response (Api_Validation msg) = answer 400 Code_ValidationError msg None"
| "into_response Api_RateLimitExceeded =
     answer 429 Code_RateLimitExceeded ''Too many requests. Please try again later.'' None"
| "into_response (Api_Overloaded msg) = answer 503 Code_Overloaded msg None"
| "into_response (Api_DependencyUnavailable msg) = answer 503 Code_DependencyUnavailable msg None"
| "into_response (Api_Unauthorized msg) = answer 401 Code_Unauthorized msg None"
| "into_response (Api_InvalidAsset msg) = answer 400 Code_InvalidAsset msg None"
| "into_response (Api_InvalidAmount msg) = answer 400 Code_InvalidAmount msg None"
| "into_response (Api_InvalidSlippage msg) = answer 400 Code_InvalidSlippage msg None"
| "into_response (Api_InvalidAssetFormat msg) = answer 400 Code_InvalidAssetFormat msg None"
| "into_response Api_NoRouteFound =
     answer 404 Code_NoRoute ''No trading route found for this pair'' None"
| "into_response (Api_NotExecutable msg) = answer 422 Code_NotExecutable msg None"
| "into_response (Api_StaleMarketData stale fresh sdex amm) =
     answer 422 Code_StaleMarketData ''All market data inputs are stale''
       (Some [(''stale_count'', Json_Number stale), (''fresh_count'', Json_Number fresh),
         (''threshold_secs_sdex'', Json_Number sdex), (''threshold_secs_amm'', Json_Number amm)])"
| "into_response (Api_QuoteNotFound quote_id) =
     answer 404 Code_QuoteNotFound (''Unknown or invalid quote_id: '' @ quote_id)
       (Some [(''quote_id'', Json_String quote_id)])"
| "into_response (Api_QuoteExpired quote_id) =
     answer 422 Code_QuoteExpired ''Quote has expired; request a fresh prepare before submitting''
       (Some [(''quote_id'', Json_String quote_id)])"
| "into_response (Api_Conflict msg quote_id tx_hash st) =
     answer 409 Code_Conflict msg
       (Some [(''quote_id'', Json_String quote_id), (''tx_hash'', Json_String tx_hash), (''status'', Json_String st)])"
| "into_response (Api_TooEarly msg) = answer 425 Code_Conflict msg None"
| "into_response (Api_UnsupportedExecutionMode msg) =
     answer 422 Code_UnsupportedExecutionMode msg None"
| "into_response (Api_UnsupportedRoute msg) = answer 422 Code_UnsupportedRoute msg None"
| "into_response (Api_CctpNotEnabled msg) = answer 503 Code_CctpNotEnabled msg None"
| "into_response Api_UnsupportedCorridor =
     answer 400 Code_UnsupportedCorridor ''Unsupported or unknown CCTP corridor'' None"
| "into_response Api_InvalidFinality =
     answer 400 Code_InvalidFinality ''Unsupported CCTP finality for this corridor'' None"
| "into_response Api_InvalidRecipient =
     answer 400 Code_InvalidRecipient ''Invalid CCTP recipient address'' None"
| "into_response (Api_FeeQuoteUnavailable msg) = answer 503 Code_FeeQuoteUnavailable msg None"
| "into_response (Api_AttestationPending tid) =
     answer 422 Code_AttestationPending ''CCTP attestation is still pending for this transfer''
       (Some [(''transfer_id'', Json_String tid)])"
| "into_response (Api_AttestationExpired tid) =
     answer 422 Code_AttestationExpired ''CCTP attestation has expired; request re-attestation before minting''
       (Some [(''transfer_id'', Json_String tid)])"
| "into_response (Api_MintRetryable tid) =
     answer 422 Code_MintRetryable ''CCTP mint failed but may be retried''
       (Some [(''transfer_id'', Json_String tid), (''retryable'', Json_Bool True)])"
| "into_response (Api_TransferNotFound tid) =
     answer 404 Code_TransferNotFound (''Unknown CCTP transfer: '' @ tid)
       (Some [(''transfer_id'', Json_String tid)])"
| "into_response (Api_ProviderKilled msg) = answer 503 Code_ProviderKilled msg None"
| "into_response Api_Database = answer 500 Code_InternalError ''An internal error occurred'' None"
| "into_response Api_Internal = answer 500 Code_InternalError ''An internal error occurred'' None"
| "into_response (Api_NotImplemented msg) = answer 501 Code_NotImplemented msg None"

lemma codes_distinct: "distinct (map code_as_str (Code_DependencyUnavailable # ALL_ERROR_CODES))"
  by (simp add: ALL_ERROR_CODES_def)

text \<open>
  The list of documented codes is not complete: the code of a response is on it for
  every error but the open dependency breaker, whose clients therefore receive a code the
  list does not have.
\<close>

theorem documented_codes:
  "er_error (into_response e) \<in> set ALL_ERROR_CODES \<longleftrightarrow> (\<nexists>msg. e = Api_DependencyUnavailable msg)"
  by (cases e) (simp_all add: answer_def ALL_ERROR_CODES_def)

end
