(* ===== verification/Circuit_Breaker.thy ===== *)
theory Circuit_Breaker
  imports Cctp_Corridor Api_Errors "HOL-Library.Sublist"
begin

text \<open>
  The circuit breaker (\<open>routing/src/health/circuit_breaker.rs\<close>) and the breakers of the
  API's dependencies (\<open>dependency_health.rs\<close>) with the guards the bridge routes ask.
  Asking whether a venue is excluded may itself move its breaker to half-open. The
  readings of the clock are numbered in the order of the source; the probes that feed
  the breakers are HTTP requests and appear as their results.
\<close>

section \<open>One breaker\<close>

datatype breaker_state = Closed | Open | HalfOpen

record breaker_config =
  failure_threshold :: u32
  success_threshold :: u32
  recovery_timeout_secs :: i64

record venue_breaker =
  vb_state :: breaker_state
  consecutive_failures :: u32
  consecutive_successes :: u32
  last_failure_at :: "instant option"
  last_transition_at :: instant

definition breaker_new :: "instant \<Rightarrow> venue_breaker" where
  "breaker_new now =
     \<lparr>vb_state = Closed, consecutive_failures = 0, consecutive_successes = 0,
      last_failure_at = None, last_transition_at = now\<rparr>"

definition transition_to :: "instant \<Rightarrow> breaker_state \<Rightarrow> venue_breaker \<Rightarrow> venue_breaker" where
  "transition_to now new_state b =
     (if vb_state b \<noteq> new_state
      then b\<lparr>vb_state := new_state, last_transition_at := now,
             consecutive_failures := 0, consecutive_successes := 0\<rparr>
      else b)"

text \<open>The counters are plain \<open>u32\<close> sums; the value \<open>None\<close> is a panic on their overflow.\<close>

definition record_failure ::
  "bool \<Rightarrow> breaker_config \<Rightarrow> clock \<Rightarrow> venue_breaker \<Rightarrow> venue_breaker option" where
  "record_failure checks cfg clk b =
     map_option (\<lambda>failures.
       let b = b\<lparr>consecutive_failures := failures, consecutive_successes := 0,
                 last_failure_at := Some (clk 0)\<rparr>
       in case vb_state b of
            Closed \<Rightarrow>
              if consecutive_failures b \<ge> failure_threshold cfg then transition_to (clk 1) Open b else b
          | HalfOpen \<Rightarrow> transition_to (clk 1) Open b
          | Open \<Rightarrow> b) (plain_add_u32 checks (consecutive_failures b) 1)"

definition record_success ::
  "bool \<Rightarrow> breaker_config \<Rightarrow> clock \<Rightarrow> venue_breaker \<Rightarrow> venue_breaker option" where
  "record_success checks cfg clk b =
     map_option (\<lambda>successes.
       let b = b\<lparr>consecutive_successes := successes, consecutive_failures := 0\<rparr>
       in case vb_state b of
            HalfOpen \<Rightarrow>
              if consecutive_successes b \<ge> success_threshold cfg then transition_to (clk 0) Closed b else b
          | Open \<Rightarrow> b
          | Closed \<Rightarrow> b) (plain_add_u32 checks (consecutive_successes b) 1)"

definition check_and_transition :: "breaker_config \<Rightarrow> clock \<Rightarrow> venue_breaker \<Rightarrow> venue_breaker" where
  "check_and_transition cfg clk b =
     (if vb_state b = Open then
        (case last_failure_at b of
           Some last_failure \<Rightarrow>
             if clk 0 - last_failure \<ge> seconds (recovery_timeout_secs cfg)
             then transition_to (clk 1) HalfOpen b else b
         | None \<Rightarrow> b)
      else b)"

section \<open>The registry\<close>

record breaker_registry =
  breakers :: "string \<Rightarrow> venue_breaker option"
  br_config :: breaker_config

definition registry_new :: "breaker_config \<Rightarrow> breaker_registry" where
  "registry_new cfg = \<lparr>breakers = (\<lambda>_. None), br_config = cfg\<rparr>"

text \<open>\<open>entry(venue).or_insert_with(VenueBreaker::new)\<close>\<close>

definition breaker_entry :: "instant \<Rightarrow> string \<Rightarrow> breaker_registry \<Rightarrow> venue_breaker" where
  "breaker_entry now venue r = unwrap_or (breakers r venue) (breaker_new now)"

definition put_breaker :: "string \<Rightarrow> venue_breaker \<Rightarrow> breaker_registry \<Rightarrow> breaker_registry" where
  "put_breaker venue b r = r\<lparr>breakers := (breakers r)(venue \<mapsto> b)\<rparr>"

definition is_venue_excluded :: "clock \<Rightarrow> string \<Rightarrow> breaker_registry \<Rightarrow> bool \<times> breaker_registry" where
  "is_venue_excluded clk venue r =
     (let b = check_and_transition (br_config r) (after 1 clk) (breaker_entry (clk 0) venue r)
      in (vb_state b = Open, put_breaker venue b r))"

definition record_result ::
  "bool \<Rightarrow> clock \<Rightarrow> string \<Rightarrow> bool \<Rightarrow> breaker_registry \<Rightarrow> breaker_registry option" where
  "record_result checks clk venue success r =
     (let b = breaker_entry (clk 0) venue r
      in map_option (\<lambda>b. put_breaker venue b r)
           (if success then record_success checks (br_config r) (after 1 clk) b
            else record_failure checks (br_config r) (after 1 clk) b))"

definition breaker_get_state :: "string \<Rightarrow> breaker_registry \<Rightarrow> breaker_state option" where
  "breaker_get_state venue r = map_option vb_state (breakers r venue)"

section \<open>The dependencies of the API\<close>

definition HORIZON_KEY :: string where "HORIZON_KEY = ''horizon''"
definition SOROBAN_KEY :: string where "SOROBAN_KEY = ''soroban_rpc''"
definition EVM_RPC_KEY :: string where "EVM_RPC_KEY = ''evm_rpc''"
definition DATABASE_KEY :: string where "DATABASE_KEY = ''database''"

definition LIVE_PATH_DEPENDENCIES :: "string list" where
  "LIVE_PATH_DEPENDENCIES = [DATABASE_KEY, SOROBAN_KEY, HORIZON_KEY]"

record dependency_health =
  horizon_breaker :: breaker_registry
  soroban_breaker :: breaker_registry
  evm_rpc_breaker :: breaker_registry
  database_breaker :: breaker_registry

definition dependency_breaker_config :: breaker_config where
  "dependency_breaker_config = \<lparr>failure_threshold = 3, success_threshold = 2, recovery_timeout_secs = 15\<rparr>"

definition dependency_health_new :: dependency_health where
  "dependency_health_new =
     (let r = registry_new dependency_breaker_config
      in \<lparr>horizon_breaker = r, soroban_breaker = r, evm_rpc_breaker = r, database_breaker = r\<rparr>)"

definition breaker_for :: "string \<Rightarrow> dependency_health \<Rightarrow> breaker_registry" where
  "breaker_for key h =
     (if key = DATABASE_KEY then database_breaker h
      else if key = SOROBAN_KEY then soroban_breaker h
      else if key = EVM_RPC_KEY then evm_rpc_breaker h
      else horizon_breaker h)"

definition set_breaker_for :: "string \<Rightarrow> breaker_registry \<Rightarrow> dependency_health \<Rightarrow> dependency_health" where
  "set_breaker_for key r h =
     (if key = DATABASE_KEY then h\<lparr>database_breaker := r\<rparr>
      else if key = SOROBAN_KEY then h\<lparr>soroban_breaker := r\<rparr>
      else if key = EVM_RPC_KEY then h\<lparr>evm_rpc_breaker := r\<rparr>
      else h\<lparr>horizon_breaker := r\<rparr>)"

text \<open>\<open>self.breaker_for(key).is_venue_excluded(key)\<close>, three readings of the clock\<close>

definition breaker_is_open :: "clock \<Rightarrow> string \<Rightarrow> dependency_health \<Rightarrow> bool \<times> dependency_health" where
  "breaker_is_open clk key h =
     (let (is_open, r) = is_venue_excluded clk key (breaker_for key h)
      in (is_open, set_breaker_for key r h))"

fun open_dependencies_in ::
  "string list \<Rightarrow> clock \<Rightarrow> dependency_health \<Rightarrow> string list \<times> dependency_health" where
  "open_dependencies_in [] clk h = ([], h)"
| "open_dependencies_in (key # keys) clk h =
     (let (is_open, h) = breaker_is_open clk key h;
          (rest, h) = open_dependencies_in keys (after 3 clk) h
      in (if is_open then key # rest else rest, h))"

definition open_dependencies :: "clock \<Rightarrow> dependency_health \<Rightarrow> string list \<times> dependency_health" where
  "open_dependencies = open_dependencies_in LIVE_PATH_DEPENDENCIES"

text \<open>The guards return the error of an open breaker, if there is one.\<close>

fun join_strings :: "string \<Rightarrow> string list \<Rightarrow> string" where
  "join_strings sep [] = []"
| "join_strings sep [x] = x"
| "join_strings sep (x # xs) = x @ sep @ join_strings sep xs"

definition guard_live_path :: "clock \<Rightarrow> dependency_health \<Rightarrow> api_error option \<times> dependency_health" where
  "guard_live_path clk h =
     (let (opened, h) = open_dependencies clk h
      in (if opened = [] then None
          else Some (Api_DependencyUnavailable (''Upstream dependency unavailable: '' @ join_strings '', '' opened @
                  ''. Circuit breaker is open; retry shortly.'')), h))"

definition guard_cctp_direction ::
  "clock \<Rightarrow> cctp_direction \<Rightarrow> dependency_health \<Rightarrow> api_error option \<times> dependency_health" where
  "guard_cctp_direction clk dir h =
     (let (source, dest, source_label, dest_label) =
            (case dir of
               StellarToEvm \<Rightarrow> (SOROBAN_KEY, EVM_RPC_KEY, ''stellar_rpc'', ''sepolia_rpc'')
             | EvmToStellar \<Rightarrow> (EVM_RPC_KEY, SOROBAN_KEY, ''sepolia_rpc'', ''stellar_rpc''));
          (source_open, h) = breaker_is_open clk source h;
          (dest_open, h) = breaker_is_open (after 3 clk) dest h
      in (if source_open \<or> dest_open
          then let parts = (if source_open then [source_label] else []) @ (if dest_open then [dest_label] else [])
               in Some (Api_DependencyUnavailable
                    (''CCTP corridor dependency unavailable: '' @ join_strings '', '' parts @
                     ''. Circuit breaker is open; retry shortly.''))
          else None, h))"

text \<open>
  \<open>record_horizon_result\<close> and its three siblings, with the refresh of the exported gauge
  that asks the breaker once more.
\<close>

definition record_dependency_result ::
  "bool \<Rightarrow> clock \<Rightarrow> string \<Rightarrow> bool \<Rightarrow> dependency_health \<Rightarrow> dependency_health option" where
  "record_dependency_result checks clk key success h =
     map_option (\<lambda>r. snd (breaker_is_open (after 3 clk) key (set_breaker_for key r h)))
       (record_result checks clk key success (breaker_for key h))"

section \<open>When a breaker excludes its venue\<close>

text \<open>
  The time of a failure is the second reading of the clock of its event. A breaker trips
  on a run of as many failures as the threshold asks for, at least one.
\<close>

fun record_results ::
  "bool \<Rightarrow> string \<Rightarrow> (clock \<times> bool) list \<Rightarrow> breaker_registry \<Rightarrow> breaker_registry option" where
  "record_results checks venue [] r = Some r"
| "record_results checks venue ((clk, success) # es) r =
     Option.bind (record_result checks clk venue success r) (record_results checks venue es)"

definition trips :: "nat \<Rightarrow> bool list \<Rightarrow> bool" where
  "trips n results \<longleftrightarrow> sublist (replicate (max 1 n) False) results"

definition last_failure :: "(clock \<times> bool) list \<Rightarrow> instant option" where
  "last_failure es = map_option (\<lambda>e. fst e 1) (find (\<lambda>e. \<not> snd e) (rev es))"

definition failing_run :: "bool list \<Rightarrow> nat" where
  "failing_run results = length (takeWhile Not (rev results))"

lemma failing_run_simps [simp]:
  "failing_run [] = 0" "failing_run (h @ [True]) = 0" "failing_run (h @ [False]) = Suc (failing_run h)"
  by (simp_all add: failing_run_def)

lemma prefix_replicate_False: "prefix (replicate n False) xs \<longleftrightarrow> n \<le> length (takeWhile Not xs)"
proof (induction n arbitrary: xs)
  case (Suc n)
  then show ?case
    by (cases xs) auto
qed simp

lemma trips_Nil [simp]: "\<not> trips n []"
  by (simp add: trips_def)

lemma trips_snoc: "trips n (h @ [x]) \<longleftrightarrow> trips n h \<or> max 1 n \<le> failing_run (h @ [x])"
proof -
  have rev: "sublist (replicate m False) ys \<longleftrightarrow> sublist (replicate m False) (rev ys)" for m ys
    using sublist_rev [of "replicate m False" ys] by simp
  show ?thesis
    unfolding trips_def failing_run_def rev [of _ "h @ [x]"] rev [of _ h]
    by (simp add: sublist_Cons_right prefix_replicate_False disj_commute)
qed

definition breaker_tracks :: "breaker_config \<Rightarrow> (clock \<times> bool) list \<Rightarrow> venue_breaker \<Rightarrow> bool" where
  "breaker_tracks cfg es b \<longleftrightarrow>
     vb_state b = (if trips (failure_threshold cfg) (map snd es) then Open else Closed) \<and>
     (\<not> trips (failure_threshold cfg) (map snd es) \<longrightarrow>
        consecutive_failures b = failing_run (map snd es)) \<and>
     last_failure_at b = last_failure es"

lemma breaker_tracks_new: "breaker_tracks cfg [] (breaker_new now)"
  by (simp add: breaker_tracks_def breaker_new_def last_failure_def)

lemma not_tripped_run: "\<not> trips n h \<Longrightarrow> failing_run h < max 1 n"
  by (cases h rule: rev_cases) (auto simp: trips_snoc)

lemma breaker_tracks_step:
  assumes "breaker_tracks cfg es b" "failure_threshold cfg \<le> u32_max"
    and "(if success then record_success checks cfg (after 1 clk) b
          else record_failure checks cfg (after 1 clk) b) = Some b'"
  shows "breaker_tracks cfg (es @ [(clk, success)]) b'"
proof (cases "trips (failure_threshold cfg) (map snd es)")
  case True
  then show ?thesis
    using assms
    by (auto simp: breaker_tracks_def record_success_def record_failure_def trips_snoc last_failure_def after_def
        Let_def split: if_splits)
next
  case False
  then have "failing_run (map snd es) < max 1 (failure_threshold cfg)"
    by (rule not_tripped_run)
  then have "plain_add_u32 checks (failing_run (map snd es)) 1 = Some (Suc (failing_run (map snd es)))"
    using assms(2) by (simp add: plain_add_u32_def u32_max_def max_def split: if_splits)
  then show ?thesis
    using assms False
    by (auto simp: breaker_tracks_def record_success_def record_failure_def trips_snoc last_failure_def after_def
        transition_to_def Let_def max_def split: if_splits)
qed

lemma record_results_snoc:
  "record_results checks venue (es @ [(clk, x)]) r =
     Option.bind (record_results checks venue es r) (record_result checks clk venue x)"
proof (induction es arbitrary: r)
  case Nil
  show ?case
    by (cases "record_result checks clk venue x r") simp_all
next
  case (Cons e es)
  then show ?case
    by (cases e; cases "record_result checks (fst e) venue (snd e) r") simp_all
qed

lemma record_results_track:
  assumes "failure_threshold cfg \<le> u32_max"
  shows "record_results checks venue es (registry_new cfg) = Some r \<Longrightarrow>
    br_config r = cfg \<and> (\<forall>now. breaker_tracks cfg es (breaker_entry now venue r))"
proof (induction es arbitrary: r rule: rev_induct)
  case Nil
  then show ?case
    by (auto simp: registry_new_def breaker_entry_def breaker_tracks_new)
next
  case (snoc e es)
  obtain clk x where e: "e = (clk, x)"
    by (cases e)
  obtain r\<^sub>0 where r\<^sub>0: "record_results checks venue es (registry_new cfg) = Some r\<^sub>0"
      "record_result checks clk venue x r\<^sub>0 = Some r"
    using snoc.prems by (auto simp: e record_results_snoc bind_eq_Some_conv)
  obtain b where b: "(if x then record_success checks (br_config r\<^sub>0) (after 1 clk) (breaker_entry (clk 0) venue r\<^sub>0)
      else record_failure checks (br_config r\<^sub>0) (after 1 clk) (breaker_entry (clk 0) venue r\<^sub>0)) = Some b"
    "r = put_breaker venue b r\<^sub>0"
    using r\<^sub>0(2) by (auto simp: record_result_def Let_def)
  have "breaker_tracks cfg (es @ [(clk, x)]) b"
    using snoc.IH [OF r\<^sub>0(1)] b(1) by (intro breaker_tracks_step [OF _ assms]) auto
  then show ?case
    using snoc.IH [OF r\<^sub>0(1)] by (simp add: e b(2) breaker_entry_def put_breaker_def)
qed

lemma check_and_transition_Open:
  "vb_state (check_and_transition cfg clk b) = Open \<longleftrightarrow>
     vb_state b = Open \<and> (\<forall>f. last_failure_at b = Some f \<longrightarrow> clk 0 - f < seconds (recovery_timeout_secs cfg))"
  by (auto simp: check_and_transition_def transition_to_def split: option.splits)

section \<open>Breakers recover\<close>

text \<open>
  An open breaker has a failure on record, and it is open for the recovery timeout after
  the last one only.
\<close>

definition breaker_ok :: "venue_breaker \<Rightarrow> bool" where
  "breaker_ok b \<longleftrightarrow> (vb_state b = Open \<longrightarrow> last_failure_at b \<noteq> None)"

definition registry_ok :: "breaker_registry \<Rightarrow> bool" where
  "registry_ok r \<longleftrightarrow> br_config r = dependency_breaker_config \<and> (\<forall>v b. breakers r v = Some b \<longrightarrow> breaker_ok b)"

definition health_ok :: "dependency_health \<Rightarrow> bool" where
  "health_ok h \<longleftrightarrow> registry_ok (horizon_breaker h) \<and> registry_ok (soroban_breaker h) \<and>
     registry_ok (evm_rpc_breaker h) \<and> registry_ok (database_breaker h)"

lemma breaker_ok_step:
  "breaker_ok (breaker_new now)"
  "breaker_ok b \<Longrightarrow> breaker_ok (check_and_transition cfg clk b)"
  "breaker_ok b \<Longrightarrow> record_success checks cfg clk b = Some b' \<Longrightarrow> breaker_ok b'"
  "record_failure checks cfg clk b = Some b' \<Longrightarrow> breaker_ok b'"
  by (auto simp: breaker_ok_def breaker_new_def check_and_transition_def transition_to_def record_success_def
      record_failure_def Let_def split: option.splits if_splits breaker_state.splits)

lemma registry_ok_entry: "registry_ok r \<Longrightarrow> breaker_ok (breaker_entry now venue r)"
  by (cases "breakers r venue") (simp_all add: registry_ok_def breaker_entry_def breaker_ok_step)

lemma registry_ok_put: "registry_ok r \<Longrightarrow> breaker_ok b \<Longrightarrow> registry_ok (put_breaker venue b r)"
  by (simp add: registry_ok_def put_breaker_def)

lemma registry_ok_steps:
  assumes "registry_ok r"
  shows "registry_ok (snd (is_venue_excluded clk venue r))"
    and "record_result checks clk venue success r = Some r' \<Longrightarrow> registry_ok r'"
  using assms
  by (auto simp: is_venue_excluded_def record_result_def Let_def split: if_splits
      intro!: registry_ok_put intro: breaker_ok_step registry_ok_entry)

lemma health_ok_for: "health_ok h \<Longrightarrow> registry_ok (breaker_for key h)"
  by (simp add: health_ok_def breaker_for_def)

lemma health_ok_set: "health_ok h \<Longrightarrow> registry_ok r \<Longrightarrow> health_ok (set_breaker_for key r h)"
  by (simp add: health_ok_def set_breaker_for_def)

lemma breaker_is_open_ok: "health_ok h \<Longrightarrow> health_ok (snd (breaker_is_open clk key h))"
  by (simp add: breaker_is_open_def case_prod_beta Let_def health_ok_set health_ok_for registry_ok_steps)

lemma open_dependencies_in_ok: "health_ok h \<Longrightarrow> health_ok (snd (open_dependencies_in keys clk h))"
  by (induction keys arbitrary: clk h) (simp_all add: case_prod_beta Let_def breaker_is_open_ok)

inductive health_step :: "bool \<Rightarrow> dependency_health \<Rightarrow> dependency_health \<Rightarrow> bool" for checks where
  result: "record_dependency_result checks clk key success h = Some h' \<Longrightarrow> health_step checks h h'"
| live_path: "guard_live_path clk h = (passes, h') \<Longrightarrow> health_step checks h h'"
| direction: "guard_cctp_direction clk dir h = (passes, h') \<Longrightarrow> health_step checks h h'"

lemma guards_ok:
  assumes "health_ok h"
  shows "health_ok (snd (guard_live_path clk h))" "health_ok (snd (guard_cctp_direction clk dir h))"
  using assms
  by (simp_all add: guard_live_path_def open_dependencies_def guard_cctp_direction_def case_prod_beta Let_def
      open_dependencies_in_ok breaker_is_open_ok)

abbreviation health_reachable :: "bool \<Rightarrow> dependency_health \<Rightarrow> bool" where
  "health_reachable checks \<equiv> reachable_by (\<lambda>h. h = dependency_health_new) (health_step checks)"

interpretation health: step_invariant "\<lambda>h. h = dependency_health_new" "health_step checks" health_ok for checks
proof
  fix h
  assume "h = dependency_health_new"
  then show "health_ok h"
    by (simp add: health_ok_def dependency_health_new_def registry_ok_def registry_new_def Let_def)
next
  fix h h'
  assume ok: "health_ok h" and "health_step checks h h'"
  from this(2) show "health_ok h'"
  proof cases
    case (result clk key success)
    then show ?thesis
      using registry_ok_steps(2) [OF health_ok_for [OF ok]] ok
      by (auto simp: record_dependency_result_def intro!: breaker_is_open_ok health_ok_set)
  qed (use guards_ok [OF ok] in \<open>metis snd_conv\<close>)+
qed

text \<open>The time of the last failure of a dependency.\<close>

definition failed_at :: "string \<Rightarrow> dependency_health \<Rightarrow> instant option" where
  "failed_at key h = Option.bind (breakers (breaker_for key h) key) last_failure_at"

lemma breaker_is_open_failed_at [simp]: "failed_at k (snd (breaker_is_open clk key h)) = failed_at k h"
proof -
  have keeps: "last_failure_at (check_and_transition cfg c b) = last_failure_at b" for cfg c b
    by (auto simp: check_and_transition_def transition_to_def split: option.splits)
  show ?thesis
    by (cases "breakers (breaker_for key h) key")
      (auto simp: failed_at_def breaker_is_open_def is_venue_excluded_def Let_def case_prod_beta breaker_for_def
        set_breaker_for_def put_breaker_def breaker_entry_def keeps breaker_new_def)
qed

lemma breaker_is_open_recent:
  assumes "health_ok h" "fst (breaker_is_open clk key h)"
  shows "\<exists>f. failed_at key h = Some f \<and> clk 1 - f < seconds 15"
proof -
  let ?r = "breaker_for key h"
  have r: "registry_ok ?r"
    using assms(1) by (rule health_ok_for)
  have "vb_state (check_and_transition (br_config ?r) (after 1 clk) (breaker_entry (clk 0) key ?r)) = Open"
    using assms(2) by (simp add: breaker_is_open_def is_venue_excluded_def Let_def)
  then obtain b where b: "breakers ?r key = Some b" "vb_state b = Open"
    and "\<forall>f. last_failure_at b = Some f \<longrightarrow> clk 1 - f < seconds 15"
    using r unfolding check_and_transition_Open
    by (cases "breakers ?r key")
      (auto simp: breaker_entry_def breaker_new_def after_def registry_ok_def dependency_breaker_config_def)
  moreover have "last_failure_at b \<noteq> None"
    using r b by (auto simp only: registry_ok_def breaker_ok_def)
  ultimately show ?thesis
    by (auto simp: failed_at_def)
qed

lemma open_dependencies_recent:
  assumes "health_ok h" "key \<in> set (fst (open_dependencies_in keys clk h))"
  shows "\<exists>f i. failed_at key h = Some f \<and> clk i - f < seconds 15"
  using assms
proof (induction keys arbitrary: clk h)
  case (Cons k keys)
  let ?h = "snd (breaker_is_open clk k h)"
  show ?case
  proof (cases "fst (breaker_is_open clk k h) \<and> key = k")
    case True
    then show ?thesis
      using breaker_is_open_recent [OF Cons.prems(1)] by blast
  next
    case False
    then have "key \<in> set (fst (open_dependencies_in keys (after 3 clk) ?h))"
      using Cons.prems(2) by (auto simp: case_prod_beta Let_def split: if_splits)
    then show ?thesis
      using Cons.IH [OF breaker_is_open_ok [OF Cons.prems(1)]] by (fastforce simp: after_def)
  qed
qed simp

end
