(* ===== verification/Cctp_Gate.thy ===== *)
theory Cctp_Gate
  imports Cctp_Access Circuit_Breaker
begin

text \<open>
  The gate in front of the bridge (\<open>cctp/gate.rs\<close>, \<open>cctp/readiness.rs\<close>): whether a
  direction may be used at all, the translation of the service's errors into the errors
  of the API (\<open>error.rs\<close>), and the responses of the routes, which show a transfer without
  its message, its attestation and its token hash. Metrics have no model.
\<close>

section \<open>Errors of the bridge\<close>

fun map_validation :: "cctp_validation_error \<Rightarrow> api_error" where
  "map_validation UnsupportedCorridor = Api_UnsupportedCorridor"
| "map_validation InvalidFinality = Api_InvalidFinality"
| "map_validation InvalidRecipient = Api_InvalidRecipient"
| "map_validation InvalidAmount = Api_InvalidAmount ''amount must be a positive decimal string''"
| "map_validation InvalidSender =
     Api_Validation ''sender must be a valid G-address for Stellar or 0x address for EVM source''"
| "map_validation InvalidMintSubmitter =
     Api_Validation ''mint_submitter must be a valid Stellar G-address for evm_to_stellar''"
| "map_validation ValStellarRemainder =
     Api_Validation ''Stellar outbound amount must have zero 7th-decimal remainder''"

fun map_builder_error :: "builder_error \<Rightarrow> api_error" where
  "map_builder_error Bld_NotReady =
     Api_CctpNotEnabled ''Circle CCTP transaction builder is not ready on this deployment''"
| "map_builder_error Bld_QuoteExpired = Api_QuoteExpired ''cctp-transfer''"
| "map_builder_error Bld_FeeExpired =
     Api_FeeQuoteUnavailable ''CCTP fee quote has expired; request a new quote''"
| "map_builder_error (Bld_Validation msg) =
     (if contains_str ''sender required'' msg
      then Api_Validation ''Connect your source wallet and request a new quote before preparing the burn''
      else Api_Validation msg)"
| "map_builder_error (Bld_SimulationFailed msg) =
     (let lower = to_ascii_lowercase msg
      in if contains_str ''insufficient'' lower \<or> contains_str ''balance'' lower
         then Api_Validation ''Insufficient USDC balance on Stellar for this burn amount''
         else Api_Validation (''Could not prepare source transaction: Soroban simulation failed ('' @ msg @ '')''))"
| "map_builder_error (Bld_AccountLookup msg) =
     Api_DependencyUnavailable (''Stellar account lookup failed while preparing the burn: '' @ msg)"
| "map_builder_error (Bld_Encoding msg) =
     Api_Validation (''Could not encode CCTP source transaction: '' @ msg)"

text \<open>\<open>tid\<close> is the printed id of the transfer, where the caller knows one.\<close>

fun map_verifier_error :: "verifier_error \<Rightarrow> api_error" where
  "map_verifier_error (Ver_Transient _) =
     Api_DependencyUnavailable ''Submitted transaction is not yet available for verification; retry shortly''"
| "map_verifier_error Ver_TxNotFound =
     Api_DependencyUnavailable ''Submitted transaction is not yet available for verification; retry shortly''"
| "map_verifier_error (Ver_Failed msg) =
     (if contains_str ''wrong function'' msg \<or> contains_str ''unsupported stellar invoke'' msg
      then Api_Validation ''Submitted transaction is a USDC approval, not a burn. Click Prepare source transaction, then sign the burn.''
      else Api_Validation ''On-chain verification failed for submitted transaction'')"
| "map_verifier_error Ver_NotReady =
     Api_Validation ''On-chain verification failed for submitted transaction''"

fun map_service_error :: "cctp_service_error \<Rightarrow> string option \<Rightarrow> api_error" where
  "map_service_error Svc_NotEnabled tid =
     Api_CctpNotEnabled ''Circle CCTP bridge settlement is not enabled on this deployment''"
| "map_service_error Svc_ProviderKilled tid =
     Api_ProviderKilled ''Circle CCTP provider is temporarily unavailable''"
| "map_service_error (Svc_Validation v) tid = map_validation v"
| "map_service_error Svc_FeeQuoteUnavailable tid =
     Api_FeeQuoteUnavailable ''Runtime CCTP fee quote is unavailable''"
| "map_service_error Svc_VerifiersNotReady tid =
     Api_CctpNotEnabled ''Circle CCTP verifiers are not ready on this deployment''"
| "map_service_error Svc_NotFound tid = Api_TransferNotFound (unwrap_or tid ''unknown'')"
| "map_service_error Svc_InvalidState tid =
     Api_Validation ''Transfer is not in a valid state for this operation''"
| "map_service_error Svc_QuoteExpired tid = Api_QuoteExpired (unwrap_or tid ''unknown'')"
| "map_service_error Svc_FeeExpired tid =
     Api_FeeQuoteUnavailable ''CCTP fee quote has expired; request a new quote''"
| "map_service_error Svc_MintPayloadExpired tid =
     Api_Validation ''Mint payload has expired; call prepare-mint again''"
| "map_service_error Svc_AttestationTimeout tid = Api_AttestationExpired (unwrap_or tid [])"
| "map_service_error Svc_MissingAttestation tid = Api_AttestationPending (unwrap_or tid [])"
| "map_service_error (Svc_Attestation _) tid = Api_AttestationPending (unwrap_or tid [])"
| "map_service_error Svc_MintRetryable tid = Api_MintRetryable (unwrap_or tid [])"
| "map_service_error Svc_ActivePrepareExists tid =
     Api_Validation ''An active prepare already exists for this source account''"
| "map_service_error Svc_AmountExceedsCap tid = Api_InvalidAmount ''amount exceeds configured cap''"
| "map_service_error Svc_FastNotSupported tid = Api_InvalidFinality"
| "map_service_error Svc_StellarRemainder tid =
     Api_Validation ''Stellar outbound amount must have zero 7th-decimal remainder''"
| "map_service_error (Svc_Iris _) tid =
     Api_DependencyUnavailable ''Circle attestation service is temporarily unavailable''"
| "map_service_error (Svc_Builder err) tid = map_builder_error err"
| "map_service_error (Svc_Verifier err) tid = map_verifier_error err"
| "map_service_error (Svc_InvalidMessage reason) tid =
     Api_Validation (''CCTP message validation failed: '' @ reason)"
| "map_service_error Svc_IrisTxHashMismatch tid =
     Api_Validation ''On-chain verification failed for submitted transaction''"
| "map_service_error Svc_MintPayloadHashMismatch tid =
     Api_Validation ''On-chain verification failed for submitted transaction''"
| "map_service_error (Svc_Store _) tid = Api_Internal"

definition map_reattest_denied :: api_error where
  "map_reattest_denied =
     Api_Validation ''Re-attestation is not allowed (cooldown, attempt limit, or invalid state)''"

section \<open>Readiness\<close>

datatype readiness_component =
    Rdy_StellarBurnBuilder | Rdy_EvmBurnBuilder | Rdy_StellarMintBuilder | Rdy_EvmMintBuilder
  | Rdy_StellarBurnVerifier | Rdy_EvmBurnVerifier | Rdy_StellarMintVerifier | Rdy_EvmMintVerifier
  | Rdy_EvmApprovalVerifier | Rdy_StellarApprovalVerifier | Rdy_AttestationVerifier

text \<open>The components that are missing.\<close>

definition assess :: "cctp_runtime \<Rightarrow> cctp_direction \<Rightarrow> readiness_component list" where
  "assess rt dir =
     (let need = \<lambda>ready c. if \<not> ready then [c] else []
      in (case dir of
            StellarToEvm \<Rightarrow>
              need (stellar_burn_builder_ready rt) Rdy_StellarBurnBuilder @
              need (stellar_burn_ready rt) Rdy_StellarBurnVerifier @
              need (stellar_approval_ready rt) Rdy_StellarApprovalVerifier @
              need (evm_mint_builder_ready rt) Rdy_EvmMintBuilder @
              need (evm_mint_ready rt) Rdy_EvmMintVerifier
          | EvmToStellar \<Rightarrow>
              need (evm_burn_builder_ready rt) Rdy_EvmBurnBuilder @
              need (evm_burn_ready rt) Rdy_EvmBurnVerifier @
              need (evm_approval_ready rt) Rdy_EvmApprovalVerifier @
              need (stellar_mint_builder_ready rt) Rdy_StellarMintBuilder @
              need (stellar_mint_ready rt) Rdy_StellarMintVerifier) @
         need (attestation_ready rt) Rdy_AttestationVerifier)"

definition direction_executable :: "('s, 'l) cctp_service \<Rightarrow> cctp_direction \<Rightarrow> bool" where
  "direction_executable self dir \<longleftrightarrow>
     enabled (config self) \<and> is_configured (crates_of self) (is_production self) (config self) \<and>
     assess (runtime self) dir = []"

section \<open>The gate\<close>

definition CCTP_CHAIN_KILL_STELLAR :: string where "CCTP_CHAIN_KILL_STELLAR = ''cctp:chain:stellar-testnet''"
definition CCTP_CHAIN_KILL_SEPOLIA :: string where "CCTP_CHAIN_KILL_SEPOLIA = ''cctp:chain:sepolia''"

definition corridor_chain_killed :: "(string \<Rightarrow> override_directive option) \<Rightarrow> cctp_direction \<Rightarrow> bool" where
  "corridor_chain_killed venues dir =
     (let stellar_killed = (venues CCTP_CHAIN_KILL_STELLAR = Some ForceExclude);
          sepolia_killed = (venues CCTP_CHAIN_KILL_SEPOLIA = Some ForceExclude)
      in case dir of
           StellarToEvm \<Rightarrow> stellar_killed \<or> sepolia_killed
         | EvmToStellar \<Rightarrow> sepolia_killed \<or> stellar_killed)"

text \<open>
  The two guards read the clock fifteen times. The names of the open dependencies are
  left out of the message.
\<close>

definition ensure_public_gate ::
  "('s, 'l) cctp_service \<Rightarrow> (string \<Rightarrow> override_directive option) \<Rightarrow> clock \<Rightarrow> cctp_direction \<Rightarrow> dependency_health \<Rightarrow>
     (unit, api_error, dependency_health) outcome" where
  "ensure_public_gate self venues clk dir h =
     (if \<not> enabled (config self)
      then Err (Api_CctpNotEnabled ''Circle CCTP bridge settlement is not enabled on this deployment'') h
      else if \<not> is_configured (crates_of self) (is_production self) (config self)
      then Err (Api_CctpNotEnabled ''Circle CCTP bridge is not fully configured on this deployment'') h
      else if provider_killed self
      then Err (Api_ProviderKilled ''Circle CCTP provider is temporarily unavailable'') h
      else if corridor_chain_killed venues dir
      then Err (Api_ProviderKilled ''CCTP corridor chain is temporarily unavailable'') h
      else
        case guard_live_path clk h of
          (Some err, h) \<Rightarrow> Err err h
        | (None, h) \<Rightarrow>
            (case guard_cctp_direction (after 9 clk) dir h of
               (Some err, h) \<Rightarrow> Err err h
             | (None, h) \<Rightarrow>
                 if \<not> direction_executable self dir
                 then Err (Api_CctpNotEnabled ''Circle CCTP corridor dependencies are not ready for this direction'') h
                 else Ok () h))"

definition uniform_transfer_not_found :: "libs \<Rightarrow> uuid \<Rightarrow> api_error" where
  "uniform_transfer_not_found L tid = Api_TransferNotFound (uuid_string L tid)"

definition hash_presented_access_token :: "libs \<Rightarrow> uuid \<Rightarrow> string option \<Rightarrow> (string, api_error) pure" where
  "hash_presented_access_token L tid token =
     ok_or token (uniform_transfer_not_found L tid) () (\<lambda>token.
       if \<not> validate_access_token_format token then Err (uniform_transfer_not_found L tid) ()
       else Ok (hash_access_token L token) ())"

section \<open>Responses\<close>

definition timestamp :: "instant \<Rightarrow> i64" where
  "timestamp t = t div 1000000000"

definition stellar_usdc_asset :: cctp_chain_asset where
  "stellar_usdc_asset =
     \<lparr>asset_chain_id = STELLAR_TESTNET_CHAIN_ID, asset_asset = STELLAR_TESTNET_USDC_ASSET,
      asset_canonical = STELLAR_TESTNET_USDC_CANONICAL, asset_symbol = Some ''USDC''\<rparr>"

definition sepolia_usdc_asset :: cctp_chain_asset where
  "sepolia_usdc_asset =
     \<lparr>asset_chain_id = SEPOLIA_CHAIN_ID, asset_asset = SEPOLIA_USDC_ASSET,
      asset_canonical = SEPOLIA_USDC_CANONICAL, asset_symbol = Some ''USDC''\<rparr>"

record cctp_fee_quote =
  fq_source_fee :: "string option"
  fq_destination_fee :: "string option"
  fq_bridge_fee :: "string option"
  fq_fee_asset :: "cctp_chain_asset option"

record cctp_quote_response =
  qr_transfer_id :: string
  qr_corridor_id :: string
  qr_provider :: string
  qr_direction :: cctp_direction
  qr_source_amount :: string
  qr_destination_amount :: string
  qr_fee_quote :: cctp_fee_quote
  qr_expires_at :: i64
  qr_finality :: cctp_finality
  qr_access_token :: string

record cctp_status_details =
  sd_code :: string
  sd_message :: string
  sd_retryable :: "bool option"

record cctp_transfer_status_response =
  sr_transfer_id :: string
  sr_corridor_id :: string
  sr_provider :: string
  sr_direction :: cctp_direction
  sr_status :: cctp_transfer_status
  sr_source_tx_hash :: "string option"
  sr_destination_tx_hash :: "string option"
  sr_support_reference_id :: "string option"
  sr_retryable :: bool
  sr_error :: "cctp_status_details option"
  sr_reattest_cooldown_until :: "i64 option"

record cctp_prepare_response =
  pr_transfer_id :: string
  pr_status :: cctp_transfer_status
  pr_payload :: prepared_wallet_payload
  pr_expires_at :: i64
  pr_extra_step :: bool

record cctp_submit_response =
  sm_transfer_id :: string
  sm_status :: cctp_transfer_status
  sm_tx_hash :: string

record cctp_reattest_response =
  rr_transfer_id :: string
  rr_status :: cctp_transfer_status
  rr_retryable :: bool

definition fee_quote_from_transfer :: "cctp_transfer \<Rightarrow> cctp_fee_quote" where
  "fee_quote_from_transfer t =
     \<lparr>fq_source_fee = runtime_fee_quote t, fq_destination_fee = None, fq_bridge_fee = max_fee t,
      fq_fee_asset = (case direction t of StellarToEvm \<Rightarrow> Some stellar_usdc_asset
                                        | EvmToStellar \<Rightarrow> Some sepolia_usdc_asset)\<rparr>"

definition to_quote_response :: "libs \<Rightarrow> cctp_transfer \<Rightarrow> string \<Rightarrow> cctp_quote_response" where
  "to_quote_response L t access_token =
     \<lparr>qr_transfer_id = uuid_string L (transfer_id t), qr_corridor_id = corridor_id t,
      qr_provider = provider t, qr_direction = direction t, qr_source_amount = amount t,
      qr_destination_amount = destination_amount t, qr_fee_quote = fee_quote_from_transfer t,
      qr_expires_at = timestamp (quote_expires_at t), qr_finality = finality t,
      qr_access_token = access_token\<rparr>"

definition sanitized_provider_message :: "string option \<Rightarrow> string" where
  "sanitized_provider_message raw =
     (case raw of
        Some msg \<Rightarrow>
          if \<not> contains_str ''http'' msg \<and> \<not> contains_str ''0x'' msg \<and> length msg \<le> 200 then msg
          else ''Provider operation pending or failed''
      | None \<Rightarrow> ''Provider operation pending or failed'')"

definition redacted_status_error :: "cctp_transfer \<Rightarrow> cctp_status_details option" where
  "redacted_status_error t =
     (case last_provider_code t of
        None \<Rightarrow> None
      | Some code \<Rightarrow>
          if code \<notin> set [''poll_timeout'', ''429'', ''mint_retryable'', ''mint_reconciliation_nonce'',
                          ''attestation_pending'', ''iris_reattest_failed'']
          then None
          else Some \<lparr>sd_code = code, sd_message = sanitized_provider_message (last_provider_error t),
                     sd_retryable = Some (status t \<in> set [AttestationFailed, MintFailedRetryable,
                                                          AwaitingAttestation])\<rparr>)"

definition to_status_response :: "libs \<Rightarrow> cctp_transfer \<Rightarrow> cctp_transfer_status_response" where
  "to_status_response L t =
     \<lparr>sr_transfer_id = uuid_string L (transfer_id t), sr_corridor_id = corridor_id t,
      sr_provider = provider t, sr_direction = direction t, sr_status = status t,
      sr_source_tx_hash = source_tx_hash t, sr_destination_tx_hash = destination_tx_hash t,
      sr_support_reference_id = Some (support_reference_id t),
      sr_retryable = (status t \<in> set [AttestationFailed, MintFailedRetryable, AwaitingAttestation,
                                       MintSubmitted]),
      sr_error = redacted_status_error t,
      sr_reattest_cooldown_until = map_option timestamp (reattest_cooldown_until t)\<rparr>"

definition to_prepare_burn_response ::
  "libs \<Rightarrow> cctp_transfer \<Rightarrow> prepared_burn_bundle \<Rightarrow> cctp_prepare_response" where
  "to_prepare_burn_response L t b =
     \<lparr>pr_transfer_id = uuid_string L (transfer_id t), pr_status = status t, pr_payload = bb_primary b,
      pr_expires_at = bb_expires_at b, pr_extra_step = (bb_step b = StepApproval)\<rparr>"

definition to_prepare_mint_response ::
  "libs \<Rightarrow> cctp_transfer \<Rightarrow> prepared_mint_bundle \<Rightarrow> cctp_prepare_response" where
  "to_prepare_mint_response L t b =
     \<lparr>pr_transfer_id = uuid_string L (transfer_id t), pr_status = status t, pr_payload = mb_primary b,
      pr_expires_at = mb_expires_at b,
      pr_extra_step = (mb_trustline_required b \<or> mb_step b = StepTrustline)\<rparr>"

definition to_submit_burn_response :: "libs \<Rightarrow> cctp_transfer \<Rightarrow> cctp_submit_response" where
  "to_submit_burn_response L t =
     \<lparr>sm_transfer_id = uuid_string L (transfer_id t), sm_status = status t,
      sm_tx_hash = (case source_tx_hash t of
                      Some h \<Rightarrow> h | None \<Rightarrow> unwrap_or (source_approval_tx_hash t) [])\<rparr>"

definition to_submit_mint_response :: "libs \<Rightarrow> cctp_transfer \<Rightarrow> cctp_submit_response" where
  "to_submit_mint_response L t =
     \<lparr>sm_transfer_id = uuid_string L (transfer_id t), sm_status = status t,
      sm_tx_hash = unwrap_or (destination_tx_hash t) []\<rparr>"

definition to_reattest_response :: "libs \<Rightarrow> cctp_transfer \<Rightarrow> cctp_reattest_response" where
  "to_reattest_response L t =
     \<lparr>rr_transfer_id = uuid_string L (transfer_id t), rr_status = status t,
      rr_retryable = (is_recoverable_failure (status t) \<or> status t = AwaitingAttestation)\<rparr>"

section \<open>When the gate opens\<close>

definition gate_open ::
  "('s, 'l) cctp_service \<Rightarrow> (string \<Rightarrow> override_directive option) \<Rightarrow> clock \<Rightarrow> cctp_direction \<Rightarrow> dependency_health \<Rightarrow> bool" where
  "gate_open self venues clk dir h \<longleftrightarrow>
     direction_executable self dir \<and>
     kill_switch self CCTP_PROVIDER_ID \<noteq> Some ForceExclude \<and>
     venues CCTP_CHAIN_KILL_STELLAR \<noteq> Some ForceExclude \<and>
     venues CCTP_CHAIN_KILL_SEPOLIA \<noteq> Some ForceExclude \<and>
     fst (guard_live_path clk h) = None \<and>
     fst (guard_cctp_direction (after 9 clk) dir (snd (guard_live_path clk h))) = None"

lemma ensure_public_gate_iff: "(\<exists>h'. ensure_public_gate self venues clk dir h = Ok () h') \<longleftrightarrow> gate_open self venues clk dir h"
  by (auto simp: ensure_public_gate_def gate_open_def direction_executable_def provider_killed_def
      provider_allowed_iff corridor_chain_killed_def case_prod_beta Let_def split: cctp_direction.split prod.split option.split)

end
