(* ===== verification/Cctp_Isolation.thy ===== *)
theory Cctp_Isolation
  imports Cctp_Runs
begin

text \<open>
  A handler called for one transfer works on the row of that transfer only. The proof
  is made once for every property of the store that the operations on the row keep
  (\<open>row_invariant\<close>); for the in-memory store the property is that all other rows, and
  the access token of this one, are as they were.
\<close>

section \<open>Operations on one row\<close>

locale row_invariant =
  fixes S :: "'s transfer_store"
    and tid :: uuid
    and I :: "'s \<Rightarrow> bool"
  assumes get_row: "I s \<Longrightarrow> wp (ts_get S tid s) (\<lambda>r s'. I s' \<and> (\<forall>t. r = Some t \<longrightarrow> transfer_id t = tid)) (\<lambda>_. I)"
    and poll_row: "I s \<Longrightarrow> wp (ts_try_acquire_poll_lease S clk tid a b s) (\<lambda>_. I) (\<lambda>_. I)"
    and claim_row: "I s \<Longrightarrow> wp (ts_claim_reattest_lease S clk tid w a n s) (\<lambda>_. I) (\<lambda>_. I)"
    and reattested_row: "I s \<Longrightarrow> wp (ts_finalize_reattest_success S clk tid w s) (\<lambda>_. I) (\<lambda>_. I)"
    and reattest_failed_row: "I s \<Longrightarrow> wp (ts_finalize_reattest_failure S clk tid w c d a s) (\<lambda>_. I) (\<lambda>_. I)"
    and transition_row: "I s \<Longrightarrow> wp (ts_transition S clk tid v st p s) (\<lambda>_. I) (\<lambda>_. I)"
    and approval_row: "I s \<Longrightarrow> wp (ts_record_approval_submission S clk tid v h i s) (\<lambda>_. I) (\<lambda>_. I)"
    and burn_row: "I s \<Longrightarrow> wp (ts_record_verified_burn S clk tid v h s) (\<lambda>_. I) (\<lambda>_. I)"
    and mint_prepared_row: "I s \<Longrightarrow> wp (ts_record_mint_prepared S clk tid v h i m s) (\<lambda>_. I) (\<lambda>_. I)"
    and mint_submission_row: "I s \<Longrightarrow> wp (ts_record_mint_submission S clk tid v h s)
      (\<lambda>t s'. I s' \<and> transfer_id t = tid) (\<lambda>_. I)"
    and mint_completed_row: "I s \<Longrightarrow> wp (ts_record_mint_completed S clk tid v s) (\<lambda>_. I) (\<lambda>_. I)"
begin

text \<open>The rules a handler's proof chains, for a precondition that follows from the invariant.\<close>

lemma wp_row:
  assumes "S' = S" "tid' = tid" "I s" "\<And>v s'. I s' \<Longrightarrow> P v s'" "\<And>e s'. I s' \<Longrightarrow> Q e s'"
  shows "wp (ts_transition S' clk tid' v st p s) P Q"
    "wp (ts_record_approval_submission S' clk tid' v h i s) P Q"
    "wp (ts_record_verified_burn S' clk tid' v h s) P Q"
    "wp (ts_record_mint_prepared S' clk tid' v h i m s) P Q"
    "wp (ts_record_mint_completed S' clk tid' v s) P Q"
  using assms
  by (auto intro: wp_mono [OF transition_row] wp_mono [OF approval_row] wp_mono [OF burn_row]
      wp_mono [OF mint_prepared_row] wp_mono [OF mint_completed_row])

lemma wp_row_lease:
  assumes "S' = S" "tid' = tid" "I s" "\<And>v s'. I s' \<Longrightarrow> P v s'" "\<And>e s'. I s' \<Longrightarrow> Q e s'"
  shows "wp (ts_try_acquire_poll_lease S' clk tid' a b s) P Q"
  using assms by (auto intro: wp_mono [OF poll_row])

lemma wp_row_claim:
  assumes "S' = S" "tid' = tid" "I s" "\<And>v s'. I s' \<Longrightarrow> P v s'" "\<And>e s'. I s' \<Longrightarrow> Q e s'"
  shows "wp (ts_claim_reattest_lease S' clk tid' w a n s) P Q"
  using assms by (auto intro: wp_mono [OF claim_row])

lemma wp_row_reattest:
  assumes "S' = S" "tid' = tid" "I s" "\<And>v s'. I s' \<Longrightarrow> P v s'" "\<And>e s'. I s' \<Longrightarrow> Q e s'"
  shows "wp (ts_finalize_reattest_success S' clk tid' w s) P Q"
    "wp (ts_finalize_reattest_failure S' clk tid' w c d a s) P Q"
  using assms by (auto intro: wp_mono [OF reattested_row] wp_mono [OF reattest_failed_row])

lemma wp_row_submission:
  assumes "S' = S" "tid' = tid" "I s" "\<And>t s'. I s' \<Longrightarrow> transfer_id t = tid \<Longrightarrow> P t s'"
    "\<And>e s'. I s' \<Longrightarrow> Q e s'"
  shows "wp (ts_record_mint_submission S' clk tid' v h s) P Q"
  using assms by (auto intro: wp_mono [OF mint_submission_row])

lemma wp_row_get:
  assumes "store self = S" "tid' = tid" "I (db \<sigma>)"
    and "\<And>t \<sigma>'. I (db \<sigma>') \<Longrightarrow> transfer_id t = tid \<Longrightarrow> P t \<sigma>'" "\<And>e \<sigma>'. I (db \<sigma>') \<Longrightarrow> Q e \<sigma>'"
  shows "wp (get_transfer self tid' \<sigma>) P Q"
  unfolding get_transfer_def assms(1,2) wp_simps
  by (rule wp_mono [OF get_row [OF assms(3)]]) (use assms(4,5) in auto)

text \<open>A handler keeps the invariant, whether it succeeds or fails.\<close>

definition keeps :: "('a, 's, 'l) handler \<Rightarrow> bool" where
  "keeps h \<longleftrightarrow> (\<forall>\<sigma>. I (db \<sigma>) \<longrightarrow> wp (h \<sigma>) (\<lambda>_ \<sigma>'. I (db \<sigma>')) (\<lambda>_ \<sigma>'. I (db \<sigma>')))"

lemma wp_keeps:
  assumes "keeps (h tid)" "tid' = tid" "I (db \<sigma>)"
    and "\<And>v \<sigma>'. I (db \<sigma>') \<Longrightarrow> P v \<sigma>'" "\<And>e \<sigma>'. I (db \<sigma>') \<Longrightarrow> Q e \<sigma>'"
  shows "wp (h tid' \<sigma>) P Q"
  using assms unfolding keeps_def by (blast intro: wp_mono)

lemma wp_keeps_row:
  assumes "transfer_id t = tid \<Longrightarrow> keeps (h t)" "transfer_id t = tid" "I (db \<sigma>)"
    and "\<And>v \<sigma>'. I (db \<sigma>') \<Longrightarrow> P v \<sigma>'" "\<And>e \<sigma>'. I (db \<sigma>') \<Longrightarrow> Q e \<sigma>'"
  shows "wp (h t \<sigma>) P Q"
  using assms unfolding keeps_def by (blast intro: wp_mono)

lemmas row_rules = wp_row_get wp_guards wp_release wp_ls wp_row wp_row_lease wp_row_claim wp_row_reattest
  wp_row_submission

lemma prepare_burn_keeps: "store self = S \<Longrightarrow> keeps (prepare_burn self clk tid)"
  unfolding keeps_def prepare_burn_def by (auto simp: wp_simps intro!: row_rules)

lemma record_burn_submission_keeps: "store self = S \<Longrightarrow> keeps (record_burn_submission self clk tid h)"
  unfolding keeps_def record_burn_submission_def by (auto simp: wp_simps intro!: row_rules)

lemma record_approval_submission_keeps:
  "store self = S \<Longrightarrow> keeps (record_approval_submission self clk tid h)"
  unfolding keeps_def record_approval_submission_def
  by (auto simp: wp_simps Let_def split: cctp_direction.split intro!: row_rules)

lemmas wp_burn_submission =
  wp_keeps [where h = "\<lambda>i. record_burn_submission self clk i x", OF record_burn_submission_keeps] for self clk x
lemmas wp_approval_submission =
  wp_keeps [where h = "\<lambda>i. record_approval_submission self clk i x", OF record_approval_submission_keeps]
  for self clk x

lemma record_source_submission_keeps:
  assumes [simp]: "store self = S"
  shows "keeps (record_source_submission self clk tid h)"
proof -
  have fallback: "wp (case record_burn_submission self clk i h \<sigma> of
        Err e \<sigma>' \<Rightarrow>
          (case e of
             Svc_Verifier (Ver_Failed msg) \<Rightarrow>
               if contains_str ''wrong function'' msg
               then record_approval_submission self (after 4 clk) i h \<sigma>' else Err e \<sigma>'
           | _ \<Rightarrow> Err e \<sigma>')
      | other \<Rightarrow> other) (\<lambda>_ \<sigma>'. I (db \<sigma>')) (\<lambda>_ \<sigma>'. I (db \<sigma>'))" if "I (db \<sigma>)" "i = tid" for \<sigma> i
    using record_burn_submission_keeps [OF assms, unfolded keeps_def, rule_format, OF that(1), of clk h] that(2)
    by (cases "record_burn_submission self clk tid h \<sigma>")
      (auto simp: wp_simps split: cctp_service_error.split verifier_error.split intro!: wp_approval_submission)
  show ?thesis
    unfolding keeps_def record_source_submission_def
    by (auto simp: wp_simps split: cctp_direction.split stellar_source_submission_kind.split
        intro!: wp_row_get fallback wp_burn_submission wp_approval_submission)
qed

lemma enter_burn_prepared_keeps: "store self = S \<Longrightarrow> keeps (enter_burn_prepared self clk t tid)"
  unfolding keeps_def enter_burn_prepared_def by (auto simp: wp_simps intro!: row_rules)

lemma reserve_burn_payload_keeps: "store self = S \<Longrightarrow> keeps (reserve_burn_payload self clk t tid)"
  unfolding keeps_def reserve_burn_payload_def burn_prepare_source_def
  by (auto simp: wp_simps Let_def split: prepare_acquire_result.split option.split intro!: row_rules)

lemmas wp_burn_steps =
  wp_keeps [where h = "enter_burn_prepared self clk t", OF enter_burn_prepared_keeps]
  wp_keeps [where h = "reserve_burn_payload self clk t", OF reserve_burn_payload_keeps] for self clk t

lemma prepare_burn_wallet_keeps: "store self = S \<Longrightarrow> keeps (prepare_burn_wallet self clk tid)"
  unfolding keeps_def prepare_burn_wallet_def
  by (auto simp: wp_simps intro!: wp_row_get wp_burn_steps)

lemma cancel_keeps: "store self = S \<Longrightarrow> keeps (cancel self clk tid)"
  unfolding keeps_def cancel_def by (auto simp: wp_simps intro!: row_rules)

lemma fail_attestation_timeout_keeps:
  "store self = S \<Longrightarrow> transfer_id t = tid \<Longrightarrow> keeps (fail_attestation_timeout self clk t)"
  unfolding keeps_def fail_attestation_timeout_def by (auto simp: wp_simps intro!: row_rules)

lemma validate_and_mark_keeps:
  "store self = S \<Longrightarrow> transfer_id t = tid \<Longrightarrow> keeps (validate_and_mark_attestation_ready self clk t msg)"
  unfolding keeps_def validate_and_mark_attestation_ready_def
  by (auto simp: wp_simps intro!: wp_guards wp_row(1))

lemma settle_mint_completion_keeps:
  "store self = S \<Longrightarrow> transfer_id submitted = tid \<Longrightarrow> keeps (settle_mint_completion self clk tid t submitted c)"
  unfolding keeps_def settle_mint_completion_def record_mint_reconciliation_hint_def
  by (auto simp: wp_simps split: mint_verify_outcome.split intro!: row_rules)

lemma poll_mint_completion_keeps:
  assumes "store self = S" "transfer_id t = tid"
  shows "keeps (poll_mint_completion self clk t)"
  unfolding keeps_def poll_mint_completion_def
  using settle_mint_completion_keeps [OF assms, of clk t] assms(2)
  by (auto simp: wp_simps keeps_def)

lemmas wp_poll_steps =
  wp_keeps_row [where h = "poll_mint_completion self clk", OF poll_mint_completion_keeps]
  wp_keeps_row [where h = "fail_attestation_timeout self clk", OF fail_attestation_timeout_keeps]
  wp_keeps_row [where h = "\<lambda>t. validate_and_mark_attestation_ready self clk t msg", OF validate_and_mark_keeps]
  for self clk msg

lemma poll_one_transfer_keeps:
  assumes "store self = S"
  shows "keeps (poll_one_transfer self clk tid)"
  unfolding keeps_def poll_one_transfer_def
  by (auto simp: wp_simps Let_def assms split: iris_poll_outcome.split
      intro!: row_rules wp_poll_steps)

lemmas wp_poll = wp_keeps [where h = "poll_one_transfer self clk", OF poll_one_transfer_keeps] for self clk

lemma poll_one_transfer_with_lease_keeps:
  "store self = S \<Longrightarrow> keeps (poll_one_transfer_with_lease self clk tid a b)"
  unfolding keeps_def poll_one_transfer_with_lease_def
  by (auto simp: wp_simps split: option.split intro!: wp_row_lease wp_poll)

lemma get_transfer_keeps: "store self = S \<Longrightarrow> keeps (get_transfer self tid)"
  unfolding keeps_def by (auto intro: wp_row_get)

lemma reattest_with_claim_keeps: "store self = S \<Longrightarrow> keeps (reattest_with_claim self clk w tid a b c)"
  unfolding keeps_def reattest_with_claim_def
  by (auto simp: wp_simps Let_def split: option.split outcome.split intro!: wp_row_claim wp_row_reattest)

lemma reserve_mint_payload_keeps: "store self = S \<Longrightarrow> keeps (reserve_mint_payload self clk t tid bundle)"
  unfolding keeps_def reserve_mint_payload_def
  by (auto simp: wp_simps Let_def split: prepare_acquire_result.split option.split intro!: row_rules)

lemmas wp_reserve_mint =
  wp_keeps [where h = "\<lambda>i. reserve_mint_payload self clk t i b", OF reserve_mint_payload_keeps]
  for self clk t b

lemma prepare_mint_keeps: "store self = S \<Longrightarrow> keeps (prepare_mint self clk tid)"
  unfolding keeps_def prepare_mint_def
  by (auto simp: wp_simps split: option.split intro!: wp_row_get wp_guards wp_active_mint wp_reserve_mint)

lemma wp_settle_mint:
  assumes "store self = S" "tid' = tid" "transfer_id u = tid" "I (db \<sigma>)"
    and "\<And>v \<sigma>'. I (db \<sigma>') \<Longrightarrow> P v \<sigma>'" "\<And>e \<sigma>'. I (db \<sigma>') \<Longrightarrow> Q e \<sigma>'"
  shows "wp (settle_mint_completion self clk tid' t u c \<sigma>) P Q"
  using wp_keeps_row [where h = "\<lambda>u. settle_mint_completion self clk tid t u c", OF settle_mint_completion_keeps] assms
  by blast

lemma accept_mint_submission_keeps:
  assumes "store self = S"
  shows "keeps (accept_mint_submission self clk t tid x msg nonce)"
  unfolding keeps_def accept_mint_submission_def
  by (auto simp: wp_simps assms split: option.split intro!: wp_row_submission wp_settle_mint)

lemmas wp_accept_mint =
  wp_keeps [where h = "\<lambda>i. accept_mint_submission self clk t i x msg nonce", OF accept_mint_submission_keeps]
  for self clk t x msg nonce

lemma record_mint_submission_keeps: "store self = S \<Longrightarrow> keeps (record_mint_submission self clk tid x)"
  unfolding keeps_def record_mint_submission_def
  by (auto simp: wp_simps split: mint_verify_outcome.split intro!: wp_row_get wp_guards wp_release wp_row(1) wp_accept_mint)

end

section \<open>The in-memory store\<close>

text \<open>\<open>s\<close> differs from \<open>s0\<close> in the row \<open>tid\<close> only, and there not in its access token.\<close>

definition only_row :: "uuid \<Rightarrow> mem_store \<Rightarrow> mem_store \<Rightarrow> bool" where
  "only_row tid s0 s \<longleftrightarrow>
     (\<forall>t. transfers s tid = Some t \<longrightarrow> transfer_id t = tid) \<and>
     (\<forall>i. i \<noteq> tid \<longrightarrow> transfers s i = transfers s0 i) \<and>
     map_option access_token_hash (transfers s tid) = map_option access_token_hash (transfers s0 tid)"

definition keyed :: "mem_store \<Rightarrow> bool" where
  "keyed s \<longleftrightarrow> (\<forall>i t. transfers s i = Some t \<longrightarrow> transfer_id t = i)"

lemma only_row_refl: "keyed s \<Longrightarrow> only_row tid s s"
  by (simp add: only_row_def keyed_def)

lemma only_row_keyed: "keyed s0 \<Longrightarrow> only_row tid s0 s \<Longrightarrow> keyed s"
  by (auto simp: only_row_def keyed_def)

lemma only_row_same: "only_row tid s0 s \<Longrightarrow> transfers s' = transfers s \<Longrightarrow> only_row tid s0 s'"
  by (simp add: only_row_def)

lemma only_row_put:
  assumes "only_row tid s0 s" "transfers s tid = Some t"
    and "transfer_id t' = transfer_id t" "access_token_hash t' = access_token_hash t"
    and "transfers s' = transfers s"
  shows "only_row tid s0 (put tid t' s')"
  using assms by (auto simp: only_row_def)

lemmas only_row_upd = only_row_put [OF _ _ _ _ refl]

lemma patch_keeps_identity [simp]:
  "transfer_id (patch_first p t) = transfer_id t" "transfer_id (patch_rest clk st p r v t) = transfer_id t"
  "access_token_hash (patch_first p t) = access_token_hash t"
  "access_token_hash (patch_rest clk st p r v t) = access_token_hash t"
  by (simp_all add: patch_first_def patch_rest_def)

lemma bind_patch_source_rows:
  "wp (bind_patch_source tid p s) (\<lambda>_ s'. transfers s' = transfers s) (\<lambda>_ s'. transfers s' = transfers s)"
  by (auto simp: bind_patch_source_def bind_source_hash_def wp_simps split: option.split)

lemma bind_message_nonce_row:
  assumes "only_row tid s0 s" "transfers s tid = Some t0"
    and "transfer_id t = transfer_id t0" "access_token_hash t = access_token_hash t0"
  shows "wp (bind_message_nonce tid p t s)
    (\<lambda>t' s'. transfers s' = transfers s \<and> transfer_id t' = transfer_id t0 \<and>
            access_token_hash t' = access_token_hash t0)
    (\<lambda>_ s'. only_row tid s0 s')"
  using assms
  by (auto simp: bind_message_nonce_def Let_def wp_simps split: option.split intro: only_row_put)

lemma mem_transition_row:
  assumes "only_row tid s0 s"
  shows "wp (mem_transition checks clk tid v st p s)
    (\<lambda>t s'. only_row tid s0 s' \<and> transfer_id t = tid) (\<lambda>_. only_row tid s0)"
proof (cases "transfers s tid")
  case None
  then show ?thesis
    using assms by (simp add: mem_transition_def wp_simps)
next
  case (Some t)
  then have tid: "transfer_id t = tid"
    using assms by (simp add: only_row_def)
  have row: "only_row tid s0 s1" "transfers s1 tid = Some t" if "transfers s1 = transfers s" for s1
    using that Some assms by (simp_all add: only_row_same)
  have bind: "wp (bind_message_nonce tid p (patch_first p t) s1) P (\<lambda>_. only_row tid s0)"
    if "transfers s1 = transfers s"
      and "\<And>t' s'. transfers s' = transfers s \<Longrightarrow> transfer_id t' = tid \<Longrightarrow>
             access_token_hash t' = access_token_hash t \<Longrightarrow> P t' s'" for s1 P
    by (rule wp_mono [OF bind_message_nonce_row [OF row [OF that(1)]]]) (use that tid in auto)
  have "only_row tid s0 (put tid (patch_rest clk st p r n t') s')"
    if "transfers s' = transfers s" "transfer_id t' = tid" "access_token_hash t' = access_token_hash t"
    for s' t' r n
    by (rule only_row_put [OF assms Some]) (use that tid in simp_all)
  then show ?thesis
    unfolding mem_transition_def Some
    by (auto simp: wp_simps Let_def assms intro!: wp_mono [OF bind_patch_source_rows] bind row(1))
qed

lemma mem_poll_row:
  "only_row tid s0 s \<Longrightarrow> wp (mem_try_acquire_poll_lease clk tid a b s) (\<lambda>_. only_row tid s0) (\<lambda>_. only_row tid s0)"
  by (cases "transfers s tid") (simp_all add: mem_try_acquire_poll_lease_def Let_def wp_simps only_row_upd split: option.split)

lemma mem_claim_row:
  "only_row tid s0 s \<Longrightarrow> wp (mem_claim_reattest_lease clk tid w a n s) (\<lambda>_. only_row tid s0) (\<lambda>_. only_row tid s0)"
  by (cases "transfers s tid") (simp_all add: mem_claim_reattest_lease_def Let_def wp_simps only_row_upd split: option.split)

lemma mem_reattested_row:
  "only_row tid s0 s \<Longrightarrow> wp (mem_finalize_reattest_success checks clk tid w s) (\<lambda>_. only_row tid s0) (\<lambda>_. only_row tid s0)"
  by (cases "transfers s tid") (simp_all add: mem_finalize_reattest_success_def Let_def wp_simps only_row_upd split: option.split)

lemma mem_reattest_failed_row:
  "only_row tid s0 s \<Longrightarrow> wp (mem_finalize_reattest_failure checks clk tid w c d a s) (\<lambda>_. only_row tid s0) (\<lambda>_. only_row tid s0)"
  by (cases "transfers s tid") (simp_all add: mem_finalize_reattest_failure_def Let_def wp_simps only_row_upd split: option.split)

lemma mem_approval_row:
  "only_row tid s0 s \<Longrightarrow> wp (mem_record_approval_submission checks clk tid v h i s) (\<lambda>_. only_row tid s0) (\<lambda>_. only_row tid s0)"
  by (cases "transfers s tid") (simp_all add: mem_record_approval_submission_def Let_def wp_simps only_row_upd split: option.split)

lemma mem_burn_row:
  "only_row tid s0 s \<Longrightarrow>
     wp (mem_record_verified_burn checks clk tid v h s) (\<lambda>_. only_row tid s0) (\<lambda>_. only_row tid s0)"
  by (cases "transfers s tid"; cases "source_tx_hashes s h")
    (simp_all add: mem_record_verified_burn_def bind_source_hash_def Let_def wp_simps only_row_put)

interpretation mem_row: row_invariant "mem_ops checks" tid "only_row tid s0" for checks tid s0
proof (unfold_locales, goal_cases)
  case (1 s)
  then show ?case
    by (auto simp: mem_ops_def mem_get_def wp_simps only_row_def)
qed (auto simp: mem_ops_def mem_record_mint_prepared_def mem_record_mint_submission_def mem_record_mint_completed_def
    intro: mem_poll_row mem_claim_row mem_reattested_row mem_reattest_failed_row mem_approval_row mem_burn_row
      wp_mono [OF mem_transition_row])

end
