(* ===== verification/Cctp_Routes.thy ===== *)
theory Cctp_Routes
  imports Cctp_Gate Cctp_Isolation
begin

text \<open>
  The routes of the bridge (\<open>routes/v2_cctp.rs\<close>), one definition each. Extracting the
  parts of a request and wrapping the response are axum's; a route is a function of the
  headers, the path and the body. Its state is that of the service, of the idempotency
  store and of the dependency breakers. The readings of the clock are numbered in the
  order of the source.
\<close>

section \<open>The application\<close>

record ('s, 'l, 'i) http_context =
  cx_config :: cctp_config
  cx_service :: "('s, 'l) cctp_service"
  cx_idempotency :: "('i, 's) quote_idempotency_store"
  cx_access_token_keys :: access_key_ring

record ('s, 'l, 'i) app_state =
  app_cctp :: "('s, 'l, 'i) http_context option"
  app_venues :: "string \<Rightarrow> override_directive option"
  app_crates :: crates
  app_libs :: libs
  app_tokens :: token_crates

record ('s, 'l, 'i) http_state =
  svc :: "('s, 'l) svc_state"
  idem :: 'i
  health :: dependency_health

type_synonym ('a, 's, 'l, 'i) route = "('s, 'l, 'i) http_state \<Rightarrow> ('a, api_error, ('s, 'l, 'i) http_state) outcome"
type_synonym headers = "string \<Rightarrow> string option"

definition on_service ::
  "(cctp_service_error \<Rightarrow> api_error) \<Rightarrow> ('a, 's, 'l) handler \<Rightarrow> ('a, 's, 'l, 'i) route" where
  "on_service f h \<tau> =
     (case h (svc \<tau>) of
        Ok v \<sigma> \<Rightarrow> Ok v (\<tau>\<lparr>svc := \<sigma>\<rparr>) | Err e \<sigma> \<Rightarrow> Err (f e) (\<tau>\<lparr>svc := \<sigma>\<rparr>) | Panic \<Rightarrow> Panic)"

definition on_idempotency ::
  "(cctp_idempotency_error \<Rightarrow> api_error) \<Rightarrow> ('i \<Rightarrow> ('a, cctp_idempotency_error, 'i) outcome) \<Rightarrow>
     ('a, 's, 'l, 'i) route" where
  "on_idempotency f op \<tau> =
     (case op (idem \<tau>) of
        Ok v i \<Rightarrow> Ok v (\<tau>\<lparr>idem := i\<rparr>) | Err e i \<Rightarrow> Err (f e) (\<tau>\<lparr>idem := i\<rparr>) | Panic \<Rightarrow> Panic)"

definition on_finalize ::
  "(cctp_idempotency_error \<Rightarrow> api_error) \<Rightarrow> ('i \<times> 's \<Rightarrow> (unit, cctp_idempotency_error, 'i \<times> 's) outcome) \<Rightarrow>
     (unit, 's, 'l, 'i) route" where
  "on_finalize f op \<tau> =
     (let put_back = \<lambda>(i, s). \<tau>\<lparr>idem := i, svc := (svc \<tau>)\<lparr>db := s\<rparr>\<rparr>
      in case op (idem \<tau>, db (svc \<tau>)) of
           Ok v r \<Rightarrow> Ok v (put_back r) | Err e r \<Rightarrow> Err (f e) (put_back r) | Panic \<Rightarrow> Panic)"

definition on_health ::
  "(dependency_health \<Rightarrow> ('a, api_error, dependency_health) outcome) \<Rightarrow> ('a, 's, 'l, 'i) route" where
  "on_health op \<tau> =
     (case op (health \<tau>) of
        Ok v h \<Rightarrow> Ok v (\<tau>\<lparr>health := h\<rparr>) | Err e h \<Rightarrow> Err e (\<tau>\<lparr>health := h\<rparr>) | Panic \<Rightarrow> Panic)"

section \<open>What every route does first\<close>

definition cctp_not_enabled :: api_error where
  "cctp_not_enabled = Api_CctpNotEnabled ''Circle CCTP bridge settlement is not enabled on this deployment''"

definition require_cctp :: "('s, 'l, 'i) app_state \<Rightarrow> (('s, 'l, 'i) http_context, 's, 'l, 'i) route" where
  "require_cctp app \<tau> =
     ok_or (app_cctp app) cctp_not_enabled \<tau> (\<lambda>ctx.
       if \<not> enabled (cx_config ctx) then Err cctp_not_enabled \<tau> else Ok ctx \<tau>)"

definition parse_transfer_id_param :: "('s, 'l, 'i) app_state \<Rightarrow> string \<Rightarrow> (uuid, 's, 'l, 'i) route" where
  "parse_transfer_id_param app path \<tau> =
     ok_or (parse_uuid (app_tokens app) path)
       (Api_Validation (''Invalid transfer ID: '' @ path)) \<tau> (\<lambda>tid. Ok tid \<tau>)"

definition is_valid_tx_hash :: "string \<Rightarrow> bool" where
  "is_valid_tx_hash tx_hash =
     (let trimmed = trim tx_hash
      in if trimmed = [] then False
         else
           case (case strip_prefix ''0x'' trimmed of
                   Some hex \<Rightarrow> Some hex | None \<Rightarrow> strip_prefix ''0X'' trimmed) of
             Some hex \<Rightarrow> length hex = 64 \<and> list_all is_ascii_hexdigit hex
           | None \<Rightarrow> length trimmed = 64 \<and> list_all is_ascii_hexdigit trimmed)"

definition validate_submit_tx_hash :: "string \<Rightarrow> (unit, 's, 'l, 'i) route" where
  "validate_submit_tx_hash tx_hash \<tau> =
     (if is_valid_tx_hash tx_hash then Ok () \<tau>
      else Err (Api_Validation ''tx_hash must be a 64-hex Stellar hash or 0x-prefixed 32-byte EVM hash'') \<tau>)"

definition access_token_from_headers :: "headers \<Rightarrow> string option" where
  "access_token_from_headers hs = hs TRANSFER_ACCESS_HEADER"

definition idempotency_key_from_headers :: "headers \<Rightarrow> string option" where
  "idempotency_key_from_headers hs = hs IDEMPOTENCY_HEADER"

definition load_authorized_transfer ::
  "('s, 'l, 'i) app_state \<Rightarrow> uuid \<Rightarrow> headers \<Rightarrow> (cctp_transfer, 's, 'l, 'i) route" where
  "load_authorized_transfer app tid hs \<tau> =
     andThen (require_cctp app \<tau>) (\<lambda>ctx \<tau>.
     andThen (map_err id (hash_presented_access_token (app_libs app) tid (access_token_from_headers hs)) \<tau>)
       (\<lambda>token_hash \<tau>.
     andThen (on_service (\<lambda>e. map_service_error e (Some (uuid_string (app_libs app) tid)))
                (on_store (ts_get_authorized (store (cx_service ctx)) tid token_hash)) \<tau>) (\<lambda>found \<tau>.
       ok_or found (uniform_transfer_not_found (app_libs app) tid) \<tau> (\<lambda>t. Ok t \<tau>))))"

definition gate_for_direction ::
  "('s, 'l, 'i) app_state \<Rightarrow> clock \<Rightarrow> cctp_direction \<Rightarrow> (unit, 's, 'l, 'i) route" where
  "gate_for_direction app clk dir \<tau> =
     andThen (require_cctp app \<tau>) (\<lambda>ctx.
       on_health (ensure_public_gate (cx_service ctx) (app_venues app) clk dir))"

text \<open>The prefix of the six routes of a transfer: its row, and the context behind the gate.\<close>

definition authorized ::
  "('s, 'l, 'i) app_state \<Rightarrow> clock \<Rightarrow> headers \<Rightarrow> uuid \<Rightarrow>
     (cctp_transfer \<Rightarrow> ('s, 'l, 'i) http_context \<Rightarrow> ('a, 's, 'l, 'i) route) \<Rightarrow> ('a, 's, 'l, 'i) route" where
  "authorized app clk hs tid body \<tau> =
     andThen (load_authorized_transfer app tid hs \<tau>) (\<lambda>t \<tau>.
     andThen (gate_for_direction app clk (direction t) \<tau>) (\<lambda>_ \<tau>.
     andThen (require_cctp app \<tau>) (\<lambda>ctx. body t ctx)))"

section \<open>Quotes\<close>

text \<open>What a quote draws at random, and the order in which its cleanup visits the keys.\<close>

record quote_draws =
  qd_transfer_id :: uuid
  qd_token :: bytes
  qd_lease_nonce :: string
  qd_iteration :: "string list"

definition idempotency_conflict :: "string \<Rightarrow> api_error" where
  "idempotency_conflict quote_id =
     Api_Conflict ''Idempotency key reused with different quote request'' quote_id [] ''idempotency_conflict''"

definition quote_pending :: api_error where
  "quote_pending = Api_TooEarly ''An idempotent quote with this key is still in progress''"

fun map_claim_error :: "cctp_idempotency_error \<Rightarrow> api_error" where
  "map_claim_error Idem_Conflict = idempotency_conflict []"
| "map_claim_error PendingInProgress = quote_pending"
| "map_claim_error _ = Api_Internal"

fun map_finalize_error :: "string \<Rightarrow> cctp_idempotency_error \<Rightarrow> api_error" where
  "map_finalize_error quote_id Idem_Conflict = idempotency_conflict quote_id"
| "map_finalize_error quote_id PendingInProgress = quote_pending"
| "map_finalize_error quote_id _ = Api_Internal"

fun map_request_hash_error :: "cctp_idempotency_error \<Rightarrow> api_error" where
  "map_request_hash_error RequestTooLarge = Api_Validation ''quote request body too large''"
| "map_request_hash_error _ = Api_Internal"

text \<open>A completed claim: the stored transfer with its token, derived again.\<close>

definition replay_quote ::
  "('s, 'l, 'i) app_state \<Rightarrow> ('s, 'l, 'i) http_context \<Rightarrow> string \<Rightarrow> string \<Rightarrow> uuid \<Rightarrow>
     (cctp_quote_response, 's, 'l, 'i) route" where
  "replay_quote app ctx k request_hash tid \<tau> =
     andThen (on_service (\<lambda>e. map_service_error e (Some (uuid_string (app_libs app) tid)))
                (get_transfer (cx_service ctx) tid) \<tau>) (\<lambda>t \<tau>.
     ok_or (access_token_hash t) Api_Internal \<tau> (\<lambda>stored_hash.
     ok_or (recover_idempotent_token (app_libs app) (app_tokens app) (cx_access_token_keys ctx) k request_hash
              tid stored_hash)
       (Api_CctpNotEnabled ''Idempotent replay unavailable after access key rotation; request a new quote'') \<tau>
       (\<lambda>access_token. Ok (to_quote_response (app_libs app) t access_token) \<tau>)))"

text \<open>A pending claim: the transfer is built and finalized under the claimed id.\<close>

definition create_idempotent_quote ::
  "('s, 'l, 'i) app_state \<Rightarrow> ('s, 'l, 'i) http_context \<Rightarrow> clock \<Rightarrow> string \<Rightarrow> string \<Rightarrow> string \<Rightarrow> cctp_quote_request \<Rightarrow>
     uuid \<Rightarrow> (cctp_quote_response, 's, 'l, 'i) route" where
  "create_idempotent_quote app ctx clk k lease_owner request_hash body tid \<tau> =
     (let L = app_libs app;
          access_token = derive_idempotent_token (app_tokens app) (cx_access_token_keys ctx) k request_hash tid;
          access_hash = hash_access_token L access_token
      in andThen (map_err (\<lambda>e. map_service_error e (Some (uuid_string L tid)))
                    (build_quote_transfer (cx_service ctx) clk body tid access_hash) \<tau>) (\<lambda>t \<tau>.
         andThen (on_finalize (map_finalize_error (uuid_string L tid))
                    (qi_finalize_quote (cx_idempotency ctx) k lease_owner t) \<tau>) (\<lambda>_ \<tau>.
           Ok (to_quote_response L t access_token) \<tau>)))"

definition idempotent_quote ::
  "('s, 'l, 'i) app_state \<Rightarrow> ('s, 'l, 'i) http_context \<Rightarrow> clock \<Rightarrow> quote_draws \<Rightarrow> string \<Rightarrow> string \<Rightarrow>
     cctp_quote_request \<Rightarrow> (cctp_quote_response, 's, 'l, 'i) route" where
  "idempotent_quote app ctx clk draws raw_key request_hash body \<tau> =
     andThen (map_err (\<lambda>_. Api_Validation ''idempotency key exceeds maximum length'')
                (normalize_idempotency_key raw_key) \<tau>) (\<lambda>k \<tau>.
       let lease_owner = hash_lease_owner (app_libs app) (qd_lease_nonce draws);
           expires_at = clk 0 + seconds (as_i64 (quote_ttl_secs (cx_config ctx)))
       in andThen (on_idempotency map_claim_error
                     (qi_claim_quote (cx_idempotency ctx) (after 1 clk) (qd_transfer_id draws) k request_hash
                        lease_owner expires_at) \<tau>) (\<lambda>claim \<tau>.
            if ic_state claim = Idem_Completed
            then replay_quote app ctx k request_hash (ic_transfer_id claim) \<tau>
            else create_idempotent_quote app ctx (after 2 clk) k lease_owner request_hash body
                   (ic_transfer_id claim) \<tau>))"

definition ephemeral_quote ::
  "('s, 'l, 'i) app_state \<Rightarrow> ('s, 'l, 'i) http_context \<Rightarrow> clock \<Rightarrow> quote_draws \<Rightarrow> cctp_quote_request \<Rightarrow>
     (cctp_quote_response, 's, 'l, 'i) route" where
  "ephemeral_quote app ctx clk draws body \<tau> =
     (let (access_token, access_hash) =
            generate_ephemeral_access_token (app_libs app) (app_tokens app) (qd_token draws)
      in andThen (on_service (\<lambda>e. map_service_error e None)
                    (quote_core (cx_service ctx) clk (qd_transfer_id draws) body access_hash) \<tau>) (\<lambda>t \<tau>.
           Ok (to_quote_response (app_libs app) t access_token) \<tau>))"

definition quote_by_key ::
  "('s, 'l, 'i) app_state \<Rightarrow> ('s, 'l, 'i) http_context \<Rightarrow> clock \<Rightarrow> quote_draws \<Rightarrow> headers \<Rightarrow> string \<Rightarrow>
     cctp_quote_request \<Rightarrow> (cctp_quote_response, 's, 'l, 'i) route" where
  "quote_by_key app ctx clk draws hs request_hash body =
     (case idempotency_key_from_headers hs of
        Some raw_key \<Rightarrow> idempotent_quote app ctx clk draws raw_key request_hash body
      | None \<Rightarrow> ephemeral_quote app ctx clk draws body)"

definition cctp_quote ::
  "('s, 'l, 'i) app_state \<Rightarrow> clock \<Rightarrow> quote_draws \<Rightarrow> headers \<Rightarrow> cctp_quote_request \<Rightarrow>
     (cctp_quote_response, 's, 'l, 'i) route" where
  "cctp_quote app clk draws hs body \<tau> =
     andThen (map_err map_validation (validate_request (app_crates app) body) \<tau>) (\<lambda>_ \<tau>.
     andThen (require_cctp app \<tau>) (\<lambda>ctx \<tau>.
     andThen (gate_for_direction app clk (r_direction body) \<tau>) (\<lambda>_ \<tau>.
     andThen (map_err map_request_hash_error
                (canonical_quote_request_hash (app_libs app) (app_tokens app) body) \<tau>) (\<lambda>request_hash \<tau>.
       case qi_cleanup_expired (cx_idempotency ctx) (after 15 clk) (qd_iteration draws) 32 (idem \<tau>) of
         Panic \<Rightarrow> Panic
       | Ok _ i \<Rightarrow> quote_by_key app ctx (after 16 clk) draws hs request_hash body (\<tau>\<lparr>idem := i\<rparr>)
       | Err _ i \<Rightarrow> quote_by_key app ctx (after 16 clk) draws hs request_hash body (\<tau>\<lparr>idem := i\<rparr>)))))"

section \<open>The routes of a transfer\<close>

definition service_error :: "('s, 'l, 'i) app_state \<Rightarrow> uuid \<Rightarrow> cctp_service_error \<Rightarrow> api_error" where
  "service_error app tid e = map_service_error e (Some (uuid_string (app_libs app) tid))"

definition cctp_prepare_burn ::
  "('s, 'l, 'i) app_state \<Rightarrow> clock \<Rightarrow> headers \<Rightarrow> string \<Rightarrow> (cctp_prepare_response, 's, 'l, 'i) route" where
  "cctp_prepare_burn app clk hs path \<tau> =
     andThen (parse_transfer_id_param app path \<tau>) (\<lambda>tid.
     authorized app clk hs tid (\<lambda>_ ctx \<tau>.
       andThen (on_service (service_error app tid) (prepare_burn (cx_service ctx) (after 15 clk) tid) \<tau>) (\<lambda>_ \<tau>.
       andThen (on_service (service_error app tid)
                  (prepare_burn_wallet (cx_service ctx) (after 19 clk) tid) \<tau>) (\<lambda>bundle \<tau>.
       andThen (on_service (service_error app tid) (get_transfer (cx_service ctx) tid) \<tau>) (\<lambda>updated \<tau>.
         Ok (to_prepare_burn_response (app_libs app) updated bundle) \<tau>)))))"

definition cctp_submit_burn ::
  "('s, 'l, 'i) app_state \<Rightarrow> clock \<Rightarrow> headers \<Rightarrow> string \<Rightarrow> string \<Rightarrow> (cctp_submit_response, 's, 'l, 'i) route" where
  "cctp_submit_burn app clk hs path tx_hash \<tau> =
     andThen (parse_transfer_id_param app path \<tau>) (\<lambda>tid \<tau>.
     andThen (validate_submit_tx_hash tx_hash \<tau>) (\<lambda>_.
     authorized app clk hs tid (\<lambda>_ ctx \<tau>.
       andThen (on_service (service_error app tid)
                  (record_source_submission (cx_service ctx) (after 15 clk) tid tx_hash) \<tau>) (\<lambda>updated \<tau>.
         Ok (to_submit_burn_response (app_libs app) updated) \<tau>))))"

text \<open>A poll that fails on the side of Iris or of the attestation shows the row as it was read.\<close>

fun poll_deferred :: "cctp_service_error \<Rightarrow> bool" where
  "poll_deferred (Svc_Iris _) \<longleftrightarrow> True"
| "poll_deferred Svc_MissingAttestation \<longleftrightarrow> True"
| "poll_deferred (Svc_Attestation _) \<longleftrightarrow> True"
| "poll_deferred (Svc_InvalidMessage _) \<longleftrightarrow> True"
| "poll_deferred Svc_IrisTxHashMismatch \<longleftrightarrow> True"
| "poll_deferred (Svc_Verifier _) \<longleftrightarrow> True"
| "poll_deferred _ \<longleftrightarrow> False"

definition cctp_get_transfer ::
  "('s, 'l, 'i) app_state \<Rightarrow> clock \<Rightarrow> headers \<Rightarrow> string \<Rightarrow> (cctp_transfer_status_response, 's, 'l, 'i) route" where
  "cctp_get_transfer app clk hs path \<tau> =
     andThen (parse_transfer_id_param app path \<tau>) (\<lambda>tid.
     authorized app clk hs tid (\<lambda>t ctx \<tau>.
       case poll_one_transfer_with_lease (cx_service ctx) (after 15 clk) tid POLL_LEASE_SECS
              (as_i64 (poll_interval_secs (cx_config ctx))) (svc \<tau>) of
         Ok polled \<sigma> \<Rightarrow> Ok (to_status_response (app_libs app) polled) (\<tau>\<lparr>svc := \<sigma>\<rparr>)
       | Err e \<sigma> \<Rightarrow>
           if poll_deferred e then Ok (to_status_response (app_libs app) t) (\<tau>\<lparr>svc := \<sigma>\<rparr>)
           else Err (service_error app tid e) (\<tau>\<lparr>svc := \<sigma>\<rparr>)
       | Panic \<Rightarrow> Panic))"

definition cctp_prepare_mint ::
  "('s, 'l, 'i) app_state \<Rightarrow> clock \<Rightarrow> headers \<Rightarrow> string \<Rightarrow> (cctp_prepare_response, 's, 'l, 'i) route" where
  "cctp_prepare_mint app clk hs path \<tau> =
     andThen (parse_transfer_id_param app path \<tau>) (\<lambda>tid.
     authorized app clk hs tid (\<lambda>t ctx \<tau>.
       if status t \<noteq> AttestationReady \<and> status t \<noteq> MintPrepared \<and> status t \<noteq> MintFailedRetryable
       then Err (service_error app tid Svc_InvalidState) \<tau>
       else
         andThen (on_service (service_error app tid)
                    (prepare_mint (cx_service ctx) (after 15 clk) tid) \<tau>) (\<lambda>bundle \<tau>.
         andThen (on_service (service_error app tid) (get_transfer (cx_service ctx) tid) \<tau>) (\<lambda>updated \<tau>.
           Ok (to_prepare_mint_response (app_libs app) updated bundle) \<tau>))))"

definition cctp_submit_mint ::
  "('s, 'l, 'i) app_state \<Rightarrow> clock \<Rightarrow> headers \<Rightarrow> string \<Rightarrow> string \<Rightarrow> (cctp_submit_response, 's, 'l, 'i) route" where
  "cctp_submit_mint app clk hs path tx_hash \<tau> =
     andThen (parse_transfer_id_param app path \<tau>) (\<lambda>tid \<tau>.
     andThen (validate_submit_tx_hash tx_hash \<tau>) (\<lambda>_.
     authorized app clk hs tid (\<lambda>_ ctx \<tau>.
       andThen (on_service (service_error app tid)
                  (record_mint_submission (cx_service ctx) (after 15 clk) tid tx_hash) \<tau>) (\<lambda>updated \<tau>.
         Ok (to_submit_mint_response (app_libs app) updated) \<tau>))))"

text \<open>\<open>lease_owner\<close> is the hash of the nonce the service draws.\<close>

definition cctp_reattest ::
  "('s, 'l, 'i) app_state \<Rightarrow> clock \<Rightarrow> string \<Rightarrow> headers \<Rightarrow> string \<Rightarrow> (cctp_reattest_response, 's, 'l, 'i) route" where
  "cctp_reattest app clk lease_owner hs path \<tau> =
     andThen (parse_transfer_id_param app path \<tau>) (\<lambda>tid.
     authorized app clk hs tid (\<lambda>_ ctx \<tau>.
       andThen (on_service
                  (\<lambda>e. if e = Svc_InvalidState then map_reattest_denied else service_error app tid e)
                  (reattest_with_claim (cx_service ctx) (after 15 clk) lease_owner tid REATTEST_MAX_ATTEMPTS
                     REATTEST_COOLDOWN_SECS REATTEST_LEASE_SECS) \<tau>) (\<lambda>updated \<tau>.
         Ok (to_reattest_response (app_libs app) updated) \<tau>)))"

section \<open>Requests\<close>

datatype bridge_request =
    QuoteRequest quote_draws cctp_quote_request
  | PrepareBurnRequest string
  | SubmitBurnRequest string string
  | StatusRequest string
  | PrepareMintRequest string
  | SubmitMintRequest string string
  | ReattestRequest string string

fun handle :: "('s, 'l, 'i) app_state \<Rightarrow> clock \<Rightarrow> headers \<Rightarrow> bridge_request \<Rightarrow> (unit, 's, 'l, 'i) route" where
  "handle app clk hs (QuoteRequest draws body) \<tau> = discard (cctp_quote app clk draws hs body \<tau>)"
| "handle app clk hs (PrepareBurnRequest tid) \<tau> = discard (cctp_prepare_burn app clk hs tid \<tau>)"
| "handle app clk hs (SubmitBurnRequest tid h) \<tau> = discard (cctp_submit_burn app clk hs tid h \<tau>)"
| "handle app clk hs (StatusRequest tid) \<tau> = discard (cctp_get_transfer app clk hs tid \<tau>)"
| "handle app clk hs (PrepareMintRequest tid) \<tau> = discard (cctp_prepare_mint app clk hs tid \<tau>)"
| "handle app clk hs (SubmitMintRequest tid h) \<tau> = discard (cctp_submit_mint app clk hs tid h \<tau>)"
| "handle app clk hs (ReattestRequest w tid) \<tau> = discard (cctp_reattest app clk w hs tid \<tau>)"

text \<open>The transfer a request names in its path.\<close>

fun path_of :: "bridge_request \<Rightarrow> string option" where
  "path_of (QuoteRequest _ _) = None"
| "path_of (PrepareBurnRequest tid) = Some tid"
| "path_of (SubmitBurnRequest tid _) = Some tid"
| "path_of (StatusRequest tid) = Some tid"
| "path_of (PrepareMintRequest tid) = Some tid"
| "path_of (SubmitMintRequest tid _) = Some tid"
| "path_of (ReattestRequest _ tid) = Some tid"

definition names :: "token_crates \<Rightarrow> bridge_request \<Rightarrow> uuid \<Rightarrow> bool" where
  "names T req tid \<longleftrightarrow> (\<exists>p. path_of req = Some p \<and> parse_uuid T p = Some tid)"

definition presents :: "libs \<Rightarrow> headers \<Rightarrow> string option \<Rightarrow> bool" where
  "presents L hs token_hash \<longleftrightarrow>
     (\<exists>token. hs TRANSFER_ACCESS_HEADER = Some token \<and> validate_access_token_format token \<and>
        token_hash = Some (hash_access_token L token))"

section \<open>Preconditions of the lifted calls\<close>

lemma wp_lifts [wp_simps]:
  "wp (on_service f h \<tau>) P Q = wp (h (svc \<tau>)) (\<lambda>v \<sigma>. P v (\<tau>\<lparr>svc := \<sigma>\<rparr>)) (\<lambda>e \<sigma>. Q (f e) (\<tau>\<lparr>svc := \<sigma>\<rparr>))"
  "wp (on_idempotency g op \<tau>) P Q = wp (op (idem \<tau>)) (\<lambda>v i. P v (\<tau>\<lparr>idem := i\<rparr>)) (\<lambda>e i. Q (g e) (\<tau>\<lparr>idem := i\<rparr>))"
  by (cases "h (svc \<tau>)"; cases "op (idem \<tau>)"; simp add: wp_simps on_service_def on_idempotency_def)+

lemma wp_on_finalize [wp_simps]:
  "wp (on_finalize f op \<tau>) P Q =
     wp (op (idem \<tau>, db (svc \<tau>)))
       (\<lambda>v (i, s). P v (\<tau>\<lparr>idem := i, svc := (svc \<tau>)\<lparr>db := s\<rparr>\<rparr>))
       (\<lambda>e (i, s). Q (f e) (\<tau>\<lparr>idem := i, svc := (svc \<tau>)\<lparr>db := s\<rparr>\<rparr>))"
  by (cases "op (idem \<tau>, db (svc \<tau>))") (auto simp: wp_simps on_finalize_def Let_def)

lemma wp_on_health [wp_simps]:
  "wp (on_health op \<tau>) P Q = wp (op (health \<tau>)) (\<lambda>v h. P v (\<tau>\<lparr>health := h\<rparr>)) (\<lambda>e h. Q e (\<tau>\<lparr>health := h\<rparr>))"
  by (cases "op (health \<tau>)") (simp_all add: wp_simps on_health_def)

text \<open>\<open>require_cctp\<close> and the gate touch neither the service nor the idempotency store.\<close>

lemma wp_require_cctp [wp_simps]:
  "wp (require_cctp app \<tau>) P Q =
     (case app_cctp app of
        Some ctx \<Rightarrow> if enabled (cx_config ctx) then P ctx \<tau> else Q cctp_not_enabled \<tau>
      | None \<Rightarrow> Q cctp_not_enabled \<tau>)"
  by (auto simp: require_cctp_def wp_simps split: option.split)

lemma wp_gate_for_direction:
  assumes "\<And>h. P () (\<tau>\<lparr>health := h\<rparr>)" "\<And>e h. Q e (\<tau>\<lparr>health := h\<rparr>)" "\<And>e. Q e \<tau>"
  shows "wp (gate_for_direction app clk dir \<tau>) P Q"
  unfolding gate_for_direction_def using assms
  by (auto simp: wp_simps intro: wp_any split: option.split)

section \<open>Who is let in\<close>

text \<open>
  An application on the in-memory stores; its configuration, kill switches and services
  may differ from request to request.
\<close>

definition bridge_app :: "bool \<Rightarrow> libs \<Rightarrow> token_crates \<Rightarrow> (mem_store, 'l, idem_entries) app_state \<Rightarrow> bool" where
  "bridge_app checks L T app \<longleftrightarrow>
     app_libs app = L \<and> app_tokens app = T \<and>
     (\<forall>ctx. app_cctp app = Some ctx \<longrightarrow>
        store (cx_service ctx) = mem_ops checks \<and>
        cx_idempotency ctx = mem_idempotency (Some (mem_ops checks)))"

definition row :: "(mem_store, 'l, 'i) http_state \<Rightarrow> uuid \<Rightarrow> cctp_transfer option" where
  "row \<tau> tid = transfers (db (svc \<tau>)) tid"

lemma row_simps [simp]:
  "row (\<tau>\<lparr>health := h\<rparr>) = row \<tau>" "row (\<tau>\<lparr>idem := i\<rparr>) = row \<tau>"
  by (simp_all add: row_def fun_eq_iff)

lemma wp_load_authorized:
  assumes "bridge_app checks L T app"
    and "\<And>t. row \<tau> tid = Some t \<Longrightarrow> presents L hs (access_token_hash t) \<Longrightarrow> P t \<tau>" "\<And>e. Q e \<tau>"
  shows "wp (load_authorized_transfer app tid hs \<tau>) P Q"
  unfolding load_authorized_transfer_def
  using assms
  by (auto simp: wp_simps bridge_app_def hash_presented_access_token_def mem_ops_def mem_get_authorized_def
      row_def presents_def access_token_from_headers_def split: option.split)

lemma wp_authorized:
  assumes "bridge_app checks L T app"
    and "\<And>t ctx h. row \<tau> tid = Some t \<Longrightarrow> presents L hs (access_token_hash t) \<Longrightarrow> app_cctp app = Some ctx \<Longrightarrow>
           wp (body t ctx (\<tau>\<lparr>health := h\<rparr>)) P Q"
    and "\<And>e h. Q e (\<tau>\<lparr>health := h\<rparr>)" "\<And>e. Q e \<tau>"
  shows "wp (authorized app clk hs tid body \<tau>) P Q"
  unfolding authorized_def wp_simps
  by (rule wp_load_authorized [OF assms(1)])
    (auto split: option.split intro!: wp_gate_for_direction assms)

text \<open>
  What a request may do to the rows \<open>s\<close>: nothing, or something to the one row it names
  and has the token of.
\<close>

definition confined :: "libs \<Rightarrow> token_crates \<Rightarrow> headers \<Rightarrow> bridge_request \<Rightarrow> mem_store \<Rightarrow> mem_store \<Rightarrow> bool" where
  "confined L T hs req s s' \<longleftrightarrow>
     s' = s \<or>
     (\<exists>tid t. names T req tid \<and> transfers s tid = Some t \<and> presents L hs (access_token_hash t) \<and>
        only_row tid s s')"

text \<open>A quote adds at most one row.\<close>

definition adds_row :: "mem_store \<Rightarrow> mem_store \<Rightarrow> bool" where
  "adds_row s s' \<longleftrightarrow>
     s' = s \<or> (\<exists>t. transfers s (transfer_id t) = None \<and> transfers s' = (transfers s)(transfer_id t \<mapsto> t))"

lemma wp_row_call:
  assumes "row_invariant.keeps (only_row tid base) h" "only_row tid base (db \<sigma>)"
    and "\<And>v \<sigma>'. only_row tid base (db \<sigma>') \<Longrightarrow> P v \<sigma>'" "\<And>e \<sigma>'. only_row tid base (db \<sigma>') \<Longrightarrow> Q e \<sigma>'"
  shows "wp (h \<sigma>) P Q"
  using assms unfolding mem_row.keeps_def by (blast intro: wp_mono)

lemmas row_calls =
  mem_row.prepare_burn_keeps mem_row.prepare_burn_wallet_keeps mem_row.get_transfer_keeps
  mem_row.record_source_submission_keeps mem_row.poll_one_transfer_with_lease_keeps
  mem_row.prepare_mint_keeps mem_row.record_mint_submission_keeps mem_row.reattest_with_claim_keeps

lemma poll_route_wp:
  "wp (case h \<sigma> of
         Ok v \<sigma>' \<Rightarrow> Ok (f v) (\<tau>\<lparr>svc := \<sigma>'\<rparr>)
       | Err e \<sigma>' \<Rightarrow> if d e then Ok x (\<tau>\<lparr>svc := \<sigma>'\<rparr>) else Err (g e) (\<tau>\<lparr>svc := \<sigma>'\<rparr>)
       | Panic \<Rightarrow> Panic) P Q =
   wp (h \<sigma>) (\<lambda>v \<sigma>'. P (f v) (\<tau>\<lparr>svc := \<sigma>'\<rparr>))
     (\<lambda>e \<sigma>'. if d e then P x (\<tau>\<lparr>svc := \<sigma>'\<rparr>) else Q (g e) (\<tau>\<lparr>svc := \<sigma>'\<rparr>))"
  by (cases "h \<sigma>") (simp_all add: wp_simps)

lemma transfer_routes_confined:
  assumes app: "bridge_app checks L T app" and keyed: "keyed (db (svc \<tau>))" and path: "path_of req = Some p"
  shows "wp (handle app clk hs req \<tau>) (\<lambda>_ \<tau>'. confined L T hs req (db (svc \<tau>)) (db (svc \<tau>')))
    (\<lambda>_ \<tau>'. confined L T hs req (db (svc \<tau>)) (db (svc \<tau>')))"
proof -
  have store: "store (cx_service ctx) = mem_ops checks" if "app_cctp app = Some ctx" for ctx
    using app that by (simp add: bridge_app_def)
  have T: "app_tokens app = T"
    using app by (simp add: bridge_app_def)
  have conf: "confined L T hs r (db (svc \<tau>)) s"
    if "row \<tau> tid = Some t" "presents L hs (access_token_hash t)" "only_row tid (db (svc \<tau>)) s"
      "parse_uuid T p = Some tid" "path_of r = Some p" for tid t s r
    using that by (auto simp: confined_def row_def names_def)
  note call = wp_row_call [where base = "db (svc \<tau>)"]
  note rules = wp_authorized [OF app] call [OF row_calls(1) [OF store]] call [OF row_calls(2) [OF store]]
    call [OF row_calls(3) [OF store]] call [OF row_calls(4) [OF store]] call [OF row_calls(5) [OF store]]
    call [OF row_calls(6) [OF store]] call [OF row_calls(7) [OF store]] call [OF row_calls(8) [OF store]]
  show ?thesis
    using path only_row_refl [OF keyed]
    apply (cases req)
          apply (auto simp: wp_simps poll_route_wp T cctp_prepare_burn_def cctp_submit_burn_def cctp_get_transfer_def
        cctp_prepare_mint_def cctp_submit_mint_def cctp_reattest_def parse_transfer_id_param_def
        validate_submit_tx_hash_def confined_def [of _ _ _ _ s s for s] intro!: rules)
                     apply (rule conf, assumption+, simp)+
    done
qed

text \<open>The stored rows of a quote: inserted by the service, or by the idempotency store.\<close>

lemma mem_insert_adds: "leaves (ts_insert (mem_ops checks) t s) s' \<Longrightarrow> adds_row s s'"
  by (auto simp: mem_ops_def mem_insert_def leaves_def adds_row_def split: if_splits)

lemma wp_insert_adds:
  assumes "\<And>v s'. adds_row s s' \<Longrightarrow> P v s'" "\<And>e s'. adds_row s s' \<Longrightarrow> Q e s'"
  shows "wp (ts_insert (mem_ops checks) t s) P Q"
  by (rule wpI) (auto intro!: assms mem_insert_adds [of checks t] simp: leaves_def)

lemma adds_row_refl [simp]: "adds_row s s"
  by (simp add: adds_row_def)

lemma wp_finalize_adds:
  assumes "\<And>v i' s'. adds_row s s' \<Longrightarrow> P v (i', s')" "\<And>e i' s'. adds_row s s' \<Longrightarrow> Q e (i', s')"
  shows "wp (qi_finalize_quote (mem_idempotency (Some (mem_ops checks))) k w t (i, s)) P Q"
  by (rule wp_mono [OF mem_idem.finalize_rows]) (auto dest: mem_insert_adds intro: assms)

lemma wp_claim_any:
  "(\<And>v i'. P v i') \<Longrightarrow> (\<And>e i'. R e i') \<Longrightarrow> wp (qi_claim_quote Q clk n k h w x i) P R"
  by (rule wp_any)

lemma wp_cleanup_any:
  "(\<And>v i'. P v i') \<Longrightarrow> (\<And>e i'. R e i') \<Longrightarrow> wp (qi_cleanup_expired Q clk ks n i) P R"
  by (rule wp_any)

lemma replay_quote_wp:
  assumes "store (cx_service ctx) = mem_ops checks" "\<And>v. P v \<tau>" "\<And>e. Q e \<tau>"
  shows "wp (replay_quote app ctx k h tid \<tau>) P Q"
  unfolding replay_quote_def get_transfer_def
  using assms by (auto simp: wp_simps mem_ops_def mem_get_def)

lemma quote_adds:
  assumes app: "bridge_app checks L T app"
  shows "wp (cctp_quote app clk draws hs body \<tau>) (\<lambda>_ \<tau>'. adds_row (db (svc \<tau>)) (db (svc \<tau>')))
    (\<lambda>_ \<tau>'. adds_row (db (svc \<tau>)) (db (svc \<tau>')))" (is "wp _ (\<lambda>_. ?R) _")
proof -
  have by_key: "wp (quote_by_key app ctx c draws hs h body \<tau>') (\<lambda>_. ?R) (\<lambda>_. ?R)"
    if "app_cctp app = Some ctx" "db (svc \<tau>') = db (svc \<tau>)" for ctx c h \<tau>'
  proof -
    have ctx: "store (cx_service ctx) = mem_ops checks" "cx_idempotency ctx = mem_idempotency (Some (mem_ops checks))"
      using app that(1) by (simp_all add: bridge_app_def)
    show ?thesis
      using that(2)
      by (auto simp: wp_simps quote_by_key_def idempotent_quote_def ephemeral_quote_def create_idempotent_quote_def
          quote_core_def case_prod_beta Let_def ctx
          intro!: wp_finalize_adds wp_insert_adds replay_quote_wp [OF ctx(1)] wp_claim_any split: option.split)
  qed
  show ?thesis
    unfolding cctp_quote_def
    by (auto simp: wp_simps intro!: wp_gate_for_direction by_key split: option.split outcome.split)
qed

section \<open>Runs of requests\<close>

inductive http_step ::
  "bool \<Rightarrow> libs \<Rightarrow> token_crates \<Rightarrow> (clock \<Rightarrow> headers \<Rightarrow> bridge_request \<Rightarrow> bool) \<Rightarrow>
     (mem_store, 'l, idem_entries) http_state \<Rightarrow> (mem_store, 'l, idem_entries) http_state \<Rightarrow> bool"
  for checks L T allowed where
  request: "bridge_app checks L T app \<Longrightarrow> allowed clk hs req \<Longrightarrow> leaves (handle app clk hs req \<tau>) \<tau>' \<Longrightarrow>
    http_step checks L T allowed \<tau> \<tau>'"

lemma request_rows:
  assumes "bridge_app checks L T app" "keyed (db (svc \<tau>))" "leaves (handle app clk hs req \<tau>) \<tau>'"
  shows "confined L T hs req (db (svc \<tau>)) (db (svc \<tau>')) \<or> adds_row (db (svc \<tau>)) (db (svc \<tau>'))"
proof (cases "path_of req")
  case None
  then obtain draws body where "req = QuoteRequest draws body"
    by (cases req) auto
  then have "wp (handle app clk hs req \<tau>) (\<lambda>_ \<tau>'. adds_row (db (svc \<tau>)) (db (svc \<tau>')))
    (\<lambda>_ \<tau>'. adds_row (db (svc \<tau>)) (db (svc \<tau>')))"
    using quote_adds [OF assms(1)] by simp
  then show ?thesis
    using assms(3) by (blast elim: wp_leaves)
next
  case (Some p)
  show ?thesis
    using transfer_routes_confined [OF assms(1,2) Some] assms(3) by (blast elim: wp_leaves)
qed

lemma adds_row_keyed: "keyed s \<Longrightarrow> adds_row s s' \<Longrightarrow> keyed s'"
  by (auto simp: keyed_def adds_row_def split: if_splits)

lemma confined_keyed: "keyed s \<Longrightarrow> confined L T hs req s s' \<Longrightarrow> keyed s'"
  by (auto simp: confined_def intro: only_row_keyed)

lemma adds_row_keeps: "adds_row s s' \<Longrightarrow> transfers s tid = Some t \<Longrightarrow> transfers s' tid = Some t"
  by (auto simp: adds_row_def)

lemma confined_keeps:
  assumes "confined L T hs req s s'" "transfers s tid = Some t" "\<not> (names T req tid \<and> presents L hs (access_token_hash t))"
  shows "transfers s' tid = Some t"
  using assms unfolding confined_def only_row_def by (metis option.inject)

lemma confined_token:
  assumes "confined L T hs req s s'" "transfers s tid = Some t"
  shows "\<exists>t'. transfers s' tid = Some t' \<and> access_token_hash t' = access_token_hash t"
  using assms by (cases "names T req tid") (auto simp: confined_def only_row_def; metis map_option_eq_Some)+

lemma step_keyed: "http_step checks L T allowed \<tau> \<tau>' \<Longrightarrow> keyed (db (svc \<tau>)) \<Longrightarrow> keyed (db (svc \<tau>'))"
  by (erule http_step.cases) (auto dest!: request_rows intro: adds_row_keyed confined_keyed)

lemma step_keeps_row:
  assumes "http_step checks L T (\<lambda>clk hs req. \<not> (names T req tid \<and> presents L hs (access_token_hash t))) \<tau> \<tau>'"
    and "keyed (db (svc \<tau>))" "row \<tau> tid = Some t"
  shows "row \<tau>' tid = Some t"
  using assms unfolding row_def
  by (auto elim!: http_step.cases dest!: request_rows intro: adds_row_keeps confined_keeps)

lemma step_keeps_token:
  assumes "http_step checks L T allowed \<tau> \<tau>'" "keyed (db (svc \<tau>))" "row \<tau> tid = Some t"
  shows "\<exists>t'. row \<tau>' tid = Some t' \<and> access_token_hash t' = access_token_hash t"
  using assms unfolding row_def
  by (auto elim!: http_step.cases dest!: request_rows dest: adds_row_keeps confined_token)

section \<open>Idempotent quotes\<close>

lemma wp_either [wp_simps]:
  "wp (case m of Ok _ i \<Rightarrow> f i | Err _ i \<Rightarrow> f i | Panic \<Rightarrow> Panic) P Q = wp m (\<lambda>_ i. wp (f i) P Q) (\<lambda>_ i. wp (f i) P Q)"
  by (cases m) (simp_all add: wp_simps)

lemma wp_True [simp]: "wp m (\<lambda>_ _. True) (\<lambda>_ _. True)"
  by (rule wp_any) simp_all

lemma transfer_routes_idem:
  assumes "path_of req = Some p"
  shows "wp (handle app clk hs req \<tau>) (\<lambda>_ \<tau>'. idem \<tau>' = idem \<tau>) (\<lambda>_ \<tau>'. idem \<tau>' = idem \<tau>)"
proof -
  have load: "wp (load_authorized_transfer app tid hs \<tau>) (\<lambda>_ \<tau>'. idem \<tau>' = idem \<tau>) (\<lambda>_ \<tau>'. idem \<tau>' = idem \<tau>)" for tid
    unfolding load_authorized_transfer_def by (auto simp: wp_simps split: option.split intro: wp_any)
  have auth: "wp (authorized app clk hs tid body \<tau>) (\<lambda>_ \<tau>'. idem \<tau>' = idem \<tau>) (\<lambda>_ \<tau>'. idem \<tau>' = idem \<tau>)"
    if "\<And>t ctx \<tau>\<^sub>1. wp (body t ctx \<tau>\<^sub>1) (\<lambda>_ \<tau>'. idem \<tau>' = idem \<tau>\<^sub>1) (\<lambda>_ \<tau>'. idem \<tau>' = idem \<tau>\<^sub>1)" for body tid
    unfolding authorized_def wp_simps
    by (rule wp_mono [OF load])
      (auto intro!: wp_gate_for_direction split: option.split intro: wp_mono [OF that])
  show ?thesis
    using assms
    by (cases req)
      (auto simp: wp_simps poll_route_wp cctp_prepare_burn_def cctp_submit_burn_def cctp_get_transfer_def
        cctp_prepare_mint_def cctp_submit_mint_def cctp_reattest_def parse_transfer_id_param_def
        validate_submit_tx_hash_def intro!: auth)
qed

context quote_idempotency_laws
begin

lemma quote_keeps_completed:
  assumes compl: "completed_until (entries_of (idem \<tau>)) k h tid x" and early: "\<And>i. clk i < x"
    and Q: "\<And>ctx. app_cctp app = Some ctx \<Longrightarrow> cx_idempotency ctx = Q"
  shows "wp (cctp_quote app clk draws hs body \<tau>)
    (\<lambda>_ \<tau>'. completed_until (entries_of (idem \<tau>')) k h tid x) (\<lambda>_ \<tau>'. completed_until (entries_of (idem \<tau>')) k h tid x)"
    (is "wp _ (\<lambda>_. ?R) _")
proof -
  have replay: "wp (replay_quote app ctx k' h' n \<tau>') (\<lambda>_. ?R) (\<lambda>_. ?R)" if "?R \<tau>'" for ctx k' h' n \<tau>'
    using that unfolding replay_quote_def by (auto simp: wp_simps intro!: wp_any)
  have create: "wp (create_idempotent_quote app ctx c k' w h' body n \<tau>') (\<lambda>_. ?R) (\<lambda>_. ?R)"
    if "?R \<tau>'" "cx_idempotency ctx = Q" for ctx c k' w h' n \<tau>'
    using that(1) unfolding create_idempotent_quote_def
    by (auto simp: wp_simps Let_def that(2) intro!: finalize_keeps)
  have ephemeral: "wp (ephemeral_quote app ctx c draws body \<tau>') (\<lambda>_. ?R) (\<lambda>_. ?R)" if "?R \<tau>'" for ctx c \<tau>'
    using that by (auto simp: wp_simps ephemeral_quote_def case_prod_beta Let_def intro!: wp_any)
  have by_key: "wp (quote_by_key app ctx c draws hs h' body \<tau>') (\<lambda>_. ?R) (\<lambda>_. ?R)"
    if "?R \<tau>'" "cx_idempotency ctx = Q" "\<And>i. c i < x" for ctx c h' \<tau>'
    using that(1,3)
    by (auto simp: wp_simps quote_by_key_def idempotent_quote_def Let_def after_def that(2)
        intro!: wp_mono [OF claim_keeps] replay create ephemeral split: option.split)
  show ?thesis
    unfolding cctp_quote_def
    using Q
    by (auto simp: wp_simps compl early after_def intro!: wp_gate_for_direction wp_mono [OF cleanup_keeps] by_key
        split: option.split)
qed

text \<open>A quote under the key of a completed entry is a replay, or refused.\<close>

lemma completed_quote_replays:
  assumes compl: "completed_until (entries_of (idem \<tau>)) k h tid x" and early: "\<And>i. clk i < x"
    and Q: "\<And>ctx. app_cctp app = Some ctx \<Longrightarrow> cx_idempotency ctx = Q"
    and key: "hs IDEMPOTENCY_HEADER = Some raw" "normalize_idempotency_key raw = Ok k ()"
  shows "wp (cctp_quote app clk draws hs body \<tau>)
    (\<lambda>resp \<tau>'. canonical_quote_request_hash (app_libs app) (app_tokens app) body = Ok h () \<and>
       (\<exists>ctx \<tau>''. app_cctp app = Some ctx \<and> svc \<tau>'' = svc \<tau> \<and> replay_quote app ctx k h tid \<tau>'' = Ok resp \<tau>'))
    (\<lambda>_ _. True)" (is "wp _ ?P ?N")
proof -
  define P where "P = ?P"
  have by_key: "wp (quote_by_key app ctx c draws hs h' body \<tau>') P ?N"
    if "completed_until (entries_of (idem \<tau>')) k h tid x" "app_cctp app = Some ctx" "\<And>i. c i < x" "svc \<tau>' = svc \<tau>"
      "canonical_quote_request_hash (app_libs app) (app_tokens app) body = Ok h' ()" for ctx c h' \<tau>'
  proof -
    have "wp (replay_quote app ctx k h tid (\<tau>'\<lparr>idem := i\<rparr>)) P ?N" if "h' = h" for i
      by (rule wpI) (use that \<open>svc \<tau>' = svc \<tau>\<close> \<open>app_cctp app = Some ctx\<close> \<open>_ = Ok h' ()\<close> in
          \<open>auto simp: P_def intro!: exI [of _ "\<tau>'\<lparr>idem := i\<rparr>"]\<close>)
    then show ?thesis
      using that(1,3) key
      by (auto simp: wp_simps quote_by_key_def idempotent_quote_def Let_def after_def Q [OF that(2)]
          idempotency_key_from_headers_def intro!: wp_mono [OF claim_completed])
  qed
  have "wp (cctp_quote app clk draws hs body \<tau>) P ?N"
    unfolding cctp_quote_def
    by (auto simp: wp_simps compl early after_def Q intro!: wp_gate_for_direction wp_mono [OF cleanup_keeps [OF compl]] by_key
        split: option.split)
  then show ?thesis
    unfolding P_def .
qed

end

text \<open>What a quote under a key leaves behind: the completed entry and the row its token opens.\<close>

definition answered ::
  "libs \<Rightarrow> (mem_store, 'l, idem_entries) http_state \<Rightarrow> string \<Rightarrow> string \<Rightarrow> instant \<Rightarrow> cctp_quote_response \<Rightarrow> bool" where
  "answered L \<tau> k h x resp \<longleftrightarrow>
     (\<exists>tid t. completed_until (idem \<tau>) k h tid x \<and> row \<tau> tid = Some t \<and>
        access_token_hash t = Some (hash_access_token L (qr_access_token resp)) \<and>
        qr_transfer_id resp = uuid_string L tid)"

lemma recovered_hash:
  "recover_idempotent_token L T ring k h tid stored = Some token \<Longrightarrow> stored = hash_access_token L token"
  unfolding recover_idempotent_token_def find_Some_iff access_tokens_match_iff by blast

lemma replay_answers:
  assumes "bridge_app checks L T app" "app_cctp app = Some ctx" "keyed (db (svc \<tau>))"
  shows "wp (replay_quote app ctx k h tid \<tau>)
    (\<lambda>resp \<tau>'. \<tau>' = \<tau> \<and> qr_transfer_id resp = uuid_string L tid \<and>
       (\<exists>t. row \<tau> tid = Some t \<and> access_token_hash t = Some (hash_access_token L (qr_access_token resp))))
    (\<lambda>_ _. True)"
  using assms
  by (auto simp: wp_simps replay_quote_def get_transfer_def bridge_app_def mem_ops_def mem_get_def row_def keyed_def
      to_quote_response_def dest: recovered_hash)

lemma create_answers:
  assumes "bridge_app checks L T app" "app_cctp app = Some ctx" "pending_until (idem \<tau>) k h tid x"
  shows "wp (create_idempotent_quote app ctx clk k w h body tid \<tau>) (\<lambda>resp \<tau>'. answered L \<tau>' k h x resp) (\<lambda>_ _. True)"
proof -
  have app: "app_libs app = L" "cx_idempotency ctx = mem_idempotency (Some (mem_ops checks))"
    using assms(1,2) by (simp_all add: bridge_app_def)
  have "completed_until i' k h tid x \<Longrightarrow> transfer_id t = tid \<Longrightarrow> access_token_hash t = Some (hash_access_token L token) \<Longrightarrow>
    ts_insert (mem_ops checks) t s = Ok () s' \<Longrightarrow>
    answered L (\<tau>\<lparr>idem := i', svc := (svc \<tau>)\<lparr>db := s'\<rparr>\<rparr>) k h x (to_quote_response L t token)" for i' s s' t token
    by (auto simp: answered_def row_def mem_ops_def mem_insert_def to_quote_response_def split: if_splits)
  then show ?thesis
    using assms(3)
    by (auto simp: wp_simps create_idempotent_quote_def Let_def app new_transfer_def
        dest!: build_quote_transfer_new intro!: wp_mono [OF mem_idem.finalize_completes])
qed

lemma keyed_quote_answers:
  assumes app: "bridge_app checks L T app" and keyed: "keyed (db (svc \<tau>))"
    and key: "hs IDEMPOTENCY_HEADER = Some raw" "normalize_idempotency_key raw = Ok k ()"
  shows "wp (cctp_quote app clk draws hs body \<tau>)
    (\<lambda>resp \<tau>'. \<exists>h x. canonical_quote_request_hash L T body = Ok h () \<and> answered L \<tau>' k h x resp) (\<lambda>_ _. True)"
    (is "wp _ ?P ?N")
proof -
  define P where "P = ?P"
  have TL: "app_libs app = L" "app_tokens app = T"
    using app by (simp_all add: bridge_app_def)
  have by_key: "wp (quote_by_key app ctx c draws hs h body \<tau>') P ?N"
    if ctx: "app_cctp app = Some ctx" and \<tau>': "svc \<tau>' = svc \<tau>"
      and h: "canonical_quote_request_hash L T body = Ok h ()" for ctx c h \<tau>'
  proof -
    have Q: "cx_idempotency ctx = mem_idempotency (Some (mem_ops checks))"
      using app ctx by (simp add: bridge_app_def)
    have replay: "wp (replay_quote app ctx k h tid (\<tau>'\<lparr>idem := i\<rparr>)) P ?N" if "completed_until i k h tid x" for i tid x
      by (rule wp_mono [OF replay_answers [OF app ctx]]) (use that keyed \<tau>' h in \<open>auto simp: answered_def P_def\<close>)
    have create: "wp (create_idempotent_quote app ctx c' k w h body tid (\<tau>'\<lparr>idem := i\<rparr>)) P ?N"
      if "pending_until i k h tid x" for i tid x c' w
      by (rule wp_mono [OF create_answers [OF app ctx]]) (use that h in \<open>auto simp: P_def\<close>)
    show ?thesis
      using key
      by (auto simp: wp_simps quote_by_key_def idempotent_quote_def Let_def Q idempotency_key_from_headers_def
          intro!: wp_mono [OF mem_idem.claim_records] intro: replay create)
  qed
  have "wp (cctp_quote app clk draws hs body \<tau>) P ?N"
    unfolding cctp_quote_def
    by (auto simp: wp_simps TL intro!: wp_gate_for_direction wp_cleanup_any by_key split: option.split)
  then show ?thesis
    unfolding P_def .
qed

lemma leaves_discard [simp]: "leaves (discard m) s = leaves m s"
  by (cases m) (simp_all add: leaves_def discard_def)

lemma step_keeps_answer:
  assumes step: "http_step checks L T (\<lambda>clk hs req. \<forall>i. clk i < x) \<tau> \<tau>'"
    and keyed: "keyed (db (svc \<tau>))" and ans: "answered L \<tau> k h x resp"
  shows "answered L \<tau>' k h x resp"
proof -
  obtain tid t where tid: "completed_until (idem \<tau>) k h tid x" "row \<tau> tid = Some t"
      "access_token_hash t = Some (hash_access_token L (qr_access_token resp))" "qr_transfer_id resp = uuid_string L tid"
    using ans by (auto simp: answered_def)
  obtain app clk hs req where app: "bridge_app checks L T app" "\<And>i. clk i < x" "leaves (handle app clk hs req \<tau>) \<tau>'"
    using step by (auto elim!: http_step.cases)
  have "completed_until (idem \<tau>') k h tid x"
  proof (cases "path_of req")
    case None
    then obtain draws body where "req = QuoteRequest draws body"
      by (cases req) auto
    then have "leaves (cctp_quote app clk draws hs body \<tau>) \<tau>'"
      using app(3) by simp
    then show ?thesis
      using mem_idem.quote_keeps_completed [of \<tau> k h tid x clk app "mem_ops checks" draws hs body] tid(1) app(1,2)
      by (auto simp: bridge_app_def elim: wp_leaves)
  next
    case (Some p)
    then show ?thesis
      using transfer_routes_idem [OF Some, of app clk hs \<tau>] app(3) tid(1) by (auto elim: wp_leaves)
  qed
  then show ?thesis
    using step_keeps_token [OF step keyed tid(2)] tid(3,4) by (auto simp: answered_def)
qed

section \<open>Requests that are turned away\<close>

fun tx_hash_ok :: "bridge_request \<Rightarrow> bool" where
  "tx_hash_ok (SubmitBurnRequest _ tx_hash) \<longleftrightarrow> is_valid_tx_hash tx_hash"
| "tx_hash_ok (SubmitMintRequest _ tx_hash) \<longleftrightarrow> is_valid_tx_hash tx_hash"
| "tx_hash_ok _ \<longleftrightarrow> True"

lemma load_denied:
  assumes "bridge_app checks L T app" "app_cctp app = Some ctx" "enabled (cx_config ctx)"
    and "\<And>t. row \<tau> tid = Some t \<Longrightarrow> \<not> presents L hs (access_token_hash t)"
  shows "load_authorized_transfer app tid hs \<tau> = Err (Api_TransferNotFound (uuid_string L tid)) \<tau>"
  using assms
  by (cases "transfers (db (svc \<tau>)) tid"; cases "hs TRANSFER_ACCESS_HEADER")
    (auto simp: load_authorized_transfer_def require_cctp_def bridge_app_def hash_presented_access_token_def
      uniform_transfer_not_found_def access_token_from_headers_def map_err_def mem_ops_def mem_get_authorized_def
      on_service_def on_store_def row_def presents_def)

lemma request_denied:
  assumes "bridge_app checks L T app" "app_cctp app = Some ctx" "enabled (cx_config ctx)"
    and "names T req tid" "tx_hash_ok req" "\<And>t. row \<tau> tid = Some t \<Longrightarrow> \<not> presents L hs (access_token_hash t)"
  shows "handle app clk hs req \<tau> = Err (Api_TransferNotFound (uuid_string L tid)) \<tau>"
proof -
  have T: "app_tokens app = T"
    using assms(1) by (simp add: bridge_app_def)
  have "load_authorized_transfer app tid hs \<tau> = Err (Api_TransferNotFound (uuid_string L tid)) \<tau>"
    using assms by (intro load_denied)
  then show ?thesis
    using assms(4,5)
    by (cases req)
      (auto simp: names_def T authorized_def cctp_prepare_burn_def cctp_submit_burn_def cctp_get_transfer_def
        cctp_prepare_mint_def cctp_submit_mint_def cctp_reattest_def parse_transfer_id_param_def
        validate_submit_tx_hash_def discard_def)
qed

text \<open>An operator's switch: on the provider, or on either chain of the corridor.\<close>

definition switched_off :: "('s, 'l, 'i) app_state \<Rightarrow> bool" where
  "switched_off app \<longleftrightarrow>
     app_venues app CCTP_CHAIN_KILL_STELLAR = Some ForceExclude \<or>
     app_venues app CCTP_CHAIN_KILL_SEPOLIA = Some ForceExclude \<or>
     (\<forall>ctx. app_cctp app = Some ctx \<longrightarrow> kill_switch (cx_service ctx) CCTP_PROVIDER_ID = Some ForceExclude)"

lemma gate_switched_off:
  assumes "switched_off app"
  shows "\<exists>e. gate_for_direction app clk dir \<tau> = Err e \<tau>"
  using assms
  by (cases "app_cctp app")
    (auto simp: switched_off_def gate_for_direction_def require_cctp_def on_health_def ensure_public_gate_def
      provider_killed_def provider_allowed_iff corridor_chain_killed_def split: cctp_direction.split)

lemma load_reads_only:
  assumes "bridge_app checks L T app"
  shows "(\<exists>t. load_authorized_transfer app tid hs \<tau> = Ok t \<tau>) \<or> (\<exists>e. load_authorized_transfer app tid hs \<tau> = Err e \<tau>)"
  using assms
  by (cases "app_cctp app"; cases "transfers (db (svc \<tau>)) tid"; cases "hs TRANSFER_ACCESS_HEADER")
    (auto simp: load_authorized_transfer_def require_cctp_def bridge_app_def hash_presented_access_token_def
      uniform_transfer_not_found_def access_token_from_headers_def map_err_def mem_ops_def mem_get_authorized_def
      on_service_def on_store_def)

lemma authorized_switched_off:
  assumes "bridge_app checks L T app" "switched_off app"
  shows "\<exists>e. authorized app clk hs tid body \<tau> = Err e \<tau>"
proof (cases "load_authorized_transfer app tid hs \<tau>")
  case (Ok t \<tau>')
  then show ?thesis
    using load_reads_only [OF assms(1), of tid hs \<tau>] gate_switched_off [OF assms(2), of clk "direction t" \<tau>]
    by (auto simp: authorized_def)
qed (use load_reads_only [OF assms(1), of tid hs \<tau>] in \<open>auto simp: authorized_def\<close>)

lemma validate_parties_returns: "validate_parties C r \<noteq> Panic"
  by (cases "r_sender r"; cases "r_mint_submitter r"; cases "r_direction r") (simp_all add: validate_parties_def)

lemma validate_request_returns: "validate_request C r \<noteq> Panic"
  by (simp add: validate_request_def Let_def case_prod_beta validate_parties_returns)

lemma by_id_refused:
  assumes "\<And>tid. parse_uuid (app_tokens app) path = Some tid \<Longrightarrow> \<exists>e. f tid \<tau> = Err e \<tau>"
  shows "\<exists>e. discard (andThen (parse_transfer_id_param app path \<tau>) f) = Err e \<tau>"
  using assms by (cases "parse_uuid (app_tokens app) path") (fastforce simp: parse_transfer_id_param_def discard_def)+

lemma request_switched_off:
  assumes "bridge_app checks L T app" "switched_off app"
  shows "\<exists>e. handle app clk hs req \<tau> = Err e \<tau>"
proof -
  have quote: "\<exists>e. discard (cctp_quote app clk draws hs body \<tau>) = Err e \<tau>" for draws body
    using gate_switched_off [OF assms(2), of clk "r_direction body" \<tau>] validate_request_returns [of "app_crates app" body]
    by (cases "validate_request (app_crates app) body"; cases "app_cctp app")
      (auto simp: cctp_quote_def map_err_def require_cctp_def discard_def)
  show ?thesis
    by (cases req)
      (auto simp: cctp_prepare_burn_def cctp_submit_burn_def cctp_get_transfer_def cctp_prepare_mint_def
        cctp_submit_mint_def cctp_reattest_def validate_submit_tx_hash_def
        intro!: quote by_id_refused authorized_switched_off [OF assms])
qed

end
