(* ===== verification/Route_Guarantees.thy ===== *)
theory Route_Guarantees
  imports Cctp_Routes Cctp_Demo
begin

text \<open>
  The properties of the bridge's HTTP surface and of the breakers its gate asks, with the
  inputs at which they are shown to apply.
\<close>

section \<open>A deployment\<close>

definition demo_tokens :: token_crates where
  "demo_tokens =
     \<lparr>hmac_sha256 = (\<lambda>k m. k), base64url = (\<lambda>_. ''token''), uuid_bytes = (\<lambda>_. []),
      parse_uuid = (\<lambda>s. if s = ''1'' then Some 1 else None), request_json = (\<lambda>r. Some (r_amount r))\<rparr>"

definition demo_context :: "(mem_store, locks, idem_entries) http_context" where
  "demo_context =
     \<lparr>cx_config = demo_config, cx_service = demo_service MintPending,
      cx_idempotency = mem_idempotency (Some (mem_ops True)),
      cx_access_token_keys = \<lparr>kr_current = [1], kr_previous = []\<rparr>\<rparr>"

definition demo_app :: "(mem_store, locks, idem_entries) app_state" where
  "demo_app =
     \<lparr>app_cctp = Some demo_context, app_venues = (\<lambda>_. None), app_crates = demo_crates,
      app_libs = demo_libs, app_tokens = demo_tokens\<rparr>"

definition demo_http :: "(mem_store, locks, idem_entries) http_state" where
  "demo_http = \<lparr>svc = demo_empty, idem = (\<lambda>_. None), health = dependency_health_new\<rparr>"

definition demo_draws :: quote_draws where
  "demo_draws = \<lparr>qd_transfer_id = 1, qd_token = [], qd_lease_nonce = ''nonce'', qd_iteration = []\<rparr>"

lemma demo_app_simps [simp]:
  "app_cctp demo_app = Some demo_context" "app_venues demo_app = (\<lambda>_. None)" "app_crates demo_app = demo_crates"
  "app_libs demo_app = demo_libs" "app_tokens demo_app = demo_tokens" "cx_config demo_context = demo_config"
  "cx_service demo_context = demo_service MintPending"
  "cx_idempotency demo_context = mem_idempotency (Some (mem_ops True))"
  by (simp_all add: demo_app_def demo_context_def)

lemma demo_bridge_app: "bridge_app True demo_libs demo_tokens demo_app"
  by (simp add: bridge_app_def)

lemma demo_executable: "direction_executable (demo_service out) dir"
  by (cases dir) (simp_all add: direction_executable_def assess_def demo_configured demo_runtime_def Let_def)

section \<open>Breakers\<close>

lemma guards_pass:
  assumes "health_ok h" "\<And>key f. failed_at key h = Some f \<Longrightarrow> \<forall>i. seconds 15 \<le> clk i - f"
  shows "fst (guard_live_path clk h) = None" "fst (guard_cctp_direction clk dir h) = None"
proof -
  have closed: "\<not> fst (breaker_is_open c key h')"
    if "health_ok h'" "\<And>k. failed_at k h' = failed_at k h" "\<And>i. \<exists>j. c i = clk j" for c key h'
    using breaker_is_open_recent [OF that(1), of c key] assms(2) that(2,3) by (metis not_le)
  have "key \<notin> set (fst (open_dependencies clk h))" for key
    using open_dependencies_recent [OF assms(1), of key _ clk] assms(2) unfolding open_dependencies_def by (meson not_le)
  then have "fst (open_dependencies clk h) = []"
    by (metis all_not_in_conv set_empty)
  then show "fst (guard_live_path clk h) = None"
    by (simp add: guard_live_path_def case_prod_beta Let_def)
  show "fst (guard_cctp_direction clk dir h) = None"
    using closed [OF assms(1), of clk] closed [OF breaker_is_open_ok [OF assms(1)], of clk _ "after 3 clk"]
    by (auto simp: guard_cctp_direction_def case_prod_beta Let_def after_def)
qed



text \<open>
  C34. The breakers of the dependencies let go: whatever results were recorded and whatever
  requests asked them, once the last failure of each dependency is fifteen seconds old,
  the gates of the live path and of the bridge pass.
\<close>

theorem guards_recover:
  assumes "health_reachable checks h"
    and "\<And>key f. failed_at key h = Some f \<Longrightarrow> \<forall>i. seconds 15 \<le> clk i - f"
  shows "fst (guard_live_path clk h) = None \<and> fst (guard_cctp_direction clk dir h) = None"
  using health.inv_reachable [OF assms(1)] assms(2) by (simp add: guards_pass)

theorem guards_recover_witness:
  "\<exists>h. health_reachable True h \<and> failed_at SOROBAN_KEY h = Some 0 \<and>
     fst (guard_live_path (\<lambda>_. seconds 15) h) = None \<and>
     fst (guard_cctp_direction (\<lambda>_. seconds 15) StellarToEvm h) = None"
proof -
  let ?b = "(breaker_new 0)\<lparr>consecutive_failures := 1, last_failure_at := Some 0\<rparr>"
  let ?r = "put_breaker SOROBAN_KEY ?b (registry_new dependency_breaker_config)"
  define h where "h = snd (breaker_is_open still SOROBAN_KEY (dependency_health_new\<lparr>soroban_breaker := ?r\<rparr>))"
  have keys: "SOROBAN_KEY \<noteq> DATABASE_KEY" "SOROBAN_KEY \<noteq> EVM_RPC_KEY" "SOROBAN_KEY \<noteq> HORIZON_KEY"
    by (simp_all add: SOROBAN_KEY_def DATABASE_KEY_def EVM_RPC_KEY_def HORIZON_KEY_def)
  have h: "record_dependency_result True still SOROBAN_KEY False dependency_health_new = Some h"
    by (simp add: h_def record_dependency_result_def dependency_health_new_def breaker_for_def set_breaker_for_def keys
        record_result_def record_failure_def plain_add_u32_def u32_max_def breaker_entry_def registry_new_def
        breaker_new_def Let_def dependency_breaker_config_def)
  have failed: "failed_at key h = (if key = SOROBAN_KEY then Some 0 else None)" for key
    unfolding h_def breaker_is_open_failed_at
    using keys
    by (simp add: failed_at_def breaker_for_def put_breaker_def dependency_health_new_def registry_new_def Let_def)
  have r: "health_reachable True h"
    by (rule reachable_by.step [OF reachable_by.start]) (auto intro: health_step.result [OF h])
  have "fst (guard_live_path (\<lambda>_. seconds 15) h) = None \<and>
     fst (guard_cctp_direction (\<lambda>_. seconds 15) StellarToEvm h) = None"
    by (rule guards_recover [OF r]) (simp add: failed split: if_splits)
  then show ?thesis
    using r failed by auto
qed

section \<open>Requests\<close>

definition quiet :: "dependency_health \<Rightarrow> bool" where
  "quiet h \<longleftrightarrow> health_ok h \<and> (\<forall>key. failed_at key h = None)"

lemma guards_quiet:
  assumes "quiet h"
  shows "fst (guard_live_path clk h) = None" "fst (guard_cctp_direction clk dir h) = None"
    "quiet (snd (guard_live_path clk h))" "quiet (snd (guard_cctp_direction clk dir h))"
proof -
  have keeps: "failed_at key (snd (open_dependencies_in ks c h')) = failed_at key h'" for key ks c h'
    by (induction ks arbitrary: c h') (simp_all add: case_prod_beta Let_def)
  show "fst (guard_live_path clk h) = None" "fst (guard_cctp_direction clk dir h) = None"
    using assms by (auto simp: quiet_def intro!: guards_pass)
  show "quiet (snd (guard_live_path clk h))" "quiet (snd (guard_cctp_direction clk dir h))"
    using assms guards_ok
    by (simp_all add: quiet_def guard_live_path_def guard_cctp_direction_def open_dependencies_def case_prod_beta Let_def
        keeps)
qed

lemma demo_quiet: "quiet dependency_health_new"
  by (auto simp: quiet_def failed_at_def breaker_for_def dependency_health_new_def registry_new_def Let_def
      health_ok_def registry_ok_def)

lemma demo_gate:
  assumes "quiet (health \<tau>)"
  shows "\<exists>h. gate_for_direction demo_app clk dir \<tau> = Ok () (\<tau>\<lparr>health := h\<rparr>) \<and> quiet h"
proof -
  let ?m = "ensure_public_gate (demo_service MintPending) (\<lambda>_. None) clk dir (health \<tau>)"
  have "\<exists>h. ?m = Ok () h"
    unfolding ensure_public_gate_iff gate_open_def using guards_quiet assms by (simp add: demo_executable)
  moreover have "quiet h" if "?m = Ok () h" for h
    using that guards_quiet assms
    by (auto simp: ensure_public_gate_def case_prod_beta Let_def split: if_splits prod.splits option.splits)
  ultimately show ?thesis
    by (auto simp: gate_for_direction_def require_cctp_def on_health_def)
qed

definition keyed_headers :: headers where
  "keyed_headers = [IDEMPOTENCY_HEADER \<mapsto> ''key-1'']"

definition demo_entry :: idempotency_entry where
  "demo_entry = \<lparr>ie_request_hash = ''12.5'', ie_transfer_id = 1, ie_state = Idem_Completed,
     ie_lease_owner_hash = None, ie_lease_expires_at = None, ie_expires_at = seconds 300\<rparr>"

definition demo_response :: cctp_quote_response where
  "demo_response = to_quote_response demo_libs (demo_row 1) ''token''"

lemma demo_row_fields:
  "transfer_id (demo_row tid) = tid" "access_token_hash (demo_row tid) = Some ''token''"
  by (simp_all add: demo_row_def new_transfer_def)

lemma demo_token:
  "derive_idempotent_token demo_tokens ring k h tid = ''token''" "hash_access_token demo_libs ''token'' = ''token''"
  "hash_lease_owner demo_libs ''nonce'' = ''nonce''" "validate_access_token_format ''token''"
  by (simp_all add: derive_idempotent_token_def derive_idempotent_token_with_key_def demo_tokens_def
      hash_access_token_def hash_lease_owner_def demo_libs_def text_eval validate_access_token_format_def check_str_len_def
      MAX_ACCESS_TOKEN_LEN_def Let_def)

lemma demo_recovered: "recover_idempotent_token demo_libs demo_tokens ring k h tid ''token'' = Some ''token''"
  using recover_derived [of demo_tokens ring k h tid demo_libs] by (simp add: demo_token)

lemma demo_key: "normalize_idempotency_key ''key-1'' = Ok ''key-1'' ()"
  by (simp add: normalize_idempotency_key_def text_eval check_str_len_def MAX_IDEMPOTENCY_KEY_LEN_def Let_def)

lemma demo_request_hash: "canonical_quote_request_hash demo_libs demo_tokens demo_request = Ok ''12.5'' ()"
  by (simp add: canonical_quote_request_hash_def hash_quote_request_def demo_tokens_def demo_request_def demo_libs_def
      MAX_QUOTE_REQUEST_BYTES_def)

lemma demo_by_key:
  assumes "idem \<tau> = (\<lambda>_. None)" "transfers (db (svc \<tau>)) 1 = None"
  shows "quote_by_key demo_app demo_context still demo_draws keyed_headers ''12.5'' demo_request \<tau> =
    Ok demo_response (\<tau>\<lparr>idem := [''key-1'' \<mapsto> demo_entry], svc := (svc \<tau>)\<lparr>db := put 1 (demo_row 1) (db (svc \<tau>))\<rparr>\<rparr>)"
  using assms
  by (simp add: quote_by_key_def idempotency_key_from_headers_def keyed_headers_def idempotent_quote_def map_err_def
      demo_key on_idempotency_def mem_idem_defs demo_draws_def Let_def demo_token create_idempotent_quote_def
      demo_built on_finalize_def demo_row_fields mem_ops_def mem_insert_def demo_response_def demo_entry_def demo_ttl
      as_i64_def del: andThen_Ok cong: eval_congs)

lemma demo_by_key_again:
  assumes "idem \<tau> = [''key-1'' \<mapsto> demo_entry]" "row \<tau> 1 = Some (demo_row 1)"
  shows "quote_by_key demo_app demo_context still demo_draws keyed_headers ''12.5'' demo_request \<tau> = Ok demo_response \<tau>"
proof -
  have "\<tau>\<lparr>idem := [''key-1'' \<mapsto> demo_entry]\<rparr> = \<tau>"
    using assms(1) by simp
  then show ?thesis
    using assms
    by (simp add: quote_by_key_def idempotency_key_from_headers_def keyed_headers_def idempotent_quote_def map_err_def
        demo_key on_idempotency_def mem_idem_defs demo_draws_def Let_def demo_token replay_quote_def demo_entry_def
        on_service_def get_transfer_def on_store_def demo_row_fields mem_ops_def mem_get_def row_def demo_response_def
        demo_recovered seconds_def del: andThen_Ok cong: eval_congs)
qed

lemma nothing_to_clean: "mem_cleanup_expired clk [] n entries = Ok 0 entries"
  by (simp add: mem_cleanup_expired_def)

lemma demo_keyed_quote:
  assumes "quiet (health \<tau>)"
    and "\<And>h. quote_by_key demo_app demo_context still demo_draws keyed_headers ''12.5'' demo_request (\<tau>\<lparr>health := h\<rparr>) =
      Ok demo_response (f h)"
  shows "\<exists>h. cctp_quote demo_app still demo_draws keyed_headers demo_request \<tau> = Ok demo_response (f h) \<and> quiet h"
proof -
  obtain h where h: "gate_for_direction demo_app still (r_direction demo_request) \<tau> = Ok () (\<tau>\<lparr>health := h\<rparr>)" "quiet h"
    using demo_gate [OF assms(1)] by blast
  have "\<tau>\<lparr>health := h, idem := idem \<tau>\<rparr> = \<tau>\<lparr>health := h\<rparr>"
    by simp
  then have "cctp_quote demo_app still demo_draws keyed_headers demo_request \<tau> = Ok demo_response (f h)"
    using assms(2) [of h]
    by (simp add: cctp_quote_def demo_request_valid map_err_def require_cctp_def h(1) demo_request_hash
        mem_idempotency_def demo_draws_def nothing_to_clean del: andThen_Ok cong: eval_congs)
  then show ?thesis
    using h(2) by blast
qed

text \<open>
  C30. Only the holder of a transfer's token moves it. Whatever requests are served, under
  whatever configuration, kill switches and behaviour of the chains, a stored transfer is
  unchanged as long as no request both names it and presents a token that hashes to the
  hash stored with it.
\<close>

theorem only_token_holders:
  assumes "keyed (db (svc \<tau>))" "row \<tau> tid = Some t"
    and "(http_step checks L T
            (\<lambda>clk hs req. \<not> (names T req tid \<and> presents L hs (access_token_hash t))))\<^sup>*\<^sup>* \<tau> \<tau>'"
  shows "row \<tau>' tid = Some t"
proof -
  have "keyed (db (svc \<tau>')) \<and> row \<tau>' tid = Some t"
    using assms(3)
    by (induction rule: rtranclp_induct) (use assms(1,2) in \<open>auto intro: step_keyed step_keeps_row\<close>)
  then show ?thesis
    by blast
qed

definition demo_stored :: "(mem_store, locks, idem_entries) http_state" where
  "demo_stored = demo_http\<lparr>svc := demo_empty\<lparr>db := demo_store demo_quoted\<rparr>\<rparr>"

definition wrong_token :: headers where
  "wrong_token = [TRANSFER_ACCESS_HEADER \<mapsto> ''guess'']"

lemma demo_stored_row: "row demo_stored 1 = Some demo_quoted" "keyed (db (svc demo_stored))"
  by (auto simp: demo_stored_def row_def demo_store_def keyed_def)

lemma demo_no_row: "row demo_http tid = None"
  by (simp add: demo_http_def row_def demo_empty_def mem_empty_def)

lemma demo_token_hash: "access_token_hash demo_quoted = Some ''token''"
  by (simp add: demo_quoted_def new_transfer_def)

lemma demo_wrong_token: "\<not> presents demo_libs wrong_token (access_token_hash demo_quoted)"
  by (simp add: presents_def wrong_token_def demo_token_hash hash_access_token_def demo_libs_def text_eval)

lemma demo_names: "names demo_tokens (PrepareBurnRequest ''1'') 1"
  by (simp add: names_def demo_tokens_def)

theorem only_token_holders_witness:
  "\<exists>\<tau>'. leaves (handle demo_app still wrong_token (PrepareBurnRequest ''1'') demo_stored) \<tau>' \<and>
     row \<tau>' 1 = Some demo_quoted"
proof -
  let ?m = "handle demo_app still wrong_token (PrepareBurnRequest ''1'') demo_stored"
  have "?m = Err (Api_TransferNotFound (uuid_string demo_libs 1)) demo_stored"
    by (rule request_denied [OF demo_bridge_app demo_app_simps(1)])
      (simp_all add: demo_names demo_stored_row demo_wrong_token del: One_nat_def)
  then have l: "leaves ?m demo_stored"
    by (simp add: leaves_def)
  have "row demo_stored 1 = Some demo_quoted"
    by (rule only_token_holders [OF demo_stored_row(2,1)
          r_into_rtranclp [where r = "http_step True demo_libs demo_tokens _", OF
            http_step.request [OF demo_bridge_app _ l]]])
      (use demo_wrong_token in blast)
  then show ?thesis
    using l by blast
qed

text \<open>
  A request for a transfer whose token it does not present gets the same answer
  whether the transfer exists or not, the not-found error of its id, and changes nothing.
\<close>

theorem denied_alike:
  assumes "bridge_app checks L T app" "app_cctp app = Some ctx" "enabled (cx_config ctx)"
    and "names T req tid" "tx_hash_ok req"
    and "\<And>t. row \<tau> tid = Some t \<Longrightarrow> \<not> presents L hs (access_token_hash t)"
  shows "handle app clk hs req \<tau> = Err (Api_TransferNotFound (uuid_string L tid)) \<tau>"
  using assms by (rule request_denied)

theorem denied_alike_witness:
  "handle demo_app still wrong_token (PrepareBurnRequest ''1'') demo_stored =
     Err (Api_TransferNotFound (uuid_string demo_libs 1)) demo_stored \<and>
   handle demo_app still wrong_token (PrepareBurnRequest ''1'') demo_http =
     Err (Api_TransferNotFound (uuid_string demo_libs 1)) demo_http"
  by (intro conjI denied_alike [OF demo_bridge_app demo_app_simps(1)])
    (simp_all add: demo_names demo_stored_row demo_wrong_token demo_no_row del: One_nat_def)

text \<open>
  C32. The operator's switches close the whole surface: while the provider or one of the
  two chains is excluded, every request fails and changes nothing, for a transfer in
  either direction and at any stage.
\<close>

theorem switches_close_bridge:
  assumes "bridge_app checks L T app" "switched_off app"
  shows "\<exists>e. handle app clk hs req \<tau> = Err e \<tau>"
  using assms by (rule request_switched_off)

theorem switches_close_bridge_witness:
  "\<exists>e. handle (demo_app\<lparr>app_venues := [CCTP_CHAIN_KILL_SEPOLIA \<mapsto> ForceExclude]\<rparr>) still
     [TRANSFER_ACCESS_HEADER \<mapsto> ''token''] (PrepareBurnRequest ''1'') demo_stored = Err e demo_stored"
  by (rule switches_close_bridge [of True demo_libs demo_tokens])
    (use demo_bridge_app in \<open>simp_all add: bridge_app_def switched_off_def demo_app_def\<close>)

text \<open>
  C31. Quotes are idempotent. After a quote under an idempotency key succeeded, and until
  the entry of the key expires, whatever requests are served in between: a quote under the
  same key that succeeds had the same request, names the same transfer, hands out a token
  with the same hash, and stores no second transfer. So a different request under the key
  does not succeed.
\<close>

theorem quotes_idempotent:
  assumes app: "bridge_app checks L T app" "bridge_app checks L T app'" and keyed: "keyed (db (svc \<tau>))"
    and first: "cctp_quote app clk draws hs body \<tau> = Ok resp \<tau>\<^sub>1" "idem \<tau>\<^sub>1 k = Some e"
    and between: "(http_step checks L T (\<lambda>clk _ _. \<forall>i. clk i < ie_expires_at e))\<^sup>*\<^sup>* \<tau>\<^sub>1 \<tau>\<^sub>2"
    and second: "cctp_quote app' clk' draws' hs' body' \<tau>\<^sub>2 = Ok resp' \<tau>\<^sub>3" "\<And>i. clk' i < ie_expires_at e"
    and key: "hs IDEMPOTENCY_HEADER = Some raw" "normalize_idempotency_key raw = Ok k ()"
      "hs' IDEMPOTENCY_HEADER = Some raw'" "normalize_idempotency_key raw' = Ok k ()"
  shows "canonical_quote_request_hash L T body' = canonical_quote_request_hash L T body \<and>
    qr_transfer_id resp' = qr_transfer_id resp \<and>
    hash_access_token L (qr_access_token resp') = hash_access_token L (qr_access_token resp) \<and>
    db (svc \<tau>\<^sub>3) = db (svc \<tau>\<^sub>2)"
proof -
  obtain h x where h: "canonical_quote_request_hash L T body = Ok h ()" "answered L \<tau>\<^sub>1 k h x resp"
    using wp_Ok [OF keyed_quote_answers [where hs = hs and raw = raw and k = k, OF app(1) keyed key(1,2)] first(1)] by blast
  have x: "x = ie_expires_at e"
    using h(2) first(2) by (auto simp: answered_def completed_until_def)
  have "keyed (db (svc \<tau>\<^sub>1))"
    using adds_row_keyed [OF keyed] wp_Ok [OF quote_adds [OF app(1)] first(1)] by blast
  with between have "keyed (db (svc \<tau>\<^sub>2)) \<and> answered L \<tau>\<^sub>2 k h x resp"
    unfolding x [symmetric]
    by (induction rule: rtranclp_induct) (auto intro: h(2) step_keyed step_keeps_answer)
  then obtain tid t where tid: "keyed (db (svc \<tau>\<^sub>2))" "completed_until (id (idem \<tau>\<^sub>2)) k h tid x" "row \<tau>\<^sub>2 tid = Some t"
      "access_token_hash t = Some (hash_access_token L (qr_access_token resp))" "qr_transfer_id resp = uuid_string L tid"
    by (auto simp: answered_def)
  have app': "app_libs app' = L" "app_tokens app' = T"
      "app_cctp app' = Some ctx \<Longrightarrow> cx_idempotency ctx = mem_idempotency (Some (mem_ops checks))" for ctx
    using app(2) by (simp_all add: bridge_app_def)
  obtain ctx \<tau> where r: "canonical_quote_request_hash L T body' = Ok h ()" "app_cctp app' = Some ctx"
      "svc \<tau> = svc \<tau>\<^sub>2" "replay_quote app' ctx k h tid \<tau> = Ok resp' \<tau>\<^sub>3"
    using wp_Ok [OF mem_idem.completed_quote_replays
        [where hs = hs' and raw = raw' and k = k, OF tid(2) _ app'(3) key(3,4)] second(1)] second(2)
    by (auto simp: x app')
  show ?thesis
    using wp_Ok [OF replay_answers [OF app(2) r(2)] r(4)] tid r h(1) by (auto simp: row_def)
qed

theorem quotes_idempotent_witness:
  "\<exists>\<tau>\<^sub>1 \<tau>\<^sub>2. cctp_quote demo_app still demo_draws keyed_headers demo_request demo_http = Ok demo_response \<tau>\<^sub>1 \<and>
     cctp_quote demo_app still demo_draws keyed_headers demo_request \<tau>\<^sub>1 = Ok demo_response \<tau>\<^sub>2 \<and>
     row \<tau>\<^sub>1 1 = Some (demo_row 1) \<and> db (svc \<tau>\<^sub>2) = db (svc \<tau>\<^sub>1)"
proof -
  let ?f = "\<lambda>h. \<lparr>svc = demo_empty\<lparr>db := put 1 (demo_row 1) (db demo_empty)\<rparr>, idem = [''key-1'' \<mapsto> demo_entry], health = h\<rparr>"
  obtain h where h: "cctp_quote demo_app still demo_draws keyed_headers demo_request demo_http = Ok demo_response (?f h)"
      "quiet h"
    using demo_keyed_quote [of demo_http ?f] demo_quiet demo_by_key [of "demo_http\<lparr>health := h\<rparr>" for h]
    by (auto simp: demo_http_def demo_empty_def mem_empty_def nothing_to_clean)
  have again: "quote_by_key demo_app demo_context still demo_draws keyed_headers ''12.5'' demo_request (?f h) =
    Ok demo_response (?f h)" for h
    by (rule demo_by_key_again) (simp_all add: row_def)
  obtain h' where h': "cctp_quote demo_app still demo_draws keyed_headers demo_request (?f h) = Ok demo_response (?f h')"
    using demo_keyed_quote [of "?f h" ?f] h(2) again by (auto simp: nothing_to_clean)
  have "db (svc (?f h')) = db (svc (?f h))"
    using quotes_idempotent [OF demo_bridge_app demo_bridge_app _ h(1) _ rtranclp.rtrancl_refl h',
        of "''key-1''" demo_entry "''key-1''" "''key-1''"]
    by (simp add: demo_key keyed_headers_def demo_entry_def seconds_def demo_http_def demo_empty_def keyed_def mem_empty_def)
  then show ?thesis
    using h(1) h' by (intro exI [of _ "?f h"] exI [of _ "?f h'"]) (simp add: row_def put_def)
qed

end
