(* ===== verification/Card_Ledger.thy ===== *)
theory Card_Ledger
  imports Rust_Text
begin

text \<open>
  The balances of a card (\<open>card/ledger.rs\<close>) and the states of an authorization
  (\<open>card/auth_state.rs\<close>).
\<close>

section \<open>Balances\<close>

record card_ledger =
  cl_available :: i64
  cl_held :: i64
  cl_spent :: i64

datatype ledger_error = Ldg_InvalidAmount | Ldg_InsufficientAvailable | Ldg_InsufficientHeld

definition ledger_new :: "i64 \<Rightarrow> (card_ledger, ledger_error) pure" where
  "ledger_new balance =
     (if balance < 0 then Err Ldg_InvalidAmount ()
      else Ok \<lparr>cl_available = balance, cl_held = 0, cl_spent = 0\<rparr> ())"

definition ledger_hold :: "bool \<Rightarrow> i64 \<Rightarrow> card_ledger \<Rightarrow> (unit, ledger_error, card_ledger) outcome" where
  "ledger_hold checks amount l =
     (if amount < 0 then Err Ldg_InvalidAmount l
      else if amount > cl_available l then Err Ldg_InsufficientAvailable l
      else
        unwrap (plain_i64 checks (cl_available l - amount)) (\<lambda>balance.
        unwrap (plain_i64 checks (cl_held l + amount)) (\<lambda>held.
          Ok () (l\<lparr>cl_available := balance, cl_held := held\<rparr>))))"

definition ledger_capture :: "bool \<Rightarrow> i64 \<Rightarrow> card_ledger \<Rightarrow> (unit, ledger_error, card_ledger) outcome" where
  "ledger_capture checks amount l =
     (if amount < 0 then Err Ldg_InvalidAmount l
      else if amount > cl_held l then Err Ldg_InsufficientHeld l
      else
        unwrap (plain_i64 checks (cl_held l - amount)) (\<lambda>held.
        unwrap (plain_i64 checks (cl_spent l + amount)) (\<lambda>spent.
          Ok () (l\<lparr>cl_held := held, cl_spent := spent\<rparr>))))"

definition ledger_release :: "bool \<Rightarrow> i64 \<Rightarrow> card_ledger \<Rightarrow> (unit, ledger_error, card_ledger) outcome" where
  "ledger_release checks amount l =
     (if amount < 0 then Err Ldg_InvalidAmount l
      else if amount > cl_held l then Err Ldg_InsufficientHeld l
      else
        unwrap (plain_i64 checks (cl_held l - amount)) (\<lambda>held.
        unwrap (plain_i64 checks (cl_available l + amount)) (\<lambda>balance.
          Ok () (l\<lparr>cl_held := held, cl_available := balance\<rparr>))))"

datatype ledger_op = Hold i64 | Capture i64 | Release i64

fun ledger_apply :: "bool \<Rightarrow> ledger_op \<Rightarrow> card_ledger \<Rightarrow> (unit, ledger_error, card_ledger) outcome" where
  "ledger_apply checks (Hold amount) = ledger_hold checks amount"
| "ledger_apply checks (Capture amount) = ledger_capture checks amount"
| "ledger_apply checks (Release amount) = ledger_release checks amount"

text \<open>A run goes on after an error and ends with a panic.\<close>

fun ledger_run :: "bool \<Rightarrow> ledger_op list \<Rightarrow> card_ledger \<Rightarrow> card_ledger option" where
  "ledger_run checks [] l = Some l"
| "ledger_run checks (op # ops) l =
     (case ledger_apply checks op l of
        Ok _ l' \<Rightarrow> ledger_run checks ops l' | Err _ l' \<Rightarrow> ledger_run checks ops l' | Panic \<Rightarrow> None)"

text \<open>No balance is negative, and together they are the opening balance.\<close>

definition ledger_ok :: "i64 \<Rightarrow> card_ledger \<Rightarrow> bool" where
  "ledger_ok opening l \<longleftrightarrow>
     0 \<le> cl_available l \<and> 0 \<le> cl_held l \<and> 0 \<le> cl_spent l \<and> cl_available l + cl_held l + cl_spent l = opening"

lemma plain_i64_between [simp]: "0 \<le> x \<Longrightarrow> x \<le> i64_max \<Longrightarrow> plain_i64 checks x = Some x"
  by (simp add: plain_i64_def in_i64_def)

text \<open>Within these bounds nothing overflows: the profile makes no difference and there is no panic.\<close>

lemma ledger_profile:
  assumes "ledger_ok opening l" "opening \<le> i64_max"
  shows "ledger_apply checks op l = ledger_apply True op l"
  using assms
  by (cases op) (simp_all add: ledger_ok_def ledger_hold_def ledger_capture_def ledger_release_def)

lemma ledger_ok_step:
  assumes "ledger_ok opening l" "opening \<le> i64_max"
  shows "case ledger_apply True op l of Ok _ l' \<Rightarrow> ledger_ok opening l' | Err _ l' \<Rightarrow> ledger_ok opening l' | Panic \<Rightarrow> False"
  using assms
  by (cases op) (simp_all add: ledger_ok_def ledger_hold_def ledger_capture_def ledger_release_def)

lemma ledger_ok_run:
  assumes "ledger_ok opening l" "opening \<le> i64_max"
  shows "\<exists>l'. ledger_ok opening l' \<and> (\<forall>checks. ledger_run checks ops l = Some l')"
  using assms
proof (induction ops arbitrary: l)
  case (Cons op ops)
  obtain l' where l': "ledger_ok opening l'" "leaves (ledger_apply True op l) l'"
    using ledger_ok_step [OF Cons.prems, of op] by (auto simp: leaves_def split: outcome.splits)
  then have "ledger_run checks (op # ops) l = ledger_run checks ops l'" for checks
    using ledger_profile [OF Cons.prems, of checks op] by (auto simp: leaves_def split: outcome.splits)
  then show ?case
    using Cons.IH [OF l'(1) Cons.prems(2)] by simp
qed simp

section \<open>Authorizations\<close>

datatype authorization_state = Auth_Pending | Auth_Approved | Auth_Captured | Auth_Voided | Auth_Expired

datatype authorization_event = Approve | Capture_Event | Void | Expire

record transition_error =
  te_from :: authorization_state
  te_to :: authorization_state

fun auth_transition ::
  "authorization_state \<Rightarrow> authorization_state \<Rightarrow> (authorization_state, transition_error) pure" where
  "auth_transition Auth_Pending Auth_Approved = Ok Auth_Approved ()"
| "auth_transition Auth_Pending Auth_Voided = Ok Auth_Voided ()"
| "auth_transition Auth_Pending Auth_Expired = Ok Auth_Expired ()"
| "auth_transition Auth_Approved Auth_Captured = Ok Auth_Captured ()"
| "auth_transition Auth_Approved Auth_Voided = Ok Auth_Voided ()"
| "auth_transition Auth_Approved Auth_Expired = Ok Auth_Expired ()"
| "auth_transition current target = Err \<lparr>te_from = current, te_to = target\<rparr> ()"

fun event_target :: "authorization_event \<Rightarrow> authorization_state" where
  "event_target Approve = Auth_Approved"
| "event_target Capture_Event = Auth_Captured"
| "event_target Void = Auth_Voided"
| "event_target Expire = Auth_Expired"

definition apply_event ::
  "authorization_state \<Rightarrow> authorization_event \<Rightarrow> (authorization_state, transition_error) pure" where
  "apply_event current event = auth_transition current (event_target event)"

fun apply_events ::
  "authorization_state \<Rightarrow> authorization_event list \<Rightarrow> (authorization_state, transition_error) pure" where
  "apply_events s [] = Ok s ()"
| "apply_events s (e # es) = andThen (apply_event s e) (\<lambda>s' _. apply_events s' es)"

text \<open>The number of events an authorization can still take.\<close>

fun events_left :: "authorization_state \<Rightarrow> nat" where
  "events_left Auth_Pending = 2"
| "events_left Auth_Approved = 1"
| "events_left _ = 0"

lemma apply_event_left: "apply_event s e = Ok s' () \<Longrightarrow> events_left s' < events_left s"
  by (cases s; cases e) (simp_all add: apply_event_def)

lemma apply_event_refused: "apply_event s e = Err err () \<Longrightarrow> err = \<lparr>te_from = s, te_to = event_target e\<rparr>"
  by (cases s; cases e) (simp_all add: apply_event_def)

lemma apply_events_left: "apply_events s es = Ok s' () \<Longrightarrow> length es + events_left s' \<le> events_left s"
  by (induction es arbitrary: s) (fastforce dest: apply_event_left)+

end
