(* ===== verification/Card_Policy.thy ===== *)
theory Card_Policy
  imports Rust_Text "HOL-Library.List_Lexorder" "HOL-Library.Char_ord"
begin

text \<open>
  What the card program accepts: spending limits (\<open>card/limits.rs\<close>), charging currencies
  (\<open>card/fiat.rs\<close>), merchant categories (\<open>card/mcc.rs\<close>), countries (\<open>card/screening.rs\<close>),
  application drafts (\<open>card/application.rs\<close>), the fields of a webhook
  (\<open>card/webhooks.rs\<close>), and the error codes (\<open>card/errors.rs\<close>). A map the source iterates
  is the list of its entries in the order of the iteration. An \<open>f64\<close> is its bit pattern.
\<close>

section \<open>Spending limits\<close>

record spending_limit =
  limit_stroops :: i64
  window_seconds :: u64

datatype limit_check_result = Allowed | LimitExceeded

definition total_in_window :: "u64 \<Rightarrow> u64 \<Rightarrow> (string \<times> i64 \<times> u64) list \<Rightarrow> i64" where
  "total_in_window window_start now_secs prior =
     foldl (\<lambda>acc (_, amount, timestamp).
       if timestamp \<ge> window_start \<and> timestamp \<le> now_secs then saturating_i64 (acc + amount) else acc) 0 prior"

definition check_limit ::
  "spending_limit \<Rightarrow> (string \<times> i64 \<times> u64) list \<Rightarrow> i64 \<Rightarrow> u64 \<Rightarrow> limit_check_result" where
  "check_limit limit prior new_amount_stroops now_secs =
     (let window_start = saturating_sub_u now_secs (window_seconds limit);
          spent = total_in_window window_start now_secs prior
      in if saturating_i64 (spent + new_amount_stroops) > limit_stroops limit then LimitExceeded else Allowed)"

section \<open>Currencies\<close>

definition to_ascii_upper :: "char \<Rightarrow> char" where
  "to_ascii_upper c =
     (if 97 \<le> (of_char c :: nat) \<and> (of_char c :: nat) \<le> 122 then char_of ((of_char c :: nat) - 32) else c)"

definition to_uppercase :: "string \<Rightarrow> string" where
  "to_uppercase s = map to_ascii_upper s"

definition eq_ignore_ascii_case :: "string \<Rightarrow> string \<Rightarrow> bool" where
  "eq_ignore_ascii_case a b \<longleftrightarrow> to_ascii_lowercase a = to_ascii_lowercase b"

definition ALLOWED_FIAT :: "(string \<times> nat) list" where
  "ALLOWED_FIAT =
     [(''USD'', 2), (''EUR'', 2), (''GBP'', 2), (''CAD'', 2), (''AUD'', 2), (''JPY'', 0), (''NGN'', 2)]"

definition allowed_codes :: "string list" where
  "allowed_codes = map fst ALLOWED_FIAT"

definition canonical :: "string \<Rightarrow> string option" where
  "canonical code =
     (let trimmed = trim code
      in map_option fst (find (\<lambda>(allowed, _). eq_ignore_ascii_case allowed trimmed) ALLOWED_FIAT))"

definition fiat_is_allowed :: "string \<Rightarrow> bool" where
  "fiat_is_allowed code \<longleftrightarrow> canonical code \<noteq> None"

definition decimals :: "string \<Rightarrow> nat option" where
  "decimals code =
     (let trimmed = trim code
      in map_option snd (find (\<lambda>(allowed, _). eq_ignore_ascii_case allowed trimmed) ALLOWED_FIAT))"

definition fiat_validate :: "string option \<Rightarrow> (string, string) pure" where
  "fiat_validate code =
     (case code of
        None \<Rightarrow> Err ''currency is required and must be one of USD, EUR, GBP, CAD, AUD, JPY, NGN'' ()
      | Some code \<Rightarrow>
          if trim code = [] then Err ''currency is required and must be one of USD, EUR, GBP, CAD, AUD, JPY, NGN'' ()
          else ok_or (canonical code) ''currency must be one of USD, EUR, GBP, CAD, AUD, JPY, NGN'' () (\<lambda>c. Ok c ()))"

section \<open>Merchant categories and countries\<close>

record mcc_block_policy =
  blocked_mccs :: "string set"

definition mcc_new :: mcc_block_policy where
  "mcc_new = \<lparr>blocked_mccs = {}\<rparr>"

definition mcc_from_list :: "string list \<Rightarrow> mcc_block_policy" where
  "mcc_from_list mccs = \<lparr>blocked_mccs = set mccs\<rparr>"

text \<open>The value of \<open>CARD_BLOCKED_MCCS\<close> is an argument.\<close>

definition mcc_from_env :: "string option \<Rightarrow> mcc_block_policy" where
  "mcc_from_env var =
     (case var of
        None \<Rightarrow> mcc_from_list []
      | Some v \<Rightarrow>
          let v = trim v
          in if v = [] then mcc_from_list []
             else mcc_from_list (filter (\<lambda>s. s \<noteq> []) (map trim (split_on CHR '','' v))))"

definition is_blocked :: "string \<Rightarrow> mcc_block_policy \<Rightarrow> bool" where
  "is_blocked mcc p \<longleftrightarrow> mcc \<in> blocked_mccs p"

definition mcc_block :: "string \<Rightarrow> mcc_block_policy \<Rightarrow> mcc_block_policy" where
  "mcc_block mcc p = p\<lparr>blocked_mccs := insert mcc (blocked_mccs p)\<rparr>"

definition mcc_unblock :: "string \<Rightarrow> mcc_block_policy \<Rightarrow> bool \<times> mcc_block_policy" where
  "mcc_unblock mcc p = (mcc \<in> blocked_mccs p, p\<lparr>blocked_mccs := blocked_mccs p - {mcc}\<rparr>)"

definition mcc_count :: "mcc_block_policy \<Rightarrow> nat" where
  "mcc_count p = card (blocked_mccs p)"

definition blocked_list :: "mcc_block_policy \<Rightarrow> string list" where
  "blocked_list p = sorted_list_of_set (blocked_mccs p)"

datatype screening_error = CountryBlocked string | Screening_Unavailable

definition screening_from_env :: "string option \<Rightarrow> string list" where
  "screening_from_env var =
     (case var of
        None \<Rightarrow> []
      | Some v \<Rightarrow> filter (\<lambda>s. s \<noteq> []) (map (\<lambda>s. to_uppercase (trim s)) (split_on CHR '','' v)))"

definition check_country :: "string list \<Rightarrow> string \<Rightarrow> (unit, screening_error) pure" where
  "check_country denylist country_code =
     (let upper_code = to_uppercase country_code
      in if upper_code \<in> set denylist then Err (CountryBlocked upper_code) () else Ok () ())"

section \<open>Errors\<close>

datatype card_error_code =
    InsufficientStableBalance | Card_LimitExceeded | Card_Frozen | KycRequired | FxExpired
  | Card_CountryBlocked | PartnerUnconfigured

fun card_code_as_str :: "card_error_code \<Rightarrow> string" where
  "card_code_as_str InsufficientStableBalance = ''insufficient_stable_balance''"
| "card_code_as_str Card_LimitExceeded = ''limit_exceeded''"
| "card_code_as_str Card_Frozen = ''frozen''"
| "card_code_as_str KycRequired = ''kyc_required''"
| "card_code_as_str FxExpired = ''fx_expired''"
| "card_code_as_str Card_CountryBlocked = ''country_blocked''"
| "card_code_as_str PartnerUnconfigured = ''partner_unconfigured''"

fun http_status :: "card_error_code \<Rightarrow> nat" where
  "http_status InsufficientStableBalance = 402"
| "http_status Card_LimitExceeded = 400"
| "http_status Card_Frozen = 403"
| "http_status KycRequired = 403"
| "http_status FxExpired = 400"
| "http_status Card_CountryBlocked = 400"
| "http_status PartnerUnconfigured = 503"

text \<open>\<open>card_error\<close> of the routes: the status and the two fields of the body.\<close>

record card_failure =
  cf_status :: nat
  cf_error :: string
  cf_message :: string

definition card_error :: "nat \<Rightarrow> string \<Rightarrow> string \<Rightarrow> card_failure" where
  "card_error code error message = \<lparr>cf_status = code, cf_error = error, cf_message = message\<rparr>"

definition card_not_found :: card_failure where
  "card_not_found = card_error 404 ''not_found'' ''Not found''"

section \<open>Applications\<close>

type_synonym f64 = "64 word"

text \<open>A bit pattern is greater than zero when it is not zero and at most that of positive infinity.\<close>

definition f64_positive :: "f64 \<Rightarrow> bool" where
  "f64_positive x \<longleftrightarrow> 0 < x \<and> x \<le> 0x7FF0000000000000"

definition ALLOWED_CURRENCIES :: "string list" where
  "ALLOWED_CURRENCIES = [''USD'', ''EUR'', ''GBP'']"

record validate_application_request =
  va_name :: "string option"
  va_country :: "string option"
  va_currency :: "string option"
  va_monthly_limit_usdc :: "f64 option"

record normalized_application_draft =
  na_name :: string
  na_country :: string
  na_currency :: string
  na_monthly_limit_usdc :: f64

text \<open>The request is the parsed payload; \<open>None\<close> when serde refuses it, whose own message is left out of the answer.\<close>

definition validate_application ::
  "bool \<Rightarrow> validate_application_request option \<Rightarrow> (normalized_application_draft, card_failure) pure" where
  "validate_application card_enabled payload =
     (if \<not> card_enabled then Err card_not_found ()
      else
        ok_or payload (card_error 422 ''invalid_payload'' ''Failed to parse application draft'') () (\<lambda>req.
        ok_or (Option.bind (va_name req) (\<lambda>n. if trim n \<noteq> [] then Some (trim n) else None))
          (card_error 422 ''invalid_name'' ''Name is required and cannot be empty'') () (\<lambda>name.
        ok_or (Option.bind (va_country req)
                (\<lambda>c. if trim c \<noteq> [] \<and> length (trim c) \<ge> 2 then Some (to_uppercase (trim c)) else None))
          (card_error 422 ''invalid_country'' ''Country must be a valid country code (at least 2 letters)'') () (\<lambda>country.
        ok_or (Option.bind (va_currency req) (\<lambda>c. if trim c \<noteq> [] then Some (to_uppercase (trim c)) else None))
          (card_error 422 ''invalid_currency'' ''Currency is required'') () (\<lambda>raw_currency.
        if raw_currency \<notin> set ALLOWED_CURRENCIES
        then Err (card_error 422 ''unsupported_currency''
               (''Currency '' @ [CHR 0x27] @ raw_currency @ [CHR 0x27] @ '' is not supported. Allowed: USD, EUR, GBP'')) ()
        else
          ok_or (Option.bind (va_monthly_limit_usdc req) (\<lambda>limit. if f64_positive limit then Some limit else None))
            (card_error 422 ''invalid_limit'' ''Monthly USDC limit must be greater than zero'') () (\<lambda>limit.
            Ok \<lparr>na_name = name, na_country = country, na_currency = raw_currency, na_monthly_limit_usdc = limit\<rparr> ()))))))"

section \<open>Webhook fields\<close>

definition FORBIDDEN_FIELDS :: "string list" where
  "FORBIDDEN_FIELDS = [''pan'', ''cvv'', ''cvc'', ''track'', ''pin'']"

text \<open>The first forbidden key of the metadata, in the order the map is iterated.\<close>

definition reject_forbidden_fields :: "string list \<Rightarrow> string option" where
  "reject_forbidden_fields keys = find (\<lambda>key. to_ascii_lowercase key \<in> set FORBIDDEN_FIELDS) keys"

section \<open>Facts\<close>

definition window_sum :: "u64 \<Rightarrow> u64 \<Rightarrow> (string \<times> i64 \<times> u64) list \<Rightarrow> int" where
  "window_sum start now prior = (\<Sum>(_, a, t) \<leftarrow> prior. if start \<le> t \<and> t \<le> now then a else 0)"

lemma window_sum_nonneg: "(\<forall>(_, a, _) \<in> set prior. 0 \<le> a) \<Longrightarrow> 0 \<le> window_sum start now prior"
  unfolding window_sum_def by (intro sum_list_nonneg) fastforce

lemma total_in_window_sum:
  assumes "\<forall>(_, a, _) \<in> set prior. 0 \<le> a"
  shows "total_in_window start now prior = min i64_max (window_sum start now prior)"
  using assms
proof (induction prior rule: rev_induct)
  case (snoc e prior)
  obtain k a t where e: "e = (k, a, t)"
    by (cases e)
  have "0 \<le> window_sum start now prior"
    using snoc.prems by (intro window_sum_nonneg) auto
  moreover have "0 \<le> a" "total_in_window start now prior = min i64_max (window_sum start now prior)"
    using snoc by (auto simp: e)
  ultimately show ?case
    by (auto simp: total_in_window_def window_sum_def e saturating_i64_def i64_max_def min_def)
qed (simp add: total_in_window_def window_sum_def i64_max_def)

text \<open>
  Below the largest representable limit saturation is harmless: what is accepted is
  exactly what fits into the window.
\<close>

lemma check_limit_iff:
  assumes "\<forall>(_, a, _) \<in> set prior. 0 \<le> a" "0 \<le> amount" "limit_stroops limit < i64_max"
  shows "check_limit limit prior amount now = Allowed \<longleftrightarrow>
    window_sum (now - window_seconds limit) now prior + amount \<le> limit_stroops limit"
  using total_in_window_sum [OF assms(1), of "now - window_seconds limit" now]
    window_sum_nonneg [OF assms(1), of "now - window_seconds limit" now] assms(2,3)
  by (auto simp: check_limit_def saturating_sub_u_def saturating_i64_def Let_def i64_max_def min_def)

lemma canonical_allowed: "canonical code = Some c \<Longrightarrow> c \<in> set allowed_codes"
  by (auto simp: canonical_def allowed_codes_def find_Some_iff Let_def simp del: find.simps) (metis fst_conv nth_mem image_eqI)

lemma validated_application:
  assumes "validate_application flag payload = Ok d ()"
  shows "flag \<and> na_name d \<noteq> [] \<and> 2 \<le> length (na_country d) \<and> na_currency d \<in> set ALLOWED_CURRENCIES \<and>
    f64_positive (na_monthly_limit_usdc d)"
  using assms
  by (auto simp: validate_application_def to_uppercase_def bind_eq_Some_conv split: if_splits)

end
