(* ===== verification/Card_Store.thy ===== *)
theory Card_Store
  imports Card_Policy
begin

text \<open>
  The in-memory store of the card program (\<open>card/store.rs\<close>) and its routes
  (\<open>card/mod.rs\<close>). The store is a record of maps behind one mutex, so each operation is
  a function of the whole record. A rate is only stored; it is the bit pattern of an
  \<open>f64\<close>. The free-form payload of a partner event is of any type \<open>'j\<close>. Amounts are added
  and subtracted with the plain operators, under the profile \<open>checks\<close>. A request is one
  step; the store operations it calls each keep the invariants on their own.
\<close>

section \<open>Records\<close>

datatype stored_state = Stored_Pending | Stored_Approved | Stored_Captured | Stored_Reversed | Stored_Refunded

record application_record =
  ap_application_id :: string
  ap_name :: string
  ap_country :: string
  ap_currency :: string
  ap_monthly_limit_usdc :: u64
  ap_status :: string

record authorization_record =
  ar_authorization_id :: string
  ar_state :: stored_state
  ar_amount_stroops :: i64
  ar_spent_stroops :: i64
  ar_fiat_amount :: i64
  ar_fiat_currency :: string
  ar_rate :: f64
  ar_rate_locked_at :: i64
  ar_tx_hash :: string

record 'j partner_event_request =
  pr_event_id :: string
  pr_event_type :: string
  pr_authorization_id :: string
  pr_amount_stroops :: "i64 option"
  pr_fiat_amount :: "i64 option"
  pr_fiat_currency :: "string option"
  pr_rate :: "f64 option"
  pr_rate_locked_at :: "i64 option"
  pr_payload :: "'j option"

text \<open>The recorded JSON object: the authorization, the event, its type, the amount and the payload.\<close>

record 'j partner_event_record =
  pe_event_id :: string
  pe_event_type :: "string option"
  pe_payload :: "string \<times> string \<times> string \<times> i64 option \<times> 'j option"

datatype store_error =
    Card_UnknownId string | Card_AlreadyExists string | Card_AlreadyApproved | Card_TxAlreadyUsed
  | Card_AuthorizationNotFound | Card_HoldNotFound | Card_AmountExceedsAvailable
  | Card_RefundExceedsCaptured | Card_FiatAmountMismatch | Card_UnsupportedEventType

record 'j card_store =
  cs_applications :: "string \<rightharpoonup> application_record"
  cs_authorizations :: "string \<rightharpoonup> authorization_record"
  cs_tx_to_auth :: "string \<rightharpoonup> string"
  cs_holds :: "string \<rightharpoonup> i64"
  cs_events :: "string \<rightharpoonup> 'j partner_event_record"

definition card_store_new :: "'j card_store" where
  "card_store_new =
     \<lparr>cs_applications = Map.empty, cs_authorizations = Map.empty, cs_tx_to_auth = Map.empty,
      cs_holds = Map.empty, cs_events = Map.empty\<rparr>"

type_synonym ('a, 'j) card_op = "'j card_store \<Rightarrow> ('a, store_error, 'j card_store) outcome"

section \<open>Operations of the store\<close>

definition insert_application :: "application_record \<Rightarrow> (application_record, 'j) card_op" where
  "insert_application app s =
     (if cs_applications s (ap_application_id app) \<noteq> None
      then Err (Card_AlreadyExists (ap_application_id app)) s
      else Ok app (s\<lparr>cs_applications := (cs_applications s)(ap_application_id app \<mapsto> app)\<rparr>))"

definition get_application :: "string \<Rightarrow> 'j card_store \<Rightarrow> application_record option" where
  "get_application i s = cs_applications s i"

definition update_application :: "application_record \<Rightarrow> (application_record, 'j) card_op" where
  "update_application app s =
     (if cs_applications s (ap_application_id app) = None
      then Err (Card_UnknownId (ap_application_id app)) s
      else Ok app (s\<lparr>cs_applications := (cs_applications s)(ap_application_id app \<mapsto> app)\<rparr>))"

definition used_by_other :: "string \<Rightarrow> string \<Rightarrow> 'j card_store \<Rightarrow> bool" where
  "used_by_other tx i s \<longleftrightarrow> (case cs_tx_to_auth s tx of Some existing \<Rightarrow> existing \<noteq> i | None \<Rightarrow> False)"

definition insert_authorization :: "authorization_record \<Rightarrow> (authorization_record, 'j) card_op" where
  "insert_authorization auth s =
     (let i = ar_authorization_id auth; tx = ar_tx_hash auth
      in if cs_authorizations s i \<noteq> None then Err (Card_AlreadyExists i) s
         else if tx \<noteq> [] \<and> used_by_other tx i s then Err Card_TxAlreadyUsed s
         else
           let s = (if tx \<noteq> [] then s\<lparr>cs_tx_to_auth := (cs_tx_to_auth s)(tx \<mapsto> i)\<rparr> else s);
               s = (if ar_amount_stroops auth > 0
                    then s\<lparr>cs_holds := (cs_holds s)(i \<mapsto> ar_amount_stroops auth)\<rparr> else s)
           in Ok auth (s\<lparr>cs_authorizations := (cs_authorizations s)(i \<mapsto> auth)\<rparr>))"

definition get_authorization :: "string \<Rightarrow> 'j card_store \<Rightarrow> authorization_record option" where
  "get_authorization i s = cs_authorizations s i"

definition update_authorization :: "authorization_record \<Rightarrow> (authorization_record, 'j) card_op" where
  "update_authorization auth s =
     (if cs_authorizations s (ar_authorization_id auth) = None
      then Err (Card_UnknownId (ar_authorization_id auth)) s
      else Ok auth (s\<lparr>cs_authorizations := (cs_authorizations s)(ar_authorization_id auth \<mapsto> auth)\<rparr>))"

definition approve_and_hold_with_fx ::
  "string \<Rightarrow> string \<Rightarrow> i64 \<Rightarrow> i64 \<Rightarrow> string \<Rightarrow> f64 \<Rightarrow> i64 \<Rightarrow> (authorization_record, 'j) card_op" where
  "approve_and_hold_with_fx i tx_hash amount fiat_amount fiat_currency rate rate_locked_at s =
     (if used_by_other tx_hash i s then Err Card_TxAlreadyUsed s
      else if (case cs_authorizations s i of Some r \<Rightarrow> ar_state r = Stored_Approved | None \<Rightarrow> False)
      then Err Card_AlreadyApproved s
      else
        let r = \<lparr>ar_authorization_id = i, ar_state = Stored_Approved, ar_amount_stroops = amount,
                 ar_spent_stroops = 0, ar_fiat_amount = fiat_amount, ar_fiat_currency = fiat_currency,
                 ar_rate = rate, ar_rate_locked_at = rate_locked_at, ar_tx_hash = tx_hash\<rparr>
        in Ok r (s\<lparr>cs_authorizations := (cs_authorizations s)(i \<mapsto> r),
                   cs_tx_to_auth := (cs_tx_to_auth s)(tx_hash \<mapsto> i),
                   cs_holds := (cs_holds s)(i \<mapsto> amount)\<rparr>))"

definition approve_and_hold :: "string \<Rightarrow> string \<Rightarrow> i64 \<Rightarrow> (authorization_record, 'j) card_op" where
  "approve_and_hold i tx_hash amount = approve_and_hold_with_fx i tx_hash amount 0 [] 0 0"

definition capture_hold :: "bool \<Rightarrow> string \<Rightarrow> i64 \<Rightarrow> (authorization_record, 'j) card_op" where
  "capture_hold checks i amount s =
     ok_or (cs_authorizations s i) Card_AuthorizationNotFound s (\<lambda>r.
       let current_held = unwrap_or (cs_holds s i) (ar_amount_stroops r)
       in if current_held < amount then Err Card_AmountExceedsAvailable s
          else
            unwrap (plain_i64 checks (ar_spent_stroops r + amount)) (\<lambda>new_spent.
            unwrap (plain_i64 checks (current_held - amount)) (\<lambda>new_held.
              let r = r\<lparr>ar_spent_stroops := new_spent, ar_state := Stored_Captured\<rparr>
              in Ok r (s\<lparr>cs_holds := (cs_holds s)(i \<mapsto> new_held),
                         cs_authorizations := (cs_authorizations s)(i \<mapsto> r)\<rparr>))))"

definition reverse_hold :: "string \<Rightarrow> (authorization_record, 'j) card_op" where
  "reverse_hold i s =
     ok_or (cs_authorizations s i) Card_AuthorizationNotFound s (\<lambda>r.
       let held = unwrap_or (cs_holds s i) (ar_amount_stroops r)
       in if held = 0 then Err Card_HoldNotFound s
          else
            let r = r\<lparr>ar_amount_stroops := 0, ar_spent_stroops := 0, ar_state := Stored_Reversed\<rparr>
            in Ok r (s\<lparr>cs_holds := (cs_holds s)(i := None),
                       cs_authorizations := (cs_authorizations s)(i \<mapsto> r)\<rparr>))"

definition refund_hold :: "bool \<Rightarrow> string \<Rightarrow> i64 \<Rightarrow> (authorization_record, 'j) card_op" where
  "refund_hold checks i amount s =
     ok_or (cs_authorizations s i) Card_AuthorizationNotFound s (\<lambda>r.
       if amount > ar_spent_stroops r then Err Card_RefundExceedsCaptured s
       else
         unwrap (plain_i64 checks (ar_spent_stroops r - amount)) (\<lambda>spent.
         let hold = unwrap_or (cs_holds s i) (ar_amount_stroops r)
         in unwrap (plain_i64 checks (hold + amount)) (\<lambda>hold.
              let r = r\<lparr>ar_spent_stroops := spent, ar_state := Stored_Refunded\<rparr>
              in Ok r (s\<lparr>cs_holds := (cs_holds s)(i \<mapsto> hold),
                         cs_authorizations := (cs_authorizations s)(i \<mapsto> r)\<rparr>))))"

text \<open>\<open>iteration\<close> is the order in which the map of the source visits its keys.\<close>

definition store_list_authorizations :: "string list \<Rightarrow> 'j card_store \<Rightarrow> authorization_record list" where
  "store_list_authorizations iteration s =
     sort_key ar_authorization_id (List.map_filter (cs_authorizations s) iteration)"

definition held_stroops :: "string \<Rightarrow> 'j card_store \<Rightarrow> i64" where
  "held_stroops i s = unwrap_or (cs_holds s i) 0"

definition insert_partner_event :: "'j partner_event_record \<Rightarrow> 'j card_store \<Rightarrow> bool \<times> 'j card_store" where
  "insert_partner_event e s =
     (if cs_events s (pe_event_id e) \<noteq> None then (False, s)
      else (True, s\<lparr>cs_events := (cs_events s)(pe_event_id e \<mapsto> e)\<rparr>))"

definition partner_event :: "string \<Rightarrow> 'j card_store \<Rightarrow> 'j partner_event_record option" where
  "partner_event i s = cs_events s i"

definition partner_event_count :: "'j card_store \<Rightarrow> nat" where
  "partner_event_count s = card (dom (cs_events s))"

section \<open>Routes\<close>

record card_config =
  cc_enabled :: bool
  cc_webhook_hmac_key :: "bytes option"
  cc_partner_address :: "string option"
  cc_usdc_issuer :: "string option"
  cc_network_passphrase :: string

record 'j card_state =
  ct_store :: "'j card_store"
  ct_frozen :: bool

record card_authorization_request =
  cr_authorization_id :: string
  cr_tx_hash :: string
  cr_amount_stroops :: i64
  cr_fiat_amount :: "i64 option"
  cr_fiat_currency :: "string option"
  cr_rate :: "f64 option"
  cr_rate_locked_at :: "i64 option"

datatype card_response =
    Failure card_failure
  | FreezeStatus string bool
  | AuthorizationList "authorization_record list"
  | DuplicateEvent string string string
  | EventApplied string string authorization_record i64
  | AuthorizationApproved authorization_record i64

text \<open>A route answers and leaves a state; \<open>None\<close> is a panic.\<close>

type_synonym 'j card_route = "'j card_state \<Rightarrow> (card_response \<times> 'j card_state) option"

definition fail :: "nat \<Rightarrow> string \<Rightarrow> string \<Rightarrow> card_response" where
  "fail code error message = Failure (card_error code error message)"

definition freeze_card :: "card_config \<Rightarrow> 'j card_route" where
  "freeze_card cfg st =
     (if \<not> cc_enabled cfg then Some (Failure card_not_found, st)
      else Some (FreezeStatus ''frozen'' True, st\<lparr>ct_frozen := True\<rparr>))"

definition unfreeze_card :: "card_config \<Rightarrow> 'j card_route" where
  "unfreeze_card cfg st =
     (if \<not> cc_enabled cfg then Some (Failure card_not_found, st)
      else Some (FreezeStatus ''active'' False, st\<lparr>ct_frozen := False\<rparr>))"

definition list_authorizations :: "card_config \<Rightarrow> string list \<Rightarrow> 'j card_route" where
  "list_authorizations cfg iteration st =
     (if \<not> cc_enabled cfg then Some (Failure card_not_found, st)
      else Some (AuthorizationList (store_list_authorizations iteration (ct_store st)), st))"

text \<open>A store operation in a route: its answer from its result, in the state it leaves.\<close>

definition respond ::
  "(authorization_record \<Rightarrow> 'j card_store \<Rightarrow> card_response) \<Rightarrow> (store_error \<Rightarrow> card_response) \<Rightarrow>
     (authorization_record, store_error, 'j card_store) outcome \<Rightarrow> 'j card_route" where
  "respond ok err m st =
     (case m of
        Ok r s \<Rightarrow> Some (ok r s, st\<lparr>ct_store := s\<rparr>)
      | Err e s \<Rightarrow> Some (err e, st\<lparr>ct_store := s\<rparr>)
      | Panic \<Rightarrow> None)"

fun event_error :: "store_error \<Rightarrow> card_response" where
  "event_error Card_UnsupportedEventType = fail 422 ''unknown_event_type'' ''Unsupported partner event type.''"
| "event_error Card_AmountExceedsAvailable =
     fail 422 ''amount_exceeds_available'' ''Captured amount exceeds the available hold.''"
| "event_error Card_RefundExceedsCaptured =
     fail 422 ''refund_exceeds_captured'' ''Refund exceeds the amount already captured.''"
| "event_error Card_FiatAmountMismatch =
     fail 422 ''fiat_amount_mismatch''
       ''Webhook fiat amount differs from the locked authorization by more than one minor unit.''"
| "event_error Card_HoldNotFound = fail 422 ''hold_not_found'' ''No active hold exists to reverse.''"
| "event_error _ = fail 500 ''partner_event_failed'' ''Partner event could not be applied.''"

definition event_record :: "'j partner_event_request \<Rightarrow> 'j partner_event_record" where
  "event_record p =
     \<lparr>pe_event_id = pr_event_id p, pe_event_type = Some (pr_event_type p),
      pe_payload = (pr_authorization_id p, pr_event_id p, pr_event_type p, pr_amount_stroops p, pr_payload p)\<rparr>"

definition event_applied :: "'j partner_event_request \<Rightarrow> authorization_record \<Rightarrow> 'j card_store \<Rightarrow> card_response" where
  "event_applied p r s =
     EventApplied (pr_event_id p) (pr_event_type p) r (held_stroops (ar_authorization_id r) s)"

definition authorization_event_op :: "'j partner_event_request \<Rightarrow> (authorization_record, 'j) card_op" where
  "authorization_event_op p s =
     (case get_authorization (pr_authorization_id p) s of
        None \<Rightarrow>
          approve_and_hold_with_fx (pr_authorization_id p) ''partner-event'' (unwrap_or (pr_amount_stroops p) 0)
            (unwrap_or (pr_fiat_amount p) 0) (unwrap_or (pr_fiat_currency p) []) (unwrap_or (pr_rate p) 0)
            (unwrap_or (pr_rate_locked_at p) 0) s
      | Some r \<Rightarrow> Ok r s)"

definition clearing_event :: "bool \<Rightarrow> 'j partner_event_request \<Rightarrow> 'j card_route" where
  "clearing_event checks p st =
     (let s = ct_store st
      in case get_authorization (pr_authorization_id p) s of
           None \<Rightarrow> Some (fail 422 ''authorization_not_found'' ''Authorization was not found for clearing.'', st)
         | Some auth \<Rightarrow>
             let webhook_fiat = unwrap_or (pr_fiat_amount p) (ar_fiat_amount auth)
             in case Option.bind (plain_i64 checks (webhook_fiat - ar_fiat_amount auth)) (\<lambda>d. plain_i64 checks \<bar>d\<bar>) of
                  None \<Rightarrow> None
                | Some difference \<Rightarrow>
                    if difference > 1 then Some (event_error Card_FiatAmountMismatch, st)
                    else
                      respond (event_applied p) event_error
                        (capture_hold checks (pr_authorization_id p) (unwrap_or (pr_amount_stroops p) 0) s) st)"

definition handle_partner_event :: "bool \<Rightarrow> card_config \<Rightarrow> 'j partner_event_request \<Rightarrow> 'j card_route" where
  "handle_partner_event checks cfg p st =
     (if \<not> cc_enabled cfg then Some (Failure card_not_found, st)
      else
        let (inserted, s) = insert_partner_event (event_record p) (ct_store st)
        in if \<not> inserted
           then Some (DuplicateEvent (pr_event_id p) (pr_event_type p) (pr_authorization_id p), st)
           else
             let st = st\<lparr>ct_store := s\<rparr>; finish = \<lambda>m. respond (event_applied p) event_error m st
             in if pr_event_type p = ''authorization'' then finish (authorization_event_op p s)
                else if pr_event_type p = ''clearing'' then clearing_event checks p st
                else if pr_event_type p = ''reversal'' then finish (reverse_hold (pr_authorization_id p) s)
                else if pr_event_type p = ''refund''
                then finish (refund_hold checks (pr_authorization_id p) (unwrap_or (pr_amount_stroops p) 0) s)
                else finish (Err Card_UnsupportedEventType s))"

fun authorization_error :: "store_error \<Rightarrow> card_response" where
  "authorization_error Card_AlreadyApproved = fail 409 ''already_approved'' ''Authorization is already approved.''"
| "authorization_error Card_TxAlreadyUsed = fail 409 ''tx_already_used'' ''This transaction hash has already been used.''"
| "authorization_error _ = fail 500 ''authorization_failed'' ''Authorization could not be recorded.''"

definition record_authorization :: "card_config \<Rightarrow> card_authorization_request \<Rightarrow> 'j card_route" where
  "record_authorization cfg p st =
     (if \<not> cc_enabled cfg then Some (Failure card_not_found, st)
      else if ct_frozen st
      then Some (fail 403 ''frozen'' ''Card program is frozen; new authorizations are rejected.'', st)
      else
        respond (\<lambda>r s. AuthorizationApproved r (held_stroops (ar_authorization_id r) s)) authorization_error
          (approve_and_hold_with_fx (cr_authorization_id p) (cr_tx_hash p) (cr_amount_stroops p)
             (unwrap_or (cr_fiat_amount p) 0) (unwrap_or (cr_fiat_currency p) []) (unwrap_or (cr_rate p) 0)
             (unwrap_or (cr_rate_locked_at p) 0) (ct_store st)) st)"

text \<open>The requests of the router, in any order and under any configuration.\<close>

inductive card_step :: "bool \<Rightarrow> 'j card_state \<Rightarrow> 'j card_state \<Rightarrow> bool" for checks where
  freeze: "freeze_card cfg st = Some (resp, st') \<Longrightarrow> card_step checks st st'"
| unfreeze: "unfreeze_card cfg st = Some (resp, st') \<Longrightarrow> card_step checks st st'"
| listing: "list_authorizations cfg iteration st = Some (resp, st') \<Longrightarrow> card_step checks st st'"
| event: "handle_partner_event checks cfg p st = Some (resp, st') \<Longrightarrow> card_step checks st st'"
| authorization: "record_authorization cfg q st = Some (resp, st') \<Longrightarrow> card_step checks st st'"

section \<open>What requests keep\<close>

text \<open>Transaction hashes stay with their authorization, and recorded events stay recorded.\<close>

definition extends :: "'j card_store \<Rightarrow> 'j card_store \<Rightarrow> bool" where
  "extends s s' \<longleftrightarrow> cs_tx_to_auth s \<subseteq>\<^sub>m cs_tx_to_auth s' \<and> cs_events s \<subseteq>\<^sub>m cs_events s'"

lemma extends_refl [simp]: "extends s s"
  by (simp add: extends_def)

lemma extends_trans: "extends s s' \<Longrightarrow> extends s' s'' \<Longrightarrow> extends s s''"
  by (auto simp: extends_def intro: map_le_trans)

text \<open>What is held of an authorization, as the operations read it.\<close>

definition hold_of :: "'j card_store \<Rightarrow> string \<Rightarrow> authorization_record \<Rightarrow> i64" where
  "hold_of s i r = unwrap_or (cs_holds s i) (ar_amount_stroops r)"

text \<open>Equal, or under the wrapping profile equal up to multiples of the range.\<close>

definition agree :: "bool \<Rightarrow> int \<Rightarrow> int \<Rightarrow> bool" where
  "agree checks x y \<longleftrightarrow> (if checks then x = y else 2 ^ 64 dvd x - y)"

definition conserved :: "bool \<Rightarrow> 'j card_store \<Rightarrow> bool" where
  "conserved checks s \<longleftrightarrow>
     (\<forall>i r. cs_authorizations s i = Some r \<longrightarrow> agree checks (hold_of s i r + ar_spent_stroops r) (ar_amount_stroops r))"

lemma plain_i64_agree: "plain_i64 checks x = Some y \<Longrightarrow> agree checks y x"
  by (auto simp: plain_i64_def agree_def wrap_i64_def mod_eq_dvd_iff [symmetric] mod_diff_left_eq split: if_splits)

lemma agree_refl [simp]: "agree checks x x"
  by (simp add: agree_def)

lemma agree_move:
  assumes "agree checks a (x + d)" "agree checks b (y - d)" "agree checks (y + x) z"
  shows "agree checks (b + a) z"
proof (cases checks)
  case False
  have "2 ^ 64 dvd (a - (x + d)) + (b - (y - d)) + (y + x - z)"
    using assms False by (intro dvd_add) (simp_all add: agree_def)
  then show ?thesis
    using False by (simp add: agree_def algebra_simps)
qed (use assms in \<open>simp add: agree_def\<close>)

definition store_kept :: "bool \<Rightarrow> 'j card_store \<Rightarrow> 'j card_store \<Rightarrow> bool" where
  "store_kept checks s s' \<longleftrightarrow> extends s s' \<and> (conserved checks s \<longrightarrow> conserved checks s')"

lemma wp_approve:
  "wp (approve_and_hold_with_fx i tx amount a c f l s)
     (\<lambda>r s'. store_kept checks s s' \<and> cs_tx_to_auth s' tx = Some i) (\<lambda>_ s'. s' = s)"
  by (auto simp: wp_simps approve_and_hold_with_fx_def used_by_other_def extends_def map_le_def conserved_def
      hold_of_def store_kept_def Let_def split: option.splits)

lemma wp_amount_ops:
  "wp (capture_hold checks i amount s) (\<lambda>_ s'. store_kept checks s s') (\<lambda>_ s'. s' = s)"
  "wp (refund_hold checks i amount s) (\<lambda>_ s'. store_kept checks s s') (\<lambda>_ s'. s' = s)"
  "wp (reverse_hold i s) (\<lambda>_ s'. store_kept checks s s') (\<lambda>_ s'. s' = s)"
  by (auto simp: wp_simps capture_hold_def refund_hold_def reverse_hold_def Let_def extends_def conserved_def hold_of_def
      store_kept_def dest!: plain_i64_agree intro: agree_move agree_move [where d = "- amount"])

lemma store_kept_refl [simp]: "store_kept checks s s"
  by (simp add: store_kept_def)

lemma respond_kept:
  assumes "wp m (\<lambda>_ s'. store_kept checks s s') (\<lambda>_ s'. store_kept checks s s')" "respond ok err m st = Some (resp, st')"
  shows "store_kept checks s (ct_store st')"
  using assms by (auto simp: respond_def wp_simps split: outcome.splits)

lemma ops_kept:
  "wp (authorization_event_op p s) (\<lambda>_ s'. store_kept checks s s') (\<lambda>_ s'. store_kept checks s s')"
  "wp (capture_hold checks i amount s) (\<lambda>_ s'. store_kept checks s s') (\<lambda>_ s'. store_kept checks s s')"
  "wp (refund_hold checks i amount s) (\<lambda>_ s'. store_kept checks s s') (\<lambda>_ s'. store_kept checks s s')"
  "wp (reverse_hold i s) (\<lambda>_ s'. store_kept checks s s') (\<lambda>_ s'. store_kept checks s s')"
  "wp (approve_and_hold_with_fx i tx amount a c f l s) (\<lambda>_ s'. store_kept checks s s') (\<lambda>_ s'. store_kept checks s s')"
  unfolding authorization_event_op_def get_authorization_def
  by (auto simp: wp_simps split: option.split intro: wp_mono [OF wp_approve] wp_mono [OF wp_amount_ops(1)]
      wp_mono [OF wp_amount_ops(2)] wp_mono [OF wp_amount_ops(3)])

lemma insert_event_kept:
  "insert_partner_event e s = (fresh, s') \<Longrightarrow>
     store_kept checks s s' \<and> cs_events s' (pe_event_id e) \<noteq> None \<and> cs_authorizations s' = cs_authorizations s"
  by (auto simp: insert_partner_event_def store_kept_def extends_def map_le_def conserved_def hold_of_def split: if_splits)

lemma store_kept_trans: "store_kept checks s s' \<Longrightarrow> store_kept checks s' s'' \<Longrightarrow> store_kept checks s s''"
  by (auto simp: store_kept_def intro: extends_trans)

lemma clearing_kept:
  "clearing_event checks p st = Some (resp, st') \<Longrightarrow> store_kept checks (ct_store st) (ct_store st')"
  by (auto simp: clearing_event_def Let_def split: option.splits if_splits intro: respond_kept [OF ops_kept(2)])

lemma event_after_insert:
  assumes "handle_partner_event checks cfg p st = Some (resp, st')" "cc_enabled cfg"
    and s: "insert_partner_event (event_record p) (ct_store st) = (fresh, s)"
  shows "if fresh then store_kept checks s (ct_store st') else st' = st"
proof -
  have unsupported: "wp (Err e s) (\<lambda>_ s'. store_kept checks s s') (\<lambda>_ s'. store_kept checks s s')" for e
    by (simp add: wp_simps)
  show ?thesis
    using assms clearing_kept [of checks p "st\<lparr>ct_store := s\<rparr>"]
    by (auto simp: handle_partner_event_def Let_def split: if_splits
        dest: respond_kept [OF ops_kept(1)] respond_kept [OF ops_kept(3)] respond_kept [OF ops_kept(4)]
          respond_kept [OF unsupported])
qed

lemma event_kept:
  assumes "handle_partner_event checks cfg p st = Some (resp, st')"
  shows "store_kept checks (ct_store st) (ct_store st')"
    and "cc_enabled cfg \<Longrightarrow> cs_events (ct_store st') (pr_event_id p) \<noteq> None"
proof -
  obtain fresh s where s: "insert_partner_event (event_record p) (ct_store st) = (fresh, s)"
    by fastforce
  have new: "store_kept checks (ct_store st) s" "cs_events s (pr_event_id p) \<noteq> None" "\<not> fresh \<longrightarrow> s = ct_store st"
    using insert_event_kept [OF s] s by (auto simp: event_record_def insert_partner_event_def split: if_splits)
  have kept: "store_kept checks s (ct_store st')" if "cc_enabled cfg"
    using event_after_insert [OF assms that s] new(3) by (auto split: if_splits)
  show "store_kept checks (ct_store st) (ct_store st')"
    using assms kept store_kept_trans [OF new(1)] by (cases "cc_enabled cfg") (auto simp: handle_partner_event_def)
  show "cs_events (ct_store st') (pr_event_id p) \<noteq> None" if "cc_enabled cfg"
    using kept [OF that] new(2) by (auto simp: store_kept_def extends_def map_le_def dom_def)
qed

lemma respond_applied:
  "respond (event_applied p) event_error m st = Some (EventApplied ev kind r held, st') \<Longrightarrow>
     kind = pr_event_type p \<and> m = Ok r (ct_store st')"
  by (cases m) (auto simp: respond_def event_applied_def fail_def elim!: event_error.elims)

lemma opened_by_partner:
  assumes "cc_enabled cfg" "handle_partner_event checks cfg p st = Some (EventApplied ev ''authorization'' r held, st')"
    and "cs_authorizations (ct_store st) (pr_authorization_id p) = None"
  shows "cs_tx_to_auth (ct_store st') ''partner-event'' = Some (pr_authorization_id p)"
proof -
  obtain fresh s where s: "insert_partner_event (event_record p) (ct_store st) = (fresh, s)"
    by fastforce
  have "fresh \<and> authorization_event_op p s = Ok r (ct_store st')"
    using assms(1,2) s
    by (auto simp: handle_partner_event_def Let_def clearing_event_def fail_def split: if_splits option.splits
        dest: respond_applied)
  moreover have "cs_authorizations s (pr_authorization_id p) = None"
    using insert_event_kept [OF s] assms(3) by simp
  ultimately show ?thesis
    by (auto simp: authorization_event_op_def get_authorization_def dest: wp_Ok [OF wp_approve])
qed

lemma card_step_kept: "card_step checks st st' \<Longrightarrow> store_kept checks (ct_store st) (ct_store st')"
  by (erule card_step.cases)
    (auto simp: freeze_card_def unfreeze_card_def list_authorizations_def record_authorization_def split: if_splits
      dest: event_kept(1) respond_kept [OF ops_kept(5)])

lemma card_run_kept: "(card_step checks)\<^sup>*\<^sup>* st st' \<Longrightarrow> store_kept checks (ct_store st) (ct_store st')"
  by (induction rule: rtranclp_induct) (auto intro: store_kept_trans card_step_kept)

interpretation card_program: step_invariant "\<lambda>st. ct_store st = card_store_new" "card_step checks"
  "\<lambda>st. conserved checks (ct_store st)" for checks
  by unfold_locales (auto simp: conserved_def card_store_new_def dest: card_step_kept [unfolded store_kept_def])

end
