(* ===== verification/Card_Reconcile.thy ===== *)
theory Card_Reconcile
  imports Rust_Text "HOL-Library.List_Lexorder" "HOL-Library.Char_ord" "HOL-Library.Multiset"
begin

text \<open>
  The reconciliation of authorizations and partner events against the balances of the
  card ledger (\<open>card/reconcile.rs\<close>). A \<open>BTreeMap\<close> is an association list with distinct
  keys, visited in the order of the keys; the map from issues to authorizations is the
  set of its pairs.
\<close>

section \<open>Data\<close>

record card_authorization =
  ca_auth_id :: string
  ca_amount_stroops :: i64

datatype card_partner_event_kind = Ev_Authorization | Ev_Clearing | Ev_Reversal | Ev_Refund i64

record card_partner_event =
  ce_event_id :: string
  ce_auth_id :: string
  ce_kind :: card_partner_event_kind

record card_ledger_snapshot =
  sn_held_stroops :: i64
  sn_spent_stroops :: i64

datatype card_reconciliation_issue =
    MissingClearing | DoubleCapture | UnknownAuthorization | InvalidTransition | RefundExceedsCaptured | AggregateDrift

fun issue_rank :: "card_reconciliation_issue \<Rightarrow> nat" where
  "issue_rank MissingClearing = 0"
| "issue_rank DoubleCapture = 1"
| "issue_rank UnknownAuthorization = 2"
| "issue_rank InvalidTransition = 3"
| "issue_rank RefundExceedsCaptured = 4"
| "issue_rank AggregateDrift = 5"

text \<open>The derived \<open>Ord\<close>: issues are ordered as they are declared.\<close>

instantiation card_reconciliation_issue :: linorder
begin

definition less_eq_card_reconciliation_issue :: "card_reconciliation_issue \<Rightarrow> card_reconciliation_issue \<Rightarrow> bool" where
  "a \<le> b \<longleftrightarrow> issue_rank a \<le> issue_rank b"

definition less_card_reconciliation_issue :: "card_reconciliation_issue \<Rightarrow> card_reconciliation_issue \<Rightarrow> bool" where
  "a < b \<longleftrightarrow> issue_rank a < issue_rank b"

instance
proof
  fix a b :: card_reconciliation_issue
  show "a \<le> b \<Longrightarrow> b \<le> a \<Longrightarrow> a = b"
    by (cases a; cases b) (simp_all add: less_eq_card_reconciliation_issue_def)
qed (auto simp: less_eq_card_reconciliation_issue_def less_card_reconciliation_issue_def)

end

record card_reconciliation_mismatch =
  mm_auth_ids :: "string list"
  mm_issues :: "card_reconciliation_issue list"
  mm_expected_held_stroops :: i64
  mm_actual_held_stroops :: i64
  mm_expected_spent_stroops :: i64
  mm_actual_spent_stroops :: i64

record auth_balance =
  ab_amount_stroops :: i64
  ab_held_stroops :: i64
  ab_spent_stroops :: i64
  ab_cleared :: bool
  ab_reversed :: bool

type_synonym issue_ids = "(card_reconciliation_issue \<times> string) set"
type_synonym balances = "(string \<times> auth_balance) list"

section \<open>Replaying the log\<close>

definition add_issue :: "issue_ids \<Rightarrow> card_reconciliation_issue \<Rightarrow> string \<Rightarrow> issue_ids" where
  "add_issue issues issue auth_id = insert (issue, auth_id) issues"

definition opening_balance :: "i64 \<Rightarrow> auth_balance" where
  "opening_balance amount =
     \<lparr>ab_amount_stroops = amount, ab_held_stroops = amount, ab_spent_stroops = 0,
      ab_cleared = False, ab_reversed = False\<rparr>"

fun load_authorizations :: "card_authorization list \<Rightarrow> balances \<times> issue_ids \<Rightarrow> balances \<times> issue_ids" where
  "load_authorizations [] acc = acc"
| "load_authorizations (a # rest) (states, issues) =
     load_authorizations rest
       (if trim (ca_auth_id a) = [] then (states, issues)
        else if ca_amount_stroops a \<le> 0 then (states, add_issue issues InvalidTransition (ca_auth_id a))
        else if map_of states (ca_auth_id a) \<noteq> None then (states, add_issue issues InvalidTransition (ca_auth_id a))
        else (states @ [(ca_auth_id a, opening_balance (ca_amount_stroops a))], issues))"

definition set_balance :: "string \<Rightarrow> auth_balance \<Rightarrow> balances \<Rightarrow> balances" where
  "set_balance i b states = map (\<lambda>(k, v). if k = i then (k, b) else (k, v)) states"

text \<open>
  One event on the balance of its authorization: the new balance, or the issue it is.
  The subtractions are of something no larger and cannot overflow.
\<close>

fun apply_kind :: "card_partner_event_kind \<Rightarrow> auth_balance \<Rightarrow> auth_balance \<times> card_reconciliation_issue option" where
  "apply_kind Ev_Authorization b = (b, None)"
| "apply_kind Ev_Clearing b =
     (if ab_cleared b then (b, Some DoubleCapture)
      else if ab_reversed b \<or> ab_held_stroops b < ab_amount_stroops b then (b, Some InvalidTransition)
      else
        let held = ab_held_stroops b - ab_amount_stroops b
        in case checked_i64 (ab_spent_stroops b + ab_amount_stroops b) of
             Some spent \<Rightarrow> (b\<lparr>ab_held_stroops := held, ab_spent_stroops := spent, ab_cleared := True\<rparr>, None)
           | None \<Rightarrow> (b\<lparr>ab_held_stroops := held, ab_cleared := True\<rparr>, Some InvalidTransition))"
| "apply_kind Ev_Reversal b =
     (if ab_cleared b \<or> ab_reversed b \<or> ab_held_stroops b < ab_amount_stroops b then (b, Some InvalidTransition)
      else (b\<lparr>ab_held_stroops := 0, ab_reversed := True\<rparr>, None))"
| "apply_kind (Ev_Refund amount) b =
     (if amount \<le> 0 then (b, Some InvalidTransition)
      else if ab_spent_stroops b < amount then (b, Some RefundExceedsCaptured)
      else (b\<lparr>ab_spent_stroops := ab_spent_stroops b - amount\<rparr>, None))"

fun replay_events ::
  "card_partner_event list \<Rightarrow> string set \<Rightarrow> balances \<times> issue_ids \<Rightarrow> balances \<times> issue_ids" where
  "replay_events [] seen acc = acc"
| "replay_events (e # rest) seen (states, issues) =
     (if ce_event_id e \<in> seen then replay_events rest seen (states, issues)
      else
        replay_events rest (insert (ce_event_id e) seen)
          (case map_of states (ce_auth_id e) of
             None \<Rightarrow> (states, add_issue issues UnknownAuthorization (ce_auth_id e))
           | Some b \<Rightarrow>
               (case apply_kind (ce_kind e) b of
                  (b', None) \<Rightarrow> (set_balance (ce_auth_id e) b' states, issues)
                | (b', Some issue) \<Rightarrow>
                    (set_balance (ce_auth_id e) b' states, add_issue issues issue (ce_auth_id e)))))"

fun add_totals :: "balances \<Rightarrow> i64 \<times> i64 \<times> issue_ids \<Rightarrow> i64 \<times> i64 \<times> issue_ids" where
  "add_totals [] acc = acc"
| "add_totals ((i, b) # rest) (held, spent, issues) =
     (let (held, issues) =
            (case checked_i64 (held + ab_held_stroops b) of
               Some h \<Rightarrow> (h, issues) | None \<Rightarrow> (held, add_issue issues InvalidTransition i));
          (spent, issues) =
            (case checked_i64 (spent + ab_spent_stroops b) of
               Some v \<Rightarrow> (v, issues) | None \<Rightarrow> (spent, add_issue issues InvalidTransition i))
      in add_totals rest (held, spent, issues))"

section \<open>The report\<close>

definition report ::
  "balances \<Rightarrow> i64 \<Rightarrow> i64 \<Rightarrow> issue_ids \<Rightarrow> card_ledger_snapshot \<Rightarrow> card_reconciliation_mismatch list" where
  "report states expected_held expected_spent issue_ids ledger =
     (let drift = (expected_held \<noteq> sn_held_stroops ledger \<or> expected_spent \<noteq> sn_spent_stroops ledger)
      in if issue_ids = {} \<and> \<not> drift then []
         else
           let issues = fst ` issue_ids; auth_ids = snd ` issue_ids;
               issues' =
                 (if drift then
                    (if issues = {} then {AggregateDrift}
                     else if DoubleCapture \<notin> issues \<and> sn_spent_stroops ledger > expected_spent \<and>
                             sn_held_stroops ledger < expected_held
                     then insert MissingClearing issues
                     else issues)
                  else issues);
               auth_ids' = (if drift \<and> auth_ids = {} then set (map fst states) else auth_ids)
           in [\<lparr>mm_auth_ids = sorted_list_of_set auth_ids', mm_issues = sorted_list_of_set issues',
                mm_expected_held_stroops = expected_held, mm_actual_held_stroops = sn_held_stroops ledger,
                mm_expected_spent_stroops = expected_spent, mm_actual_spent_stroops = sn_spent_stroops ledger\<rparr>])"

definition reconcile_card_ledger ::
  "card_authorization list \<Rightarrow> card_partner_event list \<Rightarrow> card_ledger_snapshot \<Rightarrow> card_reconciliation_mismatch list" where
  "reconcile_card_ledger authorizations events ledger =
     (let (states, issues) = replay_events events {} (load_authorizations authorizations ([], {}));
          (expected_held, expected_spent, issues) = add_totals (sort_key fst states) (0, 0, issues)
      in report states expected_held expected_spent issues ledger)"

section \<open>Logs without contradictions\<close>

text \<open>
  Positive authorizations under different ids, each with at most one event, its clearing
  or its reversal.
\<close>

definition authorizations_ok :: "card_authorization list \<Rightarrow> bool" where
  "authorizations_ok auths \<longleftrightarrow>
     distinct (map ca_auth_id auths) \<and> (\<Sum>a \<leftarrow> auths. ca_amount_stroops a) \<le> i64_max \<and>
     list_all (\<lambda>a. trim (ca_auth_id a) \<noteq> [] \<and> 0 < ca_amount_stroops a) auths"

definition events_ok :: "string set \<Rightarrow> card_partner_event list \<Rightarrow> bool" where
  "events_ok ids events \<longleftrightarrow>
     distinct (map ce_event_id events) \<and> distinct (map ce_auth_id events) \<and>
     list_all (\<lambda>e. ce_auth_id e \<in> ids \<and> ce_kind e \<in> {Ev_Clearing, Ev_Reversal}) events"

definition settled_by :: "card_partner_event list \<Rightarrow> string \<Rightarrow> card_partner_event_kind option" where
  "settled_by events i = map_of (map (\<lambda>e. (ce_auth_id e, ce_kind e)) events) i"

definition balance_after :: "card_partner_event_kind option \<Rightarrow> i64 \<Rightarrow> auth_balance" where
  "balance_after k amount =
     (case k of
        Some Ev_Clearing \<Rightarrow> (opening_balance amount)\<lparr>ab_held_stroops := 0, ab_spent_stroops := amount, ab_cleared := True\<rparr>
      | Some Ev_Reversal \<Rightarrow> (opening_balance amount)\<lparr>ab_held_stroops := 0, ab_reversed := True\<rparr>
      | _ \<Rightarrow> opening_balance amount)"

abbreviation balances_of :: "(card_authorization \<Rightarrow> auth_balance) \<Rightarrow> card_authorization list \<Rightarrow> balances" where
  "balances_of f auths \<equiv> map (\<lambda>a. (ca_auth_id a, f a)) auths"

lemma map_of_balances:
  assumes "distinct (map ca_auth_id auths)" "a \<in> set auths"
  shows "map_of (balances_of f auths) (ca_auth_id a) = Some (f a)"
  using assms by (intro map_of_is_SomeI) (simp_all add: comp_def)

lemma set_balance_of:
  "set_balance i b (balances_of f auths) = balances_of (\<lambda>a. if ca_auth_id a = i then b else f a) auths"
  by (induction auths) (simp_all add: set_balance_def)

lemma load_ok:
  assumes "list_all (\<lambda>a. trim (ca_auth_id a) \<noteq> [] \<and> 0 < ca_amount_stroops a) auths"
    and "distinct (map fst states @ map ca_auth_id auths)"
  shows "load_authorizations auths (states, issues) =
    (states @ balances_of (\<lambda>a. opening_balance (ca_amount_stroops a)) auths, issues)"
  using assms
proof (induction auths arbitrary: states)
  case (Cons a auths)
  have "map_of states (ca_auth_id a) = None"
    using Cons.prems(2) by (simp add: map_of_eq_None_iff)
  then show ?case
    using Cons.prems Cons.IH [of "states @ [(ca_auth_id a, opening_balance (ca_amount_stroops a))]"]
    by auto
qed simp

lemma apply_settling:
  assumes "k \<in> {Ev_Clearing, Ev_Reversal}" "0 < amount" "amount \<le> i64_max"
  shows "apply_kind k (opening_balance amount) = (balance_after (Some k) amount, None)"
  using assms by (auto simp: opening_balance_def balance_after_def checked_i64_def in_i64_def)

lemma replay_ok:
  assumes "distinct (map ca_auth_id auths)" "list_all (\<lambda>a. 0 < ca_amount_stroops a \<and> ca_amount_stroops a \<le> i64_max) auths"
    and "events_ok (ca_auth_id ` set auths) events" "\<forall>e \<in> set events. ce_event_id e \<notin> seen"
    and "\<forall>a \<in> set auths. ca_auth_id a \<in> ce_auth_id ` set events \<longrightarrow> f a = opening_balance (ca_amount_stroops a)"
  shows "replay_events events seen (balances_of f auths, issues) =
    (balances_of (\<lambda>a. case settled_by events (ca_auth_id a) of
        None \<Rightarrow> f a | Some k \<Rightarrow> balance_after (Some k) (ca_amount_stroops a)) auths, issues)"
  using assms(3-)
proof (induction events arbitrary: seen f)
  case (Cons e events)
  obtain a where a: "a \<in> set auths" "ce_auth_id e = ca_auth_id a" "ce_kind e \<in> {Ev_Clearing, Ev_Reversal}"
    using Cons.prems(1) by (auto simp: events_ok_def)
  have fa: "f a = opening_balance (ca_amount_stroops a)" "0 < ca_amount_stroops a" "ca_amount_stroops a \<le> i64_max"
    using Cons.prems(3) a assms(2) by (auto simp: list_all_iff)
  let ?b = "balance_after (Some (ce_kind e)) (ca_amount_stroops a)"
  let ?f = "\<lambda>c. if ca_auth_id c = ce_auth_id e then ?b else f c"
  have same: "c = a" if "c \<in> set auths" "ca_auth_id c = ca_auth_id a" for c
    using that a(1) assms(1) by (auto simp: distinct_map dest: inj_onD)
  have notin: "ce_auth_id e \<notin> ce_auth_id ` set events"
    using Cons.prems(1) by (auto simp: events_ok_def)
  then have none: "map_of (map (\<lambda>e. (ce_auth_id e, ce_kind e)) events) (ca_auth_id a) = None"
    by (auto simp: map_of_eq_None_iff a(2))
  have "replay_events (e # events) seen (balances_of f auths, issues) =
    replay_events events (insert (ce_event_id e) seen) (balances_of ?f auths, issues)"
    using Cons.prems(2) apply_settling [OF a(3) fa(2,3)]
    by (simp add: a(2) map_of_balances [OF assms(1) a(1)] fa(1) set_balance_of)
  also have "\<dots> = (balances_of (\<lambda>a. case settled_by events (ca_auth_id a) of
        None \<Rightarrow> ?f a | Some k \<Rightarrow> balance_after (Some k) (ca_amount_stroops a)) auths, issues)"
    using Cons.prems notin by (intro Cons.IH) (auto simp: events_ok_def image_iff)
  also have "\<dots> = (balances_of (\<lambda>a. case settled_by (e # events) (ca_auth_id a) of
        None \<Rightarrow> f a | Some k \<Rightarrow> balance_after (Some k) (ca_amount_stroops a)) auths, issues)"
    using same a(2) none by (auto simp: settled_by_def split: option.split)
  finally show ?case .
qed (simp add: settled_by_def)

lemma add_totals_ok:
  assumes "\<forall>(i, b) \<in> set bs. 0 \<le> ab_held_stroops b \<and> 0 \<le> ab_spent_stroops b" "0 \<le> held" "0 \<le> spent"
    and "held + (\<Sum>(i, b) \<leftarrow> bs. ab_held_stroops b) \<le> i64_max"
    and "spent + (\<Sum>(i, b) \<leftarrow> bs. ab_spent_stroops b) \<le> i64_max"
  shows "add_totals bs (held, spent, issues) =
    (held + (\<Sum>(i, b) \<leftarrow> bs. ab_held_stroops b), spent + (\<Sum>(i, b) \<leftarrow> bs. ab_spent_stroops b), issues)"
  using assms
proof (induction bs arbitrary: held spent)
  case (Cons p bs)
  obtain i b where p: "p = (i, b)" by force
  have "0 \<le> (\<Sum>(i, b) \<leftarrow> bs. ab_held_stroops b)" "0 \<le> (\<Sum>(i, b) \<leftarrow> bs. ab_spent_stroops b)"
    using Cons.prems(1) by (auto intro!: sum_list_nonneg)
  then have "checked_i64 (held + ab_held_stroops b) = Some (held + ab_held_stroops b)"
    "checked_i64 (spent + ab_spent_stroops b) = Some (spent + ab_spent_stroops b)"
    using Cons.prems by (auto simp: p checked_i64_def in_i64_def)
  then show ?case
    using Cons.prems Cons.IH [of "held + ab_held_stroops b" "spent + ab_spent_stroops b"]
    by (auto simp: p add.assoc)
qed simp

lemma sum_list_sort_key:
  "(\<Sum>x \<leftarrow> sort_key g xs. f x) = (\<Sum>x \<leftarrow> xs. f x :: int)"
proof -
  have "sum_mset (image_mset f (mset (sort_key g xs))) = sum_mset (image_mset f (mset xs))"
    by simp
  then show ?thesis
    by (simp flip: sum_mset_sum_list mset_map del: mset_sort)
qed

abbreviation held_part :: "card_partner_event list \<Rightarrow> card_authorization \<Rightarrow> i64" where
  "held_part events a \<equiv> (if settled_by events (ca_auth_id a) = None then ca_amount_stroops a else 0)"

abbreviation spent_part :: "card_partner_event list \<Rightarrow> card_authorization \<Rightarrow> i64" where
  "spent_part events a \<equiv> (if settled_by events (ca_auth_id a) = Some Ev_Clearing then ca_amount_stroops a else 0)"

lemma settled_kinds:
  "events_ok ids events \<Longrightarrow> settled_by events i = Some k \<Longrightarrow> k \<in> {Ev_Clearing, Ev_Reversal}"
  by (auto simp: events_ok_def settled_by_def list_all_iff dest!: map_of_SomeD)

lemma balance_parts:
  assumes "events_ok ids events"
  shows "ab_held_stroops (balance_after (settled_by events (ca_auth_id a)) (ca_amount_stroops a)) = held_part events a"
    and "ab_spent_stroops (balance_after (settled_by events (ca_auth_id a)) (ca_amount_stroops a)) = spent_part events a"
  using settled_kinds [OF assms, of "ca_auth_id a"]
  by (auto simp: balance_after_def opening_balance_def split: option.split)

lemma amount_le_sum:
  assumes "list_all (\<lambda>a. 0 < ca_amount_stroops a) auths" "a \<in> set auths"
  shows "ca_amount_stroops a \<le> (\<Sum>a \<leftarrow> auths. ca_amount_stroops a)"
  using assms by (intro member_le_sum_list) (auto simp: list_all_iff intro: less_imp_le)

lemma parts_le_sum:
  assumes "list_all (\<lambda>a. 0 < ca_amount_stroops a) auths"
  shows "(\<Sum>a \<leftarrow> auths. if P a then ca_amount_stroops a else 0) \<le> (\<Sum>a \<leftarrow> auths. ca_amount_stroops a)"
  using assms by (intro sum_list_mono) (auto simp: list_all_iff)

text \<open>
  On such a log the replay expects the sum of the unsettled authorizations to be held and
  the sum of the cleared ones to be spent, and finds no issue.
\<close>

lemma reconcile_ok:
  assumes "authorizations_ok auths" "events_ok (ca_auth_id ` set auths) events"
  shows "\<exists>states. reconcile_card_ledger auths events ledger =
    report states (\<Sum>a \<leftarrow> auths. held_part events a) (\<Sum>a \<leftarrow> auths. spent_part events a) {} ledger"
proof -
  let ?final = "balances_of (\<lambda>a. balance_after (settled_by events (ca_auth_id a)) (ca_amount_stroops a)) auths"
  have pos: "list_all (\<lambda>a. 0 < ca_amount_stroops a) auths"
    and max: "(\<Sum>a \<leftarrow> auths. ca_amount_stroops a) \<le> i64_max"
    using assms(1) by (auto simp: authorizations_ok_def list_all_iff)
  have bounded: "list_all (\<lambda>a. 0 < ca_amount_stroops a \<and> ca_amount_stroops a \<le> i64_max) auths"
    using pos amount_le_sum [OF pos] max by (force simp: list_all_iff)
  have load: "load_authorizations auths ([], {}) =
      (balances_of (\<lambda>a. opening_balance (ca_amount_stroops a)) auths, {})"
    using assms(1) by (subst load_ok) (auto simp: authorizations_ok_def)
  have replay: "replay_events events {} (balances_of (\<lambda>a. opening_balance (ca_amount_stroops a)) auths, {}) =
      (?final, {})"
    using assms bounded
    by (subst replay_ok) (auto simp: authorizations_ok_def balance_after_def split: option.split)
  have totals: "add_totals (sort_key fst ?final) (0, 0, {}) =
      ((\<Sum>a \<leftarrow> auths. held_part events a), (\<Sum>a \<leftarrow> auths. spent_part events a), {})"
    using pos max parts_le_sum [OF pos, of "\<lambda>a. settled_by events (ca_auth_id a) = None"]
      parts_le_sum [OF pos, of "\<lambda>a. settled_by events (ca_auth_id a) = Some Ev_Clearing"]
    by (subst add_totals_ok)
      (auto simp: sum_list_sort_key comp_def balance_parts [OF assms(2)] list_all_iff intro: less_imp_le)
  show ?thesis
    by (intro exI [of _ ?final]) (simp add: reconcile_card_ledger_def load replay totals)
qed

lemma report_clean:
  "report states h s {} ledger = [] \<longleftrightarrow> h = sn_held_stroops ledger \<and> s = sn_spent_stroops ledger"
  "\<forall>m \<in> set (report states h s {} ledger). mm_issues m = [AggregateDrift]"
  by (simp_all add: report_def Let_def)

end
