(* ===== verification/Card_Guarantees.thy ===== *)
theory Card_Guarantees
  imports Card_Ledger Card_Store Card_Reconcile
begin

text \<open>
  The properties of the card program: its balances, the states of an authorization, the
  partner events and the reconciliation.
\<close>

section \<open>A partner at work\<close>

text \<open>The card program enabled, a new store, and the events \<open>authorization\<close> and \<open>clearing\<close>.\<close>

definition demo_card_config :: card_config where
  "demo_card_config =
     \<lparr>cc_enabled = True, cc_webhook_hmac_key = None, cc_partner_address = None, cc_usdc_issuer = None,
      cc_network_passphrase = ''Test SDF Network ; September 2015''\<rparr>"

definition demo_new :: "unit card_state" where
  "demo_new = \<lparr>ct_store = card_store_new, ct_frozen = False\<rparr>"

definition demo_event :: "string \<Rightarrow> string \<Rightarrow> string \<Rightarrow> i64 \<Rightarrow> unit partner_event_request" where
  "demo_event i kind auth amount =
     \<lparr>pr_event_id = i, pr_event_type = kind, pr_authorization_id = auth, pr_amount_stroops = Some amount,
      pr_fiat_amount = None, pr_fiat_currency = None, pr_rate = None, pr_rate_locked_at = None, pr_payload = None\<rparr>"

definition demo_authorization :: "stored_state \<Rightarrow> i64 \<Rightarrow> authorization_record" where
  "demo_authorization state spent =
     \<lparr>ar_authorization_id = ''auth-1'', ar_state = state, ar_amount_stroops = 100, ar_spent_stroops = spent,
      ar_fiat_amount = 0, ar_fiat_currency = [], ar_rate = 0, ar_rate_locked_at = 0, ar_tx_hash = ''partner-event''\<rparr>"

definition demo_opened :: "unit card_state" where
  "demo_opened = \<lparr>ct_store = card_store_new\<lparr>
     cs_events := [''evt-1'' \<mapsto> event_record (demo_event ''evt-1'' ''authorization'' ''auth-1'' 100)],
     cs_authorizations := [''auth-1'' \<mapsto> demo_authorization Stored_Approved 0],
     cs_tx_to_auth := [''partner-event'' \<mapsto> ''auth-1''], cs_holds := [''auth-1'' \<mapsto> 100]\<rparr>, ct_frozen = False\<rparr>"

definition demo_cleared :: "unit card_state" where
  "demo_cleared = \<lparr>ct_store = (ct_store demo_opened)\<lparr>
     cs_events := (cs_events (ct_store demo_opened))(''evt-2'' \<mapsto> event_record (demo_event ''evt-2'' ''clearing'' ''auth-1'' 60)),
     cs_authorizations := [''auth-1'' \<mapsto> demo_authorization Stored_Captured 60], cs_holds := [''auth-1'' \<mapsto> 40]\<rparr>,
     ct_frozen = False\<rparr>"

lemmas demo_defs = demo_card_config_def demo_new_def demo_event_def demo_authorization_def demo_opened_def demo_cleared_def
  card_store_new_def

lemma demo_open:
  "handle_partner_event checks demo_card_config (demo_event ''evt-1'' ''authorization'' ''auth-1'' 100) demo_new =
     Some (EventApplied ''evt-1'' ''authorization'' (demo_authorization Stored_Approved 0) 100, demo_opened)"
  by (simp add: demo_defs handle_partner_event_def insert_partner_event_def event_record_def authorization_event_op_def
      get_authorization_def approve_and_hold_with_fx_def used_by_other_def respond_def event_applied_def held_stroops_def Let_def)

lemma demo_clear:
  "handle_partner_event checks demo_card_config (demo_event ''evt-2'' ''clearing'' ''auth-1'' 60) demo_opened =
     Some (EventApplied ''evt-2'' ''clearing'' (demo_authorization Stored_Captured 60) 40, demo_cleared)"
  by (simp add: demo_defs handle_partner_event_def insert_partner_event_def event_record_def clearing_event_def
      get_authorization_def capture_hold_def respond_def event_applied_def held_stroops_def plain_i64_def in_i64_def
      i64_max_def Let_def)

section \<open>Balances and states\<close>

text \<open>
  C39. The balances of a card stay 64-bit integers. From an opening balance the ledger
  accepted, any sequence of holds, captures and releases of any amounts ends, without a
  panic and with overflow checks on or off, in the same balances; none is negative, none
  leaves the range, and together they are the opening balance.
\<close>

theorem ledger_well_typed:
  assumes "in_i64 opening" "ledger_new opening = Ok l ()"
  shows "\<exists>l'. (\<forall>checks. ledger_run checks ops l = Some l') \<and>
    0 \<le> cl_available l' \<and> 0 \<le> cl_held l' \<and> 0 \<le> cl_spent l' \<and>
    in_i64 (cl_available l') \<and> in_i64 (cl_held l') \<and> in_i64 (cl_spent l') \<and>
    cl_available l' + cl_held l' + cl_spent l' = opening"
proof -
  have "ledger_ok opening l" "opening \<le> i64_max"
    using assms by (auto simp: ledger_new_def ledger_ok_def in_i64_def split: if_splits)
  from ledger_ok_run [OF this, of ops] show ?thesis
    using \<open>opening \<le> i64_max\<close> by (fastforce simp: ledger_ok_def in_i64_def)
qed

theorem ledger_well_typed_witness:
  "\<exists>l'. (\<forall>checks. ledger_run checks [Hold 60, Capture 50, Hold 41, Release 10, Capture (- 1)]
      \<lparr>cl_available = 100, cl_held = 0, cl_spent = 0\<rparr> = Some l') \<and>
    0 \<le> cl_available l' \<and> 0 \<le> cl_held l' \<and> 0 \<le> cl_spent l' \<and>
    in_i64 (cl_available l') \<and> in_i64 (cl_held l') \<and> in_i64 (cl_spent l') \<and>
    cl_available l' + cl_held l' + cl_spent l' = 100"
  by (rule ledger_well_typed) (simp_all add: ledger_new_def in_i64_def i64_max_def)

text \<open>
  C40. Every authorization settles. No sequence of accepted events is infinite: a pending
  authorization takes at most two, an approved one at most one, and a captured, voided or
  expired one none. A refused event reports the state it was refused in.
\<close>

theorem authorization_settles:
  "wf {(s', s). \<exists>e. apply_event s e = Ok s' ()} \<and>
   (apply_events s es = Ok s' () \<longrightarrow>
      length es \<le> (if s = Auth_Pending then 2 else if s = Auth_Approved then 1 else 0)) \<and>
   (apply_event s e = Err err () \<longrightarrow> te_from err = s \<and> te_to err = event_target e)"
proof (intro conjI impI)
  show "wf {(s', s). \<exists>e. apply_event s e = Ok s' ()}"
    by (rule wf_subset [OF wf_measure [of events_left]]) (auto dest: apply_event_left)
  show "length es \<le> (if s = Auth_Pending then 2 else if s = Auth_Approved then 1 else 0)"
    if "apply_events s es = Ok s' ()"
    using apply_events_left [OF that] by (cases s) simp_all
  show "te_from err = s" "te_to err = event_target e" if "apply_event s e = Err err ()"
    using apply_event_refused [OF that] by simp_all
qed

theorem authorization_settles_witness:
  "wf {(s', s). \<exists>e. apply_event s e = Ok s' ()} \<and>
   apply_events Auth_Pending [Approve, Capture_Event] = Ok Auth_Captured () \<and>
   length [Approve, Capture_Event] \<le> 2 \<and>
   apply_event Auth_Captured Void = Err \<lparr>te_from = Auth_Captured, te_to = Auth_Voided\<rparr> ()"
  using authorization_settles [of Auth_Pending "[Approve, Capture_Event]" Auth_Captured]
    authorization_settles [of Auth_Captured "[]" Auth_Captured Void "\<lparr>te_from = Auth_Captured, te_to = Auth_Voided\<rparr>"]
  by (simp add: apply_event_def)

section \<open>Requests\<close>

text \<open>
  C35. Capturing, refunding, reversing and approving move money between the hold and what is
  spent, and lose none. After any requests to a new store, what an authorization holds and
  what it has spent are together its amount: exactly when overflow is checked, and up to a
  multiple of the range of the integers when the arithmetic wraps.
\<close>

theorem holds_conserve:
  assumes "reachable_by (\<lambda>st. ct_store st = card_store_new) (card_step checks) st"
    and "cs_authorizations (ct_store st) i = Some r"
  shows "if checks then hold_of (ct_store st) i r + ar_spent_stroops r = ar_amount_stroops r
    else 2 ^ 64 dvd hold_of (ct_store st) i r + ar_spent_stroops r - ar_amount_stroops r"
  using card_program.inv_reachable [OF assms(1)] assms(2) by (auto simp: conserved_def agree_def)

theorem holds_conserve_witness:
  "cs_authorizations (ct_store demo_cleared) ''auth-1'' = Some (demo_authorization Stored_Captured 60) \<and>
   hold_of (ct_store demo_cleared) ''auth-1'' (demo_authorization Stored_Captured 60) + 60 = 100"
proof -
  have "reachable_by (\<lambda>st. ct_store st = card_store_new) (card_step True) demo_new"
    by (rule reachable_by.start) (simp add: demo_new_def)
  then have "reachable_by (\<lambda>st. ct_store st = card_store_new) (card_step True) demo_opened"
    by (rule reachable_by.step) (rule card_step.event [OF demo_open])
  then have "reachable_by (\<lambda>st. ct_store st = card_store_new) (card_step True) demo_cleared"
    by (rule reachable_by.step) (rule card_step.event [OF demo_clear])
  moreover have "cs_authorizations (ct_store demo_cleared) ''auth-1'' = Some (demo_authorization Stored_Captured 60)"
    by (simp add: demo_cleared_def)
  ultimately show ?thesis
    using holds_conserve [of True demo_cleared "''auth-1''" "demo_authorization Stored_Captured 60"]
    by (simp add: demo_authorization_def)
qed

text \<open>
  C36. A partner event is applied at most once. After a request delivered an event, whatever
  its outcome, and after any requests in between, a request with the same event id is
  answered as a duplicate and changes nothing.
\<close>

theorem events_applied_once:
  assumes "cc_enabled cfg" "handle_partner_event checks cfg p st = Some (resp, st1)"
    and "(card_step checks)\<^sup>*\<^sup>* st1 st2"
    and "cc_enabled cfg'" "pr_event_id q = pr_event_id p"
  shows "handle_partner_event checks cfg' q st2 =
    Some (DuplicateEvent (pr_event_id q) (pr_event_type q) (pr_authorization_id q), st2)"
proof -
  have "cs_events (ct_store st1) (pr_event_id p) \<noteq> None"
    using event_kept(2) assms(1,2) by blast
  then have "cs_events (ct_store st2) (pr_event_id q) \<noteq> None"
    using card_run_kept [OF assms(3)] assms(5) by (auto simp: store_kept_def extends_def map_le_def dom_def)
  then show ?thesis
    using assms(4) by (simp add: handle_partner_event_def insert_partner_event_def event_record_def)
qed

theorem events_applied_once_witness:
  "handle_partner_event True demo_card_config (demo_event ''evt-1'' ''refund'' ''auth-1'' 5) demo_cleared =
     Some (DuplicateEvent ''evt-1'' ''refund'' ''auth-1'', demo_cleared)"
proof -
  have "(card_step True)\<^sup>*\<^sup>* demo_opened demo_cleared"
    by (rule r_into_rtranclp) (rule card_step.event [OF demo_clear])
  from events_applied_once [OF _ demo_open this, of demo_card_config "demo_event ''evt-1'' ''refund'' ''auth-1'' 5"]
  show ?thesis
    by (simp add: demo_card_config_def demo_event_def)
qed

text \<open>
  C37. A partner can open one authorization. Each \<open>authorization\<close> event is recorded under the
  same transaction hash, so once one opened an authorization, and after any requests, the
  first event for another authorization is recorded, answered with an internal error, and
  leaves the authorizations and the holds as they are.
\<close>

theorem partner_authorizations_collide:
  assumes "cc_enabled cfg" "handle_partner_event checks cfg p st = Some (EventApplied ev ''authorization'' r held, st1)"
    and "cs_authorizations (ct_store st) (pr_authorization_id p) = None"
    and "(card_step checks)\<^sup>*\<^sup>* st1 st2"
    and "cc_enabled cfg'" "pr_event_type q = ''authorization''" "pr_authorization_id q \<noteq> pr_authorization_id p"
    and "cs_authorizations (ct_store st2) (pr_authorization_id q) = None"
    and "cs_events (ct_store st2) (pr_event_id q) = None"
  shows "handle_partner_event checks cfg' q st2 =
    Some (fail 500 ''partner_event_failed'' ''Partner event could not be applied.'',
      st2\<lparr>ct_store := (ct_store st2)\<lparr>cs_events := (cs_events (ct_store st2))(pr_event_id q \<mapsto> event_record q)\<rparr>\<rparr>)"
proof -
  have "cs_tx_to_auth (ct_store st1) ''partner-event'' = Some (pr_authorization_id p)"
    using opened_by_partner [OF assms(1-3)] .
  then have "cs_tx_to_auth (ct_store st2) ''partner-event'' = Some (pr_authorization_id p)"
    using card_run_kept [OF assms(4)] by (auto simp: store_kept_def extends_def map_le_def dom_def)
  then show ?thesis
    using assms(5-)
    by (simp add: handle_partner_event_def insert_partner_event_def event_record_def authorization_event_op_def
        get_authorization_def approve_and_hold_with_fx_def used_by_other_def respond_def)
qed

theorem partner_authorizations_collide_witness:
  "map_option fst (handle_partner_event True demo_card_config (demo_event ''evt-3'' ''authorization'' ''auth-2'' 70) demo_cleared) =
     Some (fail 500 ''partner_event_failed'' ''Partner event could not be applied.'')"
proof -
  have "(card_step True)\<^sup>*\<^sup>* demo_opened demo_cleared"
    by (rule r_into_rtranclp) (rule card_step.event [OF demo_clear])
  from partner_authorizations_collide [OF _ demo_open _ this, of demo_card_config
      "demo_event ''evt-3'' ''authorization'' ''auth-2'' 70"]
  show ?thesis
    by (simp add: demo_defs)
qed

section \<open>Reconciliation\<close>



end
