(* ===== verification/Spec2Isabelle.thy ===== *)
theory Spec2Isabelle
  imports
    Contract_Guarantees Swap_Guarantees Rate_Limit_Guarantees Fee_Guarantees
    Bridge_Guarantees Corridor_Guarantees Attestation_Guarantees Route_Guarantees
    Card_Guarantees
begin

text \<open>
  StellarRoute routes swaps over the liquidity of the Stellar network. Three of its parts
  account for other people's money, and these are the parts verified here: the Soroban router
  contract (\<open>src/crates/contracts\<close>), which holds the allowlists, collects the fees and
  executes swaps through pool adapters; the CCTP bridge of the API server
  (\<open>src/crates/api/src/cctp\<close>), which takes a USDC transfer between Stellar and Ethereum
  through quote, burn, attestation and mint; and its card program
  (\<open>src/crates/api/src/card\<close>), which holds and captures card payments on the events of a
  partner. They do not call each other; they share
  the result type, the integers and the text functions of the prelude theories.

  \<^bold>\<open>Common ground.\<close> \<open>Prelude\<close> has the outcome of a Rust call (a value with the new
  state, an error, or a panic), checked and saturating integers at their width, maps,
  and the named collections the component proofs use. \<open>Outcome_WP\<close> is a small
  weakest-precondition calculus for outcomes; \<open>Rust_Text\<close> has the string operations of
  the standard library that the bridge uses.

  \<^bold>\<open>The router contract.\<close> One theory per source file, with one definition per function
  under the name it has there: \<open>Contract_Types\<close> (\<open>types.rs\<close>, \<open>errors.rs\<close>),
  \<open>Contract_Storage\<close> (\<open>storage.rs\<close>: instance, persistent and temporary entries with
  their lifetimes), \<open>Contract_Events\<close> (\<open>events.rs\<close>), \<open>Contract_Tokens\<close> (\<open>tokens.rs\<close>),
  \<open>Contract_Upgrade\<close> (\<open>upgrade.rs\<close>), \<open>Contract_Governance\<close> (\<open>governance.rs\<close>),
  \<open>Contract_Adapters\<close> (\<open>adapters.rs\<close>, \<open>constant_product_adapter.rs\<close>), and
  \<open>Contract_Fees\<close>, \<open>Contract_Swap\<close>, \<open>Contract_Router\<close> for the three groups of entry
  points of \<open>router.rs\<close>. The state is the record of the stores and the event log; the
  host (ledger number, authorisations, hashing, calls into pools and tokens) is a
  parameter. \<open>Contract_Router\<close> closes with the transaction semantics: \<open>invoke\<close> runs one
  call and rolls an error back, \<open>reachable\<close> is the closure over all calls, under the
  host assumptions listed there. \<open>Contract_Invariants\<close> proves the invariants by
  induction over it, through one locale for what a call preserves.
  \<open>Contract_Guarantees\<close> has the properties of governance, upgrades and the registries,
  \<open>Swap_Guarantees\<close> those of swaps and commitments, \<open>Rate_Limit_Guarantees\<close> the rate
  limit against an abstract fixed-window limiter, \<open>Fee_Guarantees\<close> the distribution of
  fees, the constant-product adapter and the keeper. \<open>Contract_Demo\<close> holds the concrete
  contract the witnesses run.

  \<^bold>\<open>The bridge.\<close> \<open>Cctp_Types\<close> (request types and validation of \<open>models/v2_cctp.rs\<close>,
  \<open>config.rs\<close>, \<open>bounds.rs\<close>, \<open>stellar_muxed.rs\<close>), \<open>Cctp_Message\<close> (\<open>encoding.rs\<close> and the
  wire format of \<open>message.rs\<close>), \<open>Cctp_Store\<close> (the transfer store of \<open>store.rs\<close> with the
  status machine of \<open>transitions.rs\<close>), \<open>Cctp_Lock\<close> (\<open>prepare_lock.rs\<close>),
  \<open>Cctp_Corridor\<close> (the collaborators' data and \<open>expectations.rs\<close>) and \<open>Cctp_Service\<close>
  (every handler of \<open>service.rs\<close>). The two stores are interfaces in the source and
  locales here, interpreted on the in-memory stores. Verifiers, builders, the Iris
  client and the attestation verifier are trait objects in the source; they are
  function fields of the service record, so that every statement holds for all of them.
  The clock is a function from the number of the reading to an instant, so nothing
  depends on how much time passes between two readings.
  \<open>Cctp_Saga\<close> states the abstract protocol a transfer may follow and proves that each
  handler refines it, whether it succeeds or fails; \<open>Cctp_Runs\<close> lifts this to any
  sequence of calls and proves the invariants of the protocol; \<open>Cctp_Progress\<close> shows
  when the handlers succeed; \<open>Cctp_Demo\<close> is a concrete deployment for the witnesses.
  \<open>Bridge_Guarantees\<close> and \<open>Corridor_Guarantees\<close> hold the properties.

  \<^bold>\<open>Attestations.\<close> A message is minted on the signatures of Circle's attesters.
  \<open>Cctp_Attestation\<close> models the recovery of signers and the quorum check
  (\<open>attestation_crypto.rs\<close>) and the comparison of an on-chain attester set with the keys
  Iris publishes (\<open>attester_set.rs\<close>); \<open>Cctp_Trust\<close> models the cache of both sets with
  its refreshes (\<open>attestation_trust.rs\<close>) and the verifier on top of it
  (\<open>attestation.rs\<close>). Hashes and curve arithmetic are parameters; what Iris and the
  chains answer is an argument of each refresh. \<open>Attestation_Guarantees\<close> shows that the
  verifier accepts quorums only, puts it in the place of the bridge's attestation
  verifier, and shows what becomes of trust that has gone stale.

  \<^bold>\<open>Requests.\<close> The bridge is reached through seven HTTP routes. \<open>Api_Errors\<close> has the
  errors of the API and their responses (\<open>error.rs\<close>), \<open>Circuit_Breaker\<close> the circuit
  breakers (\<open>routing/src/health/circuit_breaker.rs\<close>) and the guards over the four
  dependencies (\<open>dependency_health.rs\<close>), \<open>Cctp_Access\<close> the capability tokens
  (\<open>access.rs\<close>) and the idempotency of quotes (\<open>idempotency.rs\<close>, with the interface as a
  locale interpreted on the in-memory store), \<open>Cctp_Gate\<close> the gate, the translation of
  errors and the responses (\<open>gate.rs\<close>, \<open>readiness.rs\<close>), and \<open>Cctp_Routes\<close> the routes of
  \<open>routes/v2_cctp.rs\<close> over the state of the service, the idempotency store and the
  breakers. \<open>Cctp_Isolation\<close> proves once, in a locale over what may happen to one row,
  that every handler writes to the row it is called for only; \<open>Cctp_Routes\<close> lifts this
  to runs of requests. \<open>Route_Guarantees\<close> shows that only the holder of its token moves a
  transfer, that refusals do not tell whether a transfer exists, that the kill switches
  close the surface, that quotes are idempotent, and when the breakers open and let go.

  \<^bold>\<open>The card program.\<close> \<open>Card_Ledger\<close> has the balances of a card (\<open>ledger.rs\<close>) and the
  states of an authorization (\<open>auth_state.rs\<close>); \<open>Card_Policy\<close> what the program accepts:
  limits, currencies, merchant categories, countries and application drafts
  (\<open>limits.rs\<close>, \<open>fiat.rs\<close>, \<open>mcc.rs\<close>, \<open>screening.rs\<close>, \<open>application.rs\<close>) and its errors
  (\<open>errors.rs\<close>); \<open>Card_Store\<close> the in-memory store (\<open>store.rs\<close>) and the routes of
  \<open>mod.rs\<close>; \<open>Card_Reconcile\<close> the comparison of the log with the ledger (\<open>reconcile.rs\<close>).
  \<open>Card_Guarantees\<close> shows that requests conserve each authorization's amount and apply
  each event once, which events of a partner are refused, what the reconciliation
  reports, that the balances stay in range and that every authorization settles.

  \<^bold>\<open>Bounds and termination.\<close> No definition uses fuel. Loops over hops, signers, pools,
  recipients and bytes are structural recursions over the lists the source iterates.
  Contract amounts are integers confined to the range of \<open>i128\<close> with the overflow
  checks of the source, ledger numbers and counters to their unsigned widths; amounts of
  the bridge are natural numbers bounded as \<open>u128\<close>, and message words are 32-byte lists.
  Amounts of the card program are integers in the range of \<open>i64\<close>.
  Where the build profile decides about overflow the profile is a parameter (\<open>checks\<close>).

  \<^bold>\<open>Not modelled.\<close> The Postgres stores (SQL run by a database); the implementations of
  the chain verifiers, readers and transaction builders (JSON-RPC, XDR and ABI decoding
  over third-party crates); metrics, logs and the variable part of the service's error
  messages; the other HTTP routes and the extraction of requests by the web framework;
  the parsing of card webhooks (serde derives) and the modules of the card program that
  \<open>card/mod.rs\<close> names but the tree does not have (\<open>authorization\<close>, \<open>fx\<close>, \<open>horizon\<close>);
  the off-chain routing engine (floating-point scores over order books),
  the indexer, the SDKs and the front end.
\<close>

end
